(* ===== verification/Prelude.thy ===== *)
theory Prelude
  imports Main "HOL-Library.Word" "HOL-Library.Monad_Syntax"
begin

unbundle bit_operations_syntax

text \<open>
  Shared vocabulary of the development: the widths of \<^verbatim>\<open>include/types.h\<close>, the collections of
  rewrite rules the component theories extend, and the generic facts on words and on the option
  monad that their proofs share.  \<open>None\<close> stands for undefined behaviour of the C code (an access
  outside an allocated buffer); every other outcome is a value.
\<close>

section \<open>Widths\<close>

type_synonym u8 = "8 word"
type_synonym u16 = "16 word"
type_synonym u32 = "32 word"
type_synonym u64 = "64 word"

named_theorems alu_simps \<open>closed forms of the arithmetic helpers\<close>
named_theorems frame_simps \<open>what an operation leaves unchanged\<close>

section \<open>Byte pairs\<close>

text \<open>The expression \<^verbatim>\<open>(hi << 8) | lo\<close> on two bytes, at the width of its use.\<close>

definition pair16 :: "u8 \<Rightarrow> u8 \<Rightarrow> u16" where
  "pair16 hi lo = push_bit 8 (ucast hi) OR ucast lo"

definition hi8 :: "u16 \<Rightarrow> u8" where
  "hi8 w = ucast (drop_bit 8 w AND 0xFF)"

definition lo8 :: "u16 \<Rightarrow> u8" where
  "lo8 w = ucast (w AND 0xFF)"

lemma byte_mask: "(0xFF :: 'a::len word) = mask 8"
  by (simp add: mask_eq_exp_minus_1)

lemma bit_pair16: "bit (pair16 h l) n \<longleftrightarrow> (if n < 8 then bit l n else n < 16 \<and> bit h (n - 8))"
  by (auto simp: pair16_def bit_or_iff bit_push_bit_iff bit_ucast_iff dest: bit_imp_le_length)

lemma bit_hi8: "bit (hi8 w) n \<longleftrightarrow> n < 8 \<and> bit w (n + 8)"
  by (auto simp: hi8_def byte_mask bit_simps add.commute dest: bit_imp_le_length)

lemma bit_lo8: "bit (lo8 w) n \<longleftrightarrow> n < 8 \<and> bit w n"
  by (auto simp: lo8_def byte_mask bit_simps dest: bit_imp_le_length)

lemma hi8_pair16 [simp]: "hi8 (pair16 h l) = h"
  by (rule bit_word_eqI) (simp add: bit_hi8 bit_pair16)

lemma lo8_pair16 [simp]: "lo8 (pair16 h l) = l"
  by (rule bit_word_eqI) (simp add: bit_lo8 bit_pair16)

lemma pair16_hi8_lo8 [simp]: "pair16 (hi8 w) (lo8 w) = w"
  by (rule bit_word_eqI) (auto simp: bit_pair16 bit_hi8 bit_lo8)

lemma uint_word_of_int_id: "0 \<le> x \<Longrightarrow> x < 2 ^ LENGTH('a) \<Longrightarrow> uint (word_of_int x :: 'a::len word) = x"
  by (simp only: uint_word_of_int mod_pos_pos_trivial)

lemma pair16_of_int: "pair16 h l = word_of_int (uint h * 256 + uint l)"
proof -
  have "pair16 h l = push_bit 8 (ucast h) + (ucast l :: u16)"
    unfolding pair16_def
    by (rule disjunctive_add [symmetric])
      (auto simp: bit_push_bit_iff bit_ucast_iff dest: bit_imp_le_length)
  then show ?thesis
    by (simp add: push_bit_eq_mult)
qed

lemma u8_bounds: "0 \<le> uint (b :: u8)" "uint (b :: u8) < 256"
  using uint_bounded [of b] by simp_all

lemma u16_bounds: "0 \<le> uint (b :: u16)" "uint (b :: u16) < 65536"
  using uint_bounded [of b] by simp_all

lemma uint_pair16: "uint (pair16 h l) = uint h * 256 + uint l"
  unfolding pair16_of_int using u8_bounds [of h] u8_bounds [of l]
  by (intro uint_word_of_int_id) simp_all

lemma pair16_eq_iff [simp]: "pair16 h l = pair16 h' l' \<longleftrightarrow> h = h' \<and> l = l'"
  by (metis hi8_pair16 lo8_pair16)

section \<open>Wrapping once\<close>

lemma mod_wrap_signed:
  fixes x m :: int
  assumes "- m \<le> x" "x < m"
  shows "x mod m = x + (if x < 0 then m else 0)"
proof (cases "x < 0")
  case True
  have "x mod m = (x + m) mod m" by simp
  also have "\<dots> = x + m" using assms True by (intro mod_pos_pos_trivial) simp_all
  finally show ?thesis using True by simp
qed (use assms in simp)

lemma mod_wrap_sum:
  fixes x m :: int
  assumes "0 \<le> x" "x < 2 * m"
  shows "x mod m = x - (if x < m then 0 else m)"
proof (cases "x < m")
  case False
  have "x mod m = (x - m) mod m" by simp
  also have "\<dots> = x - m" using assms False by (intro mod_pos_pos_trivial) simp_all
  finally show ?thesis using False by simp
qed (use assms in simp)

end
