(* ===== verification/Cpu_State.thy ===== *)
theory Cpu_State
  imports Prelude
begin

unbundle bit_operations_syntax

text \<open>
  The processor state of \<^verbatim>\<open>include/i8085_cpu.h\<close>, its life cycle and external lines
  (\<^verbatim>\<open>src/i8085_state.c\<close>), and the two ways the core touches memory: a direct read of
  \<^verbatim>\<open>state->memory[i]\<close>, which is undefined (\<open>None\<close>) outside the 64K buffer, and \<^verbatim>\<open>mem_wr\<close>, which
  routes the byte through the I/O runtime.  The runtime is an interface here (record \<open>bus\<close>), with
  its contract stated as the locales \<open>cpu_bus\<close> and \<open>guarded_bus\<close>.
\<close>

section \<open>Data\<close>

text \<open>Each flag is a one-bit field of \<^verbatim>\<open>struct Flags\<close>; the unused \<^verbatim>\<open>pad\<close> bit is left out.\<close>

record Flags =
  fl_z :: bool
  fl_s :: bool
  fl_p :: bool
  fl_cy :: bool
  fl_ac :: bool
  fl_v :: bool
  fl_x5 :: bool

record State8085 =
  reg_a :: u8
  reg_b :: u8
  reg_c :: u8
  reg_d :: u8
  reg_e :: u8
  reg_h :: u8
  reg_l :: u8
  sp :: u16
  pc :: u16
  cc :: Flags
  int_enable :: u8
  int_enable_delay :: u8
  r5_mask :: u8
  r6_mask :: u8
  r7_mask :: u8
  pending_trap :: u8
  pending_r5 :: u8
  pending_r6 :: u8
  r7_latch :: u8
  pending_int :: u8
  int_rst_number :: u8
  sid_line :: u8
  sod_line :: u8
  hlt_enable :: u8
  memory :: "u16 \<Rightarrow> u8"
  io :: "u8 \<Rightarrow> u8"

record ExecutionStats8085 =
  total_tstates :: u64
  min_sp :: u16
  min_sp_set :: bool

section \<open>Life cycle and lines\<close>

definition zero_flags :: Flags where
  "zero_flags = \<lparr>fl_z = False, fl_s = False, fl_p = False, fl_cy = False, fl_ac = False,
     fl_v = False, fl_x5 = False\<rparr>"

text \<open>All fields zero, over given memory and port buffers: what \<^verbatim>\<open>memset\<close> and \<^verbatim>\<open>calloc\<close> leave.\<close>

definition zero_state :: "(u16 \<Rightarrow> u8) \<Rightarrow> (u8 \<Rightarrow> u8) \<Rightarrow> State8085" where
  "zero_state mem ports =
     \<lparr>reg_a = 0, reg_b = 0, reg_c = 0, reg_d = 0, reg_e = 0, reg_h = 0, reg_l = 0,
      sp = 0, pc = 0, cc = zero_flags, int_enable = 0, int_enable_delay = 0,
      r5_mask = 0, r6_mask = 0, r7_mask = 0, pending_trap = 0, pending_r5 = 0, pending_r6 = 0,
      r7_latch = 0, pending_int = 0, int_rst_number = 0, sid_line = 0, sod_line = 0,
      hlt_enable = 0, memory = mem, io = ports\<rparr>"

text \<open>
  The three \<^verbatim>\<open>calloc\<close> calls may each fail; the Booleans say which succeed (state, memory, ports).
\<close>

definition Init8085 :: "bool \<Rightarrow> bool \<Rightarrow> bool \<Rightarrow> State8085 option" where
  "Init8085 got_state got_memory got_io =
     (if \<not> got_state then None
      else if \<not> got_memory \<or> \<not> got_io then None
      else Some (zero_state (\<lambda>_. 0) (\<lambda>_. 0)))"

definition Reset8085 :: "State8085 \<Rightarrow> u16 \<Rightarrow> u16 \<Rightarrow> State8085" where
  "Reset8085 s pc0 sp0 = (zero_state (memory s) (io s))\<lparr>pc := pc0, sp := sp0\<rparr>"

definition setSIDLine :: "State8085 \<Rightarrow> int \<Rightarrow> State8085" where
  "setSIDLine s level = s\<lparr>sid_line := (if level \<noteq> 0 then 1 else 0)\<rparr>"

definition getSODLine :: "State8085 \<Rightarrow> int" where
  "getSODLine s = (if sod_line s \<noteq> 0 then 1 else 0)"

text \<open>
  \<^verbatim>\<open>triggerInterrupt\<close>: the pending fields are bytes, so the \<^verbatim>\<open>int\<close> argument is truncated on
  assignment; an unknown code changes nothing.  The result is the current \<^verbatim>\<open>int_enable\<close>.
\<close>

definition triggerInterrupt :: "State8085 \<Rightarrow> int \<Rightarrow> int \<Rightarrow> State8085 \<times> int" where
  "triggerInterrupt s code active =
     (let s' =
        (if 0 \<le> code \<and> code \<le> 7
         then s\<lparr>pending_int := word_of_int active, int_rst_number := word_of_int code\<rparr>
         else if code = 45 then s\<lparr>pending_trap := word_of_int active\<rparr>
         else if code = 55 then s\<lparr>pending_r5 := word_of_int active\<rparr>
         else if code = 65 then s\<lparr>pending_r6 := word_of_int active\<rparr>
         else if code = 75 then (if active = 1 then s\<lparr>r7_latch := 1\<rparr> else s)
         else s)
      in (s', uint (int_enable s')))"

section \<open>The runtime interface\<close>

text \<open>
  The four functions of \<^verbatim>\<open>io_runtime.cpp\<close> the core calls.  Each receives the processor state and
  the runtime's own state \<open>'e\<close> and may change both.
\<close>

record 'e bus =
  bus_mem_write :: "u16 \<Rightarrow> u8 \<Rightarrow> State8085 \<Rightarrow> 'e \<Rightarrow> u8 \<times> State8085 \<times> 'e"
  bus_io_write :: "u8 \<Rightarrow> u8 \<Rightarrow> State8085 \<Rightarrow> 'e \<Rightarrow> State8085 \<times> 'e"
  bus_io_pre_read :: "u8 \<Rightarrow> State8085 \<Rightarrow> 'e \<Rightarrow> State8085 \<times> 'e"
  bus_io_read :: "u8 \<Rightarrow> u8 \<Rightarrow> State8085 \<Rightarrow> 'e \<Rightarrow> State8085 \<times> 'e"

definition rd :: "State8085 \<Rightarrow> int \<Rightarrow> u8 option" where
  "rd s i = (if 0 \<le> i \<and> i < 0x10000 then Some (memory s (word_of_int i)) else None)"

definition mem_wr :: "'e bus \<Rightarrow> State8085 \<Rightarrow> 'e \<Rightarrow> int \<Rightarrow> u8 \<Rightarrow> State8085 \<times> 'e" where
  "mem_wr bs s e addr val =
     (let adr = (word_of_int addr :: u16);
          (v, s', e') = bus_mem_write bs adr val s e
      in (s'\<lparr>memory := (memory s')(adr := v)\<rparr>, e'))"

text \<open>
  \<open>cpu_bus\<close>: the hooks of a memory write leave the processor alone and look at nothing of it but the
  byte already in memory; those of an I/O instruction touch nothing of it but the port latches.  \<open>guarded_bus\<close> adds a set of protected addresses: a
  write there is vetoed with the byte already in memory, and no hook changes the set.
\<close>

locale cpu_bus =
  fixes bs :: "'e bus"
  assumes mem_write_cpu: "bus_mem_write bs adr val s e = (v, s', e') \<Longrightarrow> s' = s"
    and mem_write_local: "memory s adr = memory t adr \<Longrightarrow> bus_mem_write bs adr val s e = (v, s', e') \<Longrightarrow>
      \<exists>t'. bus_mem_write bs adr val t e = (v, t', e')"
    and io_write_cpu: "bus_io_write bs port val s e = (s', e') \<Longrightarrow> \<exists>ports. s' = s\<lparr>io := ports\<rparr>"
    and io_pre_read_cpu: "bus_io_pre_read bs port s e = (s', e') \<Longrightarrow> \<exists>ports. s' = s\<lparr>io := ports\<rparr>"
    and io_read_cpu: "bus_io_read bs port val s e = (s', e') \<Longrightarrow> \<exists>ports. s' = s\<lparr>io := ports\<rparr>"
begin

lemma mem_wr_frame: "mem_wr bs s e i v = (s', e') \<Longrightarrow> \<exists>m. s' = s\<lparr>memory := m\<rparr>"
  by (auto simp: mem_wr_def Let_def split: prod.splits dest!: mem_write_cpu)

lemma mem_wr_other:
  "mem_wr bs s e i v = (s', e') \<Longrightarrow> adr \<noteq> word_of_int i \<Longrightarrow> memory s' adr = memory s adr"
  by (auto simp: mem_wr_def Let_def split: prod.splits dest!: mem_write_cpu)

end

locale guarded_bus = cpu_bus bs for bs :: "'e bus" +
  fixes prot :: "'e \<Rightarrow> u16 \<Rightarrow> bool"
  assumes veto: "bus_mem_write bs adr val s e = (v, s', e') \<Longrightarrow> prot e adr \<Longrightarrow> v = memory s adr"
    and mem_write_prot: "bus_mem_write bs adr val s e = (v, s', e') \<Longrightarrow> prot e' = prot e"
    and io_write_prot: "bus_io_write bs port val s e = (s', e') \<Longrightarrow> prot e' = prot e"
    and io_pre_read_prot: "bus_io_pre_read bs port s e = (s', e') \<Longrightarrow> prot e' = prot e"
    and io_read_prot: "bus_io_read bs port val s e = (s', e') \<Longrightarrow> prot e' = prot e"
begin

lemma mem_wr_protected:
  assumes wr: "mem_wr bs s e i v = (s', e')" and "prot e adr"
  shows "memory s' adr = memory s adr" and "prot e' = prot e"
proof -
  obtain w s1 where w: "bus_mem_write bs (word_of_int i) v s e = (w, s1, e')"
    and s': "s' = s1\<lparr>memory := (memory s1)(word_of_int i := w)\<rparr>"
    using wr by (auto simp: mem_wr_def Let_def split: prod.splits)
  from w have "s1 = s" by (rule mem_write_cpu)
  then show "memory s' adr = memory s adr"
    using s' veto [OF w] \<open>prot e adr\<close> by auto
  from w show "prot e' = prot e" by (rule mem_write_prot)
qed

end

section \<open>Facts on the accessors\<close>

lemma rd_in_range [simp]: "rd s (uint adr) = Some (memory s adr)" for adr :: u16
  using u16_bounds [of adr] by (simp add: rd_def)

lemma rd_eq_Some_iff: "rd s i = Some v \<longleftrightarrow> 0 \<le> i \<and> i < 0x10000 \<and> v = memory s (word_of_int i)"
  by (auto simp: rd_def)

lemma rd_None_iff: "rd s i = None \<longleftrightarrow> i < 0 \<or> 0x10000 \<le> i"
  by (auto simp: rd_def)

lemma Reset8085_frame [simp]:
  "memory (Reset8085 s p q) = memory s" "io (Reset8085 s p q) = io s"
  "pc (Reset8085 s p q) = p" "sp (Reset8085 s p q) = q"
  by (simp_all add: Reset8085_def zero_state_def)

end
