(* ===== verification/Text.thy ===== *)
theory Text
  imports Prelude
begin

unbundle bit_operations_syntax

text \<open>
  The C and C++ text handling the simulator's configuration uses: character classes, the
  \<^verbatim>\<open>strtoul\<close> family, searching and splitting of strings, and the \<^verbatim>\<open>key=value;...\<close> lookup every plugin
  carries a copy of (\<^verbatim>\<open>cfgValue\<close>, \<^verbatim>\<open>parseNum\<close>, \<^verbatim>\<open>truthy\<close>).  A string is a \<open>char list\<close> without its NUL.
\<close>

section \<open>Characters\<close>

definition code_of :: "char \<Rightarrow> nat" where
  "code_of ch = of_char ch"

definition c_isspace :: "char \<Rightarrow> bool" where
  "c_isspace ch \<longleftrightarrow> code_of ch = 32 \<or> (9 \<le> code_of ch \<and> code_of ch \<le> 13)"

definition c_isdigit :: "char \<Rightarrow> bool" where
  "c_isdigit ch \<longleftrightarrow> 48 \<le> code_of ch \<and> code_of ch \<le> 57"

text \<open>The value of a digit in any base up to 36; 36 for a character that is none.\<close>

definition digit_val :: "char \<Rightarrow> nat" where
  "digit_val ch =
     (if 48 \<le> code_of ch \<and> code_of ch \<le> 57 then code_of ch - 48
      else if 97 \<le> code_of ch \<and> code_of ch \<le> 122 then code_of ch - 87
      else if 65 \<le> code_of ch \<and> code_of ch \<le> 90 then code_of ch - 55
      else 36)"

section \<open>Numbers\<close>

text \<open>The longest run of digits of the base, its value, and what follows it.\<close>

fun digits_val :: "nat \<Rightarrow> string \<Rightarrow> nat \<Rightarrow> nat \<times> string" where
  "digits_val b [] acc = (acc, [])"
| "digits_val b (ch # cs) acc =
     (if digit_val ch < b then digits_val b cs (acc * b + digit_val ch) else (acc, ch # cs))"

definition has_hex_prefix :: "string \<Rightarrow> bool" where
  "has_hex_prefix s = (case s of
       z # x # d # _ \<Rightarrow> z = CHR ''0'' \<and> (x = CHR ''x'' \<or> x = CHR ''X'') \<and> digit_val d < 16
     | _ \<Rightarrow> False)"

text \<open>
  \<open>scan_int s b\<close>: blanks, a sign, an optional \<^verbatim>\<open>0x\<close> for base 16 or 0 (base 0 is octal after a leading
  0), then digits: the sign, the magnitude and the rest; \<open>None\<close> when there is no digit.
\<close>

definition scan_int :: "string \<Rightarrow> nat \<Rightarrow> (bool \<times> nat \<times> string) option" where
  "scan_int s b =
     (let t = dropWhile c_isspace s;
          (neg, u) = (case t of ch # r \<Rightarrow> if ch = CHR ''-'' then (True, r)
                        else if ch = CHR ''+'' then (False, r) else (False, t) | [] \<Rightarrow> (False, t));
          base = (if b = 0 then (if has_hex_prefix u then 16
                    else if u \<noteq> [] \<and> hd u = CHR ''0'' then 8 else 10) else b);
          v = (if base = 16 \<and> has_hex_prefix u then drop 2 u else u);
          (n, rest) = digits_val base v 0
      in if v = [] \<or> \<not> digit_val (hd v) < base then None else Some (neg, n, rest))"

text \<open>
  \<^verbatim>\<open>strtoul\<close> saturates at the largest \<^verbatim>\<open>unsigned long\<close> and negates modulo its width (64 bits);
  \<^verbatim>\<open>strtol\<close> saturates at both ends of \<^verbatim>\<open>long\<close>.  Without a digit nothing is consumed.
\<close>

definition ulong_max :: nat where "ulong_max = 2 ^ 64 - 1"

definition strtoul :: "string \<Rightarrow> nat \<Rightarrow> nat \<times> string" where
  "strtoul s b = (case scan_int s b of None \<Rightarrow> (0, s)
     | Some (neg, n, rest) \<Rightarrow>
         (if n > ulong_max then (ulong_max, rest) else (if neg then (2 ^ 64 - n) mod 2 ^ 64 else n, rest)))"

definition strtol :: "string \<Rightarrow> nat \<Rightarrow> int \<times> string" where
  "strtol s b = (case scan_int s b of None \<Rightarrow> (0, s)
     | Some (neg, n, rest) \<Rightarrow> (if neg then max (- (2 ^ 63)) (- int n) else min (2 ^ 63 - 1) (int n), rest))"

text \<open>\<^verbatim>\<open>atoi\<close> on a value that fits an \<^verbatim>\<open>int\<close>.\<close>

definition atoi :: "string \<Rightarrow> int" where
  "atoi s =
     (let t = dropWhile c_isspace s;
          (neg, u) = (case t of ch # r \<Rightarrow> if ch = CHR ''-'' then (True, r)
                        else if ch = CHR ''+'' then (False, r) else (False, t) | [] \<Rightarrow> (False, t));
          n = int (fst (digits_val 10 u 0))
      in if neg then - n else n)"

section \<open>Printing numbers\<close>

text \<open>The conversions \<^verbatim>\<open>%u\<close> and \<^verbatim>\<open>%X\<close>, and padding to a width.\<close>

fun dec_digits :: "nat \<Rightarrow> string" where
  "dec_digits n = (if n < 10 then [char_of (48 + n)] else dec_digits (n div 10) @ [char_of (48 + n mod 10)])"

declare dec_digits.simps [simp del]

definition hex_upper :: "nat \<Rightarrow> char" where
  "hex_upper n = ''0123456789ABCDEF'' ! (n mod 16)"

fun hex_digits :: "nat \<Rightarrow> string" where
  "hex_digits n = (if n < 16 then [hex_upper n] else hex_digits (n div 16) @ [hex_upper (n mod 16)])"

declare hex_digits.simps [simp del]

definition zero_pad :: "nat \<Rightarrow> string \<Rightarrow> string" where
  "zero_pad w s = replicate (w - length s) CHR ''0'' @ s"

definition left_pad :: "nat \<Rightarrow> string \<Rightarrow> string" where
  "left_pad w s = s @ replicate (w - length s) CHR '' ''"

section \<open>Searching and splitting\<close>

text \<open>\<open>find_char\<close> is \<^verbatim>\<open>std::string::find\<close>: the part before the first occurrence and the part after it.\<close>

fun find_char :: "char \<Rightarrow> string \<Rightarrow> (string \<times> string) option" where
  "find_char c [] = None"
| "find_char c (x # xs) =
     (if x = c then Some ([], xs) else map_option (\<lambda>(a, b). (x # a, b)) (find_char c xs))"

definition starts_with :: "string \<Rightarrow> string \<Rightarrow> bool" where
  "starts_with p s \<longleftrightarrow> take (length p) s = p"

lemma find_char_append: "find_char c s = Some (a, b) \<Longrightarrow> s = a @ c # b \<and> c \<notin> set a"
  by (induction s arbitrary: a) (auto split: if_splits)

lemma find_char_None_iff: "find_char c s = None \<longleftrightarrow> c \<notin> set s"
  by (induction s) auto

lemma find_char_first: "c \<notin> set a \<Longrightarrow> find_char c (a @ c # b) = Some (a, b)"
  by (induction a) auto

lemma find_char_length: "find_char c s = Some (a, b) \<Longrightarrow> length b < length s"
  by (drule find_char_append) auto

section \<open>Plugin configuration\<close>

text \<open>
  \<^verbatim>\<open>cfgValue\<close>: the value of the first token \<^verbatim>\<open>key=...\<close> between semicolons, the empty string if there
  is none.  The C++ loop ends when the position reaches the end of the text.
\<close>

function cfg_tokens :: "string \<Rightarrow> string \<Rightarrow> string" where
  "cfg_tokens k s =
     (if s = [] then []
      else case find_char (CHR '';'') s of
          None \<Rightarrow> (if starts_with k s then drop (length k) s else [])
        | Some (tok, rest) \<Rightarrow> (if starts_with k tok then drop (length k) tok else cfg_tokens k rest))"
  by pat_completeness auto
termination
  by (relation "measure (length \<circ> snd)") (auto dest: find_char_length)

declare cfg_tokens.simps [simp del]

definition cfgValue :: "string \<Rightarrow> string \<Rightarrow> string" where
  "cfgValue config key = cfg_tokens (key @ ''='') config"

definition parseNum :: "string \<Rightarrow> u32 \<Rightarrow> u32" where
  "parseNum s def = (if s = [] then def else of_nat (fst (strtoul s 0)))"

definition truthy :: "string \<Rightarrow> bool" where
  "truthy s \<longleftrightarrow> s = ''1'' \<or> s = ''on'' \<or> s = ''true'' \<or> s = ''yes''"

lemma cfg_tokens_Nil [simp]: "cfg_tokens k [] = []"
  by (simp add: cfg_tokens.simps)

text \<open>A setting is found whatever settings for other keys stand before it.\<close>

lemma cfg_tokens_skip:
  assumes "CHR '';'' \<notin> set tok" "\<not> starts_with k tok"
  shows "cfg_tokens k (tok @ CHR '';'' # rest) = cfg_tokens k rest"
  using assms by (subst cfg_tokens.simps) (simp add: find_char_first)

lemma cfg_tokens_hit:
  assumes "CHR '';'' \<notin> set v" "CHR '';'' \<notin> set k" "k \<noteq> []"
  shows "cfg_tokens k (k @ v @ CHR '';'' # rest) = v" "cfg_tokens k (k @ v) = v"
proof -
  have nc: "CHR '';'' \<notin> set (k @ v)" using assms by simp
  have f1: "find_char (CHR '';'') ((k @ v) @ CHR '';'' # rest) = Some (k @ v, rest)"
    using nc by (rule find_char_first)
  have f2: "find_char (CHR '';'') (k @ v) = None"
    using nc by (simp add: find_char_None_iff)
  show "cfg_tokens k (k @ v @ CHR '';'' # rest) = v" "cfg_tokens k (k @ v) = v"
    using assms(3) f1 f2 by (simp_all add: cfg_tokens.simps starts_with_def)
qed

lemma cfg_tokens_after:
  assumes "list_all (\<lambda>t. CHR '';'' \<notin> set t \<and> \<not> starts_with k t) pre"
  shows "cfg_tokens k (concat (map (\<lambda>t. t @ '';'') pre) @ r) = cfg_tokens k r"
  using assms by (induction pre) (simp_all add: cfg_tokens_skip)

end
