(* ===== verification/Io_Api.thy ===== *)
theory Io_Api
  imports Cpu_State Text
begin

text \<open>
  The plugin interface of \<^verbatim>\<open>include/i8085_io_plugin.h\<close>: what a plugin tells about itself
  (\<open>plugin_info\<close>, \<open>state_field\<close>, \<open>pin_bus\<close>) and the table of callbacks it exports.  A callback the
  table leaves NULL is \<open>None\<close>.  A callback takes the plugin's own context \<open>'p\<close> and the processor state
  and returns both; \<open>api_snapshot\<close> is the pure debug read of the header and returns neither.
\<close>

section \<open>Self-description\<close>

record pin_bus =
  bus_width :: nat
  bus_level :: u32
  bus_is_input :: u32
  bus_hi_z :: u32

datatype field_value =
    FIELD_U8 u32
  | FIELD_U16 u32
  | FIELD_U32 u32
  | FIELD_HEX u32
  | FIELD_BOOL u32
  | FIELD_STR string
  | FIELD_PINS pin_bus

type_synonym state_field = "string \<times> field_value"

text \<open>The kind of an opaque plugin is NULL (\<open>None\<close>).\<close>

record plugin_info =
  info_kind :: "string option"
  info_base :: u16
  info_span :: u16

text \<open>
  What a plugin sees of the host while it steps: the wiring flag and its peers.  The byte channels a
  plugin opened are kept in its own context, as the bytes the host has received on each.
\<close>

record host_api =
  wiring_active :: u32
  peer_count :: nat
  peer_snapshot :: "nat \<Rightarrow> nat \<Rightarrow> (plugin_info \<times> state_field list) option"

section \<open>Callbacks\<close>

record 'p plugin_api =
  api_on_reset :: "('p \<Rightarrow> State8085 \<Rightarrow> 'p \<times> State8085) option"
  api_on_step :: "('p \<Rightarrow> host_api \<Rightarrow> State8085 \<Rightarrow> u64 \<Rightarrow> u64 \<Rightarrow> 'p \<times> State8085) option"
  api_on_io_write :: "('p \<Rightarrow> State8085 \<Rightarrow> u8 \<Rightarrow> u8 \<Rightarrow> 'p \<times> State8085) option"
  api_on_io_pre_read :: "('p \<Rightarrow> State8085 \<Rightarrow> u8 \<Rightarrow> 'p \<times> State8085) option"
  api_on_io_post_read :: "('p \<Rightarrow> State8085 \<Rightarrow> u8 \<Rightarrow> u8 \<Rightarrow> 'p \<times> State8085) option"
  api_on_mem_write :: "('p \<Rightarrow> State8085 \<Rightarrow> u16 \<Rightarrow> u8 \<Rightarrow> u8 \<times> 'p \<times> State8085) option"
  api_snapshot :: "('p \<Rightarrow> nat \<Rightarrow> plugin_info \<times> state_field list) option"
  api_pin_set :: "('p \<Rightarrow> string \<Rightarrow> u8 \<Rightarrow> 'p) option"

text \<open>The table as the loader zero-initialises it.\<close>

definition empty_api :: "'p plugin_api" where
  "empty_api = \<lparr>api_on_reset = None, api_on_step = None, api_on_io_write = None,
     api_on_io_pre_read = None, api_on_io_post_read = None, api_on_mem_write = None,
     api_snapshot = None, api_pin_set = None\<rparr>"

text \<open>The name of a field and the bus it carries, where it carries one.\<close>

definition field_bus :: "state_field \<Rightarrow> pin_bus option" where
  "field_bus f = (case snd f of FIELD_PINS b \<Rightarrow> Some b | _ \<Rightarrow> None)"

end
