(* ===== verification/Logic_Net.thy ===== *)
theory Logic_Net
  imports Text
begin

text \<open>
  The logic net, \<^verbatim>\<open>src/logic_net.cpp\<close>: parsing of a netlist, binding of its pins to the host, the
  three-valued evaluation of gates and the settling of node levels at each step.
\<close>

section \<open>Data\<close>

datatype Drive = DRV_0 | DRV_1 | DRV_Z
datatype Level = LVL_0 | LVL_1 | LVL_X
datatype Pull = PULL_NONE | PULL_UP | PULL_DOWN
datatype GateType = G_INV | G_BUF | G_AND | G_OR | G_NAND | G_NOR

record net_node =
  nd_name :: string
  nd_pull :: Pull

record endpoint =
  ep_node :: nat
  ep_pin :: string
  ep_handle :: int
  ep_is_output :: bool

record gate =
  gt_type :: GateType
  in_nodes :: "nat list"
  out_node :: nat

record net =
  nodes :: "net_node list"
  endpoints :: "endpoint list"
  gates :: "gate list"
  lvls :: "Level list"
  warnedConflict :: "bool list"
  warnedFloat :: "bool list"
  gateOut :: "Level list"
  nodeGateSources :: "nat list list"
  warnedOscillation :: bool

definition empty_net :: net where
  "empty_net = \<lparr>nodes = [], endpoints = [], gates = [], lvls = [], warnedConflict = [], warnedFloat = [],
     gateOut = [], nodeGateSources = [], warnedOscillation = False\<rparr>"

section \<open>Nodes\<close>

text \<open>The index of the first node with the name, \<open>length\<close> when there is none.\<close>

fun find_node :: "net_node list \<Rightarrow> string \<Rightarrow> nat" where
  "find_node [] name = 0"
| "find_node (n # ns) name = (if nd_name n = name then 0 else Suc (find_node ns name))"

definition nodeIndex :: "net \<Rightarrow> string \<Rightarrow> net \<times> nat" where
  "nodeIndex net name =
     (let i = find_node (nodes net) name
      in if i < length (nodes net) then (net, i)
         else (net\<lparr>nodes := nodes net @ [\<lparr>nd_name = name, nd_pull = PULL_NONE\<rparr>]\<rparr>, length (nodes net)))"

fun nodeIndices :: "net \<Rightarrow> string list \<Rightarrow> net \<times> nat list" where
  "nodeIndices net [] = (net, [])"
| "nodeIndices net (t # ts) =
     (let (net1, i) = nodeIndex net t; (net2, is) = nodeIndices net1 ts in (net2, i # is))"

section \<open>Gates\<close>

text \<open>The loops over the inputs: a dominant level decides at once, else an unknown one makes it unknown.\<close>

fun scan_inputs :: "Level \<Rightarrow> Level \<Rightarrow> Level \<Rightarrow> bool \<Rightarrow> Level list \<Rightarrow> Level" where
  "scan_inputs dominant out other has_x [] = (if has_x then LVL_X else other)"
| "scan_inputs dominant out other has_x (v # vs) =
     (if v = dominant then out else scan_inputs dominant out other (has_x \<or> v = LVL_X) vs)"

definition evalGate :: "gate \<Rightarrow> Level list \<Rightarrow> Level" where
  "evalGate g nodeValues =
     (let ins = map (\<lambda>i. nodeValues ! i) (in_nodes g)
      in case gt_type g of
           G_INV \<Rightarrow> (if length (in_nodes g) \<noteq> 1 then LVL_X
                     else if hd ins = LVL_0 then LVL_1 else if hd ins = LVL_1 then LVL_0 else LVL_X)
         | G_BUF \<Rightarrow> (if length (in_nodes g) \<noteq> 1 then LVL_X else hd ins)
         | G_AND \<Rightarrow> scan_inputs LVL_0 LVL_0 LVL_1 False ins
         | G_OR \<Rightarrow> scan_inputs LVL_1 LVL_1 LVL_0 False ins
         | G_NAND \<Rightarrow> scan_inputs LVL_0 LVL_1 LVL_0 False ins
         | G_NOR \<Rightarrow> scan_inputs LVL_1 LVL_0 LVL_1 False ins)"

section \<open>Parsing\<close>

fun split_lines :: "string \<Rightarrow> string list" where
  "split_lines [] = []"
| "split_lines (c # cs) =
     (if c = CHR 0x0A then [] # split_lines cs
      else case split_lines cs of [] \<Rightarrow> [[c]] | l # ls \<Rightarrow> (c # l) # ls)"

text \<open>The tokens of \<^verbatim>\<open>operator>>\<close>: the maximal runs of characters that are not blank.\<close>

function tokens :: "string \<Rightarrow> string list" where
  "tokens s =
     (let t = dropWhile c_isspace s
      in if t = [] then [] else takeWhile (\<lambda>c. \<not> c_isspace c) t # tokens (dropWhile (\<lambda>c. \<not> c_isspace c) t))"
  by pat_completeness auto
termination
proof (relation "measure length", simp)
  fix s t :: string
  assume t: "t = dropWhile c_isspace s" "t \<noteq> []"
  then have "\<not> c_isspace (hd t)" by (simp add: hd_dropWhile)
  then have "length (dropWhile (\<lambda>c. \<not> c_isspace c) t) < length t"
    using t(2) by (cases t) (auto simp: le_imp_less_Suc length_dropWhile_le)
  also have "\<dots> \<le> length s" unfolding t(1) by (rule length_dropWhile_le)
  finally show "(dropWhile (\<lambda>c. \<not> c_isspace c) t, s) \<in> measure length" by simp
qed

declare tokens.simps [simp del]

definition line_err :: "nat \<Rightarrow> string \<Rightarrow> string" where
  "line_err n msg = ''line '' @ dec_digits n @ '': '' @ msg"

definition gate_type :: "string \<Rightarrow> GateType option" where
  "gate_type t = (if t = ''inv'' then Some G_INV else if t = ''buf'' then Some G_BUF
     else if t = ''and'' then Some G_AND else if t = ''or'' then Some G_OR
     else if t = ''nand'' then Some G_NAND else if t = ''nor'' then Some G_NOR else None)"

definition parse_pull :: "net \<Rightarrow> nat \<Rightarrow> string list \<Rightarrow> net \<times> string option" where
  "parse_pull net n ts =
     (if length ts \<noteq> 3 then (net, Some (line_err n ''pull requires node and up/down''))
      else
        (let (net1, i) = nodeIndex net (ts ! 1); dir = ts ! 2;
             put = (\<lambda>p. net1\<lparr>nodes := (nodes net1)[i := (nodes net1 ! i)\<lparr>nd_pull := p\<rparr>]\<rparr>)
         in if dir = ''up'' then (put PULL_UP, None)
            else if dir = ''down'' then (put PULL_DOWN, None)
            else (net1, Some (line_err n ''pull direction must be up or down''))))"

definition parse_wire :: "net \<Rightarrow> nat \<Rightarrow> string list \<Rightarrow> net \<times> string option" where
  "parse_wire net n ts =
     (if length ts \<noteq> 3 then (net, Some (line_err n ''wire requires node and pin''))
      else
        (let (net1, i) = nodeIndex net (ts ! 1)
         in (net1\<lparr>endpoints := endpoints net1 @
               [\<lparr>ep_node = i, ep_pin = ts ! 2, ep_handle = - 1, ep_is_output = False\<rparr>]\<rparr>, None)))"

definition parse_gate :: "net \<Rightarrow> nat \<Rightarrow> string list \<Rightarrow> net \<times> string option" where
  "parse_gate net n ts =
     (if length ts < 5
      then (net, Some (line_err n ''gate requires type, name, and at least one input and one output''))
      else case gate_type (ts ! 1) of
          None \<Rightarrow> (net, Some (line_err n (''unknown gate type '' @ [CHR 0x27] @ ts ! 1 @ [CHR 0x27])))
        | Some ty \<Rightarrow>
            (let (net1, ins) = nodeIndices net (butlast (drop 3 ts));
                 (net2, out) = nodeIndex net1 (last ts)
             in (net2\<lparr>gates := gates net2 @ [\<lparr>gt_type = ty, in_nodes = ins, out_node = out\<rparr>]\<rparr>, None)))"

definition trim :: "string \<Rightarrow> string" where
  "trim s = rev (dropWhile c_isspace (rev (dropWhile c_isspace s)))"

definition parse_line :: "net \<Rightarrow> nat \<Rightarrow> string \<Rightarrow> net \<times> string option" where
  "parse_line net n raw =
     (let line = trim raw
      in if line = [] \<or> hd line = CHR ''#'' then (net, None)
         else
           (let ts = tokens line
            in if ts = [] then (net, None)
               else if ts ! 0 = ''pull'' then parse_pull net n ts
               else if ts ! 0 = ''wire'' then parse_wire net n ts
               else if ts ! 0 = ''gate'' then parse_gate net n ts
               else (net, Some (line_err n (''unknown directive '' @ [CHR 0x27] @ ts ! 0 @ [CHR 0x27])))))"

fun parse_lines :: "net \<Rightarrow> nat \<Rightarrow> string list \<Rightarrow> net \<times> string option" where
  "parse_lines net n [] = (net, None)"
| "parse_lines net n (l # ls) =
     (case parse_line net n l of (net1, Some e) \<Rightarrow> (net1, Some e) | (net1, None) \<Rightarrow> parse_lines net1 (n + 1) ls)"

definition parse :: "net \<Rightarrow> string \<Rightarrow> net \<times> string option" where
  "parse net txt = parse_lines net 1 (split_lines txt)"

section \<open>Binding\<close>

text \<open>
  The host resolves a pin to a handle (negative: unknown) and says whether it is an output now; it
  may record the handle, so its state \<open>'h\<close> is threaded.
\<close>

fun bind_endpoints ::
  "('h \<Rightarrow> string \<Rightarrow> 'h \<times> int \<times> bool) \<Rightarrow> 'h \<Rightarrow> endpoint list \<Rightarrow> 'h \<times> endpoint list \<times> string option" where
  "bind_endpoints resolve h [] = (h, [], None)"
| "bind_endpoints resolve h (ep # eps) =
     (let (h1, handle, out) = resolve h (ep_pin ep)
      in if handle < 0 then (h1, ep # eps, Some (''unknown pin: '' @ ep_pin ep))
         else (let (h2, eps', err) = bind_endpoints resolve h1 eps
               in (h2, ep\<lparr>ep_handle := handle, ep_is_output := out\<rparr> # eps', err)))"

text \<open>\<^verbatim>\<open>resize\<close> keeps the elements there are.\<close>

definition resize :: "'a list \<Rightarrow> nat \<Rightarrow> 'a \<Rightarrow> 'a list" where
  "resize xs n x = take n xs @ replicate (n - length xs) x"

definition gate_sources :: "gate list \<Rightarrow> nat \<Rightarrow> nat list" where
  "gate_sources gs i = filter (\<lambda>j. out_node (gs ! j) = i) [0..<length gs]"

definition net_bind :: "('h \<Rightarrow> string \<Rightarrow> 'h \<times> int \<times> bool) \<Rightarrow> 'h \<Rightarrow> net \<Rightarrow> 'h \<times> net \<times> string option" where
  "net_bind resolve h net =
     (let (h1, eps, err) = bind_endpoints resolve h (endpoints net); net1 = net\<lparr>endpoints := eps\<rparr>;
          n = length (nodes net)
      in case err of
           Some e \<Rightarrow> (h1, net1, Some e)
         | None \<Rightarrow>
             (h1, net1\<lparr>nodeGateSources := map (gate_sources (gates net)) [0..<n],
                lvls := resize (lvls net) n LVL_X, warnedConflict := resize (warnedConflict net) n False,
                warnedFloat := resize (warnedFloat net) n False,
                gateOut := resize (gateOut net) (length (gates net)) LVL_X, warnedOscillation := False\<rparr>, None))"

section \<open>One step\<close>

record 'h net_host =
  read_output :: "'h \<Rightarrow> int \<Rightarrow> Drive"
  write_input :: "'h \<Rightarrow> int \<Rightarrow> Level \<Rightarrow> 'h"
  is_output :: "('h \<Rightarrow> int \<Rightarrow> bool) option"

definition refresh :: "'h net_host \<Rightarrow> 'h \<Rightarrow> endpoint list \<Rightarrow> endpoint list" where
  "refresh hs h eps = (case is_output hs of None \<Rightarrow> eps
     | Some f \<Rightarrow> map (\<lambda>ep. if ep_handle ep \<ge> 0 then ep\<lparr>ep_is_output := f h (ep_handle ep)\<rparr> else ep) eps)"

definition pin_drivers :: "'h net_host \<Rightarrow> 'h \<Rightarrow> endpoint list \<Rightarrow> Drive list" where
  "pin_drivers hs h eps =
     map (\<lambda>ep. if ep_is_output ep \<and> ep_handle ep \<ge> 0 then read_output hs h (ep_handle ep) else DRV_Z) eps"

text \<open>Whether some driver of node \<open>i\<close> pulls it to \<open>d\<close>, among the pins and among the gates.\<close>

definition pin_drives :: "endpoint list \<Rightarrow> Drive list \<Rightarrow> nat \<Rightarrow> Drive \<Rightarrow> bool" where
  "pin_drives eps drv i d \<longleftrightarrow>
     list_ex (\<lambda>(ep, v). ep_node ep = i \<and> ep_is_output ep \<and> ep_handle ep \<ge> 0 \<and> v = d) (zip eps drv)"

definition gate_drives :: "net \<Rightarrow> nat \<Rightarrow> Level \<Rightarrow> bool" where
  "gate_drives net i v \<longleftrightarrow> list_ex (\<lambda>j. gateOut net ! j = v) (nodeGateSources net ! i)"

datatype warning = Conflict | Floating | Oscillation

definition warning_text :: "warning \<Rightarrow> string" where
  "warning_text w = (case w of Conflict \<Rightarrow> ''conflict on node'' | Floating \<Rightarrow> ''floating node''
     | Oscillation \<Rightarrow> ''oscillation'')"

text \<open>The resolution rule, with the warning it would give.\<close>

definition resolve_level :: "bool \<Rightarrow> bool \<Rightarrow> bool \<Rightarrow> Pull \<Rightarrow> Level \<times> warning option" where
  "resolve_level has0 has1 gateX pull =
     (if has0 \<and> has1 then (LVL_X, Some Conflict)
      else if gateX then (LVL_X, None)
      else if has0 then (LVL_0, None)
      else if has1 then (LVL_1, None)
      else if pull = PULL_UP then (LVL_1, None)
      else if pull = PULL_DOWN then (LVL_0, None)
      else (LVL_X, Some Floating))"

definition resolve_node :: "Drive list \<Rightarrow> net \<Rightarrow> nat \<Rightarrow> Level \<times> warning option" where
  "resolve_node drv net i =
     resolve_level (pin_drives (endpoints net) drv i DRV_0 \<or> gate_drives net i LVL_0)
       (pin_drives (endpoints net) drv i DRV_1 \<or> gate_drives net i LVL_1)
       (gate_drives net i LVL_X) (nd_pull (nodes net ! i))"

text \<open>
  A warning is given once for each node and kind.  Nodes are resolved in order; a node's resolution
  reads no other node's level, so the pass is a map.
\<close>

definition new_warnings :: "net \<Rightarrow> (Level \<times> warning option) list \<Rightarrow> warning list" where
  "new_warnings net rs =
     concat (map (\<lambda>(i, lv, w). case w of
         Some Conflict \<Rightarrow> (if warnedConflict net ! i then [] else [Conflict])
       | Some Floating \<Rightarrow> (if warnedFloat net ! i then [] else [Floating])
       | _ \<Rightarrow> []) (enumerate 0 rs))"

definition settle_pass :: "Drive list \<Rightarrow> net \<Rightarrow> net \<times> bool \<times> warning list" where
  "settle_pass drv net =
     (let rs = map (resolve_node drv net) [0..<length (nodes net)];
          lv = map fst rs;
          net1 = net\<lparr>lvls := lv,
                   warnedConflict := map (\<lambda>(i, r). warnedConflict net ! i \<or> snd r = Some Conflict) (enumerate 0 rs),
                   warnedFloat := map (\<lambda>(i, r). warnedFloat net ! i \<or> snd r = Some Floating) (enumerate 0 rs)\<rparr>;
          go = map (\<lambda>g. evalGate g lv) (gates net)
      in (net1\<lparr>gateOut := go\<rparr>, lv \<noteq> lvls net \<or> go \<noteq> gateOut net, new_warnings net rs))"

definition MAX_PASSES :: nat where "MAX_PASSES = 16"

text \<open>\<open>settle k\<close> makes at most \<open>k\<close> passes; the Boolean says that the last one still changed something.\<close>

fun settle :: "nat \<Rightarrow> Drive list \<Rightarrow> net \<Rightarrow> net \<times> bool \<times> warning list" where
  "settle 0 drv net = (net, False, [])"
| "settle (Suc k) drv net =
     (let (net1, changed, ws) = settle_pass drv net
      in if \<not> changed then (net1, False, ws)
         else if k = 0 then (net1, True, ws)
         else (let (net2, osc, ws') = settle k drv net1 in (net2, osc, ws @ ws')))"

fun deliver :: "'h net_host \<Rightarrow> net \<Rightarrow> endpoint list \<Rightarrow> 'h \<Rightarrow> 'h" where
  "deliver hs net [] h = h"
| "deliver hs net (ep # eps) h =
     deliver hs net eps
       (if \<not> ep_is_output ep \<and> ep_handle ep \<ge> 0 then write_input hs h (ep_handle ep) (lvls net ! ep_node ep) else h)"

definition bound :: "net \<Rightarrow> bool" where
  "bound net \<longleftrightarrow> length (lvls net) = length (nodes net) \<and> length (warnedConflict net) = length (nodes net) \<and>
     length (warnedFloat net) = length (nodes net) \<and> length (gateOut net) = length (gates net) \<and>
     length (nodeGateSources net) = length (nodes net)"

definition net_step :: "'h net_host \<Rightarrow> 'h \<Rightarrow> net \<Rightarrow> 'h \<times> net \<times> warning list" where
  "net_step hs h net =
     (if \<not> bound net then (h, net, [])
      else
        (let eps = refresh hs h (endpoints net);
             (net1, osc, ws) = settle MAX_PASSES (pin_drivers hs h eps) (net\<lparr>endpoints := eps\<rparr>);
             ws' = (if osc \<and> \<not> warnedOscillation net1 then [Oscillation] else []);
             net2 = (if osc then net1\<lparr>warnedOscillation := True\<rparr> else net1)
         in (deliver hs net2 (endpoints net2) h, net2, ws @ ws')))"

definition net_node_name :: "net \<Rightarrow> int \<Rightarrow> string" where
  "net_node_name net i = (if 0 \<le> i \<and> i < int (length (nodes net)) then nd_name (nodes net ! nat i) else [])"

definition net_node_level :: "net \<Rightarrow> int \<Rightarrow> Level" where
  "net_node_level net i =
     (if 0 \<le> i \<and> i < int (length (nodes net)) \<and> i < int (length (lvls net)) then lvls net ! nat i else LVL_X)"

end
