(* ===== verification/Disk_Emu.thy ===== *)
theory Disk_Emu
  imports Cpu_State
begin

unbundle bit_operations_syntax

text \<open>
  The disk emulator, \<^verbatim>\<open>src/disk_emu.cpp\<close>: a command port, a data port and two address ports that open,
  read, write and rewind host files in one directory.
\<close>

section \<open>State\<close>

text \<open>
  The host's files are a map from paths to contents, with what the host permits: which files can be
  created and which bytes a stream still takes.  A stream opened for reading holds the contents at
  that time and the position; a stream opened for writing holds the bytes written, which reach the
  file when it is closed.
\<close>

record disk =
  dsk_dir :: string
  readFp :: "(u8 list \<times> nat) option"
  writeFp :: "(string \<times> u8 list) option"
  readName :: string
  writeName :: string
  addrLo :: u8
  addrHi :: u8
  dataByte :: u8
  dsk_status :: u8
  initialized :: bool
  bytesRead :: u64
  bytesWritten :: u64
  host_files :: "string \<Rightarrow> u8 list option"
  host_creates :: "string \<Rightarrow> bool"
  host_takes :: "string \<Rightarrow> nat \<Rightarrow> bool"

definition DISK_STATUS_OK :: u8 where "DISK_STATUS_OK = 0x00"
definition DISK_STATUS_EOF :: u8 where "DISK_STATUS_EOF = 0x01"
definition DISK_STATUS_ERROR :: u8 where "DISK_STATUS_ERROR = 0xFF"

definition disk_emu_init :: "disk \<Rightarrow> string option \<Rightarrow> disk" where
  "disk_emu_init d dir =
     (let p = (case dir of None \<Rightarrow> ''.'' | Some x \<Rightarrow> x);
          p' = (if p \<noteq> [] \<and> last p \<noteq> CHR ''/'' then p @ ''/'' else p)
      in d\<lparr>dsk_dir := p', readFp := None, writeFp := None, addrLo := 0, addrHi := 0, dataByte := 0,
           dsk_status := DISK_STATUS_OK, initialized := True, bytesRead := 0, bytesWritten := 0\<rparr>)"

text \<open>Closing the stream opened for writing gives the file its bytes.\<close>

definition close_write :: "disk \<Rightarrow> disk" where
  "close_write d = (case writeFp d of None \<Rightarrow> d
     | Some (path, bytes) \<Rightarrow> d\<lparr>host_files := (host_files d)(path \<mapsto> bytes), writeFp := None\<rparr>)"

definition disk_emu_destroy :: "disk \<Rightarrow> disk" where
  "disk_emu_destroy d = (close_write (d\<lparr>readFp := None\<rparr>))\<lparr>initialized := False\<rparr>"

definition disk_emu_active :: "disk \<Rightarrow> bool" where
  "disk_emu_active d = initialized d"

section \<open>Commands\<close>

text \<open>The name in memory ends at a NUL, at \<open>len\<close> bytes or at 255 bytes, whichever comes first.\<close>

definition extractFilename :: "State8085 \<Rightarrow> u16 \<Rightarrow> u8 \<Rightarrow> string" where
  "extractFilename s adr len =
     map (\<lambda>b. char_of (uint b)) (takeWhile (\<lambda>b. b \<noteq> 0)
       (map (\<lambda>i. memory s (adr + of_nat i)) [0..<min (unat len) 255]))"

definition open_read :: "disk \<Rightarrow> State8085 \<Rightarrow> disk" where
  "open_read d s =
     (let adr = push_bit 8 (ucast (addrHi d)) OR ucast (addrLo d) :: u16;
          name = extractFilename s adr (dataByte d)
      in case host_files d (dsk_dir d @ name) of
           Some bytes \<Rightarrow> d\<lparr>readFp := Some (bytes, 0), dsk_status := DISK_STATUS_OK, readName := name, bytesRead := 0\<rparr>
         | None \<Rightarrow> d\<lparr>readFp := None, dsk_status := DISK_STATUS_ERROR\<rparr>)"

definition open_write :: "disk \<Rightarrow> State8085 \<Rightarrow> disk" where
  "open_write d s =
     (let d1 = close_write d;
          adr = push_bit 8 (ucast (addrHi d)) OR ucast (addrLo d) :: u16;
          name = extractFilename s adr (dataByte d); path = dsk_dir d @ name
      in if host_creates d path
         then d1\<lparr>writeFp := Some (path, []), host_files := (host_files d1)(path \<mapsto> []),
                 dsk_status := DISK_STATUS_OK, writeName := name, bytesWritten := 0\<rparr>
         else d1\<lparr>dsk_status := DISK_STATUS_ERROR\<rparr>)"

definition read_byte :: "disk \<Rightarrow> disk" where
  "read_byte d =
     (case readFp d of
        None \<Rightarrow> d\<lparr>dsk_status := DISK_STATUS_ERROR, dataByte := 0\<rparr>
      | Some (bytes, i) \<Rightarrow>
          (if i \<ge> length bytes then d\<lparr>dsk_status := DISK_STATUS_EOF, dataByte := 0\<rparr>
           else d\<lparr>dsk_status := DISK_STATUS_OK, dataByte := bytes ! i, readFp := Some (bytes, i + 1),
                  bytesRead := bytesRead d + 1\<rparr>))"

definition write_byte :: "disk \<Rightarrow> disk" where
  "write_byte d =
     (case writeFp d of
        None \<Rightarrow> d\<lparr>dsk_status := DISK_STATUS_ERROR\<rparr>
      | Some (path, bytes) \<Rightarrow>
          (if \<not> host_takes d path (length bytes) then d\<lparr>dsk_status := DISK_STATUS_ERROR\<rparr>
           else d\<lparr>writeFp := Some (path, bytes @ [dataByte d]), dsk_status := DISK_STATUS_OK,
                  bytesWritten := bytesWritten d + 1\<rparr>))"

definition rewind :: "disk \<Rightarrow> disk" where
  "rewind d =
     (case readFp d of
        Some (bytes, i) \<Rightarrow> d\<lparr>readFp := Some (bytes, 0), dsk_status := DISK_STATUS_OK, bytesRead := 0\<rparr>
      | None \<Rightarrow> d\<lparr>dsk_status := DISK_STATUS_ERROR\<rparr>)"

definition diskCommand :: "disk \<Rightarrow> State8085 \<Rightarrow> u8 \<Rightarrow> disk" where
  "diskCommand d s cmd =
     (if cmd = 0x01 then open_read d s
      else if cmd = 0x02 then open_write d s
      else if cmd = 0x03 then read_byte d
      else if cmd = 0x04 then write_byte d
      else if cmd = 0x05 then (close_write (d\<lparr>readFp := None\<rparr>))\<lparr>dsk_status := DISK_STATUS_OK\<rparr>
      else if cmd = 0x06 then rewind d
      else d\<lparr>dsk_status := DISK_STATUS_ERROR\<rparr>)"

section \<open>Ports\<close>

definition disk_emu_on_io_write :: "disk \<Rightarrow> State8085 \<Rightarrow> u8 \<Rightarrow> u8 \<Rightarrow> disk" where
  "disk_emu_on_io_write d s port v =
     (if \<not> initialized d then d
      else if port = 0xF0 then diskCommand d s v
      else if port = 0xF1 then d\<lparr>dataByte := v\<rparr>
      else if port = 0xF2 then d\<lparr>addrLo := v\<rparr>
      else if port = 0xF3 then d\<lparr>addrHi := v\<rparr>
      else d)"

definition disk_emu_on_io_pre_read :: "disk \<Rightarrow> State8085 \<Rightarrow> u8 \<Rightarrow> State8085" where
  "disk_emu_on_io_pre_read d s port =
     (if \<not> initialized d then s
      else if port = 0xF0 then s\<lparr>io := (io s)(0xF0 := dsk_status d)\<rparr>
      else if port = 0xF1 then s\<lparr>io := (io s)(0xF1 := dataByte d)\<rparr>
      else s)"

section \<open>What is written is what is read back\<close>

text \<open>A byte written, and a byte read, as the program does it: through the data and the command port.\<close>

definition put_byte :: "State8085 \<Rightarrow> u8 \<Rightarrow> disk \<Rightarrow> disk" where
  "put_byte s b d = disk_emu_on_io_write (disk_emu_on_io_write d s 0xF1 b) s 0xF0 0x04"

definition get_byte :: "State8085 \<Rightarrow> disk \<Rightarrow> disk \<times> u8 \<times> u8" where
  "get_byte s d =
     (let d1 = disk_emu_on_io_write d s 0xF0 0x03
      in (d1, io (disk_emu_on_io_pre_read d1 s 0xF0) 0xF0, io (disk_emu_on_io_pre_read d1 s 0xF1) 0xF1))"

primrec get_bytes :: "State8085 \<Rightarrow> nat \<Rightarrow> disk \<Rightarrow> disk \<times> (u8 \<times> u8) list" where
  "get_bytes s 0 d = (d, [])"
| "get_bytes s (Suc n) d =
     (let (d1, st, b) = get_byte s d; (d2, r) = get_bytes s n d1 in (d2, (st, b) # r))"

lemma put_byte_eq:
  assumes "initialized d" "writeFp d = Some (path, w)" "host_takes d path (length w)"
  shows "put_byte s b d = d\<lparr>dataByte := b, writeFp := Some (path, w @ [b]), dsk_status := DISK_STATUS_OK,
    bytesWritten := bytesWritten d + 1\<rparr>"
  using assms by (simp add: put_byte_def disk_emu_on_io_write_def diskCommand_def write_byte_def)

lemma put_bytes:
  assumes "initialized d" "writeFp d = Some (path, w)" "\<And>k. host_takes d path k"
  shows "writeFp (fold (put_byte s) bs d) = Some (path, w @ bs) \<and> initialized (fold (put_byte s) bs d) \<and>
    host_files (fold (put_byte s) bs d) = host_files d \<and> dsk_dir (fold (put_byte s) bs d) = dsk_dir d \<and>
    addrLo (fold (put_byte s) bs d) = addrLo d \<and> addrHi (fold (put_byte s) bs d) = addrHi d"
  using assms
proof (induction bs arbitrary: d w)
  case (Cons b bs)
  show ?case
    using Cons.IH [of "put_byte s b d" "w @ [b]"] Cons.prems by (simp add: put_byte_eq)
qed simp

lemma get_byte_eq:
  assumes "initialized d" "readFp d = Some (bytes, i)"
  shows "get_byte s d =
    (if i < length bytes
     then (d\<lparr>dsk_status := DISK_STATUS_OK, dataByte := bytes ! i, readFp := Some (bytes, i + 1),
             bytesRead := bytesRead d + 1\<rparr>, DISK_STATUS_OK, bytes ! i)
     else (d\<lparr>dsk_status := DISK_STATUS_EOF, dataByte := 0\<rparr>, DISK_STATUS_EOF, 0))"
  using assms
  by (simp add: get_byte_def Let_def disk_emu_on_io_write_def diskCommand_def read_byte_def
      disk_emu_on_io_pre_read_def)

text \<open>Reading on from position \<open>i\<close> yields the rest of the contents and then the end of file for ever.\<close>

lemma get_bytes_eq:
  assumes "initialized d" "readFp d = Some (bytes, i)" "i \<le> length bytes"
  shows "snd (get_bytes s (length bytes - i + n) d) =
    map (Pair DISK_STATUS_OK) (drop i bytes) @ replicate n (DISK_STATUS_EOF, 0)"
  using assms
proof (induction "length bytes - i + n" arbitrary: d i n)
  case 0
  then have "n = 0" "i = length bytes" by simp_all
  then show ?case by simp
next
  case (Suc m)
  show ?case
  proof (cases "i < length bytes")
    case True
    then have m: "m = length bytes - (i + 1) + n" using Suc.hyps(2) by simp
    have "drop i bytes = bytes ! i # drop (i + 1) bytes" using True by (simp add: Cons_nth_drop_Suc)
    then show ?thesis
      using Suc.hyps(1) [OF m, folded m] Suc.prems True unfolding Suc.hyps(2) [symmetric]
      by (simp add: get_byte_eq [OF Suc.prems(1,2)] split_beta)
  next
    case False
    then have i: "i = length bytes" using Suc.prems(3) by simp
    then obtain n' where n: "n = Suc n'" "m = length bytes - i + n'" using Suc.hyps(2) by (cases n) auto
    show ?thesis
      using Suc.hyps(1) [OF n(2)] Suc.prems unfolding Suc.hyps(2) [symmetric]
      by (simp add: get_byte_eq [OF Suc.prems(1,2)] i n split_beta)
  qed
qed

text \<open>A command with its argument in the data port, as opening a file takes the length of its name.\<close>

definition disk_cmd :: "State8085 \<Rightarrow> u8 \<Rightarrow> u8 \<Rightarrow> disk \<Rightarrow> disk" where
  "disk_cmd s cmd arg d = disk_emu_on_io_write (disk_emu_on_io_write d s 0xF1 arg) s 0xF0 cmd"

lemma disk_write_read_back:
  assumes "initialized d" "\<And>path. host_creates d path" "\<And>path k. host_takes d path k"
  shows "snd (get_bytes s (length bs + n)
      (disk_cmd s 0x01 len (disk_cmd s 0x05 arg (fold (put_byte s) bs (disk_cmd s 0x02 len d))))) =
    map (Pair DISK_STATUS_OK) bs @ replicate n (DISK_STATUS_EOF, 0)"
proof -
  define adr where "adr = (push_bit 8 (ucast (addrHi d)) OR ucast (addrLo d) :: u16)"
  define path where "path = dsk_dir d @ extractFilename s adr len"
  define d1 where "d1 = disk_cmd s 0x02 len d"
  have close: "initialized (close_write e) = initialized e" "host_creates (close_write e) = host_creates e"
    "host_takes (close_write e) = host_takes e" "dsk_dir (close_write e) = dsk_dir e"
    "addrLo (close_write e) = addrLo e" "addrHi (close_write e) = addrHi e" for e
    by (simp_all add: close_write_def split: option.split)
  have d1: "initialized d1" "writeFp d1 = Some (path, [])" "host_takes d1 = host_takes d" "dsk_dir d1 = dsk_dir d"
    "addrLo d1 = addrLo d" "addrHi d1 = addrHi d"
    using assms
    by (simp_all add: d1_def disk_cmd_def disk_emu_on_io_write_def diskCommand_def open_write_def close Let_def
        path_def adr_def)
  define d2 where "d2 = fold (put_byte s) bs d1"
  have d2: "initialized d2" "writeFp d2 = Some (path, bs)" "dsk_dir d2 = dsk_dir d" "addrLo d2 = addrLo d" "addrHi d2 = addrHi d"
    using put_bytes [OF d1(1,2), of s bs] assms(3) d1(3-6) by (simp_all add: d2_def)
  define d3 where "d3 = disk_cmd s 0x01 len (disk_cmd s 0x05 arg d2)"
  have d3: "initialized d3" "readFp d3 = Some (bs, 0)"
    using d2
    by (simp_all add: d3_def disk_cmd_def disk_emu_on_io_write_def diskCommand_def open_read_def close_write_def
        Let_def path_def adr_def)
  show ?thesis
    using get_bytes_eq [OF d3, of s n] by (simp add: d3_def d2_def d1_def)
qed

lemma disk_touches_ports: "disk_emu_on_io_pre_read d s port = s\<lparr>io := io (disk_emu_on_io_pre_read d s port)\<rparr>"
  by (simp add: disk_emu_on_io_pre_read_def)

end
