(* ===== verification/Io_Runtime.thy ===== *)
theory Io_Runtime
  imports Io_Api Logic_Net Disk_Emu
begin

unbundle bit_operations_syntax

text \<open>
  The I/O runtime, \<^verbatim>\<open>src/io_runtime.cpp\<close>: the loaded plugins with their callbacks in load order, the
  disk emulator in front of them, the net with its table of bound pins, and the host interface a
  plugin sees.  A plugin is an element of \<open>'p\<close>; \<open>tbl\<close> gives the callbacks of its module.
\<close>

section \<open>State\<close>

text \<open>A pin of the processor has plugin \<open>- 1\<close>.\<close>

record pin_handle =
  ph_plugin :: int
  ph_field :: string
  ph_bit :: int
  ph_sub :: string

record 'p runtime =
  plugins :: "'p list"
  anyMemWrite :: bool
  rt_net :: net
  wiring :: bool
  wiring_flag :: u32
  pinTable :: "pin_handle list"
  rt_disk :: disk
  state_set :: bool
  rt_warnings :: "warning list"

section \<open>Peers\<close>

definition level_text :: "Level \<Rightarrow> string" where
  "level_text v = (case v of LVL_0 \<Rightarrow> ''0'' | LVL_1 \<Rightarrow> ''1'' | LVL_X \<Rightarrow> ''X'')"

definition host_peer_count :: "'p runtime \<Rightarrow> nat" where
  "host_peer_count rt = length (plugins rt) + (if wiring rt then 2 else 0)"

definition host_peer_snapshot_net :: "'p runtime \<Rightarrow> nat \<Rightarrow> plugin_info \<times> state_field list" where
  "host_peer_snapshot_net rt max_fields =
     (\<lparr>info_kind = Some ''net'', info_base = 0, info_span = 0\<rparr>,
      map (\<lambda>i. (net_node_name (rt_net rt) (int i), FIELD_STR (level_text (net_node_level (rt_net rt) (int i)))))
        [0..<min (length (nodes (rt_net rt))) max_fields])"

definition host_peer_snapshot_cpu :: "'p runtime \<Rightarrow> State8085 \<Rightarrow> nat \<Rightarrow> plugin_info \<times> state_field list" where
  "host_peer_snapshot_cpu rt s max_fields =
     (\<lparr>info_kind = Some ''cpu'', info_base = 0, info_span = 0\<rparr>,
      if \<not> state_set rt then []
      else take max_fields [(''RST7.5'', FIELD_U8 (ucast (r7_latch s))), (''RST6.5'', FIELD_U8 (ucast (pending_r6 s))),
        (''RST5.5'', FIELD_U8 (ucast (pending_r5 s))), (''TRAP'', FIELD_U8 (ucast (pending_trap s)))])"

definition opaque_info :: plugin_info where
  "opaque_info = \<lparr>info_kind = None, info_base = 0, info_span = 0\<rparr>"

definition host_peer_snapshot ::
  "('p \<Rightarrow> 'p plugin_api) \<Rightarrow> 'p runtime \<Rightarrow> State8085 \<Rightarrow> nat \<Rightarrow> nat \<Rightarrow> (plugin_info \<times> state_field list) option" where
  "host_peer_snapshot tbl rt s idx max_fields =
     (if idx < length (plugins rt) then
        (let p = plugins rt ! idx in case api_snapshot (tbl p) of
           None \<Rightarrow> Some (opaque_info, []) | Some f \<Rightarrow> Some (f p max_fields))
      else if wiring rt \<and> idx = length (plugins rt) then Some (host_peer_snapshot_net rt max_fields)
      else if wiring rt \<and> idx = length (plugins rt) + 1 then Some (host_peer_snapshot_cpu rt s max_fields)
      else None)"

definition runtime_host_api :: "('p \<Rightarrow> 'p plugin_api) \<Rightarrow> 'p runtime \<Rightarrow> State8085 \<Rightarrow> host_api" where
  "runtime_host_api tbl rt s =
     \<lparr>wiring_active = wiring_flag rt, peer_count = host_peer_count rt,
      peer_snapshot = host_peer_snapshot tbl rt s\<rparr>"

section \<open>Pins\<close>

definition rt_resolve_cpu_pin :: "'p runtime \<Rightarrow> string \<Rightarrow> 'p runtime \<times> int \<times> bool" where
  "rt_resolve_cpu_pin rt pinName =
     (if pinName \<notin> set [''RST7.5'', ''RST6.5'', ''RST5.5'', ''TRAP'', ''SID'', ''SOD''] then (rt, - 1, False)
      else (rt\<lparr>pinTable := pinTable rt @ [\<lparr>ph_plugin = - 1, ph_field = pinName, ph_bit = 0, ph_sub = pinName\<rparr>]\<rparr>,
            int (length (pinTable rt)), pinName = ''SOD''))"

text \<open>The trailing digits of a pin's name are its bit number, what stands before them the bus.\<close>

definition split_pin :: "string \<Rightarrow> string \<times> int" where
  "split_pin sub =
     (let ds = rev (takeWhile c_isdigit (rev sub)); field = take (length sub - length ds) sub
      in (field, if ds = [] then 0 else atoi ds))"

definition find_bus :: "state_field list \<Rightarrow> string \<Rightarrow> int \<Rightarrow> pin_bus option" where
  "find_bus fs field b =
     (case filter (\<lambda>f. (case field_bus f of Some bus \<Rightarrow> field = fst f \<and> 0 \<le> b \<and> b < int (bus_width bus) | None \<Rightarrow> False)) fs of
        [] \<Rightarrow> None | f # _ \<Rightarrow> field_bus f)"

text \<open>The plugins are searched in load order for the kind and the base; only the first match counts.\<close>

fun resolve_plugin ::
  "('p \<Rightarrow> 'p plugin_api) \<Rightarrow> 'p list \<Rightarrow> nat \<Rightarrow> string \<Rightarrow> nat \<Rightarrow> string \<Rightarrow> int \<Rightarrow> (nat \<times> bool) option" where
  "resolve_plugin tbl [] k kind base field b = None"
| "resolve_plugin tbl (p # ps) k kind base field b =
     (case api_snapshot (tbl p) of
        None \<Rightarrow> resolve_plugin tbl ps (k + 1) kind base field b
      | Some f \<Rightarrow>
          (let (info, fs) = f p 32
           in if info_kind info \<noteq> Some kind \<or> unat (info_base info) \<noteq> base
              then resolve_plugin tbl ps (k + 1) kind base field b
              else case find_bus fs field b of
                  None \<Rightarrow> None
                | Some bus \<Rightarrow> Some (k, \<not> bit (bus_is_input bus) (nat b))))"

definition rt_resolve :: "('p \<Rightarrow> 'p plugin_api) \<Rightarrow> 'p runtime \<Rightarrow> string \<Rightarrow> 'p runtime \<times> int \<times> bool" where
  "rt_resolve tbl rt s =
     (if starts_with ''cpu.'' s then rt_resolve_cpu_pin rt (drop 4 s)
      else case find_char (CHR ''@'') s of
          None \<Rightarrow> (rt, - 1, False)
        | Some (kind, rest) \<Rightarrow>
            (case find_char (CHR ''.'') rest of
               None \<Rightarrow> (rt, - 1, False)
             | Some (baseStr, sub) \<Rightarrow>
                 (let (base, left) = strtoul baseStr 0; (field, b) = split_pin sub
                  in if kind = [] \<or> sub = [] \<or> baseStr = [] \<or> left \<noteq> [] \<or> field = [] then (rt, - 1, False)
                     else case resolve_plugin tbl (plugins rt) 0 kind base field b of
                         None \<Rightarrow> (rt, - 1, False)
                       | Some (k, out) \<Rightarrow>
                           (rt\<lparr>pinTable := pinTable rt @
                              [\<lparr>ph_plugin = int k, ph_field = field, ph_bit = b, ph_sub = sub\<rparr>]\<rparr>,
                            int (length (pinTable rt)), out))))"

text \<open>The live bus of a plugin's pin: the first field of that name that is a bus decides.\<close>

definition pin_bus_of :: "('p \<Rightarrow> 'p plugin_api) \<Rightarrow> 'p runtime \<Rightarrow> pin_handle \<Rightarrow> pin_bus option" where
  "pin_bus_of tbl rt ph =
     (if ph_plugin ph < 0 \<or> int (length (plugins rt)) \<le> ph_plugin ph then None
      else (let p = plugins rt ! nat (ph_plugin ph)
            in case api_snapshot (tbl p) of
                 None \<Rightarrow> None
               | Some f \<Rightarrow>
                   (case filter (\<lambda>x. field_bus x \<noteq> None \<and> ph_field ph = fst x) (snd (f p 32)) of
                      [] \<Rightarrow> None
                    | x # _ \<Rightarrow>
                        (case field_bus x of None \<Rightarrow> None
                         | Some b \<Rightarrow> if ph_bit ph < 0 \<or> int (bus_width b) \<le> ph_bit ph then None else Some b))))"

definition rt_read_output :: "('p \<Rightarrow> 'p plugin_api) \<Rightarrow> 'p runtime \<Rightarrow> State8085 \<Rightarrow> int \<Rightarrow> Drive" where
  "rt_read_output tbl rt s h =
     (if h < 0 \<or> int (length (pinTable rt)) \<le> h then DRV_Z
      else (let ph = pinTable rt ! nat h
            in if ph_plugin ph = - 1
               then (if ph_field ph = ''SOD'' \<and> state_set rt
                     then (if getSODLine s \<noteq> 0 then DRV_1 else DRV_0) else DRV_Z)
               else case pin_bus_of tbl rt ph of
                   None \<Rightarrow> DRV_Z
                 | Some b \<Rightarrow> (if bit (bus_hi_z b) (nat (ph_bit ph)) then DRV_Z
                              else if bit (bus_level b) (nat (ph_bit ph)) then DRV_1 else DRV_0)))"

definition rt_is_output :: "('p \<Rightarrow> 'p plugin_api) \<Rightarrow> 'p runtime \<Rightarrow> int \<Rightarrow> bool" where
  "rt_is_output tbl rt h =
     (if h < 0 \<or> int (length (pinTable rt)) \<le> h then False
      else (let ph = pinTable rt ! nat h
            in if ph_plugin ph = - 1 then ph_field ph = ''SOD''
               else case pin_bus_of tbl rt ph of None \<Rightarrow> False
                 | Some b \<Rightarrow> \<not> bit (bus_is_input b) (nat (ph_bit ph))))"

definition level_code :: "Level \<Rightarrow> u8" where
  "level_code v = (case v of LVL_0 \<Rightarrow> 0 | LVL_1 \<Rightarrow> 1 | LVL_X \<Rightarrow> 2)"

definition drive_cpu_pin :: "State8085 \<Rightarrow> string \<Rightarrow> int \<Rightarrow> State8085" where
  "drive_cpu_pin s field active =
     (if field = ''RST7.5'' then fst (triggerInterrupt s 75 active)
      else if field = ''RST6.5'' then fst (triggerInterrupt s 65 active)
      else if field = ''RST5.5'' then fst (triggerInterrupt s 55 active)
      else if field = ''TRAP'' then fst (triggerInterrupt s 45 active)
      else if field = ''SID'' then setSIDLine s active
      else s)"

definition rt_write_input ::
  "('p \<Rightarrow> 'p plugin_api) \<Rightarrow> 'p runtime \<Rightarrow> State8085 \<Rightarrow> int \<Rightarrow> Level \<Rightarrow> 'p runtime \<times> State8085" where
  "rt_write_input tbl rt s h lv =
     (if h < 0 \<or> int (length (pinTable rt)) \<le> h then (rt, s)
      else (let ph = pinTable rt ! nat h
            in if ph_plugin ph = - 1
               then (rt, if state_set rt then drive_cpu_pin s (ph_field ph) (if lv = LVL_1 then 1 else 0) else s)
               else if ph_plugin ph < 0 \<or> int (length (plugins rt)) \<le> ph_plugin ph then (rt, s)
               else (let k = nat (ph_plugin ph); p = plugins rt ! k
                     in case api_pin_set (tbl p) of None \<Rightarrow> (rt, s)
                        | Some f \<Rightarrow> (rt\<lparr>plugins := (plugins rt)[k := f p (ph_sub ph) (level_code lv)]\<rparr>, s))))"

section \<open>Netlist and plugins\<close>

text \<open>
  \<open>file\<close> is the contents of the netlist, \<open>None\<close> when it cannot be opened.  The second component is the
  error message.
\<close>

definition io_runtime_load_netlist ::
  "('p \<Rightarrow> 'p plugin_api) \<Rightarrow> 'p runtime \<Rightarrow> string option \<Rightarrow> string option \<Rightarrow> 'p runtime \<times> string option" where
  "io_runtime_load_netlist tbl rt path file =
     (if path = None \<or> path = Some [] then (rt, Some ''empty netlist path'')
      else case file of
          None \<Rightarrow> (rt, Some ''cannot open netlist file'')
        | Some txt \<Rightarrow>
            (case parse (rt_net rt) txt of
               (net1, Some e) \<Rightarrow> (rt\<lparr>rt_net := net1\<rparr>, Some e)
             | (net1, None) \<Rightarrow>
                 (case net_bind (rt_resolve tbl) (rt\<lparr>rt_net := net1\<rparr>) net1 of
                    (rt1, net2, Some e) \<Rightarrow> (rt1\<lparr>rt_net := net2\<rparr>, Some e)
                  | (rt1, net2, None) \<Rightarrow> (rt1\<lparr>rt_net := net2, wiring := True, wiring_flag := 1\<rparr>, None))))"

text \<open>What the dynamic loader and the module's initialisation answer.\<close>

datatype 'p module_init =
    Not_loaded string
  | No_symbol
  | Init_failed string
  | Ready u32 'p

definition I8085_IO_PLUGIN_ABI_VERSION :: u32 where "I8085_IO_PLUGIN_ABI_VERSION = 5"

definition io_runtime_load_plugin ::
  "('p \<Rightarrow> 'p plugin_api) \<Rightarrow> 'p runtime \<Rightarrow> string option \<Rightarrow> 'p module_init \<Rightarrow> 'p runtime \<times> string option" where
  "io_runtime_load_plugin tbl rt path m =
     (if path = None \<or> path = Some [] then (rt, Some ''empty plugin path'')
      else case m of
          Not_loaded e \<Rightarrow> (rt, Some e)
        | No_symbol \<Rightarrow> (rt, Some ''plugin init symbol not found'')
        | Init_failed e \<Rightarrow> (rt, Some (if e \<noteq> [] then e else ''plugin init failed''))
        | Ready abi p \<Rightarrow>
            (if abi \<noteq> I8085_IO_PLUGIN_ABI_VERSION then (rt, Some ''plugin ABI version mismatch'')
             else (rt\<lparr>plugins := plugins rt @ [p],
                      anyMemWrite := anyMemWrite rt \<or> api_on_mem_write (tbl p) \<noteq> None\<rparr>, None)))"

definition io_runtime_unload_plugin :: "'p runtime \<Rightarrow> 'p runtime" where
  "io_runtime_unload_plugin rt = rt\<lparr>plugins := [], anyMemWrite := False\<rparr>"

definition io_runtime_set_state :: "'p runtime \<Rightarrow> bool \<Rightarrow> 'p runtime" where
  "io_runtime_set_state rt given = rt\<lparr>state_set := given\<rparr>"

section \<open>The callbacks\<close>

text \<open>A callback fans out to the plugins in load order, threading the processor state.\<close>

fun each :: "('p \<Rightarrow> State8085 \<Rightarrow> 'p \<times> State8085) \<Rightarrow> 'p list \<Rightarrow> State8085 \<Rightarrow> 'p list \<times> State8085" where
  "each f [] s = ([], s)"
| "each f (p # ps) s = (let (p', s1) = f p s; (ps', s2) = each f ps s1 in (p' # ps', s2))"

definition opt_call :: "('p \<Rightarrow> 'a option) \<Rightarrow> ('a \<Rightarrow> 'p \<Rightarrow> State8085 \<Rightarrow> 'p \<times> State8085) \<Rightarrow>
    'p \<Rightarrow> State8085 \<Rightarrow> 'p \<times> State8085" where
  "opt_call sel run p s = (case sel p of None \<Rightarrow> (p, s) | Some f \<Rightarrow> run f p s)"

definition io_runtime_on_reset :: "('p \<Rightarrow> 'p plugin_api) \<Rightarrow> 'p runtime \<Rightarrow> State8085 \<Rightarrow> 'p runtime \<times> State8085" where
  "io_runtime_on_reset tbl rt s =
     (if \<not> state_set rt then (rt, s)
      else (let (ps, s') = each (opt_call (\<lambda>p. api_on_reset (tbl p)) (\<lambda>f. f)) (plugins rt) s
            in (rt\<lparr>plugins := ps\<rparr>, s')))"

text \<open>While the plugin at index \<open>k\<close> steps, its peers before it have stepped and those after it have not.\<close>

fun step_plugins ::
  "('p \<Rightarrow> 'p plugin_api) \<Rightarrow> u64 \<Rightarrow> u64 \<Rightarrow> nat \<Rightarrow> 'p runtime \<Rightarrow> State8085 \<Rightarrow> nat \<Rightarrow> 'p runtime \<times> State8085" where
  "step_plugins tbl step tstates k rt s 0 = (rt, s)"
| "step_plugins tbl step tstates k rt s (Suc n) =
     (let p = plugins rt ! k
      in case api_on_step (tbl p) of
           None \<Rightarrow> step_plugins tbl step tstates (k + 1) rt s n
         | Some f \<Rightarrow>
             (let (p', s1) = f p (runtime_host_api tbl rt s) s step tstates
              in step_plugins tbl step tstates (k + 1) (rt\<lparr>plugins := (plugins rt)[k := p']\<rparr>) s1 n))"

definition runtime_net_host :: "('p \<Rightarrow> 'p plugin_api) \<Rightarrow> ('p runtime \<times> State8085) net_host" where
  "runtime_net_host tbl =
     \<lparr>read_output = \<lambda>(rt, s) h. rt_read_output tbl rt s h,
      write_input = \<lambda>(rt, s) h lv. rt_write_input tbl rt s h lv,
      is_output = Some (\<lambda>(rt, s) h. rt_is_output tbl rt h)\<rparr>"

definition io_runtime_on_step ::
  "('p \<Rightarrow> 'p plugin_api) \<Rightarrow> 'p runtime \<Rightarrow> State8085 \<Rightarrow> u64 \<Rightarrow> u64 \<Rightarrow> 'p runtime \<times> State8085" where
  "io_runtime_on_step tbl rt s step tstates =
     (if \<not> state_set rt then (rt, s)
      else
        (let (rt1, s1) = step_plugins tbl step tstates 0 rt s (length (plugins rt))
         in if wiring rt1
            then (let ((rt2, s2), net', ws) = net_step (runtime_net_host tbl) (rt1, s1) (rt_net rt1)
                  in (rt2\<lparr>rt_net := net', rt_warnings := rt_warnings rt2 @ ws\<rparr>, s2))
            else (rt1, s1)))"

section \<open>The functions the core calls\<close>

definition io_write :: "('p \<Rightarrow> 'p plugin_api) \<Rightarrow> u8 \<Rightarrow> u8 \<Rightarrow> State8085 \<Rightarrow> 'p runtime \<Rightarrow> State8085 \<times> 'p runtime" where
  "io_write tbl port val s rt =
     (let rt1 = (if disk_emu_active (rt_disk rt) \<and> state_set rt
                 then rt\<lparr>rt_disk := disk_emu_on_io_write (rt_disk rt) s port val\<rparr> else rt)
      in if \<not> state_set rt1 then (s, rt1)
         else (let (ps, s') = each (opt_call (\<lambda>p. api_on_io_write (tbl p)) (\<lambda>f p s. f p s port val)) (plugins rt1) s
               in (s', rt1\<lparr>plugins := ps\<rparr>)))"

definition io_pre_read :: "('p \<Rightarrow> 'p plugin_api) \<Rightarrow> u8 \<Rightarrow> State8085 \<Rightarrow> 'p runtime \<Rightarrow> State8085 \<times> 'p runtime" where
  "io_pre_read tbl port s rt =
     (let s1 = (if disk_emu_active (rt_disk rt) \<and> state_set rt
                then disk_emu_on_io_pre_read (rt_disk rt) s port else s)
      in if \<not> state_set rt then (s1, rt)
         else (let (ps, s') = each (opt_call (\<lambda>p. api_on_io_pre_read (tbl p)) (\<lambda>f p s. f p s port)) (plugins rt) s1
               in (s', rt\<lparr>plugins := ps\<rparr>)))"

definition io_read :: "('p \<Rightarrow> 'p plugin_api) \<Rightarrow> u8 \<Rightarrow> u8 \<Rightarrow> State8085 \<Rightarrow> 'p runtime \<Rightarrow> State8085 \<times> 'p runtime" where
  "io_read tbl port val s rt =
     (if \<not> state_set rt then (s, rt)
      else (let (ps, s') = each (opt_call (\<lambda>p. api_on_io_post_read (tbl p)) (\<lambda>f p s. f p s port val)) (plugins rt) s
            in (s', rt\<lparr>plugins := ps\<rparr>)))"

fun chain_mem ::
  "('p \<Rightarrow> 'p plugin_api) \<Rightarrow> 'p list \<Rightarrow> u16 \<Rightarrow> u8 \<Rightarrow> State8085 \<Rightarrow> u8 \<times> 'p list \<times> State8085" where
  "chain_mem tbl [] a v s = (v, [], s)"
| "chain_mem tbl (p # ps) a v s =
     (case api_on_mem_write (tbl p) of
        None \<Rightarrow> (let (v', ps', s') = chain_mem tbl ps a v s in (v', p # ps', s'))
      | Some f \<Rightarrow>
          (let (v1, p', s1) = f p s a v; (v', ps', s') = chain_mem tbl ps a v1 s1 in (v', p' # ps', s')))"

definition io_runtime_mem_write ::
  "('p \<Rightarrow> 'p plugin_api) \<Rightarrow> u16 \<Rightarrow> u8 \<Rightarrow> State8085 \<Rightarrow> 'p runtime \<Rightarrow> u8 \<times> State8085 \<times> 'p runtime" where
  "io_runtime_mem_write tbl a v s rt =
     (if \<not> anyMemWrite rt then (v, s, rt)
      else (let (v', ps, s') = chain_mem tbl (plugins rt) a v s in (v', s', rt\<lparr>plugins := ps\<rparr>)))"

definition runtime_bus :: "('p \<Rightarrow> 'p plugin_api) \<Rightarrow> 'p runtime bus" where
  "runtime_bus tbl =
     \<lparr>bus_mem_write = io_runtime_mem_write tbl, bus_io_write = io_write tbl,
      bus_io_pre_read = io_pre_read tbl, bus_io_read = io_read tbl\<rparr>"

end
