(* ===== verification/Alu.thy ===== *)
theory Alu
  imports Cpu_State
begin

unbundle bit_operations_syntax

text \<open>
  The flag and arithmetic helpers of \<^verbatim>\<open>src/i8085_exec.c\<close>: \<^verbatim>\<open>parity\<close>, \<^verbatim>\<open>LogicFlagsA\<close>, \<^verbatim>\<open>ArithFlagsA\<close> and
  the four byte operations.  Each is first translated statement by statement; a closed form of its
  effect on the flags follows, and then what the flags mean in terms of the integers the operands
  stand for (sum, borrow, signed overflow, decimal digits).
\<close>

section \<open>Parity and the flag helpers\<close>

fun parity_loop :: "nat \<Rightarrow> int \<Rightarrow> int \<Rightarrow> int" where
  "parity_loop 0 x p = p"
| "parity_loop (Suc n) x p = parity_loop n (drop_bit 1 x) (if x AND 1 \<noteq> 0 then p + 1 else p)"

definition parity :: "int \<Rightarrow> nat \<Rightarrow> bool" where
  "parity x sz = (let x1 = x AND (push_bit sz 1 - 1) in parity_loop sz x1 0 AND 1 = 0)"

datatype should_preserve_carry = PRESERVE_CARRY | UPDATE_CARRY

definition LogicFlagsA :: "State8085 \<Rightarrow> u8 \<Rightarrow> State8085" where
  "LogicFlagsA s ac =
     s\<lparr>cc := (cc s)\<lparr>fl_cy := False, fl_ac := (ac \<noteq> 0), fl_z := (reg_a s = 0),
        fl_s := (reg_a s AND 0x80 = 0x80), fl_p := parity (uint (reg_a s)) 8\<rparr>\<rparr>"

definition ArithFlagsA :: "State8085 \<Rightarrow> u16 \<Rightarrow> should_preserve_carry \<Rightarrow> State8085" where
  "ArithFlagsA s res preserveCarry =
     (let s1 = (if preserveCarry = UPDATE_CARRY then s\<lparr>cc := (cc s)\<lparr>fl_cy := (res > 0xff)\<rparr>\<rparr> else s)
      in s1\<lparr>cc := (cc s1)\<lparr>fl_z := (res AND 0xff = 0), fl_s := (res AND 0x80 = 0x80),
           fl_p := parity (uint (res AND 0xff)) 8\<rparr>\<rparr>)"

section \<open>Byte arithmetic\<close>

text \<open>
  Operands are promoted to \<^verbatim>\<open>int\<close>, so the nibble comparisons are on integers; \<^verbatim>\<open>res\<close> is 16 bits wide.
\<close>

definition addByte ::
  "State8085 \<Rightarrow> u8 \<Rightarrow> u8 \<Rightarrow> should_preserve_carry \<Rightarrow> State8085 \<times> u8" where
  "addByte s lhs rhs preserveCarry =
     (let res = (ucast lhs + ucast rhs :: u16);
          s1 = s\<lparr>cc := (cc s)\<lparr>fl_ac := uint (lhs AND 0xf) + uint (rhs AND 0xf) > 0xf\<rparr>\<rparr>;
          s2 = s1\<lparr>cc := (cc s1)\<lparr>fl_v :=
                 drop_bit 7 ((lhs XOR rhs XOR 0x80) AND (lhs XOR ucast res) AND 0x80) \<noteq> 0\<rparr>\<rparr>
      in (ArithFlagsA s2 res preserveCarry, ucast res))"

definition addByteWithCarry ::
  "State8085 \<Rightarrow> u8 \<Rightarrow> u8 \<Rightarrow> should_preserve_carry \<Rightarrow> State8085 \<times> u8" where
  "addByteWithCarry s lhs rhs preserveCarry =
     (let carry = (if fl_cy (cc s) then 1 else 0 :: u8);
          res = (ucast lhs + ucast rhs + ucast carry :: u16);
          s1 = s\<lparr>cc := (cc s)\<lparr>fl_ac := uint (lhs AND 0xf) + uint (rhs AND 0xf) + uint carry > 0xf\<rparr>\<rparr>;
          s2 = s1\<lparr>cc := (cc s1)\<lparr>fl_v :=
                 drop_bit 7 ((lhs XOR rhs XOR 0x80) AND (lhs XOR ucast res) AND 0x80) \<noteq> 0\<rparr>\<rparr>
      in (ArithFlagsA s2 res preserveCarry, ucast res))"

definition subtractByte ::
  "State8085 \<Rightarrow> u8 \<Rightarrow> u8 \<Rightarrow> should_preserve_carry \<Rightarrow> State8085 \<times> u8" where
  "subtractByte s lhs rhs preserveCarry =
     (let res = (ucast lhs - ucast rhs :: u16);
          s1 = s\<lparr>cc := (cc s)\<lparr>fl_ac := uint (lhs AND 0x0f) < uint (rhs AND 0x0f)\<rparr>\<rparr>;
          s2 = s1\<lparr>cc := (cc s1)\<lparr>fl_v :=
                 drop_bit 7 ((lhs XOR rhs) AND (lhs XOR ucast res) AND 0x80) \<noteq> 0\<rparr>\<rparr>
      in (ArithFlagsA s2 res preserveCarry, ucast res))"

definition subtractByteWithBorrow ::
  "State8085 \<Rightarrow> u8 \<Rightarrow> u8 \<Rightarrow> should_preserve_carry \<Rightarrow> State8085 \<times> u8" where
  "subtractByteWithBorrow s lhs rhs preserveCarry =
     (let carry = (if fl_cy (cc s) then 1 else 0 :: u8);
          res = (ucast lhs - ucast rhs - ucast carry :: u16);
          s1 = s\<lparr>cc := (cc s)\<lparr>fl_ac := uint (lhs AND 0x0f) < uint (rhs AND 0x0f) + uint carry\<rparr>\<rparr>;
          s2 = s1\<lparr>cc := (cc s1)\<lparr>fl_v :=
                 drop_bit 7 ((lhs XOR rhs) AND (lhs XOR ucast res) AND 0x80) \<noteq> 0\<rparr>\<rparr>
      in (ArithFlagsA s2 res preserveCarry, ucast res))"

section \<open>What the helpers compute\<close>

text \<open>Parity is true exactly when the number of one bits among the low \<open>n\<close> is even.\<close>

lemma parity_loop_shift: "parity_loop n x p = p + parity_loop n x 0"
proof (induction n arbitrary: x p)
  case (Suc n)
  show ?case
    using Suc [of "drop_bit 1 x" "p + 1"] Suc [of "drop_bit 1 x" p] Suc [of "drop_bit 1 x" 1]
    by simp
qed simp

lemma parity_loop_card: "parity_loop n x 0 = int (card {i. i < n \<and> bit x i})"
proof (induction n arbitrary: x)
  case (Suc n)
  have split: "{i. i < Suc n \<and> bit x i} = (if bit x 0 then {0} else {}) \<union> Suc ` {i. i < n \<and> bit (drop_bit 1 x) i}"
    by (auto simp: bit_drop_bit_eq image_iff less_Suc_eq_0_disj)
  have "card {i. i < Suc n \<and> bit x i} = (if bit x 0 then 1 else 0) + card {i. i < n \<and> bit (drop_bit 1 x) i}"
    unfolding split by (subst card_Un_disjoint) (auto simp: card_image)
  moreover have "x AND 1 \<noteq> 0 \<longleftrightarrow> bit x 0"
    by (simp add: and_one_eq bit_0 odd_iff_mod_2_eq_one)
  ultimately show ?case
    using Suc [of "drop_bit 1 x"] parity_loop_shift [of n "drop_bit 1 x" 1] by simp
qed simp

lemma parity_iff: "parity x n \<longleftrightarrow> even (card {i. i < n \<and> bit x i})"
proof -
  have "(push_bit n 1 - 1 :: int) = mask n"
    by (simp add: mask_eq_exp_minus_1 push_bit_eq_mult)
  then have "{i. i < n \<and> bit (x AND (push_bit n 1 - 1)) i} = {i. i < n \<and> bit x i}"
    by (auto simp: bit_and_iff bit_mask_iff)
  then show ?thesis
    by (simp add: parity_def Let_def parity_loop_card and_one_eq flip: even_iff_mod_2_eq_zero)
qed

definition even_ones :: "u8 \<Rightarrow> bool" where
  "even_ones b \<longleftrightarrow> even (card {i. bit b i})"

lemma parity_byte: "parity (uint b) 8 \<longleftrightarrow> even_ones b" for b :: u8
proof -
  have "{i. i < 8 \<and> bit (uint b) i} = {i. bit b i}"
    by (auto simp: bit_uint_iff dest: bit_imp_le_length)
  then show ?thesis by (simp add: parity_iff even_ones_def)
qed

subsection \<open>Bits and nibbles of bytes as integers\<close>

lemma bit_0x80: "bit (0x80 :: int) n \<longleftrightarrow> n = 7"
proof -
  have "(0x80 :: int) = 2 ^ 7" by simp
  then show ?thesis by (simp only: bit_exp_iff) auto
qed

lemma and_0x80_iff: "w AND 0x80 = 0x80 \<longleftrightarrow> bit w 7" if "7 < LENGTH('a)" for w :: "'a::len word"
proof
  assume "w AND 0x80 = 0x80"
  then have "bit (w AND 0x80) 7 \<longleftrightarrow> bit (0x80 :: 'a word) 7" by simp
  then show "bit w 7" using that by (simp add: bit_and_iff bit_0x80)
next
  assume "bit w 7"
  then show "w AND 0x80 = 0x80"
    by (intro bit_word_eqI) (auto simp: bit_and_iff bit_0x80)
qed

lemma and_0x80_neq_0: "drop_bit 7 (w AND 0x80) \<noteq> 0 \<longleftrightarrow> bit w 7" for w :: u8
proof -
  have "drop_bit 7 (w AND 0x80) = (if bit w 7 then 1 else 0)"
    by (rule bit_word_eqI) (auto simp: bit_drop_bit_eq bit_and_iff bit_1_iff intro!: gr0I)
  then show ?thesis by simp
qed

lemma sign_bit_u8: "bit b 7 \<longleftrightarrow> 128 \<le> uint b" for b :: u8
proof -
  have "bit b 7 \<longleftrightarrow> odd (uint b div 2 ^ 7)"
    using bit_iff_odd [of "uint b" 7] by (simp add: bit_uint_iff)
  moreover have "uint b div 2 ^ 7 = (if 128 \<le> uint b then 1 else 0)"
    using u8_bounds [of b] by auto
  ultimately show ?thesis by simp
qed

lemma sint_u8: "sint b = uint b - (if 128 \<le> uint b then 256 else 0)" for b :: u8
proof -
  have "sint b = take_bit 8 (uint b) - 256 * of_bool (bit b 7)"
    by (simp add: sint_uint signed_take_bit_eq_take_bit_minus bit_uint_iff)
  then show ?thesis
    using u8_bounds [of b] by (simp add: sign_bit_u8 take_bit_eq_mod)
qed

lemma low_nibble: "uint (b AND 0xf) = uint b mod 16" for b :: u8
proof -
  have "uint (b AND mask 4) = uint b mod 16"
    by (simp only: unsigned_take_bit_eq flip: take_bit_eq_mask) (simp add: take_bit_eq_mod)
  then show ?thesis by (simp add: mask_eq_exp_minus_1)
qed

lemma low_byte: "uint (w AND 0xff) = uint (ucast w :: u8)" for w :: u16
  by (simp add: byte_mask unsigned_ucast_eq flip: take_bit_eq_mask)
    (simp add: unsigned_take_bit_eq)

lemma low_byte_0: "w AND 0xff = 0 \<longleftrightarrow> (ucast w :: u8) = 0" for w :: u16
  by (metis low_byte uint_0_iff)

subsection \<open>Closed forms\<close>

text \<open>
  The flags after an arithmetic result \<open>r\<close> with carry \<open>cy\<close>, auxiliary carry \<open>ac\<close> and overflow \<open>v\<close>.
\<close>

definition arith_flags ::
  "Flags \<Rightarrow> u8 \<Rightarrow> bool \<Rightarrow> bool \<Rightarrow> bool \<Rightarrow> should_preserve_carry \<Rightarrow> Flags" where
  "arith_flags f r cy ac v p =
     f\<lparr>fl_z := r = 0, fl_s := 128 \<le> uint r, fl_p := even_ones r,
       fl_cy := (if p = UPDATE_CARRY then cy else fl_cy f), fl_ac := ac, fl_v := v\<rparr>"

lemma ArithFlagsA_eq:
  "ArithFlagsA s w p =
     s\<lparr>cc := arith_flags (cc s) (ucast w) (0xff < w) (fl_ac (cc s)) (fl_v (cc s)) p\<rparr>"
proof -
  have "bit w 7 \<longleftrightarrow> 128 \<le> uint (ucast w :: u8)"
    by (simp add: bit_ucast_iff flip: sign_bit_u8)
  then show ?thesis
    by (simp add: ArithFlagsA_def Let_def arith_flags_def low_byte low_byte_0 parity_byte and_0x80_iff)
qed

lemma LogicFlagsA_eq:
  "LogicFlagsA s ac =
     s\<lparr>cc := (cc s)\<lparr>fl_z := reg_a s = 0, fl_s := 128 \<le> uint (reg_a s), fl_p := even_ones (reg_a s),
        fl_cy := False, fl_ac := ac \<noteq> 0\<rparr>\<rparr>"
  by (simp add: LogicFlagsA_def parity_byte and_0x80_iff sign_bit_u8)

subsection \<open>Sums and differences on 16 bits\<close>

definition carry_of :: "Flags \<Rightarrow> int" where
  "carry_of f = (if fl_cy f then 1 else 0)"

lemma carry_of_bounds: "0 \<le> carry_of f" "carry_of f \<le> 1"
  by (simp_all add: carry_of_def)

lemma uint_ucast_u8 [simp]: "uint (ucast b :: u16) = uint b" for b :: u8
  by (simp add: unsigned_ucast_eq take_bit_eq_mod) (use u8_bounds [of b] in simp)

lemma uint_carry: "uint (if fl_cy f then 1 else 0 :: u8) = carry_of f"
  by (simp add: carry_of_def)

lemma wrapped_above_byte:
  "-65536 + 256 \<le> x \<Longrightarrow> x < 256 \<Longrightarrow> 255 < x + (if x < 0 then 65536 else 0) \<longleftrightarrow> x < 0" for x :: int
  by auto

lemma sum16:
  fixes l r k :: u8
  defines "w \<equiv> ucast l + ucast r + ucast k :: u16"
  shows "uint w = uint l + uint r + uint k"
    and "0xff < w \<longleftrightarrow> 255 < uint l + uint r + uint k"
    and "(ucast w :: u8) = l + r + k"
proof -
  show *: "uint w = uint l + uint r + uint k"
    unfolding w_def using u8_bounds [of l] u8_bounds [of r] u8_bounds [of k]
    by (simp add: uint_word_ariths)
  show "0xff < w \<longleftrightarrow> 255 < uint l + uint r + uint k"
    by (simp add: word_less_def *)
  show "(ucast w :: u8) = l + r + k"
    by (rule word_uint_eqI)
      (simp add: unsigned_ucast_eq take_bit_eq_mod * uint_word_ariths mod_simps)
qed

lemma diff16:
  fixes l r k :: u8
  assumes "uint k \<le> 1"
  defines "w \<equiv> ucast l - ucast r - ucast k :: u16"
  shows "0xff < w \<longleftrightarrow> uint l < uint r + uint k"
    and "(ucast w :: u8) = l - r - k"
proof -
  have *: "uint w = (uint l - uint r - uint k) mod 65536"
    by (simp add: w_def uint_word_ariths mod_simps)
  have b: "uint l < 256" "uint r < 256" "0 \<le> uint l" "0 \<le> uint r" "0 \<le> uint k"
    using u8_bounds by blast+
  have w: "uint w = uint l - uint r - uint k + (if uint l - uint r - uint k < 0 then 65536 else 0)"
    unfolding * by (rule mod_wrap_signed) (use b assms(1) in linarith)+
  have "0xff < w \<longleftrightarrow> 255 < uint w"
    by (simp add: word_less_def)
  also have "\<dots> \<longleftrightarrow> uint l - uint r - uint k < 0"
    unfolding w by (rule wrapped_above_byte) (use b assms(1) in linarith)+
  finally show "0xff < w \<longleftrightarrow> uint l < uint r + uint k"
    by linarith
  show "(ucast w :: u8) = l - r - k"
    by (rule word_uint_eqI)
      (simp add: unsigned_ucast_eq take_bit_eq_mod * uint_word_ariths mod_simps mod_mod_cancel)
qed

subsection \<open>The overflow bit\<close>

lemma overflow_add_bits:
  "drop_bit 7 ((l XOR r XOR 0x80) AND (l XOR w) AND 0x80) \<noteq> 0 \<longleftrightarrow>
     bit l 7 = bit r 7 \<and> bit w 7 \<noteq> bit l 7" for l r w :: u8
  unfolding and.assoc [symmetric] and_0x80_neq_0 by (auto simp: bit_and_iff bit_xor_iff bit_0x80)

lemma overflow_sub_bits:
  "drop_bit 7 ((l XOR r) AND (l XOR w) AND 0x80) \<noteq> 0 \<longleftrightarrow>
     bit l 7 \<noteq> bit r 7 \<and> bit w 7 \<noteq> bit l 7" for l r w :: u8
  unfolding and.assoc [symmetric] and_0x80_neq_0 by (auto simp: bit_and_iff bit_xor_iff)

definition signed_overflow :: "int \<Rightarrow> bool" where
  "signed_overflow x \<longleftrightarrow> x < -128 \<or> 127 < x"

lemma overflow_add_int:
  fixes L R K W :: int
  assumes "0 \<le> L" "L < 256" "0 \<le> R" "R < 256" "0 \<le> K" "K \<le> 1" "W = (L + R + K) mod 256"
  shows "((128 \<le> L) = (128 \<le> R) \<and> (128 \<le> W) \<noteq> (128 \<le> L)) \<longleftrightarrow>
    signed_overflow (L - (if 128 \<le> L then 256 else 0) + (R - (if 128 \<le> R then 256 else 0)) + K)"
proof -
  have "W = L + R + K - (if L + R + K < 256 then 0 else 256)"
    using assms by (simp add: mod_wrap_sum)
  then show ?thesis using assms unfolding signed_overflow_def by auto
qed

lemma overflow_sub_int:
  fixes L R K W :: int
  assumes "0 \<le> L" "L < 256" "0 \<le> R" "R < 256" "0 \<le> K" "K \<le> 1" "W = (L - R - K) mod 256"
  shows "((128 \<le> L) \<noteq> (128 \<le> R) \<and> (128 \<le> W) \<noteq> (128 \<le> L)) \<longleftrightarrow>
    signed_overflow (L - (if 128 \<le> L then 256 else 0) - (R - (if 128 \<le> R then 256 else 0)) - K)"
proof -
  have "W = L - R - K + (if L - R - K < 0 then 256 else 0)"
    using assms by (simp only: mod_wrap_signed)
  then show ?thesis using assms unfolding signed_overflow_def by auto
qed

lemma overflow_add:
  fixes l r k :: u8
  assumes "uint k \<le> 1"
  shows "(bit l 7 = bit r 7 \<and> bit (l + r + k) 7 \<noteq> bit l 7) \<longleftrightarrow>
    signed_overflow (sint l + sint r + uint k)"
proof -
  have "uint (l + r + k) = (uint l + uint r + uint k) mod 256"
    by (simp add: uint_word_ariths mod_simps)
  from overflow_add_int [OF u8_bounds u8_bounds u8_bounds(1) assms this]
  show ?thesis unfolding sign_bit_u8 sint_u8 .
qed

lemma overflow_sub:
  fixes l r k :: u8
  assumes "uint k \<le> 1"
  shows "(bit l 7 \<noteq> bit r 7 \<and> bit (l - r - k) 7 \<noteq> bit l 7) \<longleftrightarrow>
    signed_overflow (sint l - sint r - uint k)"
proof -
  have "uint (l - r - k) = (uint l - uint r - uint k) mod 256"
    by (simp add: uint_word_ariths mod_simps)
  from overflow_sub_int [OF u8_bounds u8_bounds u8_bounds(1) assms this]
  show ?thesis unfolding sign_bit_u8 sint_u8 .
qed

section \<open>Closed forms of the byte operations\<close>

lemma arith_flags_collapse [simp]:
  "arith_flags (f\<lparr>fl_ac := x, fl_v := y\<rparr>) r cy ac v p = arith_flags f r cy ac v p"
  by (cases f) (simp add: arith_flags_def)

lemma addByte_eq [alu_simps]:
  "addByte s l r p =
     (s\<lparr>cc := arith_flags (cc s) (l + r) (255 < uint l + uint r)
         (15 < uint l mod 16 + uint r mod 16) (signed_overflow (sint l + sint r)) p\<rparr>, l + r)"
proof -
  have k: "uint (0 :: u8) \<le> 1" by simp
  show ?thesis
    using sum16 [of l r 0] overflow_add [OF k, of l r]
    by (simp add: addByte_def Let_def ArithFlagsA_eq overflow_add_bits low_nibble
        del: drop_bit_and drop_bit_xor)
qed

lemma subtractByte_eq [alu_simps]:
  "subtractByte s l r p =
     (s\<lparr>cc := arith_flags (cc s) (l - r) (uint l < uint r)
         (uint l mod 16 < uint r mod 16) (signed_overflow (sint l - sint r)) p\<rparr>, l - r)"
proof -
  have k: "uint (0 :: u8) \<le> 1" by simp
  show ?thesis
    using diff16 [OF k, of l r] overflow_sub [OF k, of l r]
    by (simp add: subtractByte_def Let_def ArithFlagsA_eq overflow_sub_bits low_nibble
        del: drop_bit_and drop_bit_xor)
qed

lemma addByteWithCarry_eq [alu_simps]:
  "addByteWithCarry s l r p =
     (let c = carry_of (cc s); res = l + r + word_of_int c in
      (s\<lparr>cc := arith_flags (cc s) res (255 < uint l + uint r + c)
         (15 < uint l mod 16 + uint r mod 16 + c) (signed_overflow (sint l + sint r + c)) p\<rparr>, res))"
proof -
  define k :: u8 where "k = word_of_int (carry_of (cc s))"
  have k: "(if fl_cy (cc s) then 1 else 0) = k" "uint k = carry_of (cc s)"
    by (simp_all add: k_def carry_of_def)
  then have "uint k \<le> 1" by (simp add: carry_of_bounds)
  from sum16 [of l r k] overflow_add [OF this, of l r] show ?thesis
    unfolding addByteWithCarry_def k(1) Let_def ArithFlagsA_eq
    by (simp add: overflow_add_bits low_nibble k(2) flip: k_def del: drop_bit_and drop_bit_xor)
qed

lemma subtractByteWithBorrow_eq [alu_simps]:
  "subtractByteWithBorrow s l r p =
     (let c = carry_of (cc s); res = l - r - word_of_int c in
      (s\<lparr>cc := arith_flags (cc s) res (uint l < uint r + c)
         (uint l mod 16 < uint r mod 16 + c) (signed_overflow (sint l - sint r - c)) p\<rparr>, res))"
proof -
  define k :: u8 where "k = word_of_int (carry_of (cc s))"
  have k: "(if fl_cy (cc s) then 1 else 0) = k" "uint k = carry_of (cc s)"
    by (simp_all add: k_def carry_of_def)
  then have k1: "uint k \<le> 1" by (simp add: carry_of_bounds)
  from diff16 [OF k1, of l r] overflow_sub [OF k1, of l r] show ?thesis
    unfolding subtractByteWithBorrow_def k(1) Let_def ArithFlagsA_eq
    by (simp add: overflow_sub_bits low_nibble k(2) flip: k_def del: drop_bit_and drop_bit_xor)
qed

end
