(* ===== verification/Control.thy ===== *)
theory Control
  imports Alu
begin

unbundle bit_operations_syntax

text \<open>
  Subroutine linkage and interrupt acceptance of \<^verbatim>\<open>src/i8085_exec.c\<close>: \<^verbatim>\<open>call\<close>, \<^verbatim>\<open>returnToCaller\<close>,
  \<^verbatim>\<open>rst\<close>, \<^verbatim>\<open>checkInterrupts\<close>, and the operand fetches and conditional transfers the opcode switch
  repeats.  Every store goes through \<open>mem_wr\<close>, whose hook returns the state the next statement sees.
\<close>

abbreviation HL :: "State8085 \<Rightarrow> u16" where "HL s \<equiv> pair16 (reg_h s) (reg_l s)"
abbreviation DE :: "State8085 \<Rightarrow> u16" where "DE s \<equiv> pair16 (reg_d s) (reg_e s)"
abbreviation BC :: "State8085 \<Rightarrow> u16" where "BC s \<equiv> pair16 (reg_b s) (reg_c s)"

section \<open>Linkage\<close>

definition call :: "'e bus \<Rightarrow> State8085 \<Rightarrow> 'e \<Rightarrow> u16 \<Rightarrow> State8085 \<times> 'e" where
  "call bs s e addr =
     (let ret = pc s + 2;
          (s1, e1) = mem_wr bs s e (uint (sp s) - 1) (hi8 ret);
          (s2, e2) = mem_wr bs s1 e1 (uint (sp s1) - 2) (lo8 ret)
      in (s2\<lparr>sp := sp s2 - 2, pc := addr\<rparr>, e2))"

definition returnToCaller :: "State8085 \<Rightarrow> State8085 option" where
  "returnToCaller s =
     do { lo \<leftarrow> rd s (uint (sp s));
          hi \<leftarrow> rd s (uint (sp s) + 1);
          Some (s\<lparr>pc := pair16 hi lo, sp := sp s + 2\<rparr>) }"

definition rst :: "'e bus \<Rightarrow> State8085 \<Rightarrow> 'e \<Rightarrow> u8 \<Rightarrow> u8 \<Rightarrow> State8085 \<times> 'e" where
  "rst bs s e rst_number half =
     (let ret = pc s;
          (s1, e1) = mem_wr bs s e (uint (sp s) - 1) (hi8 ret);
          (s2, e2) = mem_wr bs s1 e1 (uint (sp s1) - 2) (lo8 ret)
      in (s2\<lparr>sp := sp s2 - 2, pc := ucast rst_number * 8 + ucast half * 4\<rparr>, e2))"

section \<open>Interrupt acceptance\<close>

definition checkInterrupts :: "'e bus \<Rightarrow> State8085 \<Rightarrow> 'e \<Rightarrow> bool \<times> State8085 \<times> 'e" where
  "checkInterrupts bs s e =
     (if pending_trap s \<noteq> 0 then (True, rst bs (s\<lparr>pending_trap := 0, int_enable := 0\<rparr>) e 4 1)
      else if int_enable s = 0 then (False, s, e)
      else if r7_latch s \<noteq> 0 \<and> r7_mask s = 0
        then (True, rst bs (s\<lparr>r7_latch := 0, int_enable := 0\<rparr>) e 7 1)
      else if pending_r6 s \<noteq> 0 \<and> r6_mask s = 0
        then (True, rst bs (s\<lparr>pending_r6 := 0, int_enable := 0\<rparr>) e 6 1)
      else if pending_r5 s \<noteq> 0 \<and> r5_mask s = 0
        then (True, rst bs (s\<lparr>pending_r5 := 0, int_enable := 0\<rparr>) e 5 1)
      else if pending_int s \<noteq> 0
        then (True, rst bs (s\<lparr>pending_int := 0, int_enable := 0\<rparr>) e (int_rst_number s) 0)
      else (False, s, e))"

section \<open>Operands and conditional transfers\<close>

text \<open>
  \<open>opc\<close> is the index of the opcode byte: the C code keeps the pointer \<^verbatim>\<open>&state->memory[pc]\<close> taken
  before \<^verbatim>\<open>pc\<close> is incremented, so \<^verbatim>\<open>opcode[1]\<close> lies outside the buffer when the opcode is its last
  byte.  An instruction yields the new state, the runtime's state and the T-states it counts.
\<close>

definition imm8 :: "State8085 \<Rightarrow> int \<Rightarrow> u8 option" where
  "imm8 s opc = rd s (opc + 1)"

definition imm16 :: "State8085 \<Rightarrow> int \<Rightarrow> u16 option" where
  "imm16 s opc = do { hi \<leftarrow> rd s (opc + 2); lo \<leftarrow> rd s (opc + 1); Some (pair16 hi lo) }"

definition jump_on :: "bool \<Rightarrow> State8085 \<Rightarrow> 'e \<Rightarrow> int \<Rightarrow> (State8085 \<times> 'e \<times> nat) option" where
  "jump_on cond s e opc =
     (if cond then do { adr \<leftarrow> imm16 s opc; Some (s\<lparr>pc := adr\<rparr>, e, 10) }
      else Some (s\<lparr>pc := pc s + 2\<rparr>, e, 7))"

definition call_on ::
  "bool \<Rightarrow> 'e bus \<Rightarrow> State8085 \<Rightarrow> 'e \<Rightarrow> int \<Rightarrow> (State8085 \<times> 'e \<times> nat) option" where
  "call_on cond bs s e opc =
     (if cond then do { adr \<leftarrow> imm16 s opc; let (s', e') = call bs s e adr; Some (s', e', 18) }
      else Some (s\<lparr>pc := pc s + 2\<rparr>, e, 9))"

definition return_on :: "bool \<Rightarrow> State8085 \<Rightarrow> 'e \<Rightarrow> (State8085 \<times> 'e \<times> nat) option" where
  "return_on cond s e =
     (if cond then do { s' \<leftarrow> returnToCaller s; Some (s', e, 12) } else Some (s, e, 6))"

definition reset_to ::
  "'e bus \<Rightarrow> State8085 \<Rightarrow> 'e \<Rightarrow> u8 \<Rightarrow> (State8085 \<times> 'e \<times> nat) option" where
  "reset_to bs s e n = (let (s', e') = rst bs s e n 0 in Some (s', e', 12))"

definition store ::
  "'e bus \<Rightarrow> State8085 \<Rightarrow> 'e \<Rightarrow> int \<Rightarrow> u8 \<Rightarrow> nat \<Rightarrow> (State8085 \<times> 'e \<times> nat) option" where
  "store bs s e adr v t = (let (s', e') = mem_wr bs s e adr v in Some (s', e', t))"

end
