(* ===== verification/Instr.thy ===== *)
theory Instr
  imports Control
begin

unbundle bit_operations_syntax

text \<open>
  The instructions of \<^verbatim>\<open>Emulate8085Op\<close> whose bodies are more than a register transfer, each from its
  \<^verbatim>\<open>case\<close> of the switch: register pairs, the undocumented 16-bit operations, DAA, the interrupt mask
  instructions, the two immediates that compute their flags inline, and the PSW byte.
\<close>

section \<open>Register pairs\<close>

definition inx_pair ::
  "State8085 \<Rightarrow> u8 \<Rightarrow> u8 \<Rightarrow> (u8 \<Rightarrow> u8 \<Rightarrow> State8085 \<Rightarrow> State8085) \<Rightarrow> State8085" where
  "inx_pair s hi lo put =
     (let lo' = lo + 1; hi' = (if lo' = 0 then hi + 1 else hi); s1 = put hi' lo' s
      in s1\<lparr>cc := (cc s1)\<lparr>fl_x5 := (hi' = 0 \<and> lo' = 0)\<rparr>\<rparr>)"

definition dcx_pair ::
  "State8085 \<Rightarrow> u8 \<Rightarrow> u8 \<Rightarrow> (u8 \<Rightarrow> u8 \<Rightarrow> State8085 \<Rightarrow> State8085) \<Rightarrow> State8085" where
  "dcx_pair s hi lo put =
     (let lo' = lo - 1; hi' = (if lo' = 0xFF then hi - 1 else hi); s1 = put hi' lo' s
      in s1\<lparr>cc := (cc s1)\<lparr>fl_x5 := (hi' = 0xFF \<and> lo' = 0xFF)\<rparr>\<rparr>)"

definition dad :: "State8085 \<Rightarrow> u16 \<Rightarrow> State8085" where
  "dad s rp =
     (let res = (ucast (HL s) + ucast rp :: u32)
      in s\<lparr>reg_h := ucast (drop_bit 8 (res AND 0xff00)), reg_l := ucast (res AND 0xff),
           cc := (cc s)\<lparr>fl_cy := (res AND 0xffff0000 > 0)\<rparr>\<rparr>)"

definition dsub :: "State8085 \<Rightarrow> State8085" where
  "dsub s =
     (let hl = HL s; bc = BC s; result = (ucast hl - ucast bc :: u32);
          sign_hl = (drop_bit 15 hl AND 1 \<noteq> 0);
          sign_bc = (drop_bit 15 bc AND 1 \<noteq> 0);
          sign_res = (drop_bit 15 result AND 1 \<noteq> 0)
      in s\<lparr>cc := (cc s)\<lparr>fl_v := (sign_hl \<noteq> sign_bc) \<and> (sign_res \<noteq> sign_hl),
             fl_cy := drop_bit 16 result AND 1 \<noteq> 0, fl_z := (result AND 0xffff = 0),
             fl_s := sign_res, fl_p := parity (uint (result AND 0xff)) 8,
             fl_ac := uint (hl AND 0x0f) < uint (bc AND 0x0f)\<rparr>,
           reg_h := ucast (drop_bit 8 result AND 0xff), reg_l := ucast (result AND 0xff)\<rparr>)"

definition arhl :: "State8085 \<Rightarrow> State8085" where
  "arhl s =
     (let hl = HL s; hl' = signed_drop_bit 1 hl
      in s\<lparr>cc := (cc s)\<lparr>fl_cy := hl AND 1 \<noteq> 0\<rparr>, reg_h := hi8 hl', reg_l := lo8 hl'\<rparr>)"

definition rdel :: "State8085 \<Rightarrow> State8085" where
  "rdel s =
     (let de = DE s; old_cy = fl_cy (cc s); cy = (drop_bit 15 de AND 1 \<noteq> 0);
          de' = push_bit 1 de OR of_bool old_cy
      in s\<lparr>cc := (cc s)\<lparr>fl_cy := cy, fl_v := (cy \<noteq> (drop_bit 15 de' AND 1 \<noteq> 0))\<rparr>,
           reg_d := hi8 de', reg_e := lo8 de'\<rparr>)"

section \<open>Decimal adjust\<close>

definition daa :: "State8085 \<Rightarrow> State8085" where
  "daa s =
     (let acc = reg_a s;
          c1 = (if (acc AND 0x0f) > 9 \<or> fl_ac (cc s) then 0x06 else 0 :: u8);
          correction = (if acc > 0x99 \<or> fl_cy (cc s) then c1 OR 0x60 else c1);
          cy = (if acc > 0x99 \<or> fl_cy (cc s) then True else fl_cy (cc s));
          res = (ucast acc + ucast correction :: u16);
          r = (ucast res :: u8)
      in s\<lparr>reg_a := r,
           cc := (cc s)\<lparr>fl_cy := cy, fl_ac := uint (acc AND 0x0f) + uint (correction AND 0x0f) > 0x0f,
             fl_z := (r = 0), fl_s := (r AND 0x80 = 0x80), fl_p := parity (uint r) 8\<rparr>\<rparr>)"

section \<open>Interrupt mask and serial lines\<close>

definition rim_byte :: "State8085 \<Rightarrow> u8" where
  "rim_byte s =
     push_bit 7 (of_bool (sid_line s \<noteq> 0)) OR push_bit 6 (of_bool (r7_latch s \<noteq> 0)) OR
     push_bit 5 (of_bool (pending_r6 s \<noteq> 0)) OR push_bit 4 (of_bool (pending_r5 s \<noteq> 0)) OR
     push_bit 3 (of_bool (int_enable s \<noteq> 0)) OR push_bit 2 (of_bool (r7_mask s \<noteq> 0)) OR
     push_bit 1 (of_bool (r6_mask s \<noteq> 0)) OR of_bool (r5_mask s \<noteq> 0)"

definition sim_op :: "State8085 \<Rightarrow> State8085" where
  "sim_op s =
     (let acc = reg_a s;
          s1 = (if acc AND 0x40 \<noteq> 0 then s\<lparr>sod_line := (if acc AND 0x80 \<noteq> 0 then 1 else 0)\<rparr> else s);
          s2 = (if acc AND 0x10 \<noteq> 0 then s1\<lparr>r7_latch := 0\<rparr> else s1)
      in if acc AND 0x08 \<noteq> 0
         then s2\<lparr>r7_mask := drop_bit 2 acc AND 1, r6_mask := drop_bit 1 acc AND 1,
                r5_mask := drop_bit 0 acc AND 1\<rparr>
         else s2)"

section \<open>Immediates with inline flags\<close>

text \<open>\<^verbatim>\<open>ADI\<close> and \<^verbatim>\<open>CPI\<close> do not go through \<open>addByte\<close> and \<open>subtractByte\<close> and leave V as it was.\<close>

definition adi :: "State8085 \<Rightarrow> u8 \<Rightarrow> State8085" where
  "adi s v =
     (let x = (ucast (reg_a s) + ucast v :: u16)
      in s\<lparr>cc := (cc s)\<lparr>fl_z := (x AND 0xff = 0), fl_s := (x AND 0x80 = 0x80),
             fl_p := parity (uint (x AND 0xff)) 8, fl_cy := (x > 0xff),
             fl_ac := uint (reg_a s AND 0x0f) + uint (v AND 0x0f) > 0x0f\<rparr>,
           reg_a := ucast x, pc := pc s + 1\<rparr>)"

definition cpi :: "State8085 \<Rightarrow> u8 \<Rightarrow> State8085" where
  "cpi s v =
     (let x = reg_a s - v
      in s\<lparr>cc := (cc s)\<lparr>fl_z := (x = 0), fl_s := (x AND 0x80 = 0x80), fl_p := parity (uint x) 8,
             fl_cy := (reg_a s < v), fl_ac := uint (reg_a s AND 0x0f) < uint (v AND 0x0f)\<rparr>,
           pc := pc s + 1\<rparr>)"

section \<open>The PSW byte\<close>

definition psw_byte :: "Flags \<Rightarrow> u8" where
  "psw_byte f =
     push_bit 7 (of_bool (fl_s f)) OR push_bit 6 (of_bool (fl_z f)) OR
     push_bit 5 (of_bool (fl_x5 f)) OR push_bit 4 (of_bool (fl_ac f)) OR push_bit 3 0 OR
     push_bit 2 (of_bool (fl_p f)) OR push_bit 1 (of_bool (fl_v f)) OR of_bool (fl_cy f)"

definition unpack_psw :: "State8085 \<Rightarrow> u8 \<Rightarrow> State8085" where
  "unpack_psw s psw =
     s\<lparr>cc := (cc s)\<lparr>fl_cy := psw AND 0x01 \<noteq> 0, fl_v := drop_bit 1 (psw AND 0x02) \<noteq> 0,
        fl_p := drop_bit 2 (psw AND 0x04) \<noteq> 0, fl_ac := drop_bit 4 (psw AND 0x10) \<noteq> 0,
        fl_x5 := drop_bit 5 (psw AND 0x20) \<noteq> 0, fl_z := drop_bit 6 (psw AND 0x40) \<noteq> 0,
        fl_s := drop_bit 7 (psw AND 0x80) \<noteq> 0\<rparr>\<rparr>"

end
