(* ===== verification/Exec_Low.thy ===== *)
theory Exec_Low
  imports Instr
begin

unbundle bit_operations_syntax

text \<open>
  Opcodes 0x00 to 0x3f: loads, 16-bit arithmetic, increments, rotates, and the undocumented
  DSUB, ARHL, RDEL, LDHI and LDSI.
  One definition per row of sixteen opcodes, in the order of the switch of \<^verbatim>\<open>Emulate8085Op\<close>.
\<close>

definition exec_0 ::
  "'e bus \<Rightarrow> State8085 \<Rightarrow> 'e \<Rightarrow> int \<Rightarrow> u8 \<Rightarrow> (State8085 \<times> 'e \<times> nat) option" where
  "exec_0 bs s e opc op =
     (if op = 0x00 then \<comment> \<open>NOP\<close>
        Some (s, e, 4)
      else if op = 0x01 then \<comment> \<open>LXI B,word\<close>
        do { lo \<leftarrow> rd s (opc + 1); hi \<leftarrow> rd s (opc + 2); Some (s\<lparr>reg_c := lo, reg_b := hi, pc := pc s + 2\<rparr>, e, 4) }
      else if op = 0x02 then \<comment> \<open>STAX B\<close>
        store bs s e (uint (BC s)) (reg_a s) 7
      else if op = 0x03 then \<comment> \<open>INX B\<close>
        Some (inx_pair s (reg_b s) (reg_c s) (\<lambda>hi lo s. s\<lparr>reg_b := hi, reg_c := lo\<rparr>), e, 6)
      else if op = 0x04 then \<comment> \<open>INR B\<close>
        let (s1, v) = addByte s (reg_b s) 1 PRESERVE_CARRY in Some (s1\<lparr>reg_b := v\<rparr>, e, 4)
      else if op = 0x05 then \<comment> \<open>DCR B\<close>
        let (s1, v) = subtractByte s (reg_b s) 1 PRESERVE_CARRY in Some (s1\<lparr>reg_b := v\<rparr>, e, 4)
      else if op = 0x06 then \<comment> \<open>MVI B,byte\<close>
        do { v \<leftarrow> imm8 s opc; Some (s\<lparr>reg_b := v, pc := pc s + 1\<rparr>, e, 10) }
      else if op = 0x07 then \<comment> \<open>RLC\<close>
        Some (s\<lparr>reg_a := drop_bit 7 (reg_a s AND 0x80) OR push_bit 1 (reg_a s), cc := (cc s)\<lparr>fl_cy := (drop_bit 7 (reg_a s AND 0x80) = 1)\<rparr>\<rparr>, e, 4)
      else if op = 0x08 then \<comment> \<open>DSUB\<close>
        Some (dsub s, e, 10)
      else if op = 0x09 then \<comment> \<open>DAD B\<close>
        Some (dad s (BC s), e, 10)
      else if op = 0x0a then \<comment> \<open>LDAX B\<close>
        do { v \<leftarrow> rd s (uint (BC s)); Some (s\<lparr>reg_a := v\<rparr>, e, 7) }
      else if op = 0x0b then \<comment> \<open>DCX B\<close>
        Some (dcx_pair s (reg_b s) (reg_c s) (\<lambda>hi lo s. s\<lparr>reg_b := hi, reg_c := lo\<rparr>), e, 6)
      else if op = 0x0c then \<comment> \<open>INR C\<close>
        let (s1, v) = addByte s (reg_c s) 1 PRESERVE_CARRY in Some (s1\<lparr>reg_c := v\<rparr>, e, 4)
      else if op = 0x0d then \<comment> \<open>DCR C\<close>
        let (s1, v) = subtractByte s (reg_c s) 1 PRESERVE_CARRY in Some (s1\<lparr>reg_c := v\<rparr>, e, 4)
      else if op = 0x0e then \<comment> \<open>MVI C,byte\<close>
        do { v \<leftarrow> imm8 s opc; Some (s\<lparr>reg_c := v, pc := pc s + 1\<rparr>, e, 10) }
      else \<comment> \<open>RRC\<close>
        Some (s\<lparr>reg_a := push_bit 7 (reg_a s AND 1) OR drop_bit 1 (reg_a s), cc := (cc s)\<lparr>fl_cy := (reg_a s AND 1 = 1)\<rparr>\<rparr>, e, 4))"

definition exec_1 ::
  "'e bus \<Rightarrow> State8085 \<Rightarrow> 'e \<Rightarrow> int \<Rightarrow> u8 \<Rightarrow> (State8085 \<times> 'e \<times> nat) option" where
  "exec_1 bs s e opc op =
     (if op = 0x10 then \<comment> \<open>ARHL\<close>
        Some (arhl s, e, 7)
      else if op = 0x11 then \<comment> \<open>LXI D,word\<close>
        do { lo \<leftarrow> rd s (opc + 1); hi \<leftarrow> rd s (opc + 2); Some (s\<lparr>reg_e := lo, reg_d := hi, pc := pc s + 2\<rparr>, e, 4) }
      else if op = 0x12 then \<comment> \<open>STAX D\<close>
        store bs s e (push_bit 8 (uint (reg_d s)) + uint (reg_e s)) (reg_a s) 7
      else if op = 0x13 then \<comment> \<open>INX D\<close>
        Some (inx_pair s (reg_d s) (reg_e s) (\<lambda>hi lo s. s\<lparr>reg_d := hi, reg_e := lo\<rparr>), e, 6)
      else if op = 0x14 then \<comment> \<open>INR D\<close>
        let (s1, v) = addByte s (reg_d s) 1 PRESERVE_CARRY in Some (s1\<lparr>reg_d := v\<rparr>, e, 4)
      else if op = 0x15 then \<comment> \<open>DCR D\<close>
        let (s1, v) = subtractByte s (reg_d s) 1 PRESERVE_CARRY in Some (s1\<lparr>reg_d := v\<rparr>, e, 4)
      else if op = 0x16 then \<comment> \<open>MVI D,byte\<close>
        do { v \<leftarrow> imm8 s opc; Some (s\<lparr>reg_d := v, pc := pc s + 1\<rparr>, e, 10) }
      else if op = 0x17 then \<comment> \<open>RAL\<close>
        Some (s\<lparr>reg_a := of_bool (fl_cy (cc s)) OR push_bit 1 (reg_a s), cc := (cc s)\<lparr>fl_cy := (drop_bit 7 (reg_a s AND 0x80) = 1)\<rparr>\<rparr>, e, 4)
      else if op = 0x18 then \<comment> \<open>RDEL\<close>
        Some (rdel s, e, 10)
      else if op = 0x19 then \<comment> \<open>DAD D\<close>
        Some (dad s (DE s), e, 10)
      else if op = 0x1a then \<comment> \<open>LDAX D\<close>
        do { v \<leftarrow> rd s (uint (DE s)); Some (s\<lparr>reg_a := v\<rparr>, e, 7) }
      else if op = 0x1b then \<comment> \<open>DCX D\<close>
        Some (dcx_pair s (reg_d s) (reg_e s) (\<lambda>hi lo s. s\<lparr>reg_d := hi, reg_e := lo\<rparr>), e, 6)
      else if op = 0x1c then \<comment> \<open>INR E\<close>
        let (s1, v) = addByte s (reg_e s) 1 PRESERVE_CARRY in Some (s1\<lparr>reg_e := v\<rparr>, e, 4)
      else if op = 0x1d then \<comment> \<open>DCR E\<close>
        let (s1, v) = subtractByte s (reg_e s) 1 PRESERVE_CARRY in Some (s1\<lparr>reg_e := v\<rparr>, e, 4)
      else if op = 0x1e then \<comment> \<open>MVI E,byte\<close>
        do { v \<leftarrow> imm8 s opc; Some (s\<lparr>reg_e := v, pc := pc s + 1\<rparr>, e, 10) }
      else \<comment> \<open>RAR\<close>
        Some (s\<lparr>reg_a := drop_bit 1 (reg_a s) OR push_bit 7 (of_bool (fl_cy (cc s))), cc := (cc s)\<lparr>fl_cy := (reg_a s AND 1 = 1)\<rparr>\<rparr>, e, 4))"

definition exec_2 ::
  "'e bus \<Rightarrow> State8085 \<Rightarrow> 'e \<Rightarrow> int \<Rightarrow> u8 \<Rightarrow> (State8085 \<times> 'e \<times> nat) option" where
  "exec_2 bs s e opc op =
     (if op = 0x20 then \<comment> \<open>RIM\<close>
        Some (s\<lparr>reg_a := rim_byte s\<rparr>, e, 4)
      else if op = 0x21 then \<comment> \<open>LXI H,word\<close>
        do { lo \<leftarrow> rd s (opc + 1); hi \<leftarrow> rd s (opc + 2); Some (s\<lparr>reg_l := lo, reg_h := hi, pc := pc s + 2\<rparr>, e, 4) }
      else if op = 0x22 then \<comment> \<open>SHLD word\<close>
        do { adr \<leftarrow> imm16 s opc;
             let (s1, e1) = mem_wr bs s e (uint adr) (reg_l s);
             let (s2, e2) = mem_wr bs s1 e1 (uint adr + 1) (reg_h s1);
             Some (s2\<lparr>pc := pc s2 + 2\<rparr>, e2, 16) }
      else if op = 0x23 then \<comment> \<open>INX H\<close>
        Some (inx_pair s (reg_h s) (reg_l s) (\<lambda>hi lo s. s\<lparr>reg_h := hi, reg_l := lo\<rparr>), e, 6)
      else if op = 0x24 then \<comment> \<open>INR H\<close>
        let (s1, v) = addByte s (reg_h s) 1 PRESERVE_CARRY in Some (s1\<lparr>reg_h := v\<rparr>, e, 4)
      else if op = 0x25 then \<comment> \<open>DCR H\<close>
        let (s1, v) = subtractByte s (reg_h s) 1 PRESERVE_CARRY in Some (s1\<lparr>reg_h := v\<rparr>, e, 4)
      else if op = 0x26 then \<comment> \<open>MVI H,byte\<close>
        do { v \<leftarrow> imm8 s opc; Some (s\<lparr>reg_h := v, pc := pc s + 1\<rparr>, e, 10) }
      else if op = 0x27 then \<comment> \<open>DAA\<close>
        Some (daa s, e, 4)
      else if op = 0x28 then \<comment> \<open>LDHI\<close>
        do { v \<leftarrow> imm8 s opc; let res = HL s + ucast v; Some (s\<lparr>reg_d := hi8 res, reg_e := lo8 res, pc := pc s + 1\<rparr>, e, 10) }
      else if op = 0x29 then \<comment> \<open>DAD H\<close>
        Some (dad s (HL s), e, 10)
      else if op = 0x2a then \<comment> \<open>LHLD Addr\<close>
        do { adr \<leftarrow> imm16 s opc; lo \<leftarrow> rd s (uint adr); hi \<leftarrow> rd s (uint adr + 1);
             let v = pair16 hi lo;
             Some (s\<lparr>reg_h := hi8 v, reg_l := lo8 v, pc := pc s + 2\<rparr>, e, 16) }
      else if op = 0x2b then \<comment> \<open>DCX H\<close>
        Some (dcx_pair s (reg_h s) (reg_l s) (\<lambda>hi lo s. s\<lparr>reg_h := hi, reg_l := lo\<rparr>), e, 6)
      else if op = 0x2c then \<comment> \<open>INR L\<close>
        let (s1, v) = addByte s (reg_l s) 1 PRESERVE_CARRY in Some (s1\<lparr>reg_l := v\<rparr>, e, 4)
      else if op = 0x2d then \<comment> \<open>DCR L\<close>
        let (s1, v) = subtractByte s (reg_l s) 1 PRESERVE_CARRY in Some (s1\<lparr>reg_l := v\<rparr>, e, 4)
      else if op = 0x2e then \<comment> \<open>MVI L,byte\<close>
        do { v \<leftarrow> imm8 s opc; Some (s\<lparr>reg_l := v, pc := pc s + 1\<rparr>, e, 10) }
      else \<comment> \<open>CMA\<close>
        Some (s\<lparr>reg_a := reg_a s XOR 0xFF\<rparr>, e, 4))"

definition exec_3 ::
  "'e bus \<Rightarrow> State8085 \<Rightarrow> 'e \<Rightarrow> int \<Rightarrow> u8 \<Rightarrow> (State8085 \<times> 'e \<times> nat) option" where
  "exec_3 bs s e opc op =
     (if op = 0x30 then \<comment> \<open>SIM\<close>
        Some (sim_op s, e, 4)
      else if op = 0x31 then \<comment> \<open>LXI SP,word\<close>
        do { v \<leftarrow> imm16 s opc; Some (s\<lparr>sp := v, pc := pc s + 2\<rparr>, e, 10) }
      else if op = 0x32 then \<comment> \<open>STA word\<close>
        do { adr \<leftarrow> imm16 s opc;
             let (s1, e1) = mem_wr bs s e (uint adr) (reg_a s);
             Some (s1\<lparr>pc := pc s1 + 2\<rparr>, e1, 13) }
      else if op = 0x33 then \<comment> \<open>INX SP\<close>
        Some (s\<lparr>sp := sp s + 1, cc := (cc s)\<lparr>fl_x5 := (sp s + 1 = 0)\<rparr>\<rparr>, e, 6)
      else if op = 0x34 then \<comment> \<open>INR M\<close>
        do { v \<leftarrow> rd s (uint (HL s)); let (s1, r) = addByte s v 1 PRESERVE_CARRY;
             store bs s1 e (uint (HL s)) r 10 }
      else if op = 0x35 then \<comment> \<open>DCR M\<close>
        do { v \<leftarrow> rd s (uint (HL s)); let (s1, r) = subtractByte s v 1 PRESERVE_CARRY;
             store bs s1 e (uint (HL s)) r 10 }
      else if op = 0x36 then \<comment> \<open>MVI M,byte\<close>
        do { v \<leftarrow> imm8 s opc; let (s1, e1) = mem_wr bs s e (uint (HL s)) v;
             Some (s1\<lparr>pc := pc s1 + 1\<rparr>, e1, 10) }
      else if op = 0x37 then \<comment> \<open>STC\<close>
        Some (s\<lparr>cc := (cc s)\<lparr>fl_cy := True\<rparr>\<rparr>, e, 4)
      else if op = 0x38 then \<comment> \<open>LDSI\<close>
        do { v \<leftarrow> imm8 s opc; let res = sp s + ucast v; Some (s\<lparr>reg_d := hi8 res, reg_e := lo8 res, pc := pc s + 1\<rparr>, e, 10) }
      else if op = 0x39 then \<comment> \<open>DAD SP\<close>
        Some (dad s (sp s), e, 10)
      else if op = 0x3a then \<comment> \<open>LDA word\<close>
        do { adr \<leftarrow> imm16 s opc; v \<leftarrow> rd s (uint adr); Some (s\<lparr>reg_a := v, pc := pc s + 2\<rparr>, e, 13) }
      else if op = 0x3b then \<comment> \<open>DCX SP\<close>
        Some (s\<lparr>sp := sp s - 1, cc := (cc s)\<lparr>fl_x5 := (sp s - 1 = 0xFFFF)\<rparr>\<rparr>, e, 6)
      else if op = 0x3c then \<comment> \<open>INR A\<close>
        let (s1, v) = addByte s (reg_a s) 1 PRESERVE_CARRY in Some (s1\<lparr>reg_a := v\<rparr>, e, 4)
      else if op = 0x3d then \<comment> \<open>DCR A\<close>
        let (s1, v) = subtractByte s (reg_a s) 1 PRESERVE_CARRY in Some (s1\<lparr>reg_a := v\<rparr>, e, 4)
      else if op = 0x3e then \<comment> \<open>MVI A,byte\<close>
        do { v \<leftarrow> imm8 s opc; Some (s\<lparr>reg_a := v, pc := pc s + 1\<rparr>, e, 10) }
      else \<comment> \<open>CMC\<close>
        Some (s\<lparr>cc := (cc s)\<lparr>fl_cy := (\<not> fl_cy (cc s))\<rparr>\<rparr>, e, 4))"

end
