(* ===== verification/Exec_Mid.thy ===== *)
theory Exec_Mid
  imports Instr
begin

unbundle bit_operations_syntax

text \<open>
  Opcodes 0x40 to 0xbf: the register moves, HLT, and the accumulator operations.
  One definition per row of sixteen opcodes, in the order of the switch of \<^verbatim>\<open>Emulate8085Op\<close>.
\<close>

definition exec_4 ::
  "'e bus \<Rightarrow> State8085 \<Rightarrow> 'e \<Rightarrow> int \<Rightarrow> u8 \<Rightarrow> (State8085 \<times> 'e \<times> nat) option" where
  "exec_4 bs s e opc op =
     (if op = 0x40 then \<comment> \<open>MOV B,B\<close>
        Some (s\<lparr>reg_b := reg_b s\<rparr>, e, 4)
      else if op = 0x41 then \<comment> \<open>MOV B,C\<close>
        Some (s\<lparr>reg_b := reg_c s\<rparr>, e, 4)
      else if op = 0x42 then \<comment> \<open>MOV B,D\<close>
        Some (s\<lparr>reg_b := reg_d s\<rparr>, e, 4)
      else if op = 0x43 then \<comment> \<open>MOV B,E\<close>
        Some (s\<lparr>reg_b := reg_e s\<rparr>, e, 4)
      else if op = 0x44 then \<comment> \<open>MOV B,H\<close>
        Some (s\<lparr>reg_b := reg_h s\<rparr>, e, 4)
      else if op = 0x45 then \<comment> \<open>MOV B,L\<close>
        Some (s\<lparr>reg_b := reg_l s\<rparr>, e, 4)
      else if op = 0x46 then \<comment> \<open>MOV B,M\<close>
        do { v \<leftarrow> rd s (uint (HL s)); Some (s\<lparr>reg_b := v\<rparr>, e, 7) }
      else if op = 0x47 then \<comment> \<open>MOV B,A\<close>
        Some (s\<lparr>reg_b := reg_a s\<rparr>, e, 4)
      else if op = 0x48 then \<comment> \<open>MOV C,B\<close>
        Some (s\<lparr>reg_c := reg_b s\<rparr>, e, 4)
      else if op = 0x49 then \<comment> \<open>MOV C,C\<close>
        Some (s\<lparr>reg_c := reg_c s\<rparr>, e, 4)
      else if op = 0x4a then \<comment> \<open>MOV C,D\<close>
        Some (s\<lparr>reg_c := reg_d s\<rparr>, e, 4)
      else if op = 0x4b then \<comment> \<open>MOV C,E\<close>
        Some (s\<lparr>reg_c := reg_e s\<rparr>, e, 4)
      else if op = 0x4c then \<comment> \<open>MOV C,H\<close>
        Some (s\<lparr>reg_c := reg_h s\<rparr>, e, 4)
      else if op = 0x4d then \<comment> \<open>MOV C,L\<close>
        Some (s\<lparr>reg_c := reg_l s\<rparr>, e, 4)
      else if op = 0x4e then \<comment> \<open>MOV C,M\<close>
        do { v \<leftarrow> rd s (uint (HL s)); Some (s\<lparr>reg_c := v\<rparr>, e, 7) }
      else \<comment> \<open>MOV C,A\<close>
        Some (s\<lparr>reg_c := reg_a s\<rparr>, e, 4))"

definition exec_5 ::
  "'e bus \<Rightarrow> State8085 \<Rightarrow> 'e \<Rightarrow> int \<Rightarrow> u8 \<Rightarrow> (State8085 \<times> 'e \<times> nat) option" where
  "exec_5 bs s e opc op =
     (if op = 0x50 then \<comment> \<open>MOV D,B\<close>
        Some (s\<lparr>reg_d := reg_b s\<rparr>, e, 4)
      else if op = 0x51 then \<comment> \<open>MOV D,C\<close>
        Some (s\<lparr>reg_d := reg_c s\<rparr>, e, 4)
      else if op = 0x52 then \<comment> \<open>MOV D,D\<close>
        Some (s\<lparr>reg_d := reg_d s\<rparr>, e, 4)
      else if op = 0x53 then \<comment> \<open>MOV D,E\<close>
        Some (s\<lparr>reg_d := reg_e s\<rparr>, e, 4)
      else if op = 0x54 then \<comment> \<open>MOV D,H\<close>
        Some (s\<lparr>reg_d := reg_h s\<rparr>, e, 4)
      else if op = 0x55 then \<comment> \<open>MOV D,L\<close>
        Some (s\<lparr>reg_d := reg_l s\<rparr>, e, 4)
      else if op = 0x56 then \<comment> \<open>MOV D,M\<close>
        do { v \<leftarrow> rd s (uint (HL s)); Some (s\<lparr>reg_d := v\<rparr>, e, 7) }
      else if op = 0x57 then \<comment> \<open>MOV D,A\<close>
        Some (s\<lparr>reg_d := reg_a s\<rparr>, e, 4)
      else if op = 0x58 then \<comment> \<open>MOV E,B\<close>
        Some (s\<lparr>reg_e := reg_b s\<rparr>, e, 4)
      else if op = 0x59 then \<comment> \<open>MOV E,C\<close>
        Some (s\<lparr>reg_e := reg_c s\<rparr>, e, 4)
      else if op = 0x5a then \<comment> \<open>MOV E,D\<close>
        Some (s\<lparr>reg_e := reg_d s\<rparr>, e, 4)
      else if op = 0x5b then \<comment> \<open>MOV E,E\<close>
        Some (s\<lparr>reg_e := reg_e s\<rparr>, e, 4)
      else if op = 0x5c then \<comment> \<open>MOV E,H\<close>
        Some (s\<lparr>reg_e := reg_h s\<rparr>, e, 4)
      else if op = 0x5d then \<comment> \<open>MOV E,L\<close>
        Some (s\<lparr>reg_e := reg_l s\<rparr>, e, 4)
      else if op = 0x5e then \<comment> \<open>MOV E,M\<close>
        do { v \<leftarrow> rd s (uint (HL s)); Some (s\<lparr>reg_e := v\<rparr>, e, 7) }
      else \<comment> \<open>MOV E,A\<close>
        Some (s\<lparr>reg_e := reg_a s\<rparr>, e, 4))"

definition exec_6 ::
  "'e bus \<Rightarrow> State8085 \<Rightarrow> 'e \<Rightarrow> int \<Rightarrow> u8 \<Rightarrow> (State8085 \<times> 'e \<times> nat) option" where
  "exec_6 bs s e opc op =
     (if op = 0x60 then \<comment> \<open>MOV H,B\<close>
        Some (s\<lparr>reg_h := reg_b s\<rparr>, e, 4)
      else if op = 0x61 then \<comment> \<open>MOV H,C\<close>
        Some (s\<lparr>reg_h := reg_c s\<rparr>, e, 4)
      else if op = 0x62 then \<comment> \<open>MOV H,D\<close>
        Some (s\<lparr>reg_h := reg_d s\<rparr>, e, 4)
      else if op = 0x63 then \<comment> \<open>MOV H,E\<close>
        Some (s\<lparr>reg_h := reg_e s\<rparr>, e, 4)
      else if op = 0x64 then \<comment> \<open>MOV H,H\<close>
        Some (s\<lparr>reg_h := reg_h s\<rparr>, e, 4)
      else if op = 0x65 then \<comment> \<open>MOV H,L\<close>
        Some (s\<lparr>reg_h := reg_l s\<rparr>, e, 4)
      else if op = 0x66 then \<comment> \<open>MOV H,M\<close>
        do { v \<leftarrow> rd s (uint (HL s)); Some (s\<lparr>reg_h := v\<rparr>, e, 7) }
      else if op = 0x67 then \<comment> \<open>MOV H,A\<close>
        Some (s\<lparr>reg_h := reg_a s\<rparr>, e, 4)
      else if op = 0x68 then \<comment> \<open>MOV L,B\<close>
        Some (s\<lparr>reg_l := reg_b s\<rparr>, e, 4)
      else if op = 0x69 then \<comment> \<open>MOV L,C\<close>
        Some (s\<lparr>reg_l := reg_c s\<rparr>, e, 4)
      else if op = 0x6a then \<comment> \<open>MOV L,D\<close>
        Some (s\<lparr>reg_l := reg_d s\<rparr>, e, 4)
      else if op = 0x6b then \<comment> \<open>MOV L,E\<close>
        Some (s\<lparr>reg_l := reg_e s\<rparr>, e, 4)
      else if op = 0x6c then \<comment> \<open>MOV L,H\<close>
        Some (s\<lparr>reg_l := reg_h s\<rparr>, e, 4)
      else if op = 0x6d then \<comment> \<open>MOV L,L\<close>
        Some (s\<lparr>reg_l := reg_l s\<rparr>, e, 4)
      else if op = 0x6e then \<comment> \<open>MOV L,M\<close>
        do { v \<leftarrow> rd s (uint (HL s)); Some (s\<lparr>reg_l := v\<rparr>, e, 7) }
      else \<comment> \<open>MOV L,A\<close>
        Some (s\<lparr>reg_l := reg_a s\<rparr>, e, 4))"

definition exec_7 ::
  "'e bus \<Rightarrow> State8085 \<Rightarrow> 'e \<Rightarrow> int \<Rightarrow> u8 \<Rightarrow> (State8085 \<times> 'e \<times> nat) option" where
  "exec_7 bs s e opc op =
     (if op = 0x70 then \<comment> \<open>MOV M,B\<close>
        store bs s e (uint (HL s)) (reg_b s) 7
      else if op = 0x71 then \<comment> \<open>MOV M,C\<close>
        store bs s e (uint (HL s)) (reg_c s) 7
      else if op = 0x72 then \<comment> \<open>MOV M,D\<close>
        store bs s e (uint (HL s)) (reg_d s) 7
      else if op = 0x73 then \<comment> \<open>MOV M,E\<close>
        store bs s e (uint (HL s)) (reg_e s) 7
      else if op = 0x74 then \<comment> \<open>MOV M,H\<close>
        store bs s e (uint (HL s)) (reg_h s) 7
      else if op = 0x75 then \<comment> \<open>MOV M,L\<close>
        store bs s e (uint (HL s)) (reg_l s) 7
      else if op = 0x76 then \<comment> \<open>HLT\<close>
        Some (s\<lparr>hlt_enable := 1\<rparr>, e, 5)
      else if op = 0x77 then \<comment> \<open>MOV M,A\<close>
        store bs s e (uint (HL s)) (reg_a s) 7
      else if op = 0x78 then \<comment> \<open>MOV A,B\<close>
        Some (s\<lparr>reg_a := reg_b s\<rparr>, e, 4)
      else if op = 0x79 then \<comment> \<open>MOV A,C\<close>
        Some (s\<lparr>reg_a := reg_c s\<rparr>, e, 4)
      else if op = 0x7a then \<comment> \<open>MOV A,D\<close>
        Some (s\<lparr>reg_a := reg_d s\<rparr>, e, 4)
      else if op = 0x7b then \<comment> \<open>MOV A,E\<close>
        Some (s\<lparr>reg_a := reg_e s\<rparr>, e, 4)
      else if op = 0x7c then \<comment> \<open>MOV A,H\<close>
        Some (s\<lparr>reg_a := reg_h s\<rparr>, e, 4)
      else if op = 0x7d then \<comment> \<open>MOV A,L\<close>
        Some (s\<lparr>reg_a := reg_l s\<rparr>, e, 4)
      else if op = 0x7e then \<comment> \<open>MOV A,M\<close>
        do { v \<leftarrow> rd s (uint (HL s)); Some (s\<lparr>reg_a := v\<rparr>, e, 7) }
      else \<comment> \<open>MOV A,A\<close>
        Some (s\<lparr>reg_a := reg_a s\<rparr>, e, 4))"

definition exec_8 ::
  "'e bus \<Rightarrow> State8085 \<Rightarrow> 'e \<Rightarrow> int \<Rightarrow> u8 \<Rightarrow> (State8085 \<times> 'e \<times> nat) option" where
  "exec_8 bs s e opc op =
     (if op = 0x80 then \<comment> \<open>ADD B\<close>
        let (s1, r) = addByte s (reg_a s) (reg_b s) UPDATE_CARRY in Some (s1\<lparr>reg_a := r\<rparr>, e, 4)
      else if op = 0x81 then \<comment> \<open>ADD C\<close>
        let (s1, r) = addByte s (reg_a s) (reg_c s) UPDATE_CARRY in Some (s1\<lparr>reg_a := r\<rparr>, e, 4)
      else if op = 0x82 then \<comment> \<open>ADD D\<close>
        let (s1, r) = addByte s (reg_a s) (reg_d s) UPDATE_CARRY in Some (s1\<lparr>reg_a := r\<rparr>, e, 4)
      else if op = 0x83 then \<comment> \<open>ADD E\<close>
        let (s1, r) = addByte s (reg_a s) (reg_e s) UPDATE_CARRY in Some (s1\<lparr>reg_a := r\<rparr>, e, 4)
      else if op = 0x84 then \<comment> \<open>ADD H\<close>
        let (s1, r) = addByte s (reg_a s) (reg_h s) UPDATE_CARRY in Some (s1\<lparr>reg_a := r\<rparr>, e, 4)
      else if op = 0x85 then \<comment> \<open>ADD L\<close>
        let (s1, r) = addByte s (reg_a s) (reg_l s) UPDATE_CARRY in Some (s1\<lparr>reg_a := r\<rparr>, e, 4)
      else if op = 0x86 then \<comment> \<open>ADD M\<close>
        do { v \<leftarrow> rd s (uint (HL s)); let (s1, r) = addByte s (reg_a s) v UPDATE_CARRY; Some (s1\<lparr>reg_a := r\<rparr>, e, 7) }
      else if op = 0x87 then \<comment> \<open>ADD A\<close>
        let (s1, r) = addByte s (reg_a s) (reg_a s) UPDATE_CARRY in Some (s1\<lparr>reg_a := r\<rparr>, e, 4)
      else if op = 0x88 then \<comment> \<open>ADC B\<close>
        let (s1, r) = addByteWithCarry s (reg_a s) (reg_b s) UPDATE_CARRY in Some (s1\<lparr>reg_a := r\<rparr>, e, 4)
      else if op = 0x89 then \<comment> \<open>ADC C\<close>
        let (s1, r) = addByteWithCarry s (reg_a s) (reg_c s) UPDATE_CARRY in Some (s1\<lparr>reg_a := r\<rparr>, e, 4)
      else if op = 0x8a then \<comment> \<open>ADC D\<close>
        let (s1, r) = addByteWithCarry s (reg_a s) (reg_d s) UPDATE_CARRY in Some (s1\<lparr>reg_a := r\<rparr>, e, 4)
      else if op = 0x8b then \<comment> \<open>ADC E\<close>
        let (s1, r) = addByteWithCarry s (reg_a s) (reg_e s) UPDATE_CARRY in Some (s1\<lparr>reg_a := r\<rparr>, e, 4)
      else if op = 0x8c then \<comment> \<open>ADC H\<close>
        let (s1, r) = addByteWithCarry s (reg_a s) (reg_h s) UPDATE_CARRY in Some (s1\<lparr>reg_a := r\<rparr>, e, 4)
      else if op = 0x8d then \<comment> \<open>ADC L\<close>
        let (s1, r) = addByteWithCarry s (reg_a s) (reg_l s) UPDATE_CARRY in Some (s1\<lparr>reg_a := r\<rparr>, e, 4)
      else if op = 0x8e then \<comment> \<open>ADC M\<close>
        do { v \<leftarrow> rd s (uint (HL s)); let (s1, r) = addByteWithCarry s (reg_a s) v UPDATE_CARRY; Some (s1\<lparr>reg_a := r\<rparr>, e, 7) }
      else \<comment> \<open>ADC A\<close>
        let (s1, r) = addByteWithCarry s (reg_a s) (reg_a s) UPDATE_CARRY in Some (s1\<lparr>reg_a := r\<rparr>, e, 4))"

definition exec_9 ::
  "'e bus \<Rightarrow> State8085 \<Rightarrow> 'e \<Rightarrow> int \<Rightarrow> u8 \<Rightarrow> (State8085 \<times> 'e \<times> nat) option" where
  "exec_9 bs s e opc op =
     (if op = 0x90 then \<comment> \<open>SUB B\<close>
        let (s1, r) = subtractByte s (reg_a s) (reg_b s) UPDATE_CARRY in Some (s1\<lparr>reg_a := r\<rparr>, e, 4)
      else if op = 0x91 then \<comment> \<open>SUB C\<close>
        let (s1, r) = subtractByte s (reg_a s) (reg_c s) UPDATE_CARRY in Some (s1\<lparr>reg_a := r\<rparr>, e, 4)
      else if op = 0x92 then \<comment> \<open>SUB D\<close>
        let (s1, r) = subtractByte s (reg_a s) (reg_d s) UPDATE_CARRY in Some (s1\<lparr>reg_a := r\<rparr>, e, 4)
      else if op = 0x93 then \<comment> \<open>SUB E\<close>
        let (s1, r) = subtractByte s (reg_a s) (reg_e s) UPDATE_CARRY in Some (s1\<lparr>reg_a := r\<rparr>, e, 4)
      else if op = 0x94 then \<comment> \<open>SUB H\<close>
        let (s1, r) = subtractByte s (reg_a s) (reg_h s) UPDATE_CARRY in Some (s1\<lparr>reg_a := r\<rparr>, e, 4)
      else if op = 0x95 then \<comment> \<open>SUB L\<close>
        let (s1, r) = subtractByte s (reg_a s) (reg_l s) UPDATE_CARRY in Some (s1\<lparr>reg_a := r\<rparr>, e, 4)
      else if op = 0x96 then \<comment> \<open>SUB M\<close>
        do { v \<leftarrow> rd s (uint (HL s)); let (s1, r) = subtractByte s (reg_a s) v UPDATE_CARRY; Some (s1\<lparr>reg_a := r\<rparr>, e, 7) }
      else if op = 0x97 then \<comment> \<open>SUB A\<close>
        let (s1, r) = subtractByte s (reg_a s) (reg_a s) UPDATE_CARRY in Some (s1\<lparr>reg_a := r\<rparr>, e, 4)
      else if op = 0x98 then \<comment> \<open>SBB B\<close>
        let (s1, r) = subtractByteWithBorrow s (reg_a s) (reg_b s) UPDATE_CARRY in Some (s1\<lparr>reg_a := r\<rparr>, e, 4)
      else if op = 0x99 then \<comment> \<open>SBB C\<close>
        let (s1, r) = subtractByteWithBorrow s (reg_a s) (reg_c s) UPDATE_CARRY in Some (s1\<lparr>reg_a := r\<rparr>, e, 4)
      else if op = 0x9a then \<comment> \<open>SBB D\<close>
        let (s1, r) = subtractByteWithBorrow s (reg_a s) (reg_d s) UPDATE_CARRY in Some (s1\<lparr>reg_a := r\<rparr>, e, 4)
      else if op = 0x9b then \<comment> \<open>SBB E\<close>
        let (s1, r) = subtractByteWithBorrow s (reg_a s) (reg_e s) UPDATE_CARRY in Some (s1\<lparr>reg_a := r\<rparr>, e, 4)
      else if op = 0x9c then \<comment> \<open>SBB H\<close>
        let (s1, r) = subtractByteWithBorrow s (reg_a s) (reg_h s) UPDATE_CARRY in Some (s1\<lparr>reg_a := r\<rparr>, e, 4)
      else if op = 0x9d then \<comment> \<open>SBB L\<close>
        let (s1, r) = subtractByteWithBorrow s (reg_a s) (reg_l s) UPDATE_CARRY in Some (s1\<lparr>reg_a := r\<rparr>, e, 4)
      else if op = 0x9e then \<comment> \<open>SBB M\<close>
        do { v \<leftarrow> rd s (uint (HL s)); let (s1, r) = subtractByteWithBorrow s (reg_a s) v UPDATE_CARRY; Some (s1\<lparr>reg_a := r\<rparr>, e, 7) }
      else \<comment> \<open>SBB A\<close>
        let (s1, r) = subtractByteWithBorrow s (reg_a s) (reg_a s) UPDATE_CARRY in Some (s1\<lparr>reg_a := r\<rparr>, e, 4))"

definition exec_a ::
  "'e bus \<Rightarrow> State8085 \<Rightarrow> 'e \<Rightarrow> int \<Rightarrow> u8 \<Rightarrow> (State8085 \<times> 'e \<times> nat) option" where
  "exec_a bs s e opc op =
     (if op = 0xa0 then \<comment> \<open>ANA B\<close>
        Some (LogicFlagsA (s\<lparr>reg_a := reg_a s AND reg_b s\<rparr>) 1, e, 4)
      else if op = 0xa1 then \<comment> \<open>ANA C\<close>
        Some (LogicFlagsA (s\<lparr>reg_a := reg_a s AND reg_c s\<rparr>) 1, e, 4)
      else if op = 0xa2 then \<comment> \<open>ANA D\<close>
        Some (LogicFlagsA (s\<lparr>reg_a := reg_a s AND reg_d s\<rparr>) 1, e, 4)
      else if op = 0xa3 then \<comment> \<open>ANA E\<close>
        Some (LogicFlagsA (s\<lparr>reg_a := reg_a s AND reg_e s\<rparr>) 1, e, 4)
      else if op = 0xa4 then \<comment> \<open>ANA H\<close>
        Some (LogicFlagsA (s\<lparr>reg_a := reg_a s AND reg_h s\<rparr>) 1, e, 4)
      else if op = 0xa5 then \<comment> \<open>ANA L\<close>
        Some (LogicFlagsA (s\<lparr>reg_a := reg_a s AND reg_l s\<rparr>) 1, e, 4)
      else if op = 0xa6 then \<comment> \<open>ANA M\<close>
        do { v \<leftarrow> rd s (uint (HL s)); Some (LogicFlagsA (s\<lparr>reg_a := reg_a s AND v\<rparr>) 1, e, 7) }
      else if op = 0xa7 then \<comment> \<open>ANA A\<close>
        Some (LogicFlagsA (s\<lparr>reg_a := reg_a s AND reg_a s\<rparr>) 1, e, 4)
      else if op = 0xa8 then \<comment> \<open>XRA B\<close>
        Some (LogicFlagsA (s\<lparr>reg_a := reg_a s XOR reg_b s\<rparr>) 0, e, 4)
      else if op = 0xa9 then \<comment> \<open>XRA C\<close>
        Some (LogicFlagsA (s\<lparr>reg_a := reg_a s XOR reg_c s\<rparr>) 0, e, 4)
      else if op = 0xaa then \<comment> \<open>XRA D\<close>
        Some (LogicFlagsA (s\<lparr>reg_a := reg_a s XOR reg_d s\<rparr>) 0, e, 4)
      else if op = 0xab then \<comment> \<open>XRA E\<close>
        Some (LogicFlagsA (s\<lparr>reg_a := reg_a s XOR reg_e s\<rparr>) 0, e, 4)
      else if op = 0xac then \<comment> \<open>XRA H\<close>
        Some (LogicFlagsA (s\<lparr>reg_a := reg_a s XOR reg_h s\<rparr>) 0, e, 4)
      else if op = 0xad then \<comment> \<open>XRA L\<close>
        Some (LogicFlagsA (s\<lparr>reg_a := reg_a s XOR reg_l s\<rparr>) 0, e, 4)
      else if op = 0xae then \<comment> \<open>XRA M\<close>
        do { v \<leftarrow> rd s (uint (HL s)); Some (LogicFlagsA (s\<lparr>reg_a := reg_a s XOR v\<rparr>) 0, e, 7) }
      else \<comment> \<open>XRA A\<close>
        Some (LogicFlagsA (s\<lparr>reg_a := reg_a s XOR reg_a s\<rparr>) 0, e, 4))"

definition exec_b ::
  "'e bus \<Rightarrow> State8085 \<Rightarrow> 'e \<Rightarrow> int \<Rightarrow> u8 \<Rightarrow> (State8085 \<times> 'e \<times> nat) option" where
  "exec_b bs s e opc op =
     (if op = 0xb0 then \<comment> \<open>ORA B\<close>
        Some (LogicFlagsA (s\<lparr>reg_a := reg_a s OR reg_b s\<rparr>) 0, e, 4)
      else if op = 0xb1 then \<comment> \<open>ORA C\<close>
        Some (LogicFlagsA (s\<lparr>reg_a := reg_a s OR reg_c s\<rparr>) 0, e, 4)
      else if op = 0xb2 then \<comment> \<open>ORA D\<close>
        Some (LogicFlagsA (s\<lparr>reg_a := reg_a s OR reg_d s\<rparr>) 0, e, 4)
      else if op = 0xb3 then \<comment> \<open>ORA E\<close>
        Some (LogicFlagsA (s\<lparr>reg_a := reg_a s OR reg_e s\<rparr>) 0, e, 4)
      else if op = 0xb4 then \<comment> \<open>ORA H\<close>
        Some (LogicFlagsA (s\<lparr>reg_a := reg_a s OR reg_h s\<rparr>) 0, e, 4)
      else if op = 0xb5 then \<comment> \<open>ORA L\<close>
        Some (LogicFlagsA (s\<lparr>reg_a := reg_a s OR reg_l s\<rparr>) 0, e, 4)
      else if op = 0xb6 then \<comment> \<open>ORA M\<close>
        do { v \<leftarrow> rd s (uint (HL s)); Some (LogicFlagsA (s\<lparr>reg_a := reg_a s OR v\<rparr>) 0, e, 7) }
      else if op = 0xb7 then \<comment> \<open>ORA A\<close>
        Some (LogicFlagsA (s\<lparr>reg_a := reg_a s OR reg_a s\<rparr>) 0, e, 4)
      else if op = 0xb8 then \<comment> \<open>CMP B\<close>
        Some (fst (subtractByte s (reg_a s) (reg_b s) UPDATE_CARRY), e, 4)
      else if op = 0xb9 then \<comment> \<open>CMP C\<close>
        Some (fst (subtractByte s (reg_a s) (reg_c s) UPDATE_CARRY), e, 4)
      else if op = 0xba then \<comment> \<open>CMP D\<close>
        Some (fst (subtractByte s (reg_a s) (reg_d s) UPDATE_CARRY), e, 4)
      else if op = 0xbb then \<comment> \<open>CMP E\<close>
        Some (fst (subtractByte s (reg_a s) (reg_e s) UPDATE_CARRY), e, 4)
      else if op = 0xbc then \<comment> \<open>CMP H\<close>
        Some (fst (subtractByte s (reg_a s) (reg_h s) UPDATE_CARRY), e, 4)
      else if op = 0xbd then \<comment> \<open>CMP L\<close>
        Some (fst (subtractByte s (reg_a s) (reg_l s) UPDATE_CARRY), e, 4)
      else if op = 0xbe then \<comment> \<open>CMP M\<close>
        do { v \<leftarrow> rd s (uint (HL s)); Some (fst (subtractByte s (reg_a s) v UPDATE_CARRY), e, 7) }
      else \<comment> \<open>CMP A\<close>
        Some (fst (subtractByte s (reg_a s) (reg_a s) UPDATE_CARRY), e, 4))"

end
