(* ===== verification/Exec_High.thy ===== *)
theory Exec_High
  imports Instr
begin

unbundle bit_operations_syntax

text \<open>
  Opcodes 0xc0 to 0xff: jumps, calls, returns, restarts, stack and port instructions, immediates.
  One definition per row of sixteen opcodes, in the order of the switch of \<^verbatim>\<open>Emulate8085Op\<close>.
\<close>

definition exec_c ::
  "'e bus \<Rightarrow> State8085 \<Rightarrow> 'e \<Rightarrow> int \<Rightarrow> u8 \<Rightarrow> (State8085 \<times> 'e \<times> nat) option" where
  "exec_c bs s e opc op =
     (if op = 0xc0 then \<comment> \<open>RNZ\<close>
        return_on (\<not> fl_z (cc s)) s e
      else if op = 0xc1 then \<comment> \<open>POP B\<close>
        do { lo \<leftarrow> rd s (uint (sp s)); hi \<leftarrow> rd s (uint (sp s) + 1); Some (s\<lparr>reg_c := lo, reg_b := hi, sp := sp s + 2\<rparr>, e, 10) }
      else if op = 0xc2 then \<comment> \<open>JNZ Addr\<close>
        jump_on (\<not> fl_z (cc s)) s e opc
      else if op = 0xc3 then \<comment> \<open>JMP Addr\<close>
        do { adr \<leftarrow> imm16 s opc; Some (s\<lparr>pc := adr\<rparr>, e, 10) }
      else if op = 0xc4 then \<comment> \<open>CNZ Addr: the count is reset to 9 on both paths\<close>
        (if \<not> fl_z (cc s)
         then do { adr \<leftarrow> imm16 s opc; let (s1, e1) = call bs s e adr; Some (s1, e1, 9) }
         else Some (s\<lparr>pc := pc s + 2\<rparr>, e, 9))
      else if op = 0xc5 then \<comment> \<open>PUSH B\<close>
        (let (s1, e1) = mem_wr bs s e (uint (sp s) - 1) (reg_b s);
             (s2, e2) = mem_wr bs s1 e1 (uint (sp s1) - 2) (reg_c s1)
         in Some (s2\<lparr>sp := sp s2 - 2\<rparr>, e2, 13))
      else if op = 0xc6 then \<comment> \<open>ADI byte\<close>
        do { v \<leftarrow> imm8 s opc; Some (adi s v, e, 7) }
      else if op = 0xc7 then \<comment> \<open>RST 0\<close>
        reset_to bs s e 0
      else if op = 0xc8 then \<comment> \<open>RZ\<close>
        return_on (fl_z (cc s)) s e
      else if op = 0xc9 then \<comment> \<open>RET\<close>
        do { s1 \<leftarrow> returnToCaller s; Some (s1, e, 10) }
      else if op = 0xca then \<comment> \<open>JZ Addr\<close>
        jump_on (fl_z (cc s)) s e opc
      else if op = 0xcb then \<comment> \<open>RSTV\<close>
        (if fl_v (cc s)
         then (let (s1, e1) = rst bs s e 0 0 in Some (s1\<lparr>pc := 0x0040\<rparr>, e1, 12))
         else Some (s, e, 6))
      else if op = 0xcc then \<comment> \<open>CZ Addr\<close>
        call_on (fl_z (cc s)) bs s e opc
      else if op = 0xcd then \<comment> \<open>CALL Addr\<close>
        call_on True bs s e opc
      else if op = 0xce then \<comment> \<open>ACI d8\<close>
        do { v \<leftarrow> imm8 s opc; let (s1, r) = addByteWithCarry s (reg_a s) v UPDATE_CARRY;
             Some (s1\<lparr>reg_a := r, pc := pc s1 + 1\<rparr>, e, 7) }
      else \<comment> \<open>RST 1\<close>
        reset_to bs s e 1)"

definition exec_d ::
  "'e bus \<Rightarrow> State8085 \<Rightarrow> 'e \<Rightarrow> int \<Rightarrow> u8 \<Rightarrow> (State8085 \<times> 'e \<times> nat) option" where
  "exec_d bs s e opc op =
     (if op = 0xd0 then \<comment> \<open>RNC\<close>
        return_on (\<not> fl_cy (cc s)) s e
      else if op = 0xd1 then \<comment> \<open>POP D\<close>
        do { lo \<leftarrow> rd s (uint (sp s)); hi \<leftarrow> rd s (uint (sp s) + 1); Some (s\<lparr>reg_e := lo, reg_d := hi, sp := sp s + 2\<rparr>, e, 10) }
      else if op = 0xd2 then \<comment> \<open>JNC Addr\<close>
        jump_on (\<not> fl_cy (cc s)) s e opc
      else if op = 0xd3 then \<comment> \<open>OUT d8\<close>
        do { port \<leftarrow> imm8 s opc;
             let s1 = s\<lparr>io := (io s)(port := reg_a s), pc := pc s + 1\<rparr>;
             let (s2, e2) = bus_io_write bs port (reg_a s1) s1 e;
             Some (s2, e2, 10) }
      else if op = 0xd4 then \<comment> \<open>CNC Addr\<close>
        call_on (\<not> fl_cy (cc s)) bs s e opc
      else if op = 0xd5 then \<comment> \<open>PUSH D\<close>
        (let (s1, e1) = mem_wr bs s e (uint (sp s) - 1) (reg_d s);
             (s2, e2) = mem_wr bs s1 e1 (uint (sp s1) - 2) (reg_e s1)
         in Some (s2\<lparr>sp := sp s2 - 2\<rparr>, e2, 13))
      else if op = 0xd6 then \<comment> \<open>SUI d8\<close>
        do { v \<leftarrow> imm8 s opc; let (s1, r) = subtractByte s (reg_a s) v UPDATE_CARRY;
             Some (s1\<lparr>reg_a := r, pc := pc s1 + 1\<rparr>, e, 7) }
      else if op = 0xd7 then \<comment> \<open>RST 2\<close>
        reset_to bs s e 2
      else if op = 0xd8 then \<comment> \<open>RC\<close>
        return_on (fl_cy (cc s)) s e
      else if op = 0xd9 then \<comment> \<open>SHLX\<close>
        (let de = DE s;
             (s1, e1) = mem_wr bs s e (uint de) (reg_l s);
             (s2, e2) = mem_wr bs s1 e1 (uint de + 1) (reg_h s1)
         in Some (s2, e2, 10))
      else if op = 0xda then \<comment> \<open>JC Addr\<close>
        jump_on (fl_cy (cc s)) s e opc
      else if op = 0xdb then \<comment> \<open>IN d8\<close>
        do { port \<leftarrow> imm8 s opc; let (s1, e1) = bus_io_pre_read bs port s e;
             port1 \<leftarrow> imm8 s1 opc;
             let s2 = s1\<lparr>reg_a := io s1 port1, pc := pc s1 + 1\<rparr>;
             let (s3, e3) = bus_io_read bs port1 (reg_a s2) s2 e1;
             Some (s3, e3, 10) }
      else if op = 0xdc then \<comment> \<open>CC Addr\<close>
        call_on (fl_cy (cc s)) bs s e opc
      else if op = 0xdd then \<comment> \<open>JNX5\<close>
        jump_on (\<not> fl_x5 (cc s)) s e opc
      else if op = 0xde then \<comment> \<open>SBI d8\<close>
        do { v \<leftarrow> imm8 s opc; let (s1, r) = subtractByteWithBorrow s (reg_a s) v UPDATE_CARRY;
             Some (s1\<lparr>reg_a := r, pc := pc s1 + 1\<rparr>, e, 7) }
      else \<comment> \<open>RST 3\<close>
        reset_to bs s e 3)"

definition exec_e ::
  "'e bus \<Rightarrow> State8085 \<Rightarrow> 'e \<Rightarrow> int \<Rightarrow> u8 \<Rightarrow> (State8085 \<times> 'e \<times> nat) option" where
  "exec_e bs s e opc op =
     (if op = 0xe0 then \<comment> \<open>RPO\<close>
        return_on (\<not> fl_p (cc s)) s e
      else if op = 0xe1 then \<comment> \<open>POP H\<close>
        do { lo \<leftarrow> rd s (uint (sp s)); hi \<leftarrow> rd s (uint (sp s) + 1); Some (s\<lparr>reg_l := lo, reg_h := hi, sp := sp s + 2\<rparr>, e, 10) }
      else if op = 0xe2 then \<comment> \<open>JPO Addr\<close>
        jump_on (\<not> fl_p (cc s)) s e opc
      else if op = 0xe3 then \<comment> \<open>XTHL\<close>
        do { spL \<leftarrow> rd s (uint (sp s)); spH \<leftarrow> rd s (uint (sp s) + 1);
             let (s1, e1) = mem_wr bs s e (uint (sp s)) (reg_l s);
             let (s2, e2) = mem_wr bs s1 e1 (uint (sp s1) + 1) (reg_h s1);
             Some (s2\<lparr>reg_h := spH, reg_l := spL\<rparr>, e2, 16) }
      else if op = 0xe4 then \<comment> \<open>CPO Addr\<close>
        call_on (\<not> fl_p (cc s)) bs s e opc
      else if op = 0xe5 then \<comment> \<open>PUSH H\<close>
        (let (s1, e1) = mem_wr bs s e (uint (sp s) - 1) (reg_h s);
             (s2, e2) = mem_wr bs s1 e1 (uint (sp s1) - 2) (reg_l s1)
         in Some (s2\<lparr>sp := sp s2 - 2\<rparr>, e2, 13))
      else if op = 0xe6 then \<comment> \<open>ANI byte\<close>
        do { v \<leftarrow> imm8 s opc; let s1 = LogicFlagsA (s\<lparr>reg_a := reg_a s AND v\<rparr>) 1;
             Some (s1\<lparr>pc := pc s1 + 1\<rparr>, e, 7) }
      else if op = 0xe7 then \<comment> \<open>RST 4\<close>
        reset_to bs s e 4
      else if op = 0xe8 then \<comment> \<open>RPE\<close>
        return_on (fl_p (cc s)) s e
      else if op = 0xe9 then \<comment> \<open>PCHL\<close>
        Some (s\<lparr>pc := HL s\<rparr>, e, 6)
      else if op = 0xea then \<comment> \<open>JPE Addr\<close>
        jump_on (fl_p (cc s)) s e opc
      else if op = 0xeb then \<comment> \<open>XCHG\<close>
        Some (s\<lparr>reg_d := reg_h s, reg_e := reg_l s, reg_h := reg_d s, reg_l := reg_e s\<rparr>, e, 4)
      else if op = 0xec then \<comment> \<open>CPE Addr\<close>
        call_on (fl_p (cc s)) bs s e opc
      else if op = 0xed then \<comment> \<open>LHLX\<close>
        do { lo \<leftarrow> rd s (uint (DE s)); hi \<leftarrow> rd s (uint (DE s) + 1); Some (s\<lparr>reg_l := lo, reg_h := hi\<rparr>, e, 10) }
      else if op = 0xee then \<comment> \<open>XRI d8\<close>
        do { v \<leftarrow> imm8 s opc; let s1 = LogicFlagsA (s\<lparr>reg_a := reg_a s XOR v\<rparr>) 0;
             Some (s1\<lparr>pc := pc s1 + 1\<rparr>, e, 7) }
      else \<comment> \<open>RST 5\<close>
        reset_to bs s e 5)"

definition exec_f ::
  "'e bus \<Rightarrow> State8085 \<Rightarrow> 'e \<Rightarrow> int \<Rightarrow> u8 \<Rightarrow> (State8085 \<times> 'e \<times> nat) option" where
  "exec_f bs s e opc op =
     (if op = 0xf0 then \<comment> \<open>RP\<close>
        return_on (\<not> fl_s (cc s)) s e
      else if op = 0xf1 then \<comment> \<open>POP PSW\<close>
        do { psw \<leftarrow> rd s (uint (sp s)); let s1 = (unpack_psw s psw)\<lparr>sp := sp s + 1\<rparr>;
             v \<leftarrow> rd s1 (uint (sp s1)); Some (s1\<lparr>reg_a := v, sp := sp s1 + 1\<rparr>, e, 10) }
      else if op = 0xf2 then \<comment> \<open>JP Addr\<close>
        jump_on (\<not> fl_s (cc s)) s e opc
      else if op = 0xf3 then \<comment> \<open>DI\<close>
        Some (s\<lparr>int_enable := 0, int_enable_delay := 0\<rparr>, e, 4)
      else if op = 0xf4 then \<comment> \<open>CP Addr\<close>
        call_on (\<not> fl_s (cc s)) bs s e opc
      else if op = 0xf5 then \<comment> \<open>PUSH PSW\<close>
        (let s1 = s\<lparr>sp := sp s - 1\<rparr>;
             (s2, e2) = mem_wr bs s1 e (uint (sp s1)) (reg_a s1);
             s3 = s2\<lparr>sp := sp s2 - 1\<rparr>;
             (s4, e4) = mem_wr bs s3 e2 (uint (sp s3)) (psw_byte (cc s3))
         in Some (s4, e4, 13))
      else if op = 0xf6 then \<comment> \<open>ORI d8\<close>
        do { v \<leftarrow> imm8 s opc; let s1 = LogicFlagsA (s\<lparr>reg_a := reg_a s OR v\<rparr>) 0;
             Some (s1\<lparr>pc := pc s1 + 1\<rparr>, e, 7) }
      else if op = 0xf7 then \<comment> \<open>RST 6\<close>
        reset_to bs s e 6
      else if op = 0xf8 then \<comment> \<open>RM\<close>
        return_on (fl_s (cc s)) s e
      else if op = 0xf9 then \<comment> \<open>SPHL\<close>
        Some (s\<lparr>sp := HL s\<rparr>, e, 6)
      else if op = 0xfa then \<comment> \<open>JM Addr\<close>
        jump_on (fl_s (cc s)) s e opc
      else if op = 0xfb then \<comment> \<open>EI\<close>
        Some (s\<lparr>int_enable_delay := 2\<rparr>, e, 4)
      else if op = 0xfc then \<comment> \<open>CM Addr\<close>
        call_on (fl_s (cc s)) bs s e opc
      else if op = 0xfd then \<comment> \<open>JX5\<close>
        jump_on (fl_x5 (cc s)) s e opc
      else if op = 0xfe then \<comment> \<open>CPI d8\<close>
        do { v \<leftarrow> imm8 s opc; Some (cpi s v, e, 7) }
      else \<comment> \<open>RST 7\<close>
        reset_to bs s e 7)"

end
