(* ===== verification/Step.thy ===== *)
theory Step
  imports Exec_Low Exec_Mid Exec_High
begin

unbundle bit_operations_syntax

text \<open>
  One instruction of the simulator: \<^verbatim>\<open>Emulate8085Op\<close>, with its interrupt and halt prologue, the opcode
  switch over the sixteen rows, and the epilogue that keeps the statistics and the EI delay.
\<close>

section \<open>The step\<close>

definition exec_switch ::
  "'e bus \<Rightarrow> State8085 \<Rightarrow> 'e \<Rightarrow> int \<Rightarrow> u8 \<Rightarrow> (State8085 \<times> 'e \<times> nat) option" where
  "exec_switch bs s e opc op =
     (if op < 0x10 then exec_0 bs s e opc op
      else if op < 0x20 then exec_1 bs s e opc op
      else if op < 0x30 then exec_2 bs s e opc op
      else if op < 0x40 then exec_3 bs s e opc op
      else if op < 0x50 then exec_4 bs s e opc op
      else if op < 0x60 then exec_5 bs s e opc op
      else if op < 0x70 then exec_6 bs s e opc op
      else if op < 0x80 then exec_7 bs s e opc op
      else if op < 0x90 then exec_8 bs s e opc op
      else if op < 0xa0 then exec_9 bs s e opc op
      else if op < 0xb0 then exec_a bs s e opc op
      else if op < 0xc0 then exec_b bs s e opc op
      else if op < 0xd0 then exec_c bs s e opc op
      else if op < 0xe0 then exec_d bs s e opc op
      else if op < 0xf0 then exec_e bs s e opc op
      else exec_f bs s e opc op)"

definition update_stats :: "ExecutionStats8085 \<Rightarrow> u16 \<Rightarrow> nat \<Rightarrow> ExecutionStats8085" where
  "update_stats st sp1 t =
     (let st1 = (if \<not> min_sp_set st \<or> sp1 < min_sp st then st\<lparr>min_sp := sp1, min_sp_set := True\<rparr> else st)
      in st1\<lparr>total_tstates := total_tstates st1 + of_nat t\<rparr>)"

definition tick_ei_delay :: "State8085 \<Rightarrow> State8085" where
  "tick_ei_delay s =
     (if int_enable_delay s > 0
      then (let s1 = s\<lparr>int_enable_delay := int_enable_delay s - 1\<rparr>
            in if int_enable_delay s1 = 0 then s1\<lparr>int_enable := 1\<rparr> else s1)
      else s)"

definition Emulate8085Op ::
  "'e bus \<Rightarrow> State8085 \<Rightarrow> ExecutionStats8085 \<Rightarrow> 'e \<Rightarrow>
     (State8085 \<times> ExecutionStats8085 \<times> 'e \<times> int) option" where
  "Emulate8085Op bs s st e =
     (let (interruptTaken, s1, e1) = checkInterrupts bs s e
      in if hlt_enable s1 \<noteq> 0 \<and> \<not> interruptTaken then Some (s1, st, e1, 1)
         else do {
           let s2 = (if hlt_enable s1 \<noteq> 0 then s1\<lparr>hlt_enable := 0\<rparr> else s1);
           let opc = uint (pc s2);
           op \<leftarrow> rd s2 opc;
           (s3, e3, states) \<leftarrow> exec_switch bs (s2\<lparr>pc := pc s2 + 1\<rparr>) e1 opc op;
           let st' = update_stats st (sp s3) states;
           let s4 = tick_ei_delay s3;
           Some (s4, st', e3, if hlt_enable s4 \<noteq> 0 then 1 else 0) })"

end
