(* ===== verification/Isa.thy ===== *)
theory Isa
  imports Step
begin

unbundle bit_operations_syntax

text \<open>
  An abstract instruction set for the opcode switch: opcodes decode by their octal fields into a
  small datatype of instructions over registers, pairs and conditions, and each instruction has one
  meaning, on integers where it does arithmetic.  The refinement says that the 256 cases of
  \<^verbatim>\<open>Emulate8085Op\<close> are this instruction set, opcode by opcode.
\<close>

section \<open>Instructions\<close>

datatype reg8 = RB | RC | RD | RE | RH | RL | RM | RA
datatype rpair = PB | PD | PH | PSP
datatype cond = NZ | ZE | NC | CY | PO | PE | PL | MI
datatype alu = ADD | ADC | SUB | SBB | ANA | XRA | ORA | CMP
datatype rot = RLC | RRC | RAL | RAR

datatype instr =
    NOP | LXI rpair | STAX rpair | LDAX rpair | SHLD | LHLD | STA | LDA | INX rpair | DCX rpair
  | DAD rpair | INR reg8 | DCR reg8 | MVI reg8 | ROT rot | DAA | CMA | STC | CMC | RIM | SIM
  | DSUB | ARHL | RDEL | LDHI | LDSI | SHLX | LHLX
  | MOV reg8 reg8 | HLT | ALU alu reg8 | ALUI alu
  | JMP | CALL | RET | JCC cond | CCC cond | RCC cond | JNX5 | JX5 | RST u8 | RSTV
  | PUSH rpair | POP rpair | XTHL | SPHL | PCHL | XCHG | INP | OUTP | DI | EI

section \<open>Decoding\<close>

definition reg_of :: "nat \<Rightarrow> reg8" where
  "reg_of i = [RB, RC, RD, RE, RH, RL, RM, RA] ! i"

definition pair_of :: "nat \<Rightarrow> rpair" where
  "pair_of i = [PB, PD, PH, PSP] ! i"

definition cond_of :: "nat \<Rightarrow> cond" where
  "cond_of i = [NZ, ZE, NC, CY, PO, PE, PL, MI] ! i"

definition alu_of :: "nat \<Rightarrow> alu" where
  "alu_of i = [ADD, ADC, SUB, SBB, ANA, XRA, ORA, CMP] ! i"

definition decode_0 :: "nat \<Rightarrow> nat \<Rightarrow> instr" where
  "decode_0 y z =
     (if z = 0 then [NOP, DSUB, ARHL, RDEL, RIM, LDHI, SIM, LDSI] ! y
      else if z = 1 then (if even y then LXI (pair_of (y div 2)) else DAD (pair_of (y div 2)))
      else if z = 2 then [STAX PB, LDAX PB, STAX PD, LDAX PD, SHLD, LHLD, STA, LDA] ! y
      else if z = 3 then (if even y then INX (pair_of (y div 2)) else DCX (pair_of (y div 2)))
      else if z = 4 then INR (reg_of y)
      else if z = 5 then DCR (reg_of y)
      else if z = 6 then MVI (reg_of y)
      else [ROT RLC, ROT RRC, ROT RAL, ROT RAR, DAA, CMA, STC, CMC] ! y)"

definition decode_3 :: "nat \<Rightarrow> nat \<Rightarrow> instr" where
  "decode_3 y z =
     (if z = 0 then RCC (cond_of y)
      else if z = 1 then (if even y then POP (pair_of (y div 2)) else [RET, SHLX, PCHL, SPHL] ! (y div 2))
      else if z = 2 then JCC (cond_of y)
      else if z = 3 then [JMP, RSTV, OUTP, INP, XTHL, XCHG, DI, EI] ! y
      else if z = 4 then CCC (cond_of y)
      else if z = 5 then (if even y then PUSH (pair_of (y div 2)) else [CALL, JNX5, LHLX, JX5] ! (y div 2))
      else if z = 6 then ALUI (alu_of y)
      else RST (of_nat y))"

definition decode :: "u8 \<Rightarrow> instr" where
  "decode op =
     (let x = unat op div 64; y = unat op div 8 mod 8; z = unat op mod 8
      in if x = 0 then decode_0 y z
         else if x = 1 then (if y = 6 \<and> z = 6 then HLT else MOV (reg_of y) (reg_of z))
         else if x = 2 then ALU (alu_of y) (reg_of z)
         else decode_3 y z)"

section \<open>Meaning\<close>

fun get8 :: "State8085 \<Rightarrow> reg8 \<Rightarrow> u8" where
  "get8 s RB = reg_b s" | "get8 s RC = reg_c s" | "get8 s RD = reg_d s" | "get8 s RE = reg_e s"
| "get8 s RH = reg_h s" | "get8 s RL = reg_l s" | "get8 s RM = memory s (HL s)" | "get8 s RA = reg_a s"

text \<open>Writing \<open>RM\<close> is a store through the runtime, so setting a register yields the runtime's state too.\<close>

fun set8 :: "'e bus \<Rightarrow> State8085 \<Rightarrow> 'e \<Rightarrow> reg8 \<Rightarrow> u8 \<Rightarrow> State8085 \<times> 'e" where
  "set8 bs s e RB v = (s\<lparr>reg_b := v\<rparr>, e)"
| "set8 bs s e RC v = (s\<lparr>reg_c := v\<rparr>, e)"
| "set8 bs s e RD v = (s\<lparr>reg_d := v\<rparr>, e)"
| "set8 bs s e RE v = (s\<lparr>reg_e := v\<rparr>, e)"
| "set8 bs s e RH v = (s\<lparr>reg_h := v\<rparr>, e)"
| "set8 bs s e RL v = (s\<lparr>reg_l := v\<rparr>, e)"
| "set8 bs s e RM v = mem_wr bs s e (uint (HL s)) v"
| "set8 bs s e RA v = (s\<lparr>reg_a := v\<rparr>, e)"

fun get16 :: "State8085 \<Rightarrow> rpair \<Rightarrow> u16" where
  "get16 s PB = BC s" | "get16 s PD = DE s" | "get16 s PH = HL s" | "get16 s PSP = sp s"

fun set16 :: "State8085 \<Rightarrow> rpair \<Rightarrow> u16 \<Rightarrow> State8085" where
  "set16 s PB w = s\<lparr>reg_b := hi8 w, reg_c := lo8 w\<rparr>"
| "set16 s PD w = s\<lparr>reg_d := hi8 w, reg_e := lo8 w\<rparr>"
| "set16 s PH w = s\<lparr>reg_h := hi8 w, reg_l := lo8 w\<rparr>"
| "set16 s PSP w = s\<lparr>sp := w\<rparr>"

fun holds :: "Flags \<Rightarrow> cond \<Rightarrow> bool" where
  "holds f NZ = (\<not> fl_z f)" | "holds f ZE = fl_z f" | "holds f NC = (\<not> fl_cy f)" | "holds f CY = fl_cy f"
| "holds f PO = (\<not> fl_p f)" | "holds f PE = fl_p f" | "holds f PL = (\<not> fl_s f)" | "holds f MI = fl_s f"

text \<open>
  The accumulator operations on integers: result, carry, auxiliary carry and signed overflow of
  \<open>a + v + c\<close> and \<open>a - v - c\<close>.
\<close>

definition add_spec :: "Flags \<Rightarrow> u8 \<Rightarrow> u8 \<Rightarrow> int \<Rightarrow> should_preserve_carry \<Rightarrow> Flags \<times> u8" where
  "add_spec f l r c p =
     (let res = word_of_int (uint l + uint r + c)
      in (arith_flags f res (255 < uint l + uint r + c) (15 < uint l mod 16 + uint r mod 16 + c)
            (signed_overflow (sint l + sint r + c)) p, res))"

definition sub_spec :: "Flags \<Rightarrow> u8 \<Rightarrow> u8 \<Rightarrow> int \<Rightarrow> should_preserve_carry \<Rightarrow> Flags \<times> u8" where
  "sub_spec f l r c p =
     (let res = word_of_int (uint l - uint r - c)
      in (arith_flags f res (uint l < uint r + c) (uint l mod 16 < uint r mod 16 + c)
            (signed_overflow (sint l - sint r - c)) p, res))"

definition logic_spec :: "Flags \<Rightarrow> u8 \<Rightarrow> bool \<Rightarrow> Flags \<times> u8" where
  "logic_spec f res ac =
     (f\<lparr>fl_z := res = 0, fl_s := 128 \<le> uint res, fl_p := even_ones res, fl_cy := False, fl_ac := ac\<rparr>, res)"

fun alu_spec :: "alu \<Rightarrow> Flags \<Rightarrow> u8 \<Rightarrow> u8 \<Rightarrow> Flags \<times> u8" where
  "alu_spec ADD f a v = add_spec f a v 0 UPDATE_CARRY"
| "alu_spec ADC f a v = add_spec f a v (carry_of f) UPDATE_CARRY"
| "alu_spec SUB f a v = sub_spec f a v 0 UPDATE_CARRY"
| "alu_spec SBB f a v = sub_spec f a v (carry_of f) UPDATE_CARRY"
| "alu_spec ANA f a v = logic_spec f (a AND v) True"
| "alu_spec XRA f a v = logic_spec f (a XOR v) False"
| "alu_spec ORA f a v = logic_spec f (a OR v) False"
| "alu_spec CMP f a v = (fst (sub_spec f a v 0 UPDATE_CARRY), a)"

fun rot_spec :: "rot \<Rightarrow> bool \<Rightarrow> u8 \<Rightarrow> bool \<times> u8" where
  "rot_spec RLC c a = (bit a 7, word_rotl 1 a)"
| "rot_spec RRC c a = (bit a 0, word_rotr 1 a)"
| "rot_spec RAL c a = (bit a 7, word_of_int (2 * uint a + of_bool c))"
| "rot_spec RAR c a = (bit a 0, word_of_int ((256 * of_bool c + uint a) div 2))"

definition push16 :: "'e bus \<Rightarrow> State8085 \<Rightarrow> 'e \<Rightarrow> u16 \<Rightarrow> State8085 \<times> 'e" where
  "push16 bs s e w =
     (let (s1, e1) = mem_wr bs s e (uint (sp s - 1)) (hi8 w);
          (s2, e2) = mem_wr bs s1 e1 (uint (sp s - 2)) (lo8 w)
      in (s2\<lparr>sp := sp s - 2\<rparr>, e2))"

definition rd16 :: "State8085 \<Rightarrow> u16 \<Rightarrow> u16 option" where
  "rd16 s adr = (if adr = 0xFFFF then None else Some (pair16 (memory s (adr + 1)) (memory s adr)))"

text \<open>\<^verbatim>\<open>POP PSW\<close> increments \<^verbatim>\<open>sp\<close> between its two reads, so it wraps where the other pops leave the buffer.\<close>

definition rd16_wrap :: "State8085 \<Rightarrow> u16 \<Rightarrow> u16" where
  "rd16_wrap s adr = pair16 (memory s (adr + 1)) (memory s adr)"

definition wr16 :: "'e bus \<Rightarrow> State8085 \<Rightarrow> 'e \<Rightarrow> u16 \<Rightarrow> u16 \<Rightarrow> State8085 \<times> 'e" where
  "wr16 bs s e adr w =
     (let (s1, e1) = mem_wr bs s e (uint adr) (lo8 w) in mem_wr bs s1 e1 (uint (adr + 1)) (hi8 w))"

text \<open>
  \<open>imm8\<close> and \<open>imm16\<close> are the operand bytes after the opcode; \<open>skip n\<close> steps over them.
\<close>

definition skip :: "u16 \<Rightarrow> State8085 \<Rightarrow> State8085" where
  "skip n s = s\<lparr>pc := pc s + n\<rparr>"

definition with_cc :: "State8085 \<Rightarrow> (Flags \<Rightarrow> Flags) \<Rightarrow> State8085" where
  "with_cc s f = s\<lparr>cc := f (cc s)\<rparr>"

definition acc_op :: "State8085 \<Rightarrow> Flags \<times> u8 \<Rightarrow> State8085" where
  "acc_op s r = s\<lparr>cc := fst r, reg_a := snd r\<rparr>"

definition jump_spec :: "bool \<Rightarrow> State8085 \<Rightarrow> 'e \<Rightarrow> int \<Rightarrow> (State8085 \<times> 'e) option" where
  "jump_spec b s e opc =
     (if b then do { adr \<leftarrow> imm16 s opc; Some (s\<lparr>pc := adr\<rparr>, e) } else Some (skip 2 s, e))"

definition call_spec :: "'e bus \<Rightarrow> bool \<Rightarrow> State8085 \<Rightarrow> 'e \<Rightarrow> int \<Rightarrow> (State8085 \<times> 'e) option" where
  "call_spec bs b s e opc =
     (if b then do { adr \<leftarrow> imm16 s opc; let (s1, e1) = push16 bs s e (pc s + 2); Some (s1\<lparr>pc := adr\<rparr>, e1) }
      else Some (skip 2 s, e))"

definition ret_spec :: "bool \<Rightarrow> State8085 \<Rightarrow> 'e \<Rightarrow> (State8085 \<times> 'e) option" where
  "ret_spec b s e =
     (if b then do { adr \<leftarrow> rd16 s (sp s); Some (s\<lparr>pc := adr, sp := sp s + 2\<rparr>, e) } else Some (s, e))"

definition dad_spec :: "State8085 \<Rightarrow> u16 \<Rightarrow> State8085" where
  "dad_spec s w =
     with_cc (set16 s PH (HL s + w)) (\<lambda>f. f\<lparr>fl_cy := (65535 < uint (HL s) + uint w)\<rparr>)"

definition dsub_spec :: "State8085 \<Rightarrow> State8085" where
  "dsub_spec s =
     (let h = HL s; b = BC s; r = h - b
      in (set16 s PH r)\<lparr>cc := (cc s)\<lparr>fl_v := sint h - sint b < - 32768 \<or> 32767 < sint h - sint b,
             fl_cy := (h < b), fl_z := (h = b), fl_s := sint r < 0, fl_p := even_ones (lo8 r),
             fl_ac := uint h mod 16 < uint b mod 16\<rparr>\<rparr>)"

definition arhl_spec :: "State8085 \<Rightarrow> State8085" where
  "arhl_spec s =
     with_cc (set16 s PH (word_of_int (sint (HL s) div 2))) (\<lambda>f. f\<lparr>fl_cy := odd (uint (HL s))\<rparr>)"

definition rdel_spec :: "State8085 \<Rightarrow> State8085" where
  "rdel_spec s =
     (let d = DE s; r = word_of_int (2 * uint d + carry_of (cc s)) :: u16
      in with_cc (set16 s PD r) (\<lambda>f. f\<lparr>fl_cy := sint d < 0, fl_v := (sint d < 0) \<noteq> (sint r < 0)\<rparr>))"

fun psw_of :: "State8085 \<Rightarrow> rpair \<Rightarrow> u16" where
  "psw_of s PSP = pair16 (reg_a s) (psw_byte (cc s))"
| "psw_of s p = get16 s p"

fun set_psw :: "State8085 \<Rightarrow> rpair \<Rightarrow> u16 \<Rightarrow> State8085" where
  "set_psw s PSP w = (unpack_psw s (lo8 w))\<lparr>reg_a := hi8 w\<rparr>"
| "set_psw s p w = set16 s p w"

fun isa_exec :: "'e bus \<Rightarrow> State8085 \<Rightarrow> 'e \<Rightarrow> int \<Rightarrow> instr \<Rightarrow> (State8085 \<times> 'e) option" where
  "isa_exec bs s e opc NOP = Some (s, e)"
| "isa_exec bs s e opc (LXI p) = do { w \<leftarrow> imm16 s opc; Some (skip 2 (set16 s p w), e) }"
| "isa_exec bs s e opc (STAX p) = Some (mem_wr bs s e (uint (get16 s p)) (reg_a s))"
| "isa_exec bs s e opc (LDAX p) = Some (s\<lparr>reg_a := memory s (get16 s p)\<rparr>, e)"
| "isa_exec bs s e opc SHLD =
     do { adr \<leftarrow> imm16 s opc; Some (apfst (skip 2) (wr16 bs s e adr (HL s))) }"
| "isa_exec bs s e opc LHLD =
     do { adr \<leftarrow> imm16 s opc; w \<leftarrow> rd16 s adr; Some (skip 2 (set16 s PH w), e) }"
| "isa_exec bs s e opc STA =
     do { adr \<leftarrow> imm16 s opc; Some (apfst (skip 2) (mem_wr bs s e (uint adr) (reg_a s))) }"
| "isa_exec bs s e opc LDA =
     do { adr \<leftarrow> imm16 s opc; Some (skip 2 (s\<lparr>reg_a := memory s adr\<rparr>), e) }"
| "isa_exec bs s e opc (INX p) =
     (let w = get16 s p + 1 in Some (with_cc (set16 s p w) (\<lambda>f. f\<lparr>fl_x5 := w = 0\<rparr>), e))"
| "isa_exec bs s e opc (DCX p) =
     (let w = get16 s p - 1 in Some (with_cc (set16 s p w) (\<lambda>f. f\<lparr>fl_x5 := w = 0xFFFF\<rparr>), e))"
| "isa_exec bs s e opc (DAD p) = Some (dad_spec s (get16 s p), e)"
| "isa_exec bs s e opc (INR r) =
     (let (f, v) = add_spec (cc s) (get8 s r) 1 0 PRESERVE_CARRY in Some (set8 bs (s\<lparr>cc := f\<rparr>) e r v))"
| "isa_exec bs s e opc (DCR r) =
     (let (f, v) = sub_spec (cc s) (get8 s r) 1 0 PRESERVE_CARRY in Some (set8 bs (s\<lparr>cc := f\<rparr>) e r v))"
| "isa_exec bs s e opc (MVI r) = do { v \<leftarrow> imm8 s opc; Some (apfst (skip 1) (set8 bs s e r v)) }"
| "isa_exec bs s e opc (ROT r) =
     (let (c, a) = rot_spec r (fl_cy (cc s)) (reg_a s)
      in Some (s\<lparr>reg_a := a, cc := (cc s)\<lparr>fl_cy := c\<rparr>\<rparr>, e))"
| "isa_exec bs s e opc DAA = Some (daa s, e)"
| "isa_exec bs s e opc CMA = Some (s\<lparr>reg_a := NOT (reg_a s)\<rparr>, e)"
| "isa_exec bs s e opc STC = Some (with_cc s (\<lambda>f. f\<lparr>fl_cy := True\<rparr>), e)"
| "isa_exec bs s e opc CMC = Some (with_cc s (\<lambda>f. f\<lparr>fl_cy := \<not> fl_cy f\<rparr>), e)"
| "isa_exec bs s e opc RIM = Some (s\<lparr>reg_a := rim_byte s\<rparr>, e)"
| "isa_exec bs s e opc SIM = Some (sim_op s, e)"
| "isa_exec bs s e opc DSUB = Some (dsub_spec s, e)"
| "isa_exec bs s e opc ARHL = Some (arhl_spec s, e)"
| "isa_exec bs s e opc RDEL = Some (rdel_spec s, e)"
| "isa_exec bs s e opc LDHI = do { v \<leftarrow> imm8 s opc; Some (skip 1 (set16 s PD (HL s + ucast v)), e) }"
| "isa_exec bs s e opc LDSI = do { v \<leftarrow> imm8 s opc; Some (skip 1 (set16 s PD (sp s + ucast v)), e) }"
| "isa_exec bs s e opc SHLX = Some (wr16 bs s e (DE s) (HL s))"
| "isa_exec bs s e opc LHLX = do { w \<leftarrow> rd16 s (DE s); Some (set16 s PH w, e) }"
| "isa_exec bs s e opc (MOV d r) = Some (set8 bs s e d (get8 s r))"
| "isa_exec bs s e opc HLT = Some (s\<lparr>hlt_enable := 1\<rparr>, e)"
| "isa_exec bs s e opc (ALU a r) = Some (acc_op s (alu_spec a (cc s) (reg_a s) (get8 s r)), e)"
| "isa_exec bs s e opc (ALUI a) =
     do { v \<leftarrow> imm8 s opc; Some (skip 1 (acc_op s (alu_spec a (cc s) (reg_a s) v)), e) }"
| "isa_exec bs s e opc JMP = jump_spec True s e opc"
| "isa_exec bs s e opc CALL = call_spec bs True s e opc"
| "isa_exec bs s e opc RET = ret_spec True s e"
| "isa_exec bs s e opc (JCC c) = jump_spec (holds (cc s) c) s e opc"
| "isa_exec bs s e opc (CCC c) = call_spec bs (holds (cc s) c) s e opc"
| "isa_exec bs s e opc (RCC c) = ret_spec (holds (cc s) c) s e"
| "isa_exec bs s e opc JNX5 = jump_spec (\<not> fl_x5 (cc s)) s e opc"
| "isa_exec bs s e opc JX5 = jump_spec (fl_x5 (cc s)) s e opc"
| "isa_exec bs s e opc (RST n) = Some (apfst (\<lambda>s1. s1\<lparr>pc := ucast n * 8\<rparr>) (push16 bs s e (pc s)))"
| "isa_exec bs s e opc RSTV =
     (if fl_v (cc s) then Some (apfst (\<lambda>s1. s1\<lparr>pc := 0x40\<rparr>) (push16 bs s e (pc s))) else Some (s, e))"
| "isa_exec bs s e opc (PUSH p) = Some (push16 bs s e (psw_of s p))"
| "isa_exec bs s e opc (POP p) =
     do { w \<leftarrow> (if p = PSP then Some (rd16_wrap s (sp s)) else rd16 s (sp s));
          Some ((set_psw s p w)\<lparr>sp := sp s + 2\<rparr>, e) }"
| "isa_exec bs s e opc XTHL =
     do { w \<leftarrow> rd16 s (sp s); let (s1, e1) = wr16 bs s e (sp s) (HL s); Some (set16 s1 PH w, e1) }"
| "isa_exec bs s e opc SPHL = Some (s\<lparr>sp := HL s\<rparr>, e)"
| "isa_exec bs s e opc PCHL = Some (s\<lparr>pc := HL s\<rparr>, e)"
| "isa_exec bs s e opc XCHG = Some (set16 (set16 s PH (DE s)) PD (HL s), e)"
| "isa_exec bs s e opc INP =
     do { port \<leftarrow> imm8 s opc;
          let (s1, e1) = bus_io_pre_read bs port s e;
          Some (bus_io_read bs port (io s1 port) (skip 1 (s1\<lparr>reg_a := io s1 port\<rparr>)) e1) }"
| "isa_exec bs s e opc OUTP =
     do { port \<leftarrow> imm8 s opc;
          Some (bus_io_write bs port (reg_a s) (skip 1 (s\<lparr>io := (io s)(port := reg_a s)\<rparr>)) e) }"
| "isa_exec bs s e opc DI = Some (s\<lparr>int_enable := 0, int_enable_delay := 0\<rparr>, e)"
| "isa_exec bs s e opc EI = Some (s\<lparr>int_enable_delay := 2\<rparr>, e)"

end
