(* ===== verification/Isa_Arith.thy ===== *)
theory Isa_Arith
  imports Isa
begin

unbundle bit_operations_syntax

text \<open>
  The arithmetic of the opcode switch against the arithmetic of the instruction set: the register
  pair instructions, DAD, DSUB, ARHL and RDEL, and the rotates, each an equation between the C
  expression on words and its meaning on integers.
\<close>

section \<open>Bytes\<close>

lemma bit_0xFF: "bit (0xFF :: int) n \<longleftrightarrow> n < 8"
proof -
  have "(0xFF :: int) = mask 8" by (simp add: mask_eq_exp_minus_1)
  then show ?thesis by (simp only: bit_mask_iff possible_bit_int) simp
qed

lemma cma_eq: "b XOR 0xFF = NOT b" for b :: u8
  by (rule bit_word_eqI) (simp add: bit_xor_iff bit_not_iff bit_0xFF)

lemma byte_eqI:
  fixes a b :: u8
  assumes "bit a 0 = bit b 0" "bit a 1 = bit b 1" "bit a 2 = bit b 2" "bit a 3 = bit b 3"
    "bit a 4 = bit b 4" "bit a 5 = bit b 5" "bit a 6 = bit b 6" "bit a 7 = bit b 7"
  shows "a = b"
proof (rule bit_word_eqI)
  fix n assume "n < LENGTH(8)"
  then have "n = 0 \<or> n = 1 \<or> n = 2 \<or> n = 3 \<or> n = 4 \<or> n = 5 \<or> n = 6 \<or> n = 7" by auto
  with assms show "bit a n = bit b n" by metis
qed

lemma rlc_eq: "drop_bit 7 (a AND 0x80) OR push_bit 1 a = word_rotl 1 a" for a :: u8
  by (rule byte_eqI)
    (auto simp: bit_simps bit_word_rotl_iff bit_0x80 bit_double_iff mult.commute [of a 2] dest: bit_imp_le_length)

lemma rrc_eq: "push_bit 7 (a AND 1) OR drop_bit 1 a = word_rotr 1 a" for a :: u8
  by (rule byte_eqI; simp add: bit_simps bit_word_rotr_iff; (simp only: numeral_3_eq_3)?)
    (auto dest: bit_imp_le_length)

lemma ral_eq: "of_bool c OR push_bit 1 a = word_of_int (2 * uint a + of_bool c)" for a :: u8
proof -
  have "push_bit 1 a OR of_bool c = push_bit 1 a + of_bool c"
   by (rule disjunctive_add [symmetric]) (auto simp: bit_simps bit_double_iff  mult.commute [of a 2])
  then show ?thesis by (simp add: or.commute push_bit_eq_mult mult.commute)
qed

lemma rar_eq: "drop_bit 1 a OR push_bit 7 (of_bool c) = word_of_int ((256 * of_bool c + uint a) div 2)" for a :: u8
proof -
  have "drop_bit 1 a OR push_bit 7 (of_bool c) = drop_bit 1 a + push_bit 7 (of_bool c)"
   by (rule disjunctive_add [symmetric]) (auto simp: bit_simps dest: bit_imp_le_length)
  also have "\<dots> = word_of_int (uint (drop_bit 1 a) + uint (push_bit 7 (of_bool c :: u8)))" by simp
  also have "uint (drop_bit 1 a) = uint a div 2"
    by (simp add: drop_bit_eq_div uint_div)
  also have "uint (push_bit 7 (of_bool c :: u8)) = 128 * of_bool c" by simp
  also have "uint a div 2 + 128 * of_bool c = (256 * of_bool c + uint a) div 2" by simp
  finally show ?thesis .
qed

section \<open>Register pairs\<close>

lemma hi8_lo8_uint: "uint (hi8 w) = uint w div 256" "uint (lo8 w) = uint w mod 256"
proof -
  have "w = pair16 (hi8 w) (lo8 w)" by simp
  then have "uint w = uint (hi8 w) * 256 + uint (lo8 w)" by (metis uint_pair16)
  then show "uint (hi8 w) = uint w div 256" "uint (lo8 w) = uint w mod 256"
    using u8_bounds [of "lo8 w"] by simp_all
qed

lemma hi8_lo8_int: "hi8 w = word_of_int (uint w div 256)" "lo8 w = word_of_int (uint w)"
  using u8_bounds [of "hi8 w"]
  by (simp_all add: word_uint_eq_iff uint_word_of_int hi8_lo8_uint unsigned_ucast_eq take_bit_eq_mod)

lemma pair16_0_iff: "pair16 h l = 0 \<longleftrightarrow> h = 0 \<and> l = 0"
proof -
  have "pair16 0 0 = 0" by (simp add: pair16_of_int)
  then show ?thesis by (metis pair16_eq_iff)
qed

lemma pair16_ffff_iff: "pair16 h l = 0xFFFF \<longleftrightarrow> h = 0xFF \<and> l = 0xFF"
proof -
  have "pair16 0xFF 0xFF = 0xFFFF" by (simp add: pair16_of_int)
  then show ?thesis by (metis pair16_eq_iff)
qed

lemma word_of_int_16_cong: "x mod 65536 = y mod 65536 \<Longrightarrow> (word_of_int x :: u16) = word_of_int y"
  by (simp add: word_uint_eq_iff uint_word_of_int)

lemma pair16_step:
  assumes "uint h' * 256 + uint l' = (uint h * 256 + uint l + k) mod 65536"
  shows "pair16 h l + word_of_int k = pair16 h' l'"
proof -
  have "pair16 h l + word_of_int k = word_of_int (uint h * 256 + uint l + k)"
    by (simp add: pair16_of_int)
  also have "\<dots> = word_of_int (uint h' * 256 + uint l')"
    by (rule word_of_int_16_cong) (simp add: assms)
  finally show ?thesis by (simp add: pair16_of_int)
qed

lemma carry_step:
  fixes h l k :: int
  shows "(h + (l + k) div 256) mod 256 * 256 + (l + k) mod 256 = (h * 256 + l + k) mod 65536"
proof -
  have "(h * 256 + l + k) mod (256 * 256) =
      256 * ((h * 256 + l + k) div 256 mod 256) + (h * 256 + l + k) mod 256"
    by (rule zmod_zmult2_eq) simp
  moreover have "(h * 256 + l + k) div 256 = h + (l + k) div 256" "(h * 256 + l + k) mod 256 = (l + k) mod 256"
    by (simp_all add: add.assoc)
  ultimately show ?thesis by (simp add: mult.commute)
qed

lemma pair16_add:
  "pair16 h l + word_of_int k = pair16 (h + word_of_int ((uint l + k) div 256)) (l + word_of_int k)"
  by (rule pair16_step) (simp add: carry_step [symmetric] uint_word_ariths uint_word_of_int mod_simps)

lemma byte_wraps: "l + 1 = 0 \<longleftrightarrow> uint l = 255" "l - 1 = 255 \<longleftrightarrow> uint l = 0" for l :: u8
proof -
  have "l + 1 = 0 \<longleftrightarrow> l = -1" by (simp only: eq_neg_iff_add_eq_0)
  moreover have "(-1 :: u8) = 255" by simp
  ultimately have "l + 1 = 0 \<longleftrightarrow> l = 255" by simp
  then show "l + 1 = 0 \<longleftrightarrow> uint l = 255" by (simp add: word_uint_eq_iff)
  have max: "(255 :: u8) = -1" by simp
  have "l - 1 = 255 \<longleftrightarrow> l = 0" unfolding max by simp
  then show "l - 1 = 255 \<longleftrightarrow> uint l = 0" by (simp add: word_uint_eq_iff)
qed

lemma pair16_inc: "pair16 h l + 1 = pair16 (if l + 1 = 0 then h + 1 else h) (l + 1)"
proof -
  have "0 \<le> x \<Longrightarrow> x < 256 \<Longrightarrow> (x + 1) div 256 = (if x = 255 then 1 else 0)" for x :: int by auto
  note this [OF u8_bounds, of l]
  then show ?thesis
    using pair16_add [of h l 1] by (simp add: byte_wraps)
qed

lemma pair16_dec: "pair16 h l - 1 = pair16 (if l - 1 = 0xFF then h - 1 else h) (l - 1)"
proof -
  have "0 \<le> x \<Longrightarrow> x < 256 \<Longrightarrow> (x - 1) div 256 = (if x = 0 then -1 else 0)" for x :: int by auto
  note this [OF u8_bounds, of l]
  then show ?thesis
    using pair16_add [of h l "-1"] by (simp add: byte_wraps)
qed

lemma inx_pair_eq:
  "inx_pair s h l put =
     (let w = pair16 h l + 1 in (put (hi8 w) (lo8 w) s)\<lparr>cc := (cc (put (hi8 w) (lo8 w) s))\<lparr>fl_x5 := (w = 0)\<rparr>\<rparr>)"
  by (simp add: inx_pair_def Let_def pair16_inc pair16_0_iff)

lemma dcx_pair_eq:
  "dcx_pair s h l put =
     (let w = pair16 h l - 1 in (put (hi8 w) (lo8 w) s)\<lparr>cc := (cc (put (hi8 w) (lo8 w) s))\<lparr>fl_x5 := (w = 0xFFFF)\<rparr>\<rparr>)"
  by (simp add: dcx_pair_def Let_def pair16_dec pair16_ffff_iff)

lemma uint_ucast_u32: "uint (ucast w :: u32) = uint w" for w :: u16
  by (simp add: unsigned_ucast_eq take_bit_eq_mod) (use u16_bounds [of w] in simp)

lemma bit_masks32: "bit (0xff00 :: int) n \<longleftrightarrow> 8 \<le> n \<and> n < 16" "bit (0xff :: int) n \<longleftrightarrow> n < 8"
  "bit (0xffff0000 :: int) n \<longleftrightarrow> 16 \<le> n \<and> n < 32" "bit (0xffff :: int) n \<longleftrightarrow> n < 16"
proof -
  have "(0xff00 :: int) = push_bit 8 (mask 8)" "(0xff :: int) = mask 8"
    "(0xffff0000 :: int) = push_bit 16 (mask 16)" "(0xffff :: int) = mask 16"
    by (simp_all add: mask_eq_exp_minus_1 push_bit_eq_mult)
  then show "bit (0xff00 :: int) n \<longleftrightarrow> 8 \<le> n \<and> n < 16" "bit (0xff :: int) n \<longleftrightarrow> n < 8"
    "bit (0xffff0000 :: int) n \<longleftrightarrow> 16 \<le> n \<and> n < 32" "bit (0xffff :: int) n \<longleftrightarrow> n < 16"
    by (auto simp only: bit_push_bit_iff bit_mask_iff possible_bit_int)
qed

lemma bytes_of_u32:
  "(ucast (r AND 0xff) :: u8) = lo8 (ucast r)"
  "lo8 (ucast (drop_bit 8 r)) = hi8 (ucast r)" for r :: u32
  by (rule bit_word_eqI, auto simp: bit_hi8 bit_lo8 bit_simps bit_masks32 add.commute)+

lemma byte_of_masked: "(ucast (drop_bit 8 r AND 0xff) :: u8) = hi8 (ucast r)" for r :: u32
  by (simp add: bytes_of_u32)

lemma above_u16: "r AND 0xffff0000 > 0 \<longleftrightarrow> 65535 < uint r" for r :: u32
proof -
  have "r AND 0xffff0000 = 0 \<longleftrightarrow> drop_bit 16 r = 0"
  proof
    assume *: "r AND 0xffff0000 = 0"
    show "drop_bit 16 r = 0"
    proof (rule bit_word_eqI)
      fix n 
      from * have "\<not> bit (r AND 0xffff0000) (16 + n)" by simp
      then show "bit (drop_bit 16 r) n = bit (0 :: u32) n"
        by (auto simp: bit_simps bit_masks32 dest: bit_imp_le_length)
    qed
  next
    assume *: "drop_bit 16 r = 0"
    show "r AND 0xffff0000 = 0"
    proof (rule bit_word_eqI)
      fix n 
      from * have "\<not> bit (drop_bit 16 r) (n - 16)" by simp
      then show "bit (r AND 0xffff0000) n = bit (0 :: u32) n"
        by (auto simp: bit_simps bit_masks32)
    qed
  qed
  also have "\<dots> \<longleftrightarrow> uint r div 65536 = 0"
    by (simp add: word_uint_eq_iff drop_bit_eq_div uint_div)
  also have "\<dots> \<longleftrightarrow> \<not> 65535 < uint r"
  proof -
    have "0 \<le> x \<Longrightarrow> x div 65536 = 0 \<longleftrightarrow> \<not> 65535 < x" for x :: int by (auto simp: zdiv_eq_0_iff)
    then show ?thesis by simp
  qed
  finally show ?thesis by (simp add: word_neq_0_conv [symmetric])
qed
section \<open>DAD, ARHL, RDEL and DSUB\<close>

lemma dad_eq: "dad s w = dad_spec s w"
proof -
  define r :: u32 where "r = ucast (HL s) + ucast w"
  have r: "uint r = uint (HL s) + uint w"
    unfolding r_def using u16_bounds [of "HL s"] u16_bounds [of w]
    by (simp add: uint_word_ariths uint_ucast_u32)
  have "uint (ucast r :: u16) = (uint (HL s) + uint w) mod 65536"
   by (simp add: unsigned_ucast_eq take_bit_eq_mod r)
  then have lo: "(ucast r :: u16) = HL s + w" by (simp add: word_uint_eq_iff uint_word_ariths)
  show ?thesis
    by (simp add: dad_def Let_def dad_spec_def with_cc_def bytes_of_u32 above_u16 flip: r_def r lo)
qed

lemma sign_bit_u16: "bit w 15 \<longleftrightarrow> 32768 \<le> uint w" for w :: u16
proof -
  have "bit w 15 \<longleftrightarrow> odd (uint w div 2 ^ 15)"
    using bit_iff_odd [of "uint w" 15] by (simp add: bit_uint_iff)
  moreover have "uint w div 2 ^ 15 = (if 32768 \<le> uint w then 1 else 0)"
    using u16_bounds [of w] by auto
  ultimately show ?thesis by simp
qed

lemma sint_u16: "sint w = uint w - (if 32768 \<le> uint w then 65536 else 0)" for w :: u16
proof -
  have "sint w = take_bit 16 (uint w) - 65536 * of_bool (bit w 15)"
    by (simp add: sint_uint signed_take_bit_eq_take_bit_minus bit_uint_iff)
  then show ?thesis
    using u16_bounds [of w] by (simp add: sign_bit_u16 take_bit_eq_mod)
qed

lemma sint_neg_u16: "sint w < 0 \<longleftrightarrow> bit w 15" for w :: u16
  using u16_bounds [of w] by (simp add: sint_u16 sign_bit_u16)

lemma test_bit_and_1: "drop_bit n w AND 1 = 0 \<longleftrightarrow> \<not> bit w n" for w :: "'a::len word"
  by (simp add: and_one_eq bit_iff_odd_drop_bit odd_iff_mod_2_eq_one)

lemma arhl_eq: "arhl s = arhl_spec s"
proof -
  have "(signed_drop_bit 1 (HL s) :: u16) = word_of_int (sint (signed_drop_bit 1 (HL s)))"
    by simp
  also have "sint (signed_drop_bit 1 (HL s)) = sint (HL s) div 2"
    by (simp only: sint_signed_drop_bit_eq drop_bit_eq_div) simp
  finally have e: "signed_drop_bit 1 (HL s) = word_of_int (sint (HL s) div 2)" .
  have "HL s AND 1 \<noteq> 0 \<longleftrightarrow> bit (uint (HL s)) 0"
    using test_bit_and_1 [of 0 "HL s"] by (simp add: bit_uint_iff)
  then have c: "HL s AND 1 \<noteq> 0 \<longleftrightarrow> odd (uint (HL s))" by (simp only: bit_0)
  then show ?thesis 
    unfolding arhl_def Let_def e c by (simp add: arhl_spec_def with_cc_def)
qed

lemma rdel_eq: "rdel s = rdel_spec s"
proof -
  define d where "d = DE s"
  define c where "c = fl_cy (cc s)"
  have "push_bit 1 d OR of_bool c = push_bit 1 d + of_bool c"
   by (rule disjunctive_add [symmetric]) (auto simp: bit_simps bit_double_iff  mult.commute [of d 2])
  also have "\<dots> = word_of_int (2 * uint d + carry_of (cc s))"
    by (simp add: push_bit_eq_mult mult.commute carry_of_def c_def)
  finally have e: "push_bit 1 d OR of_bool c = word_of_int (2 * uint d + carry_of (cc s))" .
  show ?thesis 
  unfolding rdel_def rdel_spec_def Let_def with_cc_def sint_neg_u16 test_bit_and_1 d_def [symmetric] c_def [symmetric] e
   by simp
qed

lemma dsub_flags_int:
  fixes h b :: int
  assumes "0 \<le> h" "h < 65536" "0 \<le> b" "b < 65536" "w = (h - b) mod 65536" "x = (h - b) mod 4294967296"
  shows "((32768 \<le> h) \<noteq> (32768 \<le> b) \<and> (32768 \<le> w) \<noteq> (32768 \<le> h)) \<longleftrightarrow>
    (h - (if 32768 \<le> h then 65536 else 0) - (b - (if 32768 \<le> b then 65536 else 0)) < -32768 \<or>
     32767 < h - (if 32768 \<le> h then 65536 else 0) - (b - (if 32768 \<le> b then 65536 else 0)))"
   and "x div 65536 = (if h < b then 65535 else 0)"
proof -
  have "w = h - b + (if h - b < 0 then 65536 else 0)"
    using assms by (simp only: mod_wrap_signed)
  then show "((32768 \<le> h) \<noteq> (32768 \<le> b) \<and> (32768 \<le> w) \<noteq> (32768 \<le> h)) \<longleftrightarrow>
    (h - (if 32768 \<le> h then 65536 else 0) - (b - (if 32768 \<le> b then 65536 else 0)) < -32768 \<or>
     32767 < h - (if 32768 \<le> h then 65536 else 0) - (b - (if 32768 \<le> b then 65536 else 0)))"
    using assms(1-4) by auto
  have "x = h - b + (if h - b < 0 then 4294967296 else 0)"
    unfolding assms(6) by (rule mod_wrap_signed) (use assms(1-4) in linarith)+
  then show "x div 65536 = (if h < b then 65535 else 0)"
    using assms(1-4) by auto
qed

lemma dsub_eq: "dsub s = dsub_spec s"
proof -
  define h where "h = HL s" 
  define b where "b = BC s"
  define r :: u32 where "r = ucast h - ucast b"
  have x: "uint r = (uint h - uint b) mod 4294967296" 
    by (simp add: r_def uint_word_ariths uint_ucast_u32)
  have w: "uint (h - b) = (uint h - uint b) mod 65536" by (simp add: uint_word_ariths)
  have "uint (ucast r :: u16) = (uint h - uint b) mod 65536"
    by (simp add: unsigned_ucast_eq take_bit_eq_mod x mod_mod_cancel)
  then have lo: "(ucast r :: u16) = h - b" by (simp add: word_uint_eq_iff uint_word_ariths)
  note flags = dsub_flags_int [OF u16_bounds u16_bounds w x, folded sint_u16 sign_bit_u16]
  have b15: "bit r 15 \<longleftrightarrow> bit (h - b) 15" by (simp add: bit_ucast_iff flip: lo)
  have b16: "bit r 16 \<longleftrightarrow> h < b" 
   using bit_iff_odd [of "uint r" 16] flags(2) by (simp add: bit_uint_iff word_less_def)
  have z: "r AND 0xffff = 0 \<longleftrightarrow> h = b"
  proof -
    have "(r AND mask 16 = 0) = ((ucast r :: u16) = 0)"
      by (simp add: word_uint_eq_iff unsigned_ucast_eq flip: take_bit_eq_mask) (simp add: unsigned_take_bit_eq)
    then show ?thesis by (simp add: lo mask_eq_exp_minus_1)
  qed
  have p: "parity (uint (r AND 0xff)) 8 = even_ones (lo8 (h - b))"
  proof -
    have "uint (r AND mask 8) = uint (ucast r :: u8)"
      by (simp add: unsigned_ucast_eq flip: take_bit_eq_mask) (simp add: unsigned_take_bit_eq)
    also have "(ucast r :: u8) = lo8 (h - b)"
      unfolding lo [symmetric] by (rule bit_word_eqI) (auto simp: bit_lo8 bit_simps)
    finally show ?thesis by (simp add: mask_eq_exp_minus_1 parity_byte)
  qed
  have ac: "uint (w AND 0x0f) = uint w mod 16" for w :: u16
  proof -
    have "uint (w AND mask 4) = uint w mod 16"
      by (simp only: unsigned_take_bit_eq flip: take_bit_eq_mask) (simp add: take_bit_eq_mod)
    then show ?thesis by (simp add: mask_eq_exp_minus_1)
  qed
  show ?thesis
    unfolding dsub_def dsub_spec_def Let_def h_def [symmetric] b_def [symmetric] r_def [symmetric]
      test_bit_and_1 byte_of_masked bytes_of_u32 lo b15 b16 z p ac sint_neg_u16
    using flags(1) by simp
qed

end
