(* ===== verification/Isa_Refine.thy ===== *)
theory Isa_Refine
  imports Isa_Arith
begin

unbundle bit_operations_syntax

text \<open>
  The refinement: every case of the opcode switch has the meaning the instruction set gives its
  decoding.  The immediate forms ADI and CPI leave the V flag alone where the instruction set, and
  the register forms, set it; they agree up to that flag.
\<close>

section \<open>Memory operands\<close>

lemma mem_wr_offset:
  "mem_wr bs s e (uint a - 1) v = mem_wr bs s e (uint (a - 1)) v"
  "mem_wr bs s e (uint a - 2) v = mem_wr bs s e (uint (a - 2)) v"
  "mem_wr bs s e (uint a + 1) v = mem_wr bs s e (uint (a + 1)) v"
  for a :: u16
  by (simp_all add: mem_wr_def)

lemma rd_next: "rd s (uint a + 1) = (if a = 0xFFFF then None else Some (memory s (a + 1)))" for a :: u16
proof -
  have "a = 0xFFFF \<longleftrightarrow> uint a = 65535"
    by (simp add: word_uint_eq_iff)
  then show ?thesis using u16_bounds [of a] by (auto simp: rd_def)
qed

lemma pair_sum: "push_bit 8 (uint h) + uint l = uint (pair16 h l)"
  by (simp add: uint_pair16 push_bit_eq_mult)

lemma apfst_beta: "apfst f p = (f (fst p), snd p)"
  by (cases p) simp

lemma imm16_eq: "do { lo \<leftarrow> rd s (opc + 1); hi \<leftarrow> rd s (opc + 2); f hi lo } =
    (case imm16 s opc of None \<Rightarrow> None | Some w \<Rightarrow> f (hi8 w) (lo8 w))"
  by (auto simp: imm16_def split: Option.bind_split)

lemma rotated_out:
  "drop_bit 7 (a AND 0x80) = 1 \<longleftrightarrow> bit a 7" "a AND 1 = 1 \<longleftrightarrow> bit a 0" for a :: u8
proof -
  have "drop_bit 7 (a AND 0x80) = (if bit a 7 then 1 else 0)"
    by (rule byte_eqI) (auto simp: bit_simps bit_0x80)
  then show "drop_bit 7 (a AND 0x80) = 1 \<longleftrightarrow> bit a 7" by simp
  show "a AND 1 = 1 \<longleftrightarrow> bit a 0" by (simp add: and_one_eq bit_0 odd_iff_mod_2_eq_one)
qed

lemmas rot_simps = rlc_eq rrc_eq ral_eq rar_eq rotated_out cma_eq

lemma row_member: "x \<le> unat op \<Longrightarrow> unat op < x + 16 \<Longrightarrow> list_ex (\<lambda>n. op = of_nat n) [x..<x + 16]" for op :: u8
  by (auto simp: list_ex_iff intro!: bexI [of _ "unat op"])

lemma upt_first_row: "[0..<16] = [0, 1, 2, 3, 4, 5, 6, 7, 8, 9, 10, 11, 12, 13, 14, 15]"
  by (simp add: upt_rec)

lemma adi_eq:
  "adi s v = (let (f, r) = add_spec (cc s) (reg_a s) v 0 UPDATE_CARRY
     in s\<lparr>cc := f\<lparr>fl_v := fl_v (cc s)\<rparr>, reg_a := r, pc := pc s + 1\<rparr>)"
proof -
  define w :: u16 where "w = ucast (reg_a s) + ucast v"
  have w: "ucast w = reg_a s + v" "0xff < w \<longleftrightarrow> 255 < uint (reg_a s) + uint v"
    using sum16 [of "reg_a s" v 0] by (simp_all add: w_def)
  then have "bit w 7 \<longleftrightarrow> 128 \<le> uint (reg_a s + v)"
    by (simp add: bit_ucast_iff flip: sign_bit_u8 w(1))
  then show ?thesis
    by (simp add: adi_def add_spec_def Let_def arith_flags_def low_byte low_byte_0 parity_byte and_0x80_iff
        low_nibble w flip: w_def)
qed

lemma cpi_eq:
  "cpi s v = s\<lparr>cc := (fst (sub_spec (cc s) (reg_a s) v 0 UPDATE_CARRY))\<lparr>fl_v := fl_v (cc s)\<rparr>, pc := pc s + 1\<rparr>"
  by (simp add: cpi_def sub_spec_def Let_def arith_flags_def word_less_def low_nibble parity_byte and_0x80_iff sign_bit_u8)

abbreviation untimed :: "(State8085 \<times> 'e \<times> nat) option \<Rightarrow> (State8085 \<times> 'e) option" where
  "untimed r \<equiv> map_option (\<lambda>(s, e, t). (s, e)) r"

context cpu_bus
begin

lemma mem_wr_fields [frame_simps]:
    "reg_a (fst (mem_wr bs s e i v)) = reg_a s" "reg_b (fst (mem_wr bs s e i v)) = reg_b s"
    "reg_c (fst (mem_wr bs s e i v)) = reg_c s" "reg_d (fst (mem_wr bs s e i v)) = reg_d s"
    "reg_e (fst (mem_wr bs s e i v)) = reg_e s" "reg_h (fst (mem_wr bs s e i v)) = reg_h s"
    "reg_l (fst (mem_wr bs s e i v)) = reg_l s" "sp (fst (mem_wr bs s e i v)) = sp s"
    "pc (fst (mem_wr bs s e i v)) = pc s" "cc (fst (mem_wr bs s e i v)) = cc s"
    "int_enable (fst (mem_wr bs s e i v)) = int_enable s"
    "int_enable_delay (fst (mem_wr bs s e i v)) = int_enable_delay s"
    "r5_mask (fst (mem_wr bs s e i v)) = r5_mask s" "r6_mask (fst (mem_wr bs s e i v)) = r6_mask s"
    "r7_mask (fst (mem_wr bs s e i v)) = r7_mask s" "pending_trap (fst (mem_wr bs s e i v)) = pending_trap s"
    "pending_r5 (fst (mem_wr bs s e i v)) = pending_r5 s"
    "pending_r6 (fst (mem_wr bs s e i v)) = pending_r6 s" "r7_latch (fst (mem_wr bs s e i v)) = r7_latch s"
    "pending_int (fst (mem_wr bs s e i v)) = pending_int s"
    "int_rst_number (fst (mem_wr bs s e i v)) = int_rst_number s"
    "sid_line (fst (mem_wr bs s e i v)) = sid_line s" "sod_line (fst (mem_wr bs s e i v)) = sod_line s"
    "hlt_enable (fst (mem_wr bs s e i v)) = hlt_enable s" "io (fst (mem_wr bs s e i v)) = io s"
  using mem_wr_frame [of s e i v "fst (mem_wr bs s e i v)" "snd (mem_wr bs s e i v)"] by auto

lemma mem_wr_sp:
  "mem_wr bs (s\<lparr>sp := x\<rparr>) e i v = ((fst (mem_wr bs s e i v))\<lparr>sp := x\<rparr>, snd (mem_wr bs s e i v))"
proof -
  obtain w s1 e1 where w: "bus_mem_write bs (word_of_int i) v s e = (w, s1, e1)"
    by (metis prod_cases3)
  then obtain t1 where t: "bus_mem_write bs (word_of_int i) v (s\<lparr>sp := x\<rparr>) e = (w, t1, e1)"
    using mem_write_local [of s _ "s\<lparr>sp := x\<rparr>"] by fastforce
  show ?thesis
    using w t mem_write_cpu [OF w] mem_write_cpu [OF t] by (simp add: mem_wr_def)
qed

lemma imm8_pre_read: "imm8 (fst (bus_io_pre_read bs p s e)) opc = imm8 s opc"
  using io_pre_read_cpu [of p s e "fst (bus_io_pre_read bs p s e)" "snd (bus_io_pre_read bs p s e)"]
  by (auto simp: imm8_def rd_def)

lemma call_eq: "call bs s e addr = apfst (\<lambda>s1. s1\<lparr>pc := addr\<rparr>) (push16 bs s e (pc s + 2))"
  by (simp add: call_def push16_def mem_wr_offset Let_def split_beta frame_simps)

lemma rst_eq:
  "rst bs s e n half = apfst (\<lambda>s1. s1\<lparr>pc := ucast n * 8 + ucast half * 4\<rparr>) (push16 bs s e (pc s))"
  by (simp add: rst_def push16_def mem_wr_offset Let_def split_beta frame_simps)

lemma returnToCaller_eq:
  "returnToCaller s = do { adr \<leftarrow> rd16 s (sp s); Some (s\<lparr>pc := adr, sp := sp s + 2\<rparr>) }"
  by (simp add: returnToCaller_def rd_next rd16_def)

lemma drop_t:
   "map_option (\<lambda>(s, e, _). (s, e)) (jump_on b s e opc) = jump_spec b s e opc"
   "map_option (\<lambda>(s, e, _). (s, e)) (call_on b bs s e opc) = call_spec bs b s e opc"
   "map_option (\<lambda>(s, e, _). (s, e)) (return_on b s e) = ret_spec b s e"
   "map_option (\<lambda>(s, e, _). (s, e)) (reset_to bs s e n) = Some (apfst (\<lambda>s1. s1\<lparr>pc := ucast n * 8\<rparr>) (push16 bs s e (pc s)))"
   "map_option (\<lambda>(s, e, _). (s, e)) (store bs s e a v t) = Some (mem_wr bs s e a v)"
  by (auto simp: jump_on_def jump_spec_def call_on_def call_spec_def return_on_def ret_spec_def reset_to_def
    store_def returnToCaller_eq call_eq rst_eq skip_def split_beta Let_def apfst_def map_prod_def split: Option.bind_split)


lemmas row_simps = decode_def decode_0_def decode_3_def reg_of_def pair_of_def cond_of_def alu_of_def
  drop_t inx_pair_eq dcx_pair_eq dad_eq dsub_eq arhl_eq rdel_eq with_cc_def skip_def acc_op_def
  alu_simps add_spec_def sub_spec_def logic_spec_def
  split_beta frame_simps mem_wr_offset wr16_def Let_def
  pair_sum apfst_beta rd_next rd16_def rd16_wrap_def imm16_eq
  LogicFlagsA_eq jump_spec_def call_spec_def ret_spec_def push16_def call_eq rst_eq returnToCaller_eq
  mem_wr_sp imm8_pre_read unpack_psw_def add.commute [of 2 "sp s" for s]

lemma row_0:
  assumes "0x00 \<le> unat op" "unat op < 0x00 + 16"
  shows "untimed (exec_0 bs s e opc op) = isa_exec bs s e opc (decode op)"
  using row_member [OF assms(1,2), simplified upt_first_row add_0, simplified] unfolding exec_0_def rot_simps
  by (elim disjE; hypsubst?) (simp_all add: row_simps split: Option.bind_split option.split)

lemma row_1:
  assumes "0x10 \<le> unat op" "unat op < 0x10 + 16"
  shows "untimed (exec_1 bs s e opc op) = isa_exec bs s e opc (decode op)"
  using row_member [OF assms(1,2), simplified] unfolding exec_1_def rot_simps
  by (elim disjE; hypsubst?) (simp_all add: row_simps split: Option.bind_split option.split)

lemma row_2:
  assumes "0x20 \<le> unat op" "unat op < 0x20 + 16"
  shows "untimed (exec_2 bs s e opc op) = isa_exec bs s e opc (decode op)"
  using row_member [OF assms(1,2), simplified] unfolding exec_2_def rot_simps
  by (elim disjE; hypsubst?) (simp_all add: row_simps split: Option.bind_split option.split)

lemma row_3:
  assumes "0x30 \<le> unat op" "unat op < 0x30 + 16"
  shows "untimed (exec_3 bs s e opc op) = isa_exec bs s e opc (decode op)"
  using row_member [OF assms(1,2), simplified] unfolding exec_3_def rot_simps
  by (elim disjE; hypsubst?) (simp_all add: row_simps split: Option.bind_split option.split)

lemma row_4:
  assumes "0x40 \<le> unat op" "unat op < 0x40 + 16"
  shows "untimed (exec_4 bs s e opc op) = isa_exec bs s e opc (decode op)"
  using row_member [OF assms(1,2), simplified] unfolding exec_4_def rot_simps
  by (elim disjE; hypsubst?) (simp_all add: row_simps split: Option.bind_split option.split)

lemma row_5:
  assumes "0x50 \<le> unat op" "unat op < 0x50 + 16"
  shows "untimed (exec_5 bs s e opc op) = isa_exec bs s e opc (decode op)"
  using row_member [OF assms(1,2), simplified] unfolding exec_5_def rot_simps
  by (elim disjE; hypsubst?) (simp_all add: row_simps split: Option.bind_split option.split)

lemma row_6:
  assumes "0x60 \<le> unat op" "unat op < 0x60 + 16"
  shows "untimed (exec_6 bs s e opc op) = isa_exec bs s e opc (decode op)"
  using row_member [OF assms(1,2), simplified] unfolding exec_6_def rot_simps
  by (elim disjE; hypsubst?) (simp_all add: row_simps split: Option.bind_split option.split)

lemma row_7:
  assumes "0x70 \<le> unat op" "unat op < 0x70 + 16"
  shows "untimed (exec_7 bs s e opc op) = isa_exec bs s e opc (decode op)"
  using row_member [OF assms(1,2), simplified] unfolding exec_7_def rot_simps
  by (elim disjE; hypsubst?) (simp_all add: row_simps split: Option.bind_split option.split)

lemma row_8:
  assumes "0x80 \<le> unat op" "unat op < 0x80 + 16"
  shows "untimed (exec_8 bs s e opc op) = isa_exec bs s e opc (decode op)"
  using row_member [OF assms(1,2), simplified] unfolding exec_8_def rot_simps
  by (elim disjE; hypsubst?) (simp_all add: row_simps split: Option.bind_split option.split)

lemma row_9:
  assumes "0x90 \<le> unat op" "unat op < 0x90 + 16"
  shows "untimed (exec_9 bs s e opc op) = isa_exec bs s e opc (decode op)"
  using row_member [OF assms(1,2), simplified] unfolding exec_9_def rot_simps
  by (elim disjE; hypsubst?) (simp_all add: row_simps split: Option.bind_split option.split)

lemma row_a:
  assumes "0xa0 \<le> unat op" "unat op < 0xa0 + 16"
  shows "untimed (exec_a bs s e opc op) = isa_exec bs s e opc (decode op)"
  using row_member [OF assms(1,2), simplified] unfolding exec_a_def rot_simps
  by (elim disjE; hypsubst?) (simp_all add: row_simps split: Option.bind_split option.split)

lemma row_b:
  assumes "0xb0 \<le> unat op" "unat op < 0xb0 + 16"
  shows "untimed (exec_b bs s e opc op) = isa_exec bs s e opc (decode op)"
  using row_member [OF assms(1,2), simplified] unfolding exec_b_def rot_simps
  by (elim disjE; hypsubst?) (simp_all add: row_simps split: Option.bind_split option.split)

lemma row_c:
  assumes "0xc0 \<le> unat op" "unat op < 0xc0 + 16" "op \<noteq> 0xc6"
  shows "untimed (exec_c bs s e opc op) = isa_exec bs s e opc (decode op)"
  using row_member [OF assms(1,2), simplified] assms(3) unfolding exec_c_def rot_simps
  by (elim disjE; hypsubst?) (simp_all add: row_simps split: Option.bind_split option.split)

lemma row_d:
  assumes "0xd0 \<le> unat op" "unat op < 0xd0 + 16"
  shows "untimed (exec_d bs s e opc op) = isa_exec bs s e opc (decode op)"
  using row_member [OF assms(1,2), simplified] unfolding exec_d_def rot_simps
  by (elim disjE; hypsubst?) (simp_all add: row_simps split: Option.bind_split option.split)

lemma row_e:
  assumes "0xe0 \<le> unat op" "unat op < 0xe0 + 16"
  shows "untimed (exec_e bs s e opc op) = isa_exec bs s e opc (decode op)"
  using row_member [OF assms(1,2), simplified] unfolding exec_e_def rot_simps
  by (elim disjE; hypsubst?) (simp_all add: row_simps split: Option.bind_split option.split)

lemma row_f:
  assumes "0xf0 \<le> unat op" "unat op < 0xf0 + 16" "op \<noteq> 0xfe"
  shows "untimed (exec_f bs s e opc op) = isa_exec bs s e opc (decode op)"
  using row_member [OF assms(1,2), simplified] assms(3) unfolding exec_f_def rot_simps
  by (elim disjE; hypsubst?) (simp_all add: row_simps split: Option.bind_split option.split)

text \<open>The whole switch.\<close>

lemma exec_switch_isa:
  assumes "op \<noteq> 0xc6" "op \<noteq> 0xfe"
  shows "untimed (exec_switch bs s e opc op) = isa_exec bs s e opc (decode op)"
  using assms unsigned_less [of op] unfolding exec_switch_def
  by (auto simp: word_less_nat_alt intro: row_0 row_1 row_2 row_3 row_4 row_5 row_6 row_7
      row_8 row_9 row_a row_b row_c row_d row_e row_f)

text \<open>The two immediates: all of the state but V, and V is what it was.\<close>

lemma exec_switch_adi_cpi:
  assumes "op = 0xc6 \<or> op = 0xfe"
  shows "untimed (exec_switch bs s e opc op) =
    map_option (\<lambda>(s', e'). (s'\<lparr>cc := (cc s')\<lparr>fl_v := fl_v (cc s)\<rparr>\<rparr>, e'))
      (isa_exec bs s e opc (decode op))"
  using assms
  by (elim disjE; hypsubst)
    (simp_all add: exec_switch_def exec_c_def exec_f_def adi_eq cpi_eq row_simps arith_flags_def split: Option.bind_split)

end

end
