(* ===== verification/Disasm.thy ===== *)
theory Disasm
  imports Cpu_State
begin

text \<open>
  The disassembler, \<^verbatim>\<open>src/i8085_disasm.c\<close>: one definition per row of sixteen opcodes, each giving the
  text of the one \<^verbatim>\<open>printf\<close> of its case and the instruction length \<^verbatim>\<open>opbytes\<close>, and the bounded output
  buffer of \<^verbatim>\<open>disasm_printf\<close>.  Operand bytes are read from the code buffer, so \<open>None\<close> is a read past it.
\<close>

section \<open>The output buffer\<close>

definition hex_digit :: "nat \<Rightarrow> char" where
  "hex_digit n = ''0123456789abcdef'' ! (n mod 16)"

text \<open>The conversion \<^verbatim>\<open>%02x\<close> of a byte.\<close>

definition hex02 :: "u8 \<Rightarrow> string" where
  "hex02 v = [hex_digit (unat v div 16), hex_digit (unat v mod 16)]"

text \<open>
  The text written so far and the room left, counting the terminating NUL: \<^verbatim>\<open>vsnprintf\<close> stores at
  most \<open>room - 1\<close> characters.
\<close>

definition disasm_printf :: "string \<times> nat \<Rightarrow> string \<Rightarrow> string \<times> nat" where
  "disasm_printf out txt =
     (let (buf, room) = out
      in if room = 0 then out
         else if length txt \<ge> room then (buf @ take (room - 1) txt, 1)
         else (buf @ txt, room - length txt))"

section \<open>The opcode table\<close>

definition plain :: "string \<Rightarrow> (string \<times> nat) option" where
  "plain m = Some (m, 1)"

definition with_byte :: "(nat \<Rightarrow> u8 option) \<Rightarrow> string \<Rightarrow> (string \<times> nat) option" where
  "with_byte code m = do { b \<leftarrow> code 1; Some (m @ hex02 b, 2) }"

definition with_word :: "(nat \<Rightarrow> u8 option) \<Rightarrow> string \<Rightarrow> (string \<times> nat) option" where
  "with_word code m = do { h \<leftarrow> code 2; l \<leftarrow> code 1; Some (m @ hex02 h @ hex02 l, 3) }"

definition dis_0 :: "(nat \<Rightarrow> u8 option) \<Rightarrow> u8 \<Rightarrow> (string \<times> nat) option" where
  "dis_0 code op =
     (if op = 0x00 then plain ''NOP''
      else if op = 0x01 then with_word code ''LXI    B,#$''
      else if op = 0x02 then plain ''STAX   B''
      else if op = 0x03 then plain ''INX    B''
      else if op = 0x04 then plain ''INR    B''
      else if op = 0x05 then plain ''DCR    B''
      else if op = 0x06 then with_byte code ''MVI    B,#$''
      else if op = 0x07 then plain ''RLC''
      else if op = 0x08 then plain ''DSUB''
      else if op = 0x09 then plain ''DAD    B''
      else if op = 0x0a then plain ''LDAX   B''
      else if op = 0x0b then plain ''DCX    B''
      else if op = 0x0c then plain ''INR    C''
      else if op = 0x0d then plain ''DCR    C''
      else if op = 0x0e then with_byte code ''MVI    C,#$''
      else plain ''RRC'')"

definition dis_1 :: "(nat \<Rightarrow> u8 option) \<Rightarrow> u8 \<Rightarrow> (string \<times> nat) option" where
  "dis_1 code op =
     (if op = 0x10 then plain ''ARHL''
      else if op = 0x11 then with_word code ''LXI    D,#$''
      else if op = 0x12 then plain ''STAX   D''
      else if op = 0x13 then plain ''INX    D''
      else if op = 0x14 then plain ''INR    D''
      else if op = 0x15 then plain ''DCR    D''
      else if op = 0x16 then with_byte code ''MVI    D,#$''
      else if op = 0x17 then plain ''RAL''
      else if op = 0x18 then plain ''RDEL''
      else if op = 0x19 then plain ''DAD    D''
      else if op = 0x1a then plain ''LDAX   D''
      else if op = 0x1b then plain ''DCX    D''
      else if op = 0x1c then plain ''INR    E''
      else if op = 0x1d then plain ''DCR    E''
      else if op = 0x1e then with_byte code ''MVI    E,#$''
      else plain ''RAR'')"

definition dis_2 :: "(nat \<Rightarrow> u8 option) \<Rightarrow> u8 \<Rightarrow> (string \<times> nat) option" where
  "dis_2 code op =
     (if op = 0x20 then plain ''RIM''
      else if op = 0x21 then with_word code ''LXI    H,#$''
      else if op = 0x22 then with_word code ''SHLD   $''
      else if op = 0x23 then plain ''INX    H''
      else if op = 0x24 then plain ''INR    H''
      else if op = 0x25 then plain ''DCR    H''
      else if op = 0x26 then with_byte code ''MVI    H,#$''
      else if op = 0x27 then plain ''DAA''
      else if op = 0x28 then with_byte code ''LDHI   #$''
      else if op = 0x29 then plain ''DAD    H''
      else if op = 0x2a then with_word code ''LHLD   $''
      else if op = 0x2b then plain ''DCX    H''
      else if op = 0x2c then plain ''INR    L''
      else if op = 0x2d then plain ''DCR    L''
      else if op = 0x2e then with_byte code ''MVI    L,#$''
      else plain ''CMA'')"

definition dis_3 :: "(nat \<Rightarrow> u8 option) \<Rightarrow> u8 \<Rightarrow> (string \<times> nat) option" where
  "dis_3 code op =
     (if op = 0x30 then plain ''SIM''
      else if op = 0x31 then with_word code ''LXI    SP,#$''
      else if op = 0x32 then with_word code ''STA    $''
      else if op = 0x33 then plain ''INX    SP''
      else if op = 0x34 then plain ''INR    M''
      else if op = 0x35 then plain ''DCR    M''
      else if op = 0x36 then with_byte code ''MVI    M,#$''
      else if op = 0x37 then plain ''STC''
      else if op = 0x38 then with_byte code ''LDSI   #$''
      else if op = 0x39 then plain ''DAD    SP''
      else if op = 0x3a then with_word code ''LDA    $''
      else if op = 0x3b then plain ''DCX    SP''
      else if op = 0x3c then plain ''INR    A''
      else if op = 0x3d then plain ''DCR    A''
      else if op = 0x3e then with_byte code ''MVI    A,#$''
      else plain ''CMC'')"

definition dis_4 :: "(nat \<Rightarrow> u8 option) \<Rightarrow> u8 \<Rightarrow> (string \<times> nat) option" where
  "dis_4 code op =
     (if op = 0x40 then plain ''MOV    B,B''
      else if op = 0x41 then plain ''MOV    B,C''
      else if op = 0x42 then plain ''MOV    B,D''
      else if op = 0x43 then plain ''MOV    B,E''
      else if op = 0x44 then plain ''MOV    B,H''
      else if op = 0x45 then plain ''MOV    B,L''
      else if op = 0x46 then plain ''MOV    B,M''
      else if op = 0x47 then plain ''MOV    B,A''
      else if op = 0x48 then plain ''MOV    C,B''
      else if op = 0x49 then plain ''MOV    C,C''
      else if op = 0x4a then plain ''MOV    C,D''
      else if op = 0x4b then plain ''MOV    C,E''
      else if op = 0x4c then plain ''MOV    C,H''
      else if op = 0x4d then plain ''MOV    C,L''
      else if op = 0x4e then plain ''MOV    C,M''
      else plain ''MOV    C,A'')"

definition dis_5 :: "(nat \<Rightarrow> u8 option) \<Rightarrow> u8 \<Rightarrow> (string \<times> nat) option" where
  "dis_5 code op =
     (if op = 0x50 then plain ''MOV    D,B''
      else if op = 0x51 then plain ''MOV    D,C''
      else if op = 0x52 then plain ''MOV    D,D''
      else if op = 0x53 then plain ''MOV    D,E''
      else if op = 0x54 then plain ''MOV    D,H''
      else if op = 0x55 then plain ''MOV    D,L''
      else if op = 0x56 then plain ''MOV    D,M''
      else if op = 0x57 then plain ''MOV    D,A''
      else if op = 0x58 then plain ''MOV    E,B''
      else if op = 0x59 then plain ''MOV    E,C''
      else if op = 0x5a then plain ''MOV    E,D''
      else if op = 0x5b then plain ''MOV    E,E''
      else if op = 0x5c then plain ''MOV    E,H''
      else if op = 0x5d then plain ''MOV    E,L''
      else if op = 0x5e then plain ''MOV    E,M''
      else plain ''MOV    E,A'')"

definition dis_6 :: "(nat \<Rightarrow> u8 option) \<Rightarrow> u8 \<Rightarrow> (string \<times> nat) option" where
  "dis_6 code op =
     (if op = 0x60 then plain ''MOV    H,B''
      else if op = 0x61 then plain ''MOV    H,C''
      else if op = 0x62 then plain ''MOV    H,D''
      else if op = 0x63 then plain ''MOV    H,E''
      else if op = 0x64 then plain ''MOV    H,H''
      else if op = 0x65 then plain ''MOV    H,L''
      else if op = 0x66 then plain ''MOV    H,M''
      else if op = 0x67 then plain ''MOV    H,A''
      else if op = 0x68 then plain ''MOV    L,B''
      else if op = 0x69 then plain ''MOV    L,C''
      else if op = 0x6a then plain ''MOV    L,D''
      else if op = 0x6b then plain ''MOV    L,E''
      else if op = 0x6c then plain ''MOV    L,H''
      else if op = 0x6d then plain ''MOV    L,L''
      else if op = 0x6e then plain ''MOV    L,M''
      else plain ''MOV    L,A'')"

definition dis_7 :: "(nat \<Rightarrow> u8 option) \<Rightarrow> u8 \<Rightarrow> (string \<times> nat) option" where
  "dis_7 code op =
     (if op = 0x70 then plain ''MOV    M,B''
      else if op = 0x71 then plain ''MOV    M,C''
      else if op = 0x72 then plain ''MOV    M,D''
      else if op = 0x73 then plain ''MOV    M,E''
      else if op = 0x74 then plain ''MOV    M,H''
      else if op = 0x75 then plain ''MOV    M,L''
      else if op = 0x76 then plain ''HLT''
      else if op = 0x77 then plain ''MOV    M,A''
      else if op = 0x78 then plain ''MOV    A,B''
      else if op = 0x79 then plain ''MOV    A,C''
      else if op = 0x7a then plain ''MOV    A,D''
      else if op = 0x7b then plain ''MOV    A,E''
      else if op = 0x7c then plain ''MOV    A,H''
      else if op = 0x7d then plain ''MOV    A,L''
      else if op = 0x7e then plain ''MOV    A,M''
      else plain ''MOV    A,A'')"

definition dis_8 :: "(nat \<Rightarrow> u8 option) \<Rightarrow> u8 \<Rightarrow> (string \<times> nat) option" where
  "dis_8 code op =
     (if op = 0x80 then plain ''ADD    B''
      else if op = 0x81 then plain ''ADD    C''
      else if op = 0x82 then plain ''ADD    D''
      else if op = 0x83 then plain ''ADD    E''
      else if op = 0x84 then plain ''ADD    H''
      else if op = 0x85 then plain ''ADD    L''
      else if op = 0x86 then plain ''ADD    M''
      else if op = 0x87 then plain ''ADD    A''
      else if op = 0x88 then plain ''ADC    B''
      else if op = 0x89 then plain ''ADC    C''
      else if op = 0x8a then plain ''ADC    D''
      else if op = 0x8b then plain ''ADC    E''
      else if op = 0x8c then plain ''ADC    H''
      else if op = 0x8d then plain ''ADC    L''
      else if op = 0x8e then plain ''ADC    M''
      else plain ''ADC    A'')"

definition dis_9 :: "(nat \<Rightarrow> u8 option) \<Rightarrow> u8 \<Rightarrow> (string \<times> nat) option" where
  "dis_9 code op =
     (if op = 0x90 then plain ''SUB    B''
      else if op = 0x91 then plain ''SUB    C''
      else if op = 0x92 then plain ''SUB    D''
      else if op = 0x93 then plain ''SUB    E''
      else if op = 0x94 then plain ''SUB    H''
      else if op = 0x95 then plain ''SUB    L''
      else if op = 0x96 then plain ''SUB    M''
      else if op = 0x97 then plain ''SUB    A''
      else if op = 0x98 then plain ''SBB    B''
      else if op = 0x99 then plain ''SBB    C''
      else if op = 0x9a then plain ''SBB    D''
      else if op = 0x9b then plain ''SBB    E''
      else if op = 0x9c then plain ''SBB    H''
      else if op = 0x9d then plain ''SBB    L''
      else if op = 0x9e then plain ''SBB    M''
      else plain ''SBB    A'')"

definition dis_a :: "(nat \<Rightarrow> u8 option) \<Rightarrow> u8 \<Rightarrow> (string \<times> nat) option" where
  "dis_a code op =
     (if op = 0xa0 then plain ''ANA    B''
      else if op = 0xa1 then plain ''ANA    C''
      else if op = 0xa2 then plain ''ANA    D''
      else if op = 0xa3 then plain ''ANA    E''
      else if op = 0xa4 then plain ''ANA    H''
      else if op = 0xa5 then plain ''ANA    L''
      else if op = 0xa6 then plain ''ANA    M''
      else if op = 0xa7 then plain ''ANA    A''
      else if op = 0xa8 then plain ''XRA    B''
      else if op = 0xa9 then plain ''XRA    C''
      else if op = 0xaa then plain ''XRA    D''
      else if op = 0xab then plain ''XRA    E''
      else if op = 0xac then plain ''XRA    H''
      else if op = 0xad then plain ''XRA    L''
      else if op = 0xae then plain ''XRA    M''
      else plain ''XRA    A'')"

definition dis_b :: "(nat \<Rightarrow> u8 option) \<Rightarrow> u8 \<Rightarrow> (string \<times> nat) option" where
  "dis_b code op =
     (if op = 0xb0 then plain ''ORA    B''
      else if op = 0xb1 then plain ''ORA    C''
      else if op = 0xb2 then plain ''ORA    D''
      else if op = 0xb3 then plain ''ORA    E''
      else if op = 0xb4 then plain ''ORA    H''
      else if op = 0xb5 then plain ''ORA    L''
      else if op = 0xb6 then plain ''ORA    M''
      else if op = 0xb7 then plain ''ORA    A''
      else if op = 0xb8 then plain ''CMP    B''
      else if op = 0xb9 then plain ''CMP    C''
      else if op = 0xba then plain ''CMP    D''
      else if op = 0xbb then plain ''CMP    E''
      else if op = 0xbc then plain ''CMP    H''
      else if op = 0xbd then plain ''CMP    L''
      else if op = 0xbe then plain ''CMP    M''
      else plain ''CMP    A'')"

definition dis_c :: "(nat \<Rightarrow> u8 option) \<Rightarrow> u8 \<Rightarrow> (string \<times> nat) option" where
  "dis_c code op =
     (if op = 0xc0 then plain ''RNZ''
      else if op = 0xc1 then plain ''POP    B''
      else if op = 0xc2 then with_word code ''JNZ    $''
      else if op = 0xc3 then with_word code ''JMP    $''
      else if op = 0xc4 then with_word code ''CNZ    $''
      else if op = 0xc5 then plain ''PUSH   B''
      else if op = 0xc6 then with_byte code ''ADI    #$''
      else if op = 0xc7 then plain ''RST    0''
      else if op = 0xc8 then plain ''RZ''
      else if op = 0xc9 then plain ''RET''
      else if op = 0xca then with_word code ''JZ     $''
      else if op = 0xcb then plain ''RSTV''
      else if op = 0xcc then with_word code ''CZ     $''
      else if op = 0xcd then with_word code ''CALL   $''
      else if op = 0xce then with_byte code ''ACI    #$''
      else plain ''RST    1'')"

definition dis_d :: "(nat \<Rightarrow> u8 option) \<Rightarrow> u8 \<Rightarrow> (string \<times> nat) option" where
  "dis_d code op =
     (if op = 0xd0 then plain ''RNC''
      else if op = 0xd1 then plain ''POP    D''
      else if op = 0xd2 then with_word code ''JNC    $''
      else if op = 0xd3 then with_byte code ''OUT    #$''
      else if op = 0xd4 then with_word code ''CNC    $''
      else if op = 0xd5 then plain ''PUSH   D''
      else if op = 0xd6 then with_byte code ''SUI    #$''
      else if op = 0xd7 then plain ''RST    2''
      else if op = 0xd8 then plain ''RC''
      else if op = 0xd9 then plain ''SHLX''
      else if op = 0xda then with_word code ''JC     $''
      else if op = 0xdb then with_byte code ''IN     #$''
      else if op = 0xdc then with_word code ''CC     $''
      else if op = 0xdd then with_word code ''JNX5   $''
      else if op = 0xde then with_byte code ''SBI    #$''
      else plain ''RST    3'')"

definition dis_e :: "(nat \<Rightarrow> u8 option) \<Rightarrow> u8 \<Rightarrow> (string \<times> nat) option" where
  "dis_e code op =
     (if op = 0xe0 then plain ''RPO''
      else if op = 0xe1 then plain ''POP    H''
      else if op = 0xe2 then with_word code ''JPO    $''
      else if op = 0xe3 then plain ''XTHL''
      else if op = 0xe4 then with_word code ''CPO    $''
      else if op = 0xe5 then plain ''PUSH   H''
      else if op = 0xe6 then with_byte code ''ANI    #$''
      else if op = 0xe7 then plain ''RST    4''
      else if op = 0xe8 then plain ''RPE''
      else if op = 0xe9 then plain ''PCHL''
      else if op = 0xea then with_word code ''JPE    $''
      else if op = 0xeb then plain ''XCHG''
      else if op = 0xec then with_word code ''CPE     $''
      else if op = 0xed then plain ''LHLX''
      else if op = 0xee then with_byte code ''XRI    #$''
      else plain ''RST    5'')"

definition dis_f :: "(nat \<Rightarrow> u8 option) \<Rightarrow> u8 \<Rightarrow> (string \<times> nat) option" where
  "dis_f code op =
     (if op = 0xf0 then plain ''RP''
      else if op = 0xf1 then plain ''POP    PSW''
      else if op = 0xf2 then with_word code ''JP     $''
      else if op = 0xf3 then plain ''DI''
      else if op = 0xf4 then with_word code ''CP     $''
      else if op = 0xf5 then plain ''PUSH   PSW''
      else if op = 0xf6 then with_byte code ''ORI    #$''
      else if op = 0xf7 then plain ''RST    6''
      else if op = 0xf8 then plain ''RM''
      else if op = 0xf9 then plain ''SPHL''
      else if op = 0xfa then with_word code ''JM     $''
      else if op = 0xfb then plain ''EI''
      else if op = 0xfc then with_word code ''CM     $''
      else if op = 0xfd then with_word code ''JX5    $''
      else if op = 0xfe then with_byte code ''CPI    #$''
      else plain ''RST    7'')"

definition dis_switch :: "(nat \<Rightarrow> u8 option) \<Rightarrow> u8 \<Rightarrow> (string \<times> nat) option" where
  "dis_switch code op =
     (if op < 0x10 then dis_0 code op
      else if op < 0x20 then dis_1 code op
      else if op < 0x30 then dis_2 code op
      else if op < 0x40 then dis_3 code op
      else if op < 0x50 then dis_4 code op
      else if op < 0x60 then dis_5 code op
      else if op < 0x70 then dis_6 code op
      else if op < 0x80 then dis_7 code op
      else if op < 0x90 then dis_8 code op
      else if op < 0xa0 then dis_9 code op
      else if op < 0xb0 then dis_a code op
      else if op < 0xc0 then dis_b code op
      else if op < 0xd0 then dis_c code op
      else if op < 0xe0 then dis_d code op
      else if op < 0xf0 then dis_e code op
      else dis_f code op)"

text \<open>
  \<open>codebuffer\<close> is read at \<open>pc\<close> and above; \<open>out_len\<close> is the size of the output buffer (0 when there is
  none).  The result is the NUL-terminated text and the instruction length.
\<close>

definition Disassemble8085Op ::
  "(int \<Rightarrow> u8 option) \<Rightarrow> int \<Rightarrow> nat \<Rightarrow> (string \<times> nat) option" where
  "Disassemble8085Op codebuffer at out_len =
     do { op \<leftarrow> codebuffer at;
          (txt, opbytes) \<leftarrow> dis_switch (\<lambda>k. codebuffer (at + int k)) op;
          Some (fst (disasm_printf ([], out_len) txt), opbytes) }"

section \<open>Output\<close>

lemmas dis_ops = plain_def with_byte_def with_word_def

lemma disasm_printf_fits:
  "disasm_printf ([], n) txt = (if n = 0 then ([], 0) else (take (n - 1) txt, max 1 (n - length txt)))"
  by (auto simp: disasm_printf_def max_def)

lemma length_hex02 [simp]: "length (hex02 v) = 2"
  by (simp add: hex02_def)

end
