(* ===== verification/Isa_Disasm.thy ===== *)
theory Isa_Disasm
  imports Isa_Refine Disasm
begin

text \<open>
  The disassembler against the same instruction set: the text of every opcode is the assembly of its
  decoding, and the length it reports is the length of that instruction.
\<close>

section \<open>Assembly text\<close>

text \<open>Bytes of operand after the opcode.\<close>

fun operand_len :: "instr \<Rightarrow> nat" where
  "operand_len (LXI p) = 2" | "operand_len SHLD = 2" | "operand_len LHLD = 2" | "operand_len STA = 2"
| "operand_len LDA = 2" | "operand_len JMP = 2" | "operand_len CALL = 2" | "operand_len (JCC c) = 2"
| "operand_len (CCC c) = 2" | "operand_len JNX5 = 2" | "operand_len JX5 = 2"
| "operand_len (MVI r) = 1" | "operand_len (ALUI a) = 1" | "operand_len LDHI = 1" | "operand_len LDSI = 1"
| "operand_len INP = 1" | "operand_len OUTP = 1"
| "operand_len i = 0"

fun reg_name :: "reg8 \<Rightarrow> string" where
  "reg_name RB = ''B''" | "reg_name RC = ''C''" | "reg_name RD = ''D''" | "reg_name RE = ''E''"
| "reg_name RH = ''H''" | "reg_name RL = ''L''" | "reg_name RM = ''M''" | "reg_name RA = ''A''"

fun pair_name :: "rpair \<Rightarrow> string" where
  "pair_name PB = ''B''" | "pair_name PD = ''D''" | "pair_name PH = ''H''" | "pair_name PSP = ''SP''"

fun cond_name :: "cond \<Rightarrow> string" where
  "cond_name NZ = ''NZ''" | "cond_name ZE = ''Z''" | "cond_name NC = ''NC''" | "cond_name CY = ''C''"
| "cond_name PO = ''PO''" | "cond_name PE = ''PE''" | "cond_name PL = ''P''" | "cond_name MI = ''M''"

fun alu_name :: "alu \<Rightarrow> string" where
  "alu_name ADD = ''ADD''" | "alu_name ADC = ''ADC''" | "alu_name SUB = ''SUB''" | "alu_name SBB = ''SBB''"
| "alu_name ANA = ''ANA''" | "alu_name XRA = ''XRA''" | "alu_name ORA = ''ORA''" | "alu_name CMP = ''CMP''"

fun alui_name :: "alu \<Rightarrow> string" where
  "alui_name ADD = ''ADI''" | "alui_name ADC = ''ACI''" | "alui_name SUB = ''SUI''" | "alui_name SBB = ''SBI''"
| "alui_name ANA = ''ANI''" | "alui_name XRA = ''XRI''" | "alui_name ORA = ''ORI''" | "alui_name CMP = ''CPI''"

fun rot_name :: "rot \<Rightarrow> string" where
  "rot_name RLC = ''RLC''" | "rot_name RRC = ''RRC''" | "rot_name RAL = ''RAL''" | "rot_name RAR = ''RAR''"

definition stack_name :: "rpair \<Rightarrow> string" where
  "stack_name p = (if p = PSP then ''PSW'' else pair_name p)"

text \<open>A mnemonic is padded to seven columns before its operands.\<close>

definition col :: "string \<Rightarrow> string \<Rightarrow> string" where
  "col m ops = m @ drop (length m) ''       '' @ ops"

fun asm_text :: "instr \<Rightarrow> string" where
  "asm_text NOP = ''NOP''"
| "asm_text (LXI p) = col ''LXI'' (pair_name p @ '',#$'')"
| "asm_text (STAX p) = col ''STAX'' (pair_name p)"
| "asm_text (LDAX p) = col ''LDAX'' (pair_name p)"
| "asm_text SHLD = col ''SHLD'' ''$''" | "asm_text LHLD = col ''LHLD'' ''$''"
| "asm_text STA = col ''STA'' ''$''" | "asm_text LDA = col ''LDA'' ''$''"
| "asm_text (INX p) = col ''INX'' (pair_name p)" | "asm_text (DCX p) = col ''DCX'' (pair_name p)"
| "asm_text (DAD p) = col ''DAD'' (pair_name p)"
| "asm_text (INR r) = col ''INR'' (reg_name r)" | "asm_text (DCR r) = col ''DCR'' (reg_name r)"
| "asm_text (MVI r) = col ''MVI'' (reg_name r @ '',#$'')"
| "asm_text (ROT r) = rot_name r"
| "asm_text DAA = ''DAA''" | "asm_text CMA = ''CMA''" | "asm_text STC = ''STC''" | "asm_text CMC = ''CMC''"
| "asm_text RIM = ''RIM''" | "asm_text SIM = ''SIM''" | "asm_text DSUB = ''DSUB''"
| "asm_text ARHL = ''ARHL''" | "asm_text RDEL = ''RDEL''"
| "asm_text LDHI = col ''LDHI'' ''#$''" | "asm_text LDSI = col ''LDSI'' ''#$''"
| "asm_text SHLX = ''SHLX''" | "asm_text LHLX = ''LHLX''"
| "asm_text (MOV d r) = col ''MOV'' (reg_name d @ '','' @ reg_name r)"
| "asm_text HLT = ''HLT''"
| "asm_text (ALU a r) = col (alu_name a) (reg_name r)"
| "asm_text (ALUI a) = col (alui_name a) ''#$''"
| "asm_text JMP = col ''JMP'' ''$''" | "asm_text CALL = col ''CALL'' ''$''" | "asm_text RET = ''RET''"
| "asm_text (JCC c) = col (''J'' @ cond_name c) ''$''"
| "asm_text (CCC c) = col (''C'' @ cond_name c) ''$''"
| "asm_text (RCC c) = ''R'' @ cond_name c"
| "asm_text JNX5 = col ''JNX5'' ''$''" | "asm_text JX5 = col ''JX5'' ''$''"
| "asm_text (RST n) = col ''RST'' [''01234567'' ! unat n]"
| "asm_text RSTV = ''RSTV''"
| "asm_text (PUSH p) = col ''PUSH'' (stack_name p)" | "asm_text (POP p) = col ''POP'' (stack_name p)"
| "asm_text XTHL = ''XTHL''" | "asm_text SPHL = ''SPHL''" | "asm_text PCHL = ''PCHL''"
| "asm_text XCHG = ''XCHG''" | "asm_text INP = col ''IN'' ''#$''" | "asm_text OUTP = col ''OUT'' ''#$''"
| "asm_text DI = ''DI''" | "asm_text EI = ''EI''"

text \<open>The whole line: the text and the operand in hexadecimal, with the length in bytes.\<close>

definition asm_line :: "(nat \<Rightarrow> u8 option) \<Rightarrow> string \<Rightarrow> nat \<Rightarrow> (string \<times> nat) option" where
  "asm_line code txt k = (if k = 0 then plain txt else if k = 1 then with_byte code txt else with_word code txt)"

section \<open>Every opcode\<close>

lemmas asm_simps = decode_def decode_0_def decode_3_def reg_of_def pair_of_def cond_of_def alu_of_def
  asm_line_def col_def stack_name_def Let_def

lemma dis_row_0:
  assumes "0x00 \<le> unat op" "unat op < 0x00 + 16"
  shows "dis_0 code op = asm_line code (asm_text (decode op)) (operand_len (decode op))"
  using row_member [OF assms(1,2), simplified upt_first_row add_0, simplified] unfolding dis_0_def
  by (elim disjE; hypsubst?) (simp_all add: asm_simps)

lemma dis_row_1:
  assumes "0x10 \<le> unat op" "unat op < 0x10 + 16"
  shows "dis_1 code op = asm_line code (asm_text (decode op)) (operand_len (decode op))"
  using row_member [OF assms(1,2), simplified] unfolding dis_1_def
  by (elim disjE; hypsubst?) (simp_all add: asm_simps)

lemma dis_row_2:
  assumes "0x20 \<le> unat op" "unat op < 0x20 + 16"
  shows "dis_2 code op = asm_line code (asm_text (decode op)) (operand_len (decode op))"
  using row_member [OF assms(1,2), simplified] unfolding dis_2_def
  by (elim disjE; hypsubst?) (simp_all add: asm_simps)

lemma dis_row_3:
  assumes "0x30 \<le> unat op" "unat op < 0x30 + 16"
  shows "dis_3 code op = asm_line code (asm_text (decode op)) (operand_len (decode op))"
  using row_member [OF assms(1,2), simplified] unfolding dis_3_def
  by (elim disjE; hypsubst?) (simp_all add: asm_simps)

lemma dis_row_4:
  assumes "0x40 \<le> unat op" "unat op < 0x40 + 16"
  shows "dis_4 code op = asm_line code (asm_text (decode op)) (operand_len (decode op))"
  using row_member [OF assms(1,2), simplified] unfolding dis_4_def
  by (elim disjE; hypsubst?) (simp_all add: asm_simps)

lemma dis_row_5:
  assumes "0x50 \<le> unat op" "unat op < 0x50 + 16"
  shows "dis_5 code op = asm_line code (asm_text (decode op)) (operand_len (decode op))"
  using row_member [OF assms(1,2), simplified] unfolding dis_5_def
  by (elim disjE; hypsubst?) (simp_all add: asm_simps)

lemma dis_row_6:
  assumes "0x60 \<le> unat op" "unat op < 0x60 + 16"
  shows "dis_6 code op = asm_line code (asm_text (decode op)) (operand_len (decode op))"
  using row_member [OF assms(1,2), simplified] unfolding dis_6_def
  by (elim disjE; hypsubst?) (simp_all add: asm_simps)

lemma dis_row_7:
  assumes "0x70 \<le> unat op" "unat op < 0x70 + 16"
  shows "dis_7 code op = asm_line code (asm_text (decode op)) (operand_len (decode op))"
  using row_member [OF assms(1,2), simplified] unfolding dis_7_def
  by (elim disjE; hypsubst?) (simp_all add: asm_simps)

lemma dis_row_8:
  assumes "0x80 \<le> unat op" "unat op < 0x80 + 16"
  shows "dis_8 code op = asm_line code (asm_text (decode op)) (operand_len (decode op))"
  using row_member [OF assms(1,2), simplified] unfolding dis_8_def
  by (elim disjE; hypsubst?) (simp_all add: asm_simps)

lemma dis_row_9:
  assumes "0x90 \<le> unat op" "unat op < 0x90 + 16"
  shows "dis_9 code op = asm_line code (asm_text (decode op)) (operand_len (decode op))"
  using row_member [OF assms(1,2), simplified] unfolding dis_9_def
  by (elim disjE; hypsubst?) (simp_all add: asm_simps)

lemma dis_row_a:
  assumes "0xa0 \<le> unat op" "unat op < 0xa0 + 16"
  shows "dis_a code op = asm_line code (asm_text (decode op)) (operand_len (decode op))"
  using row_member [OF assms(1,2), simplified] unfolding dis_a_def
  by (elim disjE; hypsubst?) (simp_all add: asm_simps)

lemma dis_row_b:
  assumes "0xb0 \<le> unat op" "unat op < 0xb0 + 16"
  shows "dis_b code op = asm_line code (asm_text (decode op)) (operand_len (decode op))"
  using row_member [OF assms(1,2), simplified] unfolding dis_b_def
  by (elim disjE; hypsubst?) (simp_all add: asm_simps)

lemma dis_row_c:
  assumes "0xc0 \<le> unat op" "unat op < 0xc0 + 16"
  shows "dis_c code op = asm_line code (asm_text (decode op)) (operand_len (decode op))"
  using row_member [OF assms(1,2), simplified] unfolding dis_c_def
  by (elim disjE; hypsubst?) (simp_all add: asm_simps)

lemma dis_row_d:
  assumes "0xd0 \<le> unat op" "unat op < 0xd0 + 16"
  shows "dis_d code op = asm_line code (asm_text (decode op)) (operand_len (decode op))"
  using row_member [OF assms(1,2), simplified] unfolding dis_d_def
  by (elim disjE; hypsubst?) (simp_all add: asm_simps)

lemma dis_row_e:
  assumes "0xe0 \<le> unat op" "unat op < 0xe0 + 16" "op \<noteq> 0xec"
  shows "dis_e code op = asm_line code (asm_text (decode op)) (operand_len (decode op))"
  using row_member [OF assms(1,2), simplified] assms(3) unfolding dis_e_def
  by (elim disjE; hypsubst?) (simp_all add: asm_simps)

lemma dis_row_f:
  assumes "0xf0 \<le> unat op" "unat op < 0xf0 + 16"
  shows "dis_f code op = asm_line code (asm_text (decode op)) (operand_len (decode op))"
  using row_member [OF assms(1,2), simplified] unfolding dis_f_def
  by (elim disjE; hypsubst?) (simp_all add: asm_simps)

lemma dis_switch_asm:
  assumes "op \<noteq> 0xec"
  shows "dis_switch code op = asm_line code (asm_text (decode op)) (operand_len (decode op))"
  using assms unsigned_less [of op] unfolding dis_switch_def
  by (auto simp: word_less_nat_alt intro: dis_row_0 dis_row_1 dis_row_2 dis_row_3 dis_row_4 dis_row_5
      dis_row_6 dis_row_7 dis_row_8 dis_row_9 dis_row_a dis_row_b dis_row_c dis_row_d dis_row_e dis_row_f)

text \<open>\<^verbatim>\<open>CPE\<close> is printed with one space more than the column it belongs in.\<close>

lemma dis_switch_cpe:
  "dis_switch code 0xec = with_word code ''CPE     $''"
  "asm_text (decode 0xec) = ''CPE    $''" "operand_len (decode 0xec) = 2"
  by (simp_all add: dis_switch_def dis_e_def asm_simps)

section \<open>Sizes\<close>

lemma asm_text_length: "length (asm_text i) + 2 * operand_len i \<le> 16"
proof -
  have c: "length (col m ops) = max (length m) 7 + length ops" for m ops
    by (simp add: col_def max_def)
  have p: "length (pair_name p) \<le> 2" "length (stack_name p) \<le> 3" for p
    by (cases p; simp add: stack_name_def)+
  have r: "length (reg_name r) = 1" for r by (cases r) simp_all
  have k: "length (cond_name k) \<le> 2" for k by (cases k) simp_all
  have a: "length (alu_name a) = 3" "length (alui_name a) = 3" for a by (cases a; simp)+
  have q: "length (rot_name q) = 3" for q by (cases q) simp_all
  show ?thesis
  proof (cases i)
    case (LXI x) then show ?thesis using p(1) [of x] by (simp add: c)
  next
    case (STAX x) then show ?thesis using p(1) [of x] by (simp add: c)
  next
    case (LDAX x) then show ?thesis using p(1) [of x] by (simp add: c)
  next
    case (INX x) then show ?thesis using p(1) [of x] by (simp add: c)
  next
    case (DCX x) then show ?thesis using p(1) [of x] by (simp add: c)
  next
    case (DAD x) then show ?thesis using p(1) [of x] by (simp add: c)
  next
    case (PUSH x) then show ?thesis using p(2) [of x] by (simp add: c)
  next
    case (POP x) then show ?thesis using p(2) [of x] by (simp add: c)
  next
    case (JCC x) then show ?thesis using k [of x] by (simp add: c)
  next
    case (CCC x) then show ?thesis using k [of x] by (simp add: c)
  next
    case (RCC x) then show ?thesis using k [of x] by (simp add: c)
  qed (simp_all add: c r a q)
qed

end
