(* ===== verification/Isa_Laws.thy ===== *)
theory Isa_Laws
  imports Isa_Disasm
begin

unbundle bit_operations_syntax

text \<open>
  What every instruction keeps: protected memory, the program counter's advance, the count of
  T-states, the interrupt and serial state, and when an instruction is undefined.  Each law is proved
  once on the instruction set and carried to the opcode switch by the refinement.
\<close>

section \<open>From the switch to the instruction set\<close>

context cpu_bus
begin

text \<open>Whatever the opcode, the switch gives the instruction's result up to V.\<close>

lemma exec_switch_isa_cases:
  assumes "exec_switch bs s e opc op = Some (s', e', t)"
  obtains s1 v where "isa_exec bs s e opc (decode op) = Some (s1, e')" "s' = s1\<lparr>cc := (cc s1)\<lparr>fl_v := v\<rparr>\<rparr>"
proof (cases "op = 0xc6 \<or> op = 0xfe")
  case True
  from exec_switch_adi_cpi [OF True, of s e opc] assms obtain s1 where
    "isa_exec bs s e opc (decode op) = Some (s1, e')" "s' = s1\<lparr>cc := (cc s1)\<lparr>fl_v := fl_v (cc s)\<rparr>\<rparr>"
    by (auto simp: map_option_case split: option.splits)
  then show thesis by (rule that)
next
  case False
  then have "isa_exec bs s e opc (decode op) = Some (s', e')"
    using exec_switch_isa [of op s e opc] assms by simp
  then show thesis by (rule that [of s' "fl_v (cc s')"]) simp
qed

lemma exec_switch_None_iff:
  "exec_switch bs s e opc op = None \<longleftrightarrow> isa_exec bs s e opc (decode op) = None"
proof (cases "op = 0xc6 \<or> op = 0xfe")
  case True
  show ?thesis using arg_cong [OF exec_switch_adi_cpi [OF True, of s e opc], of "\<lambda>r. r = None"] by simp
next
  case False
  then show ?thesis using arg_cong [OF exec_switch_isa [of op s e opc], of "\<lambda>r. r = None"] by simp
qed

end

section \<open>Where the program counter goes\<close>

fun transfers :: "instr \<Rightarrow> bool" where
  "transfers JMP = True" | "transfers CALL = True" | "transfers RET = True" | "transfers (JCC c) = True"
| "transfers (CCC c) = True" | "transfers (RCC c) = True" | "transfers JNX5 = True" | "transfers JX5 = True"
| "transfers (RST n) = True" | "transfers RSTV = True" | "transfers PCHL = True"
| "transfers i = False"

context cpu_bus
begin

lemma set8_fields [frame_simps]: "pc (fst (set8 bs s e r v)) = pc s" "sp (fst (set8 bs s e r v)) = sp s"
  by (cases r; simp add: frame_simps)+

lemma wr16_fields [frame_simps]: "pc (fst (wr16 bs s e a w)) = pc s" "sp (fst (wr16 bs s e a w)) = sp s"
  by (simp_all add: wr16_def split_beta frame_simps)

lemma push16_fields [frame_simps]: "pc (fst (push16 bs s e w)) = pc s" "sp (fst (push16 bs s e w)) = sp s - 2"
  by (simp_all add: push16_def Let_def split_beta frame_simps)

lemma set16_pc [frame_simps]: "pc (set16 s p w) = pc s"
  by (cases p) simp_all

lemma set_psw_pc [frame_simps]: "pc (set_psw s p w) = pc s"
  by (cases p) (simp_all add: unpack_psw_def)

lemma io_pc [frame_simps]:
  "pc (fst (bus_io_pre_read bs p s e)) = pc s" "sp (fst (bus_io_pre_read bs p s e)) = sp s"
  "pc (fst (bus_io_read bs p v s e)) = pc s" "sp (fst (bus_io_read bs p v s e)) = sp s"
  "pc (fst (bus_io_write bs p v s e)) = pc s" "sp (fst (bus_io_write bs p v s e)) = sp s"
  using io_pre_read_cpu [of p s e] io_read_cpu [of p v s e] io_write_cpu [of p v s e]
  by (auto simp: prod_eq_iff dest!: meta_spec)

lemma isa_exec_pc:
  assumes "isa_exec bs s e opc i = Some (s', e')" "\<not> transfers i"
  shows "pc s' = pc s + of_nat (operand_len i)"
  using assms
  by (cases i)
    (auto simp: frame_simps skip_def acc_op_def with_cc_def dad_spec_def dsub_spec_def arhl_spec_def rdel_spec_def
      daa_def rim_byte_def sim_op_def unpack_psw_def apfst_beta split_beta Let_def prod_eq_iff split: Option.bind_splits if_splits)

end

section \<open>T-states\<close>

fun taken :: "Flags \<Rightarrow> instr \<Rightarrow> bool" where
  "taken f (JCC c) = holds f c" | "taken f (CCC c) = holds f c" | "taken f (RCC c) = holds f c"
| "taken f JNX5 = (\<not> fl_x5 f)" | "taken f JX5 = fl_x5 f" | "taken f RSTV = fl_v f"
| "taken f i = True"

text \<open>
  The counts of the switch by instruction, where the last argument says whether a conditional
  transfer is taken.  Two entries stand out: a taken \<open>CNZ\<close>, unlike the seven other calls, and the
  register pair loads other than \<open>LXI SP\<close>.
\<close>

fun cycles :: "instr \<Rightarrow> bool \<Rightarrow> nat" where
  "cycles (LXI p) b = (if p = PSP then 10 else 4)"
| "cycles (STAX p) b = 7" | "cycles (LDAX p) b = 7" | "cycles SHLD b = 16" | "cycles LHLD b = 16"
| "cycles STA b = 13" | "cycles LDA b = 13" | "cycles (INX p) b = 6" | "cycles (DCX p) b = 6"
| "cycles (DAD p) b = 10" | "cycles (INR r) b = (if r = RM then 10 else 4)"
| "cycles (DCR r) b = (if r = RM then 10 else 4)" | "cycles (MVI r) b = 10"
| "cycles DSUB b = 10" | "cycles ARHL b = 7" | "cycles RDEL b = 10" | "cycles LDHI b = 10" | "cycles LDSI b = 10"
| "cycles SHLX b = 10" | "cycles LHLX b = 10"
| "cycles (MOV d r) b = (if d = RM \<or> r = RM then 7 else 4)" | "cycles HLT b = 5"
| "cycles (ALU a r) b = (if r = RM then 7 else 4)" | "cycles (ALUI a) b = 7"
| "cycles JMP b = 10" | "cycles CALL b = 18" | "cycles RET b = 10"
| "cycles (JCC c) b = (if b then 10 else 7)" | "cycles JNX5 b = (if b then 10 else 7)"
| "cycles JX5 b = (if b then 10 else 7)" | "cycles (CCC c) b = (if b \<and> c \<noteq> NZ then 18 else 9)"
| "cycles (RCC c) b = (if b then 12 else 6)" | "cycles (RST n) b = 12" | "cycles RSTV b = (if b then 12 else 6)"
| "cycles (PUSH p) b = 13" | "cycles (POP p) b = 10" | "cycles XTHL b = 16" | "cycles SPHL b = 6"
| "cycles PCHL b = 6" | "cycles INP b = 10" | "cycles OUTP b = 10"
| "cycles i b = 4"

lemma cycles_bounds: "4 \<le> cycles i b" "cycles i b \<le> 18"
  by (cases "(i, b)" rule: cycles.cases; simp)+

abbreviation timed :: "(State8085 \<times> 'e \<times> nat) option \<Rightarrow> nat \<Rightarrow> bool" where
  "timed r n \<equiv> case_option True (\<lambda>(s, e, t). t = n) r"

lemmas time_simps = decode_def decode_0_def decode_3_def reg_of_def pair_of_def cond_of_def alu_of_def
  store_def jump_on_def call_on_def return_on_def reset_to_def split_beta Let_def

lemma time_row_0:
  assumes "0x00 \<le> unat op" "unat op < 0x00 + 16"
  shows "timed (exec_0 bs s e opc op) (cycles (decode op) (taken (cc s) (decode op)))"
  using row_member [OF assms(1,2), simplified upt_first_row add_0, simplified] unfolding exec_0_def
  by (elim disjE; hypsubst?) (simp_all add: time_simps split: Option.bind_split option.split)

lemma time_row_1:
  assumes "0x10 \<le> unat op" "unat op < 0x10 + 16"
  shows "timed (exec_1 bs s e opc op) (cycles (decode op) (taken (cc s) (decode op)))"
  using row_member [OF assms(1,2), simplified] unfolding exec_1_def
  by (elim disjE; hypsubst?) (simp_all add: time_simps split: Option.bind_split option.split)

lemma time_row_2:
  assumes "0x20 \<le> unat op" "unat op < 0x20 + 16"
  shows "timed (exec_2 bs s e opc op) (cycles (decode op) (taken (cc s) (decode op)))"
  using row_member [OF assms(1,2), simplified] unfolding exec_2_def
  by (elim disjE; hypsubst?) (simp_all add: time_simps split: Option.bind_split option.split)

lemma time_row_3:
  assumes "0x30 \<le> unat op" "unat op < 0x30 + 16"
  shows "timed (exec_3 bs s e opc op) (cycles (decode op) (taken (cc s) (decode op)))"
  using row_member [OF assms(1,2), simplified] unfolding exec_3_def
  by (elim disjE; hypsubst?) (simp_all add: time_simps split: Option.bind_split option.split)

lemma time_row_4:
  assumes "0x40 \<le> unat op" "unat op < 0x40 + 16"
  shows "timed (exec_4 bs s e opc op) (cycles (decode op) (taken (cc s) (decode op)))"
  using row_member [OF assms(1,2), simplified] unfolding exec_4_def
  by (elim disjE; hypsubst?) (simp_all add: time_simps split: Option.bind_split option.split)

lemma time_row_5:
  assumes "0x50 \<le> unat op" "unat op < 0x50 + 16"
  shows "timed (exec_5 bs s e opc op) (cycles (decode op) (taken (cc s) (decode op)))"
  using row_member [OF assms(1,2), simplified] unfolding exec_5_def
  by (elim disjE; hypsubst?) (simp_all add: time_simps split: Option.bind_split option.split)

lemma time_row_6:
  assumes "0x60 \<le> unat op" "unat op < 0x60 + 16"
  shows "timed (exec_6 bs s e opc op) (cycles (decode op) (taken (cc s) (decode op)))"
  using row_member [OF assms(1,2), simplified] unfolding exec_6_def
  by (elim disjE; hypsubst?) (simp_all add: time_simps split: Option.bind_split option.split)

lemma time_row_7:
  assumes "0x70 \<le> unat op" "unat op < 0x70 + 16"
  shows "timed (exec_7 bs s e opc op) (cycles (decode op) (taken (cc s) (decode op)))"
  using row_member [OF assms(1,2), simplified] unfolding exec_7_def
  by (elim disjE; hypsubst?) (simp_all add: time_simps split: Option.bind_split option.split)

lemma time_row_8:
  assumes "0x80 \<le> unat op" "unat op < 0x80 + 16"
  shows "timed (exec_8 bs s e opc op) (cycles (decode op) (taken (cc s) (decode op)))"
  using row_member [OF assms(1,2), simplified] unfolding exec_8_def
  by (elim disjE; hypsubst?) (simp_all add: time_simps split: Option.bind_split option.split)

lemma time_row_9:
  assumes "0x90 \<le> unat op" "unat op < 0x90 + 16"
  shows "timed (exec_9 bs s e opc op) (cycles (decode op) (taken (cc s) (decode op)))"
  using row_member [OF assms(1,2), simplified] unfolding exec_9_def
  by (elim disjE; hypsubst?) (simp_all add: time_simps split: Option.bind_split option.split)

lemma time_row_a:
  assumes "0xa0 \<le> unat op" "unat op < 0xa0 + 16"
  shows "timed (exec_a bs s e opc op) (cycles (decode op) (taken (cc s) (decode op)))"
  using row_member [OF assms(1,2), simplified] unfolding exec_a_def
  by (elim disjE; hypsubst?) (simp_all add: time_simps split: Option.bind_split option.split)

lemma time_row_b:
  assumes "0xb0 \<le> unat op" "unat op < 0xb0 + 16"
  shows "timed (exec_b bs s e opc op) (cycles (decode op) (taken (cc s) (decode op)))"
  using row_member [OF assms(1,2), simplified] unfolding exec_b_def
  by (elim disjE; hypsubst?) (simp_all add: time_simps split: Option.bind_split option.split)

lemma time_row_c:
  assumes "0xc0 \<le> unat op" "unat op < 0xc0 + 16"
  shows "timed (exec_c bs s e opc op) (cycles (decode op) (taken (cc s) (decode op)))"
  using row_member [OF assms(1,2), simplified] unfolding exec_c_def
  by (elim disjE; hypsubst?) (simp_all add: time_simps split: Option.bind_split option.split)

lemma time_row_d:
  assumes "0xd0 \<le> unat op" "unat op < 0xd0 + 16"
  shows "timed (exec_d bs s e opc op) (cycles (decode op) (taken (cc s) (decode op)))"
  using row_member [OF assms(1,2), simplified] unfolding exec_d_def
  by (elim disjE; hypsubst?) (simp_all add: time_simps split: Option.bind_split option.split)

lemma time_row_e:
  assumes "0xe0 \<le> unat op" "unat op < 0xe0 + 16"
  shows "timed (exec_e bs s e opc op) (cycles (decode op) (taken (cc s) (decode op)))"
  using row_member [OF assms(1,2), simplified] unfolding exec_e_def
  by (elim disjE; hypsubst?) (simp_all add: time_simps split: Option.bind_split option.split)

lemma time_row_f:
  assumes "0xf0 \<le> unat op" "unat op < 0xf0 + 16"
  shows "timed (exec_f bs s e opc op) (cycles (decode op) (taken (cc s) (decode op)))"
  using row_member [OF assms(1,2), simplified] unfolding exec_f_def
  by (elim disjE; hypsubst?) (simp_all add: time_simps split: Option.bind_split option.split)

lemma exec_switch_time:
  "timed (exec_switch bs s e opc op) (cycles (decode op) (taken (cc s) (decode op)))"
  using unsigned_less [of op] unfolding exec_switch_def
  by (auto simp: word_less_nat_alt intro: time_row_0 time_row_1 time_row_2 time_row_3 time_row_4 time_row_5
      time_row_6 time_row_7 time_row_8 time_row_9 time_row_a time_row_b time_row_c time_row_d time_row_e time_row_f)


section \<open>Where an instruction reads past the 64K buffer\<close>

text \<open>
  \<open>opc\<close> is the index of the opcode byte.  Operands of an instruction in the last two bytes, the high
  byte of a word popped with \<^verbatim>\<open>sp\<close> at 0xFFFF, and the high byte of a word loaded from 0xFFFF.
\<close>

fun pops :: "Flags \<Rightarrow> instr \<Rightarrow> bool" where
  "pops f (POP p) = (p \<noteq> PSP)" | "pops f RET = True" | "pops f (RCC c) = holds f c" | "pops f XTHL = True"
| "pops f i = False"

definition reads_past :: "State8085 \<Rightarrow> int \<Rightarrow> instr \<Rightarrow> bool" where
  "reads_past s opc i \<longleftrightarrow>
     (taken (cc s) i \<and> 0xFFFF < opc + int (operand_len i)) \<or>
     (pops (cc s) i \<and> sp s = 0xFFFF) \<or>
     (i = LHLX \<and> DE s = 0xFFFF) \<or>
     (i = LHLD \<and> imm16 s opc = Some 0xFFFF)"

lemma imm_None:
  assumes "0 \<le> opc" "opc \<le> 0xFFFF"
  shows "imm8 s opc = None \<longleftrightarrow> 0xFFFF < opc + 1" "imm16 s opc = None \<longleftrightarrow> 0xFFFF < opc + 2"
  using assms by (auto simp: imm8_def imm16_def rd_def)

lemma imm_Some:
  "imm8 s opc = Some v \<Longrightarrow> opc + 1 \<le> 0xFFFF" "imm16 s opc = Some w \<Longrightarrow> opc + 2 \<le> 0xFFFF"
  by (auto simp: imm8_def imm16_def rd_def split: Option.bind_splits if_splits)

lemma isa_exec_None_iff:
  assumes "0 \<le> opc" "opc \<le> 0xFFFF"
  shows "isa_exec bs s e opc i = None \<longleftrightarrow> reads_past s opc i"
  using assms(2)
  by (cases i)
    (auto simp: reads_past_def imm_None [OF assms] jump_spec_def call_spec_def ret_spec_def rd16_def split_beta
      Let_def split: Option.bind_split if_splits dest: imm_Some)

section \<open>Protected memory\<close>

context guarded_bus
begin

lemma mem_wr_keeps [frame_simps]:
  "prot e adr \<Longrightarrow> memory (fst (mem_wr bs s e i v)) adr = memory s adr"
  "prot (snd (mem_wr bs s e i v)) = prot e"
proof -
  obtain s1 e1 where w: "mem_wr bs s e i v = (s1, e1)" by fastforce
  show "prot e adr \<Longrightarrow> memory (fst (mem_wr bs s e i v)) adr = memory s adr"
    using mem_wr_protected(1) [OF w] by (simp add: w)
  obtain b s2 where "bus_mem_write bs (word_of_int i) v s e = (b, s2, e1)"
    using w by (auto simp: mem_wr_def Let_def split: prod.splits)
  then show "prot (snd (mem_wr bs s e i v)) = prot e"
    by (simp add: w mem_write_prot)
qed

lemma io_keeps [frame_simps]:
  "memory (fst (bus_io_pre_read bs p s e)) = memory s" "prot (snd (bus_io_pre_read bs p s e)) = prot e"
  "memory (fst (bus_io_read bs p v s e)) = memory s" "prot (snd (bus_io_read bs p v s e)) = prot e"
  "memory (fst (bus_io_write bs p v s e)) = memory s" "prot (snd (bus_io_write bs p v s e)) = prot e"
  using io_pre_read_cpu [of p s e] io_read_cpu [of p v s e] io_write_cpu [of p v s e]
    io_pre_read_prot [of p s e] io_read_prot [of p v s e] io_write_prot [of p v s e]
  by (auto simp: prod_eq_iff dest!: meta_spec)

lemma set8_keeps [frame_simps]:
  "prot e adr \<Longrightarrow> memory (fst (set8 bs s e r v)) adr = memory s adr"
  "prot (snd (set8 bs s e r v)) = prot e"
  by (cases r; simp add: frame_simps)+

lemma wr16_keeps [frame_simps]:
  "prot e adr \<Longrightarrow> memory (fst (wr16 bs s e a w)) adr = memory s adr"
  "prot (snd (wr16 bs s e a w)) = prot e"
  by (simp_all add: wr16_def split_beta frame_simps)

lemma push16_keeps [frame_simps]:
  "prot e adr \<Longrightarrow> memory (fst (push16 bs s e w)) adr = memory s adr"
  "prot (snd (push16 bs s e w)) = prot e"
  by (simp_all add: push16_def Let_def split_beta frame_simps)

lemma set16_memory [frame_simps]: "memory (set16 s p w) = memory s" "memory (set_psw s p w) = memory s"
  by (cases p; simp add: unpack_psw_def)+

lemma isa_exec_protected:
  assumes "isa_exec bs s e opc i = Some (s', e')"
  shows "prot e adr \<Longrightarrow> memory s' adr = memory s adr" "prot e' = prot e"
  using assms
  by (cases i;
    auto simp: frame_simps skip_def acc_op_def with_cc_def dad_spec_def dsub_spec_def arhl_spec_def rdel_spec_def
      jump_spec_def call_spec_def ret_spec_def daa_def rim_byte_def sim_op_def apfst_beta split_beta Let_def
      unpack_psw_def prod_eq_iff split: Option.bind_splits if_splits)+

lemma exec_switch_protected:
  assumes "exec_switch bs s e opc op = Some (s', e', t)"
  shows "prot e adr \<Longrightarrow> memory s' adr = memory s adr" "prot e' = prot e"
  by (rule exec_switch_isa_cases [OF assms(1)]; use isa_exec_protected in simp)+

end

end
