(* ===== verification/Step_Laws.thy ===== *)
theory Step_Laws
  imports Isa_Laws
begin

unbundle bit_operations_syntax

text \<open>
  Laws of one whole step, \<^verbatim>\<open>Emulate8085Op\<close>: acceptance of interrupts, the HLT state, the EI delay, the
  statistics, write protection, and the fixed points the trace loop takes for infinite loops.
\<close>

section \<open>Interrupt acceptance\<close>

text \<open>What \<^verbatim>\<open>checkInterrupts\<close> would accept, in the order of the 8085's priorities.\<close>

datatype line = L_TRAP | L_RST75 | L_RST65 | L_RST55 | L_INTR

definition requested :: "State8085 \<Rightarrow> line \<Rightarrow> bool" where
  "requested s l = (case l of L_TRAP \<Rightarrow> pending_trap s \<noteq> 0
     | L_RST75 \<Rightarrow> int_enable s \<noteq> 0 \<and> r7_latch s \<noteq> 0 \<and> r7_mask s = 0
     | L_RST65 \<Rightarrow> int_enable s \<noteq> 0 \<and> pending_r6 s \<noteq> 0 \<and> r6_mask s = 0
     | L_RST55 \<Rightarrow> int_enable s \<noteq> 0 \<and> pending_r5 s \<noteq> 0 \<and> r5_mask s = 0
     | L_INTR \<Rightarrow> int_enable s \<noteq> 0 \<and> pending_int s \<noteq> 0)"

definition accepted :: "State8085 \<Rightarrow> line option" where
  "accepted s = find (requested s) [L_TRAP, L_RST75, L_RST65, L_RST55, L_INTR]"

fun vector :: "State8085 \<Rightarrow> line \<Rightarrow> u16" where
  "vector s L_TRAP = 0x24" | "vector s L_RST75 = 0x3C" | "vector s L_RST65 = 0x34" | "vector s L_RST55 = 0x2C"
| "vector s L_INTR = 8 * ucast (int_rst_number s)"

fun acknowledge :: "State8085 \<Rightarrow> line \<Rightarrow> State8085" where
  "acknowledge s L_TRAP = s\<lparr>pending_trap := 0, int_enable := 0\<rparr>"
| "acknowledge s L_RST75 = s\<lparr>r7_latch := 0, int_enable := 0\<rparr>"
| "acknowledge s L_RST65 = s\<lparr>pending_r6 := 0, int_enable := 0\<rparr>"
| "acknowledge s L_RST55 = s\<lparr>pending_r5 := 0, int_enable := 0\<rparr>"
| "acknowledge s L_INTR = s\<lparr>pending_int := 0, int_enable := 0\<rparr>"

lemma acknowledge_fields [simp]:
  "pc (acknowledge s l) = pc s" "sp (acknowledge s l) = sp s" "memory (acknowledge s l) = memory s"
  "hlt_enable (acknowledge s l) = hlt_enable s" "int_enable (acknowledge s l) = 0"
  "int_enable_delay (acknowledge s l) = int_enable_delay s"
  by (cases l; simp)+

context cpu_bus
begin

lemma checkInterrupts_eq:
  "checkInterrupts bs s e =
     (case accepted s of
        None \<Rightarrow> (False, s, e)
      | Some l \<Rightarrow> (let (s1, e1) = push16 bs (acknowledge s l) e (pc s) in (True, s1\<lparr>pc := vector s l\<rparr>, e1)))"
  by (auto simp: checkInterrupts_def accepted_def requested_def rst_eq apfst_beta split_beta mult.commute)

end

section \<open>The halted processor, the EI delay, the statistics\<close>

lemma accepted_None_iff: "accepted s = None \<longleftrightarrow> (\<forall>l. \<not> requested s l)"
proof -
  have "l \<in> set [L_TRAP, L_RST75, L_RST65, L_RST55, L_INTR]" for l by (cases l) simp_all
  then show ?thesis unfolding accepted_def find_None_iff by blast
qed

lemma update_stats_fields [simp]:
  "total_tstates (update_stats st w t) = total_tstates st + of_nat t"
  "min_sp_set (update_stats st w t)"
  "min_sp (update_stats st w t) = (if min_sp_set st then min (min_sp st) w else w)"
  by (auto simp: update_stats_def Let_def min_def not_less)

lemma tick_ei_delay_fields [simp]:
  "pc (tick_ei_delay s) = pc s" "sp (tick_ei_delay s) = sp s" "memory (tick_ei_delay s) = memory s"
  "hlt_enable (tick_ei_delay s) = hlt_enable s"
  by (simp_all add: tick_ei_delay_def Let_def)

context cpu_bus
begin

text \<open>A step either stays halted or fetches and executes one instruction.\<close>

lemma Emulate8085Op_eq:
  assumes "checkInterrupts bs s e = (tak, s1, e1)"
  shows "Emulate8085Op bs s st e =
    (if hlt_enable s1 \<noteq> 0 \<and> \<not> tak then Some (s1, st, e1, 1)
     else let s2 = s1\<lparr>hlt_enable := 0\<rparr> in
       map_option (\<lambda>(s3, e3, t). (tick_ei_delay s3, update_stats st (sp s3) t, e3,
          if hlt_enable s3 \<noteq> 0 then 1 else 0))
        (exec_switch bs (s2\<lparr>pc := pc s2 + 1\<rparr>) e1 (uint (pc s2)) (memory s2 (pc s2))))"
proof -
  have clear: "(if hlt_enable s1 \<noteq> 0 then s1\<lparr>hlt_enable := 0\<rparr> else s1) = s1\<lparr>hlt_enable := 0\<rparr>"
    by simp
  then show ?thesis
    unfolding Emulate8085Op_def assms Let_def prod.case clear
    by (simp add: Let_def prod.case clear split_beta split: option.split Option.bind_split del: if_cancel)
qed

lemma step_stats:
  assumes "Emulate8085Op bs s st e = Some (s', st', e', h)" "checkInterrupts bs s e = (tak, s1, e1)"
    and "\<not> (hlt_enable s1 \<noteq> 0 \<and> \<not> tak)"
  shows "total_tstates st' = total_tstates st +
      of_nat (cycles (decode (memory s1 (pc s1))) (taken (cc s1) (decode (memory s1 (pc s1)))))"
    and "min_sp_set st'" "min_sp st' = (if min_sp_set st then min (min_sp st) (sp s') else sp s')"
proof -
  define s2 where "s2 = s1\<lparr>hlt_enable := 0, pc := pc s1 + 1\<rparr>"
  from assms obtain s3 t where x: "exec_switch bs s2 e1 (uint (pc s1)) (memory s1 (pc s1)) = Some (s3, e', t)"
    and s': "s' = tick_ei_delay s3" "st' = update_stats st (sp s3) t"
    by (auto simp: Emulate8085Op_eq [OF assms(2)] Let_def s2_def)
  show "total_tstates st' = total_tstates st +
      of_nat (cycles (decode (memory s1 (pc s1))) (taken (cc s1) (decode (memory s1 (pc s1)))))"
    using exec_switch_time [where bs = bs and s = s2 and e = e1 and opc = "uint (pc s1)" and op = "memory s1 (pc s1)"]
    by (simp add: x s') (simp add: s2_def)
  show "min_sp_set st'" "min_sp st' = (if min_sp_set st then min (min_sp st) (sp s') else sp s')"
    by (simp_all add: s')
qed

lemma step_None_iff:
  assumes "checkInterrupts bs s e = (tak, s1, e1)"
  shows "Emulate8085Op bs s st e = None \<longleftrightarrow> \<not> (hlt_enable s1 \<noteq> 0 \<and> \<not> tak) \<and>
    reads_past (s1\<lparr>hlt_enable := 0, pc := pc s1 + 1\<rparr>) (uint (pc s1)) (decode (memory s1 (pc s1)))"
  using u16_bounds [of "pc s1"]
  by (simp add: Emulate8085Op_eq [OF assms] Let_def exec_switch_None_iff isa_exec_None_iff)

end

section \<open>What an instruction keeps of the interrupt system\<close>

context cpu_bus
begin

lemma set_keeps_control [frame_simps]:
  "int_enable (fst (set8 bs s e r v)) = int_enable s" "int_enable_delay (fst (set8 bs s e r v)) = int_enable_delay s"
  "hlt_enable (fst (set8 bs s e r v)) = hlt_enable s"
  "int_enable (set16 s p w) = int_enable s" "int_enable_delay (set16 s p w) = int_enable_delay s"
  "hlt_enable (set16 s p w) = hlt_enable s"
  "int_enable (set_psw s p w) = int_enable s" "int_enable_delay (set_psw s p w) = int_enable_delay s"
  "hlt_enable (set_psw s p w) = hlt_enable s"
  by (cases r; simp add: frame_simps; fail | cases p; simp add: unpack_psw_def; fail)+

lemma stack_keeps_control [frame_simps]:
  "int_enable (fst (push16 bs s e w)) = int_enable s"
  "int_enable_delay (fst (push16 bs s e w)) = int_enable_delay s"
  "hlt_enable (fst (push16 bs s e w)) = hlt_enable s"
  "int_enable (fst (wr16 bs s e a w)) = int_enable s"
  "int_enable_delay (fst (wr16 bs s e a w)) = int_enable_delay s"
  "hlt_enable (fst (wr16 bs s e a w)) = hlt_enable s"
  by (simp_all add: push16_def wr16_def Let_def split_beta frame_simps)

lemma io_keeps_control [frame_simps]:
  "int_enable (fst (bus_io_pre_read bs p s e)) = int_enable s"
  "int_enable_delay (fst (bus_io_pre_read bs p s e)) = int_enable_delay s"
  "hlt_enable (fst (bus_io_pre_read bs p s e)) = hlt_enable s"
  "int_enable (fst (bus_io_read bs p v s e)) = int_enable s"
  "int_enable_delay (fst (bus_io_read bs p v s e)) = int_enable_delay s"
  "hlt_enable (fst (bus_io_read bs p v s e)) = hlt_enable s"
  "int_enable (fst (bus_io_write bs p v s e)) = int_enable s"
  "int_enable_delay (fst (bus_io_write bs p v s e)) = int_enable_delay s"
  "hlt_enable (fst (bus_io_write bs p v s e)) = hlt_enable s"
  using io_pre_read_cpu [of p s e] io_read_cpu [of p v s e] io_write_cpu [of p v s e]
  by (auto simp: prod_eq_iff dest!: meta_spec)

lemma isa_exec_control:
  assumes "isa_exec bs s e opc i = Some (s', e')"
  shows "int_enable s' = (if i = DI then 0 else int_enable s)"
    and "int_enable_delay s' = (if i = DI then 0 else if i = EI then 2 else int_enable_delay s)"
    and "hlt_enable s' = (if i = HLT then 1 else hlt_enable s)"
  using assms
  by (cases i;
    auto simp: frame_simps skip_def acc_op_def with_cc_def dad_spec_def dsub_spec_def arhl_spec_def rdel_spec_def
      jump_spec_def call_spec_def ret_spec_def daa_def sim_op_def apfst_beta split_beta Let_def unpack_psw_def
      prod_eq_iff split: Option.bind_splits if_splits)+

lemma exec_switch_control:
  assumes "exec_switch bs s e opc op = Some (s', e', t)"
  shows "int_enable s' = (if decode op = DI then 0 else int_enable s)"
    and "int_enable_delay s' = (if decode op = DI then 0 else if decode op = EI then 2 else int_enable_delay s)"
    and "hlt_enable s' = (if decode op = HLT then 1 else hlt_enable s)"
  by (rule exec_switch_isa_cases [OF assms]; use isa_exec_control in simp)+

text \<open>
  An instruction other than DI leaves the interrupts as \<^verbatim>\<open>tick_ei_delay\<close> does: an expiring delay
  enables them, and only then.
\<close>

lemma step_int_enable:
  assumes "Emulate8085Op bs s st e = Some (s', st', e', h)" "accepted s = None" "hlt_enable s = 0"
  defines "i \<equiv> decode (memory s (pc s))"
  shows "int_enable s' =
      (if i = DI then 0 else if i \<noteq> EI \<and> int_enable_delay s = 1 then 1 else int_enable s)"
    and "int_enable_delay s' =
      (if i = DI then 0 else if i = EI then 1 else if int_enable_delay s = 0 then 0 else int_enable_delay s - 1)"
proof -
  have c: "checkInterrupts bs s e = (False, s, e)"
    using assms(2) by (simp add: checkInterrupts_eq)
  from assms(1,3) obtain s3 t where
    x: "exec_switch bs (s\<lparr>hlt_enable := 0, pc := pc s + 1\<rparr>) e (uint (pc s)) (memory s (pc s)) = Some (s3, e', t)"
    and s': "s' = tick_ei_delay s3"
    by (auto simp: Emulate8085Op_eq [OF c] Let_def)
  note ctl = exec_switch_control [OF x, folded i_def]
  show "int_enable s' = (if i = DI then 0 else if i \<noteq> EI \<and> int_enable_delay s = 1 then 1 else int_enable s)"
    using ctl(1,2) by (auto simp: s' tick_ei_delay_def Let_def word_neq_0_conv [symmetric])
  show "int_enable_delay s' =
      (if i = DI then 0 else if i = EI then 1 else if int_enable_delay s = 0 then 0 else int_enable_delay s - 1)"
    using ctl(2) by (auto simp: s' tick_ei_delay_def Let_def word_neq_0_conv [symmetric])
qed

section \<open>Fixed points\<close>

text \<open>
  An instruction that ends where it began, with the stack pointer it began with, is a jump to itself
  and changes nothing at all.
\<close>

lemma isa_exec_loop:
  assumes "isa_exec bs s e opc i = Some (s', e')" "pc s' = pc s - 1" "sp s' = sp s"
  shows "s' = s\<lparr>pc := pc s - 1\<rparr> \<and> e' = e"
proof (cases "transfers i")
  case False
  have "pc s + of_nat (operand_len i) = pc s - 1"
    using isa_exec_pc [OF assms(1) False] assms(2) by simp
  then have "of_nat (operand_len i) + 1 = (0 :: u16)" by (simp add: eq_diff_eq add.commute)
  then have "i \<noteq> i" by (cases i) simp_all
  then show ?thesis by simp
next
  case True
  have ne: "pc s + 2 \<noteq> pc s - 1" "sp s - 2 \<noteq> sp s" "sp s + 2 \<noteq> sp s" "pc s \<noteq> pc s - 1"
    by (simp_all add: eq_diff_eq)
  from True assms show ?thesis
    by (cases i)
      (auto simp: jump_spec_def call_spec_def ret_spec_def skip_def split_beta frame_simps apfst_beta Let_def ne
        prod_eq_iff split: Option.bind_splits if_splits)
qed

lemma step_loop:
  assumes "Emulate8085Op bs s st e = Some (s', st', e', h)" "accepted s = None" "hlt_enable s = 0"
    and "pc s' = pc s" "sp s' = sp s"
  shows "s' = tick_ei_delay s" "e' = e" "h = 0" "transfers (decode (memory s (pc s)))"
proof -
  define s2 where "s2 = s\<lparr>hlt_enable := 0, pc := pc s + 1\<rparr>"
  define op where "op = memory s (pc s)"
  have c: "checkInterrupts bs s e = (False, s, e)"
    using assms(2) by (simp add: checkInterrupts_eq)
  from assms(1,3) obtain s3 t where x: "exec_switch bs s2 e (uint (pc s)) op = Some (s3, e', t)"
    and s': "s' = tick_ei_delay s3" and h: "h = (if hlt_enable s3 \<noteq> 0 then 1 else 0)"
    by (auto simp: Emulate8085Op_eq [OF c] Let_def s2_def op_def)
  have at: "pc s3 = pc s2 - 1" "sp s3 = sp s2"
    using assms(4,5) by (simp_all add: s' s2_def)
  obtain s1 v where i: "isa_exec bs s2 e (uint (pc s)) (decode op) = Some (s1, e')"
    and s3: "s3 = s1\<lparr>cc := (cc s1)\<lparr>fl_v := v\<rparr>\<rparr>"
    by (rule exec_switch_isa_cases [OF x])
  have at1: "pc s1 = pc s2 - 1" "sp s1 = sp s2" using at by (simp_all add: s3)
  show t: "transfers (decode (memory s (pc s)))"
  proof (rule ccontr)
    assume "\<not> transfers (decode (memory s (pc s)))"
    then have "pc s2 + of_nat (operand_len (decode op)) = pc s2 - 1"
      using isa_exec_pc [OF i] at1 by (simp add: op_def)
    then have "of_nat (operand_len (decode op)) + 1 = (0 :: u16)" by (simp add: eq_diff_eq add.commute)
    then show False by (cases "decode op") simp_all
  qed
  then have "op \<noteq> 0xc6" "op \<noteq> 0xfe"
    by (auto simp: op_def decode_def decode_3_def Let_def)
  then have "isa_exec bs s2 e (uint (pc s)) (decode op) = Some (s3, e')"
    using exec_switch_isa [of op s2 e "uint (pc s)"] x by simp
  from isa_exec_loop [OF this at] have "s3 = s2\<lparr>pc := pc s2 - 1\<rparr>" "e' = e" by simp_all
  moreover have "s\<lparr>hlt_enable := 0\<rparr> = s" using assms(3) by (cases s) simp
  ultimately show "s' = tick_ei_delay s" "e' = e" "h = 0"
    using assms(3) by (simp_all add: s' h s2_def)
qed

end

section \<open>Write protection\<close>

context guarded_bus
begin

lemma checkInterrupts_protected:
  assumes "checkInterrupts bs s e = (tak, s', e')"
  shows "prot e adr \<Longrightarrow> memory s' adr = memory s adr" "prot e' = prot e"
  using assms by (auto simp: checkInterrupts_eq split_beta Let_def frame_simps split: option.splits)

lemma step_protected:
  assumes "Emulate8085Op bs s st e = Some (s', st', e', h)"
  shows "prot e adr \<Longrightarrow> memory s' adr = memory s adr" "prot e' = prot e"
proof -
  obtain tak s1 e1 where c: "checkInterrupts bs s e = (tak, s1, e1)" by (metis prod_cases3)
  note p = checkInterrupts_protected [OF c]
  have *: "(prot e adr \<longrightarrow> memory s' adr = memory s adr) \<and> prot e' = prot e"
  proof (cases "hlt_enable s1 \<noteq> 0 \<and> \<not> tak")
    case True
    then show ?thesis using assms p by (simp add: Emulate8085Op_eq [OF c])
  next
    case False
    with assms obtain s3 t where
      x: "exec_switch bs (s1\<lparr>hlt_enable := 0, pc := pc s1 + 1\<rparr>) e1 (uint (pc s1)) (memory s1 (pc s1)) = Some (s3, e', t)"
      and "s' = tick_ei_delay s3"
      by (auto simp: Emulate8085Op_eq [OF c] Let_def)
    then show ?thesis using p exec_switch_protected [OF x] by simp
  qed
  show "prot e adr \<Longrightarrow> memory s' adr = memory s adr" "prot e' = prot e"
    using * by simp_all
qed

end

end
