(* ===== verification/Runtime_Laws.thy ===== *)
theory Runtime_Laws
  imports Io_Runtime Step_Laws
begin

unbundle bit_operations_syntax

text \<open>
  The contract between the runtime and its plugins, and what follows from it for the processor: a
  table of callbacks that keeps \<open>plugin_contract\<close> makes the runtime a \<open>guarded_bus\<close>.
\<close>

section \<open>The contract\<close>

text \<open>
  \<open>prot_of p a\<close>: the plugin protects the address.  A port callback touches the port latches only and
  leaves the protection; a memory callback vetoes exactly the protected addresses; a step may raise
  the RST 7.5 latch.
\<close>

locale plugin_contract =
  fixes tbl :: "'p \<Rightarrow> 'p plugin_api" and prot_of :: "'p \<Rightarrow> u16 \<Rightarrow> bool"
  assumes io_write_law: "api_on_io_write (tbl p) = Some f \<Longrightarrow> f p s port v = (p', s') \<Longrightarrow>
      (\<exists>ports. s' = s\<lparr>io := ports\<rparr>) \<and> prot_of p' = prot_of p"
    and pre_read_law: "api_on_io_pre_read (tbl p) = Some g \<Longrightarrow> g p s port = (p', s') \<Longrightarrow>
      (\<exists>ports. s' = s\<lparr>io := ports\<rparr>) \<and> prot_of p' = prot_of p"
    and post_read_law: "api_on_io_post_read (tbl p) = Some f \<Longrightarrow> f p s port v = (p', s') \<Longrightarrow>
      (\<exists>ports. s' = s\<lparr>io := ports\<rparr>) \<and> prot_of p' = prot_of p"
    and mem_write_law: "api_on_mem_write (tbl p) = Some m \<Longrightarrow>
      m p s a v = (if prot_of p a then memory s a else v, p, s)"
    and no_mem_law: "api_on_mem_write (tbl p) = None \<Longrightarrow> \<not> prot_of p a"
    and step_law: "api_on_step (tbl p) = Some st \<Longrightarrow> st p host s step t = (p', s') \<Longrightarrow>
      (\<exists>l. s' = s\<lparr>r7_latch := l\<rparr>) \<and> prot_of p' = prot_of p"
    and reset_law: "api_on_reset (tbl p) = Some r \<Longrightarrow> r p s = (p', s') \<Longrightarrow> s' = s \<and> prot_of p' = prot_of p"
    and pin_set_law: "api_pin_set (tbl p) = Some ps \<Longrightarrow> prot_of (ps p pin lv) = prot_of p"
begin

text \<open>An address of the runtime is protected by some plugin.\<close>

definition guarded :: "'p runtime \<Rightarrow> u16 \<Rightarrow> bool" where
  "guarded rt a \<longleftrightarrow> anyMemWrite rt \<and> (\<exists>p \<in> set (plugins rt). prot_of p a)"

lemma io_refl: "\<exists>ports. s = s\<lparr>io := ports\<rparr>" for s :: State8085
  by (rule exI [of _ "io s"]) simp

text \<open>Fanning out a callback that touches only the ports.\<close>

lemma each_io:
  assumes "each f ps s = (ps', s')"
    and "\<And>p s p' s'. f p s = (p', s') \<Longrightarrow> (\<exists>ports. s' = s\<lparr>io := ports\<rparr>) \<and> prot_of p' = prot_of p"
  shows "(\<exists>ports. s' = s\<lparr>io := ports\<rparr>) \<and> map prot_of ps' = map prot_of ps"
  using assms(1)
proof (induction ps arbitrary: s ps' s')
  case Nil
  then have "s' = s\<lparr>io := io s\<rparr>" "ps' = []" by simp_all
  then show ?case by (intro conjI exI [of _ "io s"]) simp_all
next
  case (Cons p ps)
  obtain p1 s1 where p: "f p s = (p1, s1)" by fastforce
  obtain ps2 s2 where ps: "each f ps s1 = (ps2, s2)" by fastforce
  from assms(2) [OF p] Cons.IH [OF ps] Cons.prems p ps show ?case by auto
qed

lemma guarded_cong:
  assumes "map prot_of (plugins rt') = map prot_of (plugins rt)" "anyMemWrite rt' = anyMemWrite rt"
  shows "guarded rt' = guarded rt"
proof
  fix a
  have *: "(\<exists>p \<in> set (plugins x). prot_of p a) \<longleftrightarrow> (\<exists>q \<in> set (map prot_of (plugins x)). q a)" for x :: "'p runtime"
    by simp
  show "guarded rt' a = guarded rt a"
    unfolding guarded_def * assms ..
qed

lemma chain_mem_eq:
  "chain_mem tbl ps a v s = (if \<exists>p \<in> set ps. prot_of p a then memory s a else v, ps, s)"
proof (induction ps arbitrary: v)
  case (Cons p ps)
  show ?case
  proof (cases "api_on_mem_write (tbl p)")
    case None
    then show ?thesis using Cons.IH no_mem_law [OF None] by simp
  next
    case (Some m)
    then show ?thesis using Cons.IH by (simp add: mem_write_law [OF Some])
  qed
qed simp

lemma mem_write_eq:
  "io_runtime_mem_write tbl a v s rt = (if guarded rt a then memory s a else v, s, rt)"
  by (simp add: io_runtime_mem_write_def chain_mem_eq guarded_def)

lemma io_write_keeps:
  assumes "io_write tbl port v s rt = (s', rt')"
  shows "(\<exists>ports. s' = s\<lparr>io := ports\<rparr>) \<and> guarded rt' = guarded rt"
proof -
  define rt1 where "rt1 = (if disk_emu_active (rt_disk rt) \<and> state_set rt
    then rt\<lparr>rt_disk := disk_emu_on_io_write (rt_disk rt) s port v\<rparr> else rt)"
  have rt1: "plugins rt1 = plugins rt" "anyMemWrite rt1 = anyMemWrite rt" by (simp_all add: rt1_def)
  obtain ps s2 where e: "each (opt_call (\<lambda>p. api_on_io_write (tbl p)) (\<lambda>f p s. f p s port v)) (plugins rt1) s = (ps, s2)"
    by fastforce
  have "(\<exists>ports. s2 = s\<lparr>io := ports\<rparr>) \<and> map prot_of ps = map prot_of (plugins rt1)"
    by (rule each_io [OF e]) (auto simp: opt_call_def intro: io_refl dest: io_write_law split: option.splits)
  then show ?thesis
    using assms e io_refl [of s] guarded_cong [of "rt1\<lparr>plugins := ps\<rparr>" rt] guarded_cong [of rt1 rt]
    by (auto simp: io_write_def Let_def rt1 simp flip: rt1_def split: if_splits)
qed

lemma io_pre_read_keeps:
  assumes "io_pre_read tbl port s rt = (s', rt')"
  shows "(\<exists>ports. s' = s\<lparr>io := ports\<rparr>) \<and> guarded rt' = guarded rt"
proof -
  define s1 where "s1 = (if disk_emu_active (rt_disk rt) \<and> state_set rt
    then disk_emu_on_io_pre_read (rt_disk rt) s port else s)"
  have s1: "\<exists>ports. s1 = s\<lparr>io := ports\<rparr>"
    using disk_touches_ports [of "rt_disk rt" s port] io_refl [of s] unfolding s1_def by (auto split: if_splits)
  obtain ps s2 where e: "each (opt_call (\<lambda>p. api_on_io_pre_read (tbl p)) (\<lambda>f p s. f p s port)) (plugins rt) s1 = (ps, s2)"
    by fastforce
  have "(\<exists>ports. s2 = s1\<lparr>io := ports\<rparr>) \<and> map prot_of ps = map prot_of (plugins rt)"
    by (rule each_io [OF e]) (auto simp: opt_call_def intro: io_refl dest: pre_read_law split: option.splits)
  then show ?thesis
    using assms e s1 guarded_cong [of "rt\<lparr>plugins := ps\<rparr>" rt]
    by (auto simp: io_pre_read_def Let_def simp flip: s1_def split: if_splits)
qed

lemma io_read_keeps:
  assumes "io_read tbl port v s rt = (s', rt')"
  shows "(\<exists>ports. s' = s\<lparr>io := ports\<rparr>) \<and> guarded rt' = guarded rt"
proof -
  obtain ps s2 where e: "each (opt_call (\<lambda>p. api_on_io_post_read (tbl p)) (\<lambda>f p s. f p s port v)) (plugins rt) s = (ps, s2)"
    by fastforce
  have "(\<exists>ports. s2 = s\<lparr>io := ports\<rparr>) \<and> map prot_of ps = map prot_of (plugins rt)"
    by (rule each_io [OF e]) (auto simp: opt_call_def intro: io_refl dest: post_read_law split: option.splits)
  then show ?thesis
    using assms e io_refl [of s] guarded_cong [of "rt\<lparr>plugins := ps\<rparr>" rt]
    by (auto simp: io_read_def split: if_splits)
qed

end

text \<open>A runtime over a contract is a bus that guards what its plugins protect.\<close>

sublocale plugin_contract < rt: guarded_bus "runtime_bus tbl" guarded
proof
  fix a v s e v' s' e'
  assume "bus_mem_write (runtime_bus tbl) a v s e = (v', s', e')"
  then have eq: "v' = (if guarded e a then memory s a else v)" "s' = s" "e' = e"
    by (auto simp: runtime_bus_def mem_write_eq)
  show "s' = s" by (rule eq)
  show "guarded e' = guarded e" by (simp add: eq)
  show "guarded e a \<Longrightarrow> v' = memory s a" by (simp add: eq)
next
  fix s t :: State8085 and a v e v' s' e'
  assume "memory s a = memory t a" "bus_mem_write (runtime_bus tbl) a v s e = (v', s', e')"
  then show "\<exists>t'. bus_mem_write (runtime_bus tbl) a v t e = (v', t', e')"
    by (auto simp: runtime_bus_def mem_write_eq)
next
  fix port v s e s' e'
  assume "bus_io_write (runtime_bus tbl) port v s e = (s', e')"
  then show "\<exists>ports. s' = s\<lparr>io := ports\<rparr>" "guarded e' = guarded e"
    using io_write_keeps by (simp_all add: runtime_bus_def)
next
  fix port s e s' e'
  assume "bus_io_pre_read (runtime_bus tbl) port s e = (s', e')"
  then show "\<exists>ports. s' = s\<lparr>io := ports\<rparr>" "guarded e' = guarded e"
    using io_pre_read_keeps by (simp_all add: runtime_bus_def)
next
  fix port v s e s' e'
  assume "bus_io_read (runtime_bus tbl) port v s e = (s', e')"
  then show "\<exists>ports. s' = s\<lparr>io := ports\<rparr>" "guarded e' = guarded e"
    using io_read_keeps by (simp_all add: runtime_bus_def)
qed

section \<open>What a host step does to the processor\<close>

text \<open>Only the interrupt and serial lines.\<close>

definition lines_only :: "State8085 \<Rightarrow> State8085 \<Rightarrow> bool" where
  "lines_only s s' \<longleftrightarrow>
     s' = s\<lparr>pending_trap := pending_trap s', pending_r5 := pending_r5 s', pending_r6 := pending_r6 s',
            r7_latch := r7_latch s', sid_line := sid_line s'\<rparr>"

lemma lines_only_refl: "lines_only s s"
  by (simp add: lines_only_def)

lemma lines_only_trans: "lines_only s t \<Longrightarrow> lines_only t u \<Longrightarrow> lines_only s u"
  unfolding lines_only_def by (cases s; cases t; cases u) simp

lemma lines_only_latch: "lines_only s (s\<lparr>r7_latch := l\<rparr>)"
  by (simp add: lines_only_def)

lemma lines_only_fields:
  "lines_only s s' \<Longrightarrow> memory s' = memory s \<and> pc s' = pc s \<and> sp s' = sp s \<and> hlt_enable s' = hlt_enable s \<and>
     int_enable s' = int_enable s \<and> reg_a s' = reg_a s \<and> cc s' = cc s"
  unfolding lines_only_def by (cases s; cases s') simp

lemma drive_cpu_pin_lines: "lines_only s (drive_cpu_pin s f b)"
  by (simp add: drive_cpu_pin_def triggerInterrupt_def setSIDLine_def lines_only_def)

context plugin_contract
begin

lemma write_input_keeps:
  assumes "rt_write_input tbl rt s h lv = (rt', s')"
  shows "lines_only s s' \<and> guarded rt' = guarded rt"
proof -
  have "guarded (rt\<lparr>plugins := (plugins rt)[k := f (plugins rt ! k) n l]\<rparr>) = guarded rt"
    if "api_pin_set (tbl (plugins rt ! k)) = Some f" for k f n l
  proof (rule guarded_cong)
    have "map prot_of ((plugins rt)[k := f (plugins rt ! k) n l]) = (map prot_of (plugins rt))[k := prot_of (plugins rt ! k)]"
      by (simp add: map_update pin_set_law [OF that])
    also have "\<dots> = map prot_of (plugins rt)" by (metis list_update_id map_update)
    finally show "map prot_of (plugins (rt\<lparr>plugins := (plugins rt)[k := f (plugins rt ! k) n l]\<rparr>)) = map prot_of (plugins rt)"
      by simp
  qed simp
  then show ?thesis
    using assms
    by (auto simp: rt_write_input_def Let_def drive_cpu_pin_lines lines_only_refl split: if_splits option.splits)
qed

lemma deliver_keeps:
  assumes "deliver (runtime_net_host tbl) net eps (rt, s) = (rt', s')"
  shows "lines_only s s' \<and> guarded rt' = guarded rt"
  using assms
proof (induction eps arbitrary: rt s)
  case (Cons ep eps)
  show ?case
  proof (cases "\<not> ep_is_output ep \<and> ep_handle ep \<ge> 0")
    case True
    obtain rt1 s1 where w: "rt_write_input tbl rt s (ep_handle ep) (lvls net ! ep_node ep) = (rt1, s1)" by fastforce
    have "deliver (runtime_net_host tbl) net eps (rt1, s1) = (rt', s')"
      using Cons.prems True w by (simp add: runtime_net_host_def)
    then show ?thesis
      using Cons.IH write_input_keeps [OF w] lines_only_trans by metis
  next
    case False
    then show ?thesis using Cons by auto
  qed
qed (simp add: lines_only_refl)

lemma step_plugins_keeps:
  assumes "step_plugins tbl n t k rt s m = (rt', s')"
  shows "lines_only s s' \<and> guarded rt' = guarded rt"
  using assms
proof (induction m arbitrary: k rt s)
  case (Suc m)
  show ?case
  proof (cases "api_on_step (tbl (plugins rt ! k))")
    case None
    then show ?thesis using Suc by simp
  next
    case (Some f)
    obtain p' s1 where f: "f (plugins rt ! k) (runtime_host_api tbl rt s) s n t = (p', s1)" by fastforce
    note law = step_law [OF Some f]
    have "map prot_of ((plugins rt)[k := p']) = (map prot_of (plugins rt))[k := prot_of (plugins rt ! k)]"
      using law by (simp add: map_update)
    also have "\<dots> = map prot_of (plugins rt)" by (metis list_update_id map_update)
    finally have g: "guarded (rt\<lparr>plugins := (plugins rt)[k := p']\<rparr>) = guarded rt"
      by (intro guarded_cong) simp_all
    have l: "lines_only s s1" using law lines_only_latch by auto
    have "step_plugins tbl n t (k + 1) (rt\<lparr>plugins := (plugins rt)[k := p']\<rparr>) s1 m = (rt', s')"
      using Suc.prems Some f by simp
    from Suc.IH [OF this] show ?thesis using g l lines_only_trans by metis
  qed
qed (simp add: lines_only_refl)

lemma on_step_keeps:
  assumes "io_runtime_on_step tbl rt s n t = (rt', s')"
  shows "lines_only s s' \<and> guarded rt' = guarded rt"
proof (cases "state_set rt")
  case True
  obtain rt1 s1 where p: "step_plugins tbl n t 0 rt s (length (plugins rt)) = (rt1, s1)" by fastforce
  note k1 = step_plugins_keeps [OF p]
  show ?thesis
  proof (cases "wiring rt1")
    case False
    then show ?thesis using assms True p k1 by (simp add: io_runtime_on_step_def)
  next
    case w: True
    obtain rt2 s2 net' ws where st: "net_step (runtime_net_host tbl) (rt1, s1) (rt_net rt1) = ((rt2, s2), net', ws)"
      by (metis prod.exhaust)
    have "lines_only s1 s2 \<and> guarded rt2 = guarded rt1"
    proof (cases "bound (rt_net rt1)")
      case True
      then obtain net2 eps where "deliver (runtime_net_host tbl) net2 eps (rt1, s1) = (rt2, s2)"
        using st by (auto simp: net_step_def Let_def split_beta)
      then show ?thesis by (rule deliver_keeps)
    next
      case False
      then show ?thesis using st by (simp add: net_step_def lines_only_refl)
    qed
    moreover have "rt' = rt2\<lparr>rt_net := net', rt_warnings := rt_warnings rt2 @ ws\<rparr>" "s' = s2"
      using assms True p w st by (auto simp: io_runtime_on_step_def)
    moreover have "guarded (rt2\<lparr>rt_net := net', rt_warnings := rt_warnings rt2 @ ws\<rparr>) = guarded rt2"
      by (rule guarded_cong) simp_all
    ultimately show ?thesis using k1 lines_only_trans by metis
  qed
qed (use assms in \<open>simp add: io_runtime_on_step_def lines_only_refl\<close>)

end

end
