(* ===== verification/Mem_Plugin.thy ===== *)
theory Mem_Plugin
  imports Io_Api
begin

text \<open>
  The memory-region plugin, \<^verbatim>\<open>plugins/memory.cpp\<close>: a ROM or a write-protected EEPROM that vetoes the
  writes to its region.  Names carry the prefix \<open>mem_\<close> where other plugins have the same function.
\<close>

record mem_ctx =
  mem_base :: u32
  mem_end :: u32
  eeprom :: bool
  wren :: bool

definition protectedNow :: "mem_ctx \<Rightarrow> bool" where
  "protectedNow c = (if eeprom c then \<not> wren c else True)"

definition mem_on_mem_write :: "mem_ctx \<Rightarrow> State8085 \<Rightarrow> u16 \<Rightarrow> u8 \<Rightarrow> u8 \<times> mem_ctx \<times> State8085" where
  "mem_on_mem_write c s adr val =
     (if ucast adr \<ge> mem_base c \<and> ucast adr < mem_end c \<and> protectedNow c
      then (memory s adr, c, s) else (val, c, s))"

definition mem_snapshot :: "mem_ctx \<Rightarrow> nat \<Rightarrow> plugin_info \<times> state_field list" where
  "mem_snapshot c max_fields =
     (\<lparr>info_kind = Some ''memory'', info_base = ucast (mem_base c),
        info_span = ucast (mem_end c - mem_base c)\<rparr>,
      take max_fields
       [(''mode'', FIELD_STR (if eeprom c then ''eeprom'' else ''rom'')),
        (''size'', FIELD_HEX (mem_end c - mem_base c)),
        (''wren'', FIELD_BOOL (if wren c then 1 else 0)),
        (''prot'', FIELD_BOOL (if protectedNow c then 1 else 0))])"

definition mem_init :: "string \<Rightarrow> mem_ctx" where
  "mem_init config =
     (let base = parseNum (cfgValue config ''base'') 0;
          sz = parseNum (cfgValue config ''size'') 0x8000
      in \<lparr>mem_base = base, mem_end = base + sz, eeprom = (cfgValue config ''mode'' = ''eeprom''),
          wren = truthy (cfgValue config ''wren'')\<rparr>)"

section \<open>What the region protects\<close>

definition mem_protects :: "mem_ctx \<Rightarrow> u16 \<Rightarrow> bool" where
  "mem_protects c adr \<longleftrightarrow> mem_base c \<le> ucast adr \<and> ucast adr < mem_end c \<and> protectedNow c"

lemma mem_on_mem_write_eq:
  "mem_on_mem_write c s adr val = (if mem_protects c adr then memory s adr else val, c, s)"
  by (simp add: mem_on_mem_write_def mem_protects_def)

text \<open>
  On integers: a region whose end does not wrap past 32 bits protects exactly the addresses from its
  base up to, and not including, its end.
\<close>

lemma mem_init_region:
  assumes "uint (parseNum (cfgValue config ''base'') 0) + uint (parseNum (cfgValue config ''size'') 0x8000) < 2 ^ 32"
    and "cfgValue config ''mode'' \<noteq> ''eeprom''"
  shows "mem_protects (mem_init config) adr \<longleftrightarrow>
    uint (parseNum (cfgValue config ''base'') 0) \<le> uint adr \<and>
    uint adr < uint (parseNum (cfgValue config ''base'') 0) + uint (parseNum (cfgValue config ''size'') 0x8000)"
proof -
  have "uint (ucast adr :: u32) = uint adr"
    by (simp add: unsigned_ucast_eq take_bit_eq_mod) (use u16_bounds [of adr] in simp)
  then show ?thesis
    using assms
    by (simp add: mem_protects_def mem_init_def Let_def protectedNow_def word_le_def word_less_def
        uint_word_ariths)
qed

end
