(* ===== verification/I8255.thy ===== *)
theory I8255
  imports Io_Api Alu
begin

unbundle bit_operations_syntax

text \<open>
  The Intel 8255 parallel interface, \<^verbatim>\<open>plugins/i8255.cpp\<close> (mode 0): three ports, the control word with
  its mode-set and bit set/reset commands, the pins a netlist drives.  Names carry the prefix \<open>ppi_\<close>.
\<close>

record ppi_ctx =
  ppi_base :: u8
  ppi_ctrl :: u8
  aIn :: bool
  bIn :: bool
  cUpperIn :: bool
  cLowerIn :: bool
  groupAmode :: u8
  groupBmode :: u8
  outA :: u8
  outB :: u8
  outC :: u8
  inA :: u8
  inB :: u8
  inC :: u8

definition ppi_default :: ppi_ctx where
  "ppi_default = \<lparr>ppi_base = 0, ppi_ctrl = 0x9B, aIn = True, bIn = True, cUpperIn = True, cLowerIn = True,
     groupAmode = 0, groupBmode = 0, outA = 0, outB = 0, outC = 0, inA = 0, inB = 0, inC = 0\<rparr>"

definition readPort :: "ppi_ctx \<Rightarrow> int \<Rightarrow> u8" where
  "readPort c i =
     (if i = 0 then (if aIn c then inA c else outA c)
      else if i = 1 then (if bIn c then inB c else outB c)
      else if i = 2 then
        (let upper = (if cUpperIn c then inC c AND 0xF0 else outC c AND 0xF0);
             lower = (if cLowerIn c then inC c AND 0x0F else outC c AND 0x0F)
         in upper OR lower)
      else ppi_ctrl c)"

definition ppi_writeControl :: "ppi_ctx \<Rightarrow> u8 \<Rightarrow> ppi_ctx" where
  "ppi_writeControl c val =
     (if val AND 0x80 \<noteq> 0
      then c\<lparr>ppi_ctrl := val, groupAmode := drop_bit 5 val AND 0x03,
             aIn := (drop_bit 4 val AND 1 \<noteq> 0), cUpperIn := (drop_bit 3 val AND 1 \<noteq> 0),
             groupBmode := drop_bit 2 val AND 1, bIn := (drop_bit 1 val AND 1 \<noteq> 0),
             cLowerIn := (val AND 1 \<noteq> 0), outA := 0, outB := 0, outC := 0\<rparr>
      else (let b = unat (drop_bit 1 val AND 0x07)
            in if val AND 1 \<noteq> 0 then c\<lparr>outC := outC c OR push_bit b 1\<rparr>
               else c\<lparr>outC := outC c AND NOT (push_bit b 1)\<rparr>))"

definition ppi_on_io_pre_read :: "ppi_ctx \<Rightarrow> State8085 \<Rightarrow> u8 \<Rightarrow> ppi_ctx \<times> State8085" where
  "ppi_on_io_pre_read c s port =
     (let i = uint port - uint (ppi_base c)
      in if 0 \<le> i \<and> i < 4 then (c, s\<lparr>io := (io s)(port := readPort c i)\<rparr>) else (c, s))"

definition ppi_on_io_write :: "ppi_ctx \<Rightarrow> State8085 \<Rightarrow> u8 \<Rightarrow> u8 \<Rightarrow> ppi_ctx \<times> State8085" where
  "ppi_on_io_write c s port value =
     (let i = uint port - uint (ppi_base c)
      in (if i = 0 then c\<lparr>outA := value\<rparr>
          else if i = 1 then c\<lparr>outB := value\<rparr>
          else if i = 2 then c\<lparr>outC := value\<rparr>
          else if i = 3 then ppi_writeControl c value
          else c, s))"

definition ppi_on_reset :: "ppi_ctx \<Rightarrow> State8085 \<Rightarrow> ppi_ctx \<times> State8085" where
  "ppi_on_reset c s =
     (c\<lparr>ppi_ctrl := 0x9B, aIn := True, bIn := True, cUpperIn := True, cLowerIn := True,
        groupAmode := 0, groupBmode := 0, outA := 0, outB := 0, outC := 0\<rparr>, s)"

definition ppi_snapshot :: "ppi_ctx \<Rightarrow> nat \<Rightarrow> plugin_info \<times> state_field list" where
  "ppi_snapshot c max_fields =
     (\<lparr>info_kind = Some ''i8255'', info_base = ucast (ppi_base c), info_span = 4\<rparr>,
      take max_fields
       [(''A'', FIELD_PINS \<lparr>bus_width = 8, bus_level = ucast (readPort c 0),
           bus_is_input = (if aIn c then 0xFF else 0), bus_hi_z = 0\<rparr>),
        (''B'', FIELD_PINS \<lparr>bus_width = 8, bus_level = ucast (readPort c 1),
           bus_is_input = (if bIn c then 0xFF else 0), bus_hi_z = 0\<rparr>),
        (''C'', FIELD_PINS \<lparr>bus_width = 8, bus_level = ucast (readPort c 2),
           bus_is_input = (if cLowerIn c then 0x0F else 0) OR (if cUpperIn c then 0xF0 else 0), bus_hi_z = 0\<rparr>),
        (''ctrl'', FIELD_HEX (ucast (ppi_ctrl c)))])"

text \<open>\<^verbatim>\<open>pin_set\<close>: the bit number is \<^verbatim>\<open>atoi(pin + 1) & 7\<close>; any level but 1 clears the pin.\<close>

definition put_bit :: "u8 \<Rightarrow> u8 \<Rightarrow> u8 \<Rightarrow> u8" where
  "put_bit w msk val = (w AND NOT msk) OR val"

definition ppi_pin_set :: "ppi_ctx \<Rightarrow> string \<Rightarrow> u8 \<Rightarrow> ppi_ctx" where
  "ppi_pin_set c pin level =
     (case pin of [] \<Rightarrow> c
      | p # rest \<Rightarrow>
        (let b = nat (atoi rest AND 7); msk = push_bit b 1; val = (if level = 1 then msk else 0)
         in if p = CHR ''A'' then c\<lparr>inA := put_bit (inA c) msk val\<rparr>
            else if p = CHR ''B'' then c\<lparr>inB := put_bit (inB c) msk val\<rparr>
            else if p = CHR ''C'' then c\<lparr>inC := put_bit (inC c) msk val\<rparr>
            else c))"

definition ppi_init :: "string \<Rightarrow> ppi_ctx" where
  "ppi_init config =
     (let c = ppi_default\<lparr>ppi_base := ucast (parseNum (cfgValue config ''base'') 0 AND 0xFF),
                inA := ucast (parseNum (cfgValue config ''pa'') 0),
                inB := ucast (parseNum (cfgValue config ''pb'') 0),
                inC := ucast (parseNum (cfgValue config ''pc'') 0)\<rparr>;
          ctrlCfg = cfgValue config ''ctrl''
      in if ctrlCfg \<noteq> [] then ppi_writeControl c (ucast (parseNum ctrlCfg 0x9B)) else c)"

section \<open>Port C bit by bit\<close>

lemma bit_nibble_masks: "bit (0xF0 :: int) n \<longleftrightarrow> 4 \<le> n \<and> n < 8" "bit (0x0F :: int) n \<longleftrightarrow> n < 4"
proof -
  have "(0xF0 :: int) = push_bit 4 (mask 4)" "(0x0F :: int) = mask 4"
    by (simp_all add: mask_eq_exp_minus_1 push_bit_eq_mult)
  then show "bit (0xF0 :: int) n \<longleftrightarrow> 4 \<le> n \<and> n < 8" "bit (0x0F :: int) n \<longleftrightarrow> n < 4"
    by (auto simp only: bit_push_bit_iff bit_mask_iff possible_bit_int)
qed

text \<open>Each bit of port C comes from the pins or from the latch, by the direction of its own nibble.\<close>

lemma readPort_C_bit:
  assumes "n < 8"
  shows "bit (readPort c 2) n \<longleftrightarrow>
    bit (if (if n < 4 then cLowerIn c else cUpperIn c) then inC c else outC c) n"
  using assms by (auto simp: readPort_def Let_def bit_or_iff bit_and_iff bit_nibble_masks)

lemma bsr_bit:
  assumes "\<not> bit val 7" "n < 8"
  shows "bit (outC (ppi_writeControl c val)) n \<longleftrightarrow>
    (if n = unat (drop_bit 1 val AND 0x07) then bit val 0 else bit (outC c) n)"
proof -
  have "val AND 0x80 = 0"
    using assms(1) by (intro bit_word_eqI) (auto simp: bit_and_iff bit_0x80)
  moreover have "val AND 1 \<noteq> 0 \<longleftrightarrow> bit val 0"
    by (simp add: and_one_eq odd_iff_mod_2_eq_one bit_0)
  moreover have "unat (drop_bit 1 val AND 0x07) < 8"
    using word_and_le1 [of "drop_bit 1 val" "0x07"] by (simp add: word_le_nat_alt)
  ultimately show ?thesis
    using assms(2)
    by (auto simp: ppi_writeControl_def Let_def bit_or_iff bit_and_iff bit_not_iff bit_exp_iff)
qed

end
