(* ===== verification/Pit8254.thy ===== *)
theory Pit8254
  imports Io_Api
begin

unbundle bit_operations_syntax

text \<open>
  The Intel 8254 interval timer, \<^verbatim>\<open>plugins/pit8254.cpp\<close>: three counters, their control words, the byte
  sequencing of count writes and latched reads, and the ticks of modes 0, 2 and 3.  Names carry the
  prefix \<open>k_\<close> for a counter's fields and \<open>pit_\<close> for the plugin's functions.
\<close>

record counter =
  k_initial :: u32
  k_count :: u32
  k_mode :: u8
  k_rw :: u8
  k_bcd :: bool
  k_out :: bool
  k_running :: bool
  k_writeMsbNext :: bool
  k_writeLsb :: u8
  k_latched :: bool
  k_latchVal :: u16
  k_readMsbNext :: bool

definition new_counter :: counter where
  "new_counter = \<lparr>k_initial = 0, k_count = 0, k_mode = 0, k_rw = 3, k_bcd = False, k_out = False,
     k_running = False, k_writeMsbNext = False, k_writeLsb = 0, k_latched = False, k_latchVal = 0,
     k_readMsbNext = False\<rparr>"

text \<open>The array \<^verbatim>\<open>c[3]\<close> is a list of three counters.\<close>

record pit_ctx =
  pit_base :: u8
  clkdiv :: u32
  lastTstates :: u64
  clkAccum :: u64
  gateMask :: u8
  pit_c :: "counter list"

definition fullCount :: "counter \<Rightarrow> u32" where
  "fullCount k = (if k_initial k = 0 then 0x10000 else k_initial k)"

definition tickCounter :: "counter \<Rightarrow> counter" where
  "tickCounter k =
     (if \<not> k_running k then k
      else if k_mode k = 2 then
        (if k_count k \<le> 1 then k\<lparr>k_count := fullCount k, k_out := True\<rparr>
         else k\<lparr>k_count := k_count k - 1, k_out := (k_count k - 1 \<noteq> 1)\<rparr>)
      else if k_mode k = 3 then
        (if k_count k \<le> 2 then k\<lparr>k_count := fullCount k, k_out := \<not> k_out k\<rparr>
         else k\<lparr>k_count := k_count k - 2\<rparr>)
      else
        (let k1 = k\<lparr>k_count := (if k_count k = 0 then 0xFFFF else k_count k - 1)\<rparr>
         in if k_count k1 = 0 then k1\<lparr>k_out := True\<rparr> else k1))"

definition loadCounter :: "counter \<Rightarrow> u32 \<Rightarrow> counter" where
  "loadCounter k initial =
     (let k1 = k\<lparr>k_initial := initial AND 0xFFFF\<rparr>
      in k1\<lparr>k_count := fullCount k1, k_running := True, k_out := (k_mode k \<noteq> 0)\<rparr>)"

definition pit_writeControl :: "pit_ctx \<Rightarrow> u8 \<Rightarrow> pit_ctx" where
  "pit_writeControl ctx val =
     (let sc = drop_bit 6 val AND 0x03
      in if sc = 0x03 then ctx
         else
           (let i = unat sc; k = pit_c ctx ! i; rw = drop_bit 4 val AND 0x03
            in if rw = 0
               then (if \<not> k_latched k
                     then ctx\<lparr>pit_c := (pit_c ctx)[i := k\<lparr>k_latchVal := ucast (k_count k), k_latched := True,
                            k_readMsbNext := False\<rparr>]\<rparr>
                     else ctx)
               else
                 (let m = drop_bit 1 val AND 0x07; m' = (if m > 5 then m - 4 else m)
                  in ctx\<lparr>pit_c := (pit_c ctx)[i := k\<lparr>k_rw := rw, k_mode := m', k_bcd := (val AND 1 \<noteq> 0),
                         k_running := False, k_writeMsbNext := False, k_readMsbNext := False,
                         k_latched := False, k_out := (m' \<noteq> 0)\<rparr>]\<rparr>)))"

definition writeCounter :: "counter \<Rightarrow> u8 \<Rightarrow> counter" where
  "writeCounter k val =
     (if k_rw k = 1 then loadCounter k (ucast val)
      else if k_rw k = 2 then loadCounter k (push_bit 8 (ucast val))
      else if k_rw k = 3 then
        (if \<not> k_writeMsbNext k then k\<lparr>k_writeLsb := val, k_writeMsbNext := True\<rparr>
         else (loadCounter k (push_bit 8 (ucast val) OR ucast (k_writeLsb k)))\<lparr>k_writeMsbNext := False\<rparr>)
      else k)"

definition readCounterByte :: "counter \<Rightarrow> u8" where
  "readCounterByte k =
     (let v = (if k_latched k then k_latchVal k else ucast (k_count k) :: u16)
      in if k_rw k = 1 then ucast (v AND 0xFF)
         else if k_rw k = 2 then ucast (drop_bit 8 v)
         else if k_rw k = 3 then (if k_readMsbNext k then ucast (drop_bit 8 v) else ucast (v AND 0xFF))
         else ucast (v AND 0xFF))"

definition advanceRead :: "counter \<Rightarrow> counter" where
  "advanceRead k =
     (if k_rw k = 3
      then (if \<not> k_readMsbNext k then k\<lparr>k_readMsbNext := True\<rparr>
            else k\<lparr>k_readMsbNext := False, k_latched := False\<rparr>)
      else k\<lparr>k_latched := False\<rparr>)"

section \<open>The plugin's callbacks\<close>

text \<open>One pass of the tick loop: every counter whose gate is high ticks, in order.\<close>

definition tick_gated :: "u8 \<Rightarrow> counter list \<Rightarrow> counter list" where
  "tick_gated gates cs = map (\<lambda>(i, k). if bit gates i then tickCounter k else k) (enumerate 0 cs)"

definition pit_ticks :: "u64 \<Rightarrow> nat" where
  "pit_ticks ticks = (if ticks > 0x40000 then 0x40000 else unat ticks)"

definition pit_on_step ::
  "pit_ctx \<Rightarrow> host_api \<Rightarrow> State8085 \<Rightarrow> u64 \<Rightarrow> u64 \<Rightarrow> pit_ctx \<times> State8085" where
  "pit_on_step ctx host s step tstates =
     (let delta = tstates - lastTstates ctx;
          acc = clkAccum ctx + delta;
          ticks = acc div ucast (clkdiv ctx)
      in (ctx\<lparr>lastTstates := tstates, clkAccum := acc - ticks * ucast (clkdiv ctx),
            pit_c := (tick_gated (gateMask ctx) ^^ pit_ticks ticks) (pit_c ctx)\<rparr>, s))"

definition pit_on_io_pre_read :: "pit_ctx \<Rightarrow> State8085 \<Rightarrow> u8 \<Rightarrow> pit_ctx \<times> State8085" where
  "pit_on_io_pre_read ctx s port =
     (let i = uint port - uint (pit_base ctx)
      in if 0 \<le> i \<and> i < 3
         then (ctx, s\<lparr>io := (io s)(port := readCounterByte (pit_c ctx ! nat i))\<rparr>) else (ctx, s))"

definition pit_on_io_post_read :: "pit_ctx \<Rightarrow> State8085 \<Rightarrow> u8 \<Rightarrow> u8 \<Rightarrow> pit_ctx \<times> State8085" where
  "pit_on_io_post_read ctx s port value =
     (let i = uint port - uint (pit_base ctx)
      in if 0 \<le> i \<and> i < 3
         then (ctx\<lparr>pit_c := (pit_c ctx)[nat i := advanceRead (pit_c ctx ! nat i)]\<rparr>, s) else (ctx, s))"

definition pit_on_io_write :: "pit_ctx \<Rightarrow> State8085 \<Rightarrow> u8 \<Rightarrow> u8 \<Rightarrow> pit_ctx \<times> State8085" where
  "pit_on_io_write ctx s port value =
     (let i = uint port - uint (pit_base ctx)
      in if 0 \<le> i \<and> i < 3
         then (ctx\<lparr>pit_c := (pit_c ctx)[nat i := writeCounter (pit_c ctx ! nat i) value]\<rparr>, s)
         else if i = 3 then (pit_writeControl ctx value, s) else (ctx, s))"

definition pit_on_reset :: "pit_ctx \<Rightarrow> State8085 \<Rightarrow> pit_ctx \<times> State8085" where
  "pit_on_reset ctx s =
     (ctx\<lparr>lastTstates := 0, clkAccum := 0, pit_c := replicate 3 new_counter\<rparr>, s)"

definition pit_out_level :: "counter list \<Rightarrow> u32" where
  "pit_out_level cs =
     (if k_out (cs ! 0) then 1 else 0) OR (if k_out (cs ! 1) then 2 else 0) OR (if k_out (cs ! 2) then 4 else 0)"

text \<open>
  The loop emits a counter's two fields only while both fit; the two buses follow one by one.
\<close>

definition pit_snapshot :: "pit_ctx \<Rightarrow> nat \<Rightarrow> plugin_info \<times> state_field list" where
  "pit_snapshot ctx max_fields =
     (let k = (\<lambda>i. pit_c ctx ! i);
          pair = (\<lambda>n m i. [(n, FIELD_U16 (k_count (k i))), (m, FIELD_U8 (ucast (k_mode (k i))))]);
          cnt = min 3 (max_fields div 2);
          scalars = take (2 * cnt) (pair ''C0'' ''mode0'' 0 @ pair ''C1'' ''mode1'' 1 @ pair ''C2'' ''mode2'' 2)
      in (\<lparr>info_kind = Some ''pit8254'', info_base = ucast (pit_base ctx), info_span = 4\<rparr>,
          take max_fields (scalars @
            [(''GATE'', FIELD_PINS \<lparr>bus_width = 3, bus_level = ucast (gateMask ctx AND 0x7),
                bus_is_input = 0x7, bus_hi_z = 0\<rparr>),
             (''OUT'', FIELD_PINS \<lparr>bus_width = 3, bus_level = pit_out_level (pit_c ctx),
                bus_is_input = 0, bus_hi_z = 0\<rparr>)])))"

definition pit_init :: "string \<Rightarrow> pit_ctx" where
  "pit_init config =
     (let d = parseNum (cfgValue config ''clkdiv'') 1
      in \<lparr>pit_base = ucast (parseNum (cfgValue config ''base'') 0x40 AND 0xFF),
          clkdiv = (if d = 0 then 1 else d), lastTstates = 0, clkAccum = 0,
          gateMask = ucast (parseNum (cfgValue config ''gate'') 0x7 AND 0x7),
          pit_c = replicate 3 new_counter\<rparr>)"

end
