(* ===== verification/Mc6850.thy ===== *)
theory Mc6850
  imports Io_Api
begin

unbundle bit_operations_syntax

text \<open>
  The MC68B50 serial interface, \<^verbatim>\<open>plugins/mc6850.cpp\<close>: the one-byte receive register fed from a script
  and from live channels, the status and control registers, the transmit side, the modem lines and
  the receive interrupt.  Names carry the prefix \<open>acia_\<close> where other plugins have the same function.
\<close>

section \<open>State\<close>

text \<open>
  A channel is the pair of the bytes the host has received on it and not yet handed over, and the
  bytes the plugin has written to it.  A log file is the bytes written so far (\<open>None\<close>: not open); an
  entry of the \<^verbatim>\<open>/RTS\<close> log is the level and the step.
\<close>

type_synonym channel = "u8 list \<times> u8 list"

record acia_ctx =
  ctrlPort :: u8
  dataPort :: u8
  rx :: "u8 list"
  rxPos :: nat
  rdrFull :: bool
  rdrByte :: u8
  nextArrival :: u64
  bytegap :: u64
  lastStep :: u64
  txlog :: "u8 list option"
  rtslog :: "(bool \<times> u64) list"
  rxIntEnabled :: bool
  rtsAsserted :: bool
  lastTx :: int
  lastRx :: int
  ctsLevel :: int
  dcdLevel :: int
  channels :: "channel list"
  rxq :: "u8 list"

definition acia_default :: acia_ctx where
  "acia_default = \<lparr>ctrlPort = 0xDE, dataPort = 0xDF, rx = [], rxPos = 0, rdrFull = False, rdrByte = 0,
     nextArrival = 0, bytegap = 64, lastStep = 0, txlog = None, rtslog = [], rxIntEnabled = False,
     rtsAsserted = True, lastTx = - 1, lastRx = - 1, ctsLevel = 1, dcdLevel = 1, channels = [], rxq = []\<rparr>"

definition logRts :: "acia_ctx \<Rightarrow> bool \<Rightarrow> u64 \<Rightarrow> acia_ctx" where
  "logRts c asserted step = c\<lparr>rtslog := rtslog c @ [(asserted, step)]\<rparr>"

section \<open>Callbacks\<close>

definition acia_on_reset :: "acia_ctx \<Rightarrow> State8085 \<Rightarrow> acia_ctx \<times> State8085" where
  "acia_on_reset c s =
     (c\<lparr>rxPos := 0, rdrFull := False, nextArrival := 0, rxIntEnabled := False, rtsAsserted := True\<rparr>, s)"

text \<open>At most 64 bytes are read from each channel, in the order of the channels.\<close>

definition drain_channels :: "acia_ctx \<Rightarrow> acia_ctx" where
  "drain_channels c =
     c\<lparr>rxq := rxq c @ concat (map (\<lambda>ch. take 64 (fst ch)) (channels c)),
       channels := map (\<lambda>ch. (drop 64 (fst ch), snd ch)) (channels c)\<rparr>"

definition feed_script :: "acia_ctx \<Rightarrow> u64 \<Rightarrow> acia_ctx" where
  "feed_script c step =
     (if \<not> rdrFull c \<and> rxPos c < length (rx c) \<and> rtsAsserted c \<and> step \<ge> nextArrival c
      then c\<lparr>rdrByte := rx c ! rxPos c, rdrFull := True\<rparr> else c)"

definition feed_live :: "acia_ctx \<Rightarrow> acia_ctx" where
  "feed_live c =
     (if \<not> rdrFull c \<and> rxq c \<noteq> [] \<and> rtsAsserted c
      then c\<lparr>rdrByte := hd (rxq c), rxq := tl (rxq c), rdrFull := True\<rparr> else c)"

definition acia_on_step ::
  "acia_ctx \<Rightarrow> host_api \<Rightarrow> State8085 \<Rightarrow> u64 \<Rightarrow> u64 \<Rightarrow> acia_ctx \<times> State8085" where
  "acia_on_step c host s step tstates =
     (let c1 = drain_channels (c\<lparr>lastStep := step\<rparr>);
          c2 = feed_script c1 step;
          c3 = feed_live c2
      in (c3, if rdrFull c3 \<and> rxIntEnabled c3 \<and> wiring_active host = 0 then s\<lparr>r7_latch := 1\<rparr> else s))"

definition acia_on_io_pre_read :: "acia_ctx \<Rightarrow> State8085 \<Rightarrow> u8 \<Rightarrow> acia_ctx \<times> State8085" where
  "acia_on_io_pre_read c s port =
     (c, if port = ctrlPort c then s\<lparr>io := (io s)(ctrlPort c := 0x02 OR (if rdrFull c then 0x01 else 0x00))\<rparr>
         else if port = dataPort c then s\<lparr>io := (io s)(dataPort c := rdrByte c)\<rparr>
         else s)"

definition acia_on_io_post_read :: "acia_ctx \<Rightarrow> State8085 \<Rightarrow> u8 \<Rightarrow> u8 \<Rightarrow> acia_ctx \<times> State8085" where
  "acia_on_io_post_read c s port value =
     (if port = dataPort c \<and> rdrFull c
      then c\<lparr>lastRx := uint (rdrByte c), rdrFull := False, rxPos := rxPos c + 1,
             nextArrival := lastStep c + bytegap c\<rparr>
      else c, s)"

definition transmit :: "acia_ctx \<Rightarrow> u8 \<Rightarrow> acia_ctx" where
  "transmit c value =
     c\<lparr>lastTx := uint value, txlog := map_option (\<lambda>l. l @ [value]) (txlog c),
       channels := map (\<lambda>ch. (fst ch, snd ch @ [value])) (channels c)\<rparr>"

definition acia_writeControl :: "acia_ctx \<Rightarrow> u8 \<Rightarrow> acia_ctx" where
  "acia_writeControl c value =
     (if value AND 0x03 = 0x03
      then (let c1 = c\<lparr>rdrFull := False, rxIntEnabled := False\<rparr>
            in if rtsAsserted c1 then logRts (c1\<lparr>rtsAsserted := False\<rparr>) False (lastStep c1) else c1)
      else (let c1 = c\<lparr>rxIntEnabled := (value AND 0x80 \<noteq> 0)\<rparr>; newRts = (value AND 0x60 \<noteq> 0x40)
            in if newRts \<noteq> rtsAsserted c1 then logRts (c1\<lparr>rtsAsserted := newRts\<rparr>) newRts (lastStep c1)
               else c1))"

definition acia_on_io_write :: "acia_ctx \<Rightarrow> State8085 \<Rightarrow> u8 \<Rightarrow> u8 \<Rightarrow> acia_ctx \<times> State8085" where
  "acia_on_io_write c s port value =
     (if port = dataPort c then transmit c value
      else if port = ctrlPort c then acia_writeControl c value
      else c, s)"

definition pin1 :: "string \<Rightarrow> u32 \<Rightarrow> u32 \<Rightarrow> u32 \<Rightarrow> state_field" where
  "pin1 n level inp z = (n, FIELD_PINS \<lparr>bus_width = 1, bus_level = level, bus_is_input = inp, bus_hi_z = z\<rparr>)"

definition acia_snapshot :: "acia_ctx \<Rightarrow> nat \<Rightarrow> plugin_info \<times> state_field list" where
  "acia_snapshot c max_fields =
     (\<lparr>info_kind = Some ''mc6850'', info_base = ucast (ctrlPort c), info_span = 2\<rparr>,
      take max_fields
       [(''TX'', FIELD_HEX (word_of_int (if lastTx c < 0 then 0 else lastTx c))),
        (''RX'', FIELD_HEX (word_of_int (if lastRx c < 0 then 0 else lastRx c))),
        (''RDRF'', FIELD_BOOL (if rdrFull c then 1 else 0)),
        pin1 ''RTS'' (if rtsAsserted c then 1 else 0) 0 0,
        (if rdrFull c \<and> rxIntEnabled c then pin1 ''IRQ'' 0 0 0 else pin1 ''IRQ'' 0 0 1),
        pin1 ''CTS'' (word_of_int (ctsLevel c AND 1)) 1 0,
        pin1 ''DCD'' (word_of_int (dcdLevel c AND 1)) 1 0])"

definition acia_pin_set :: "acia_ctx \<Rightarrow> string \<Rightarrow> u8 \<Rightarrow> acia_ctx" where
  "acia_pin_set c pin level =
     (let lv = (if level = 1 then 1 else 0)
      in if pin = ''CTS'' then c\<lparr>ctsLevel := lv\<rparr>
         else if pin = ''DCD'' then c\<lparr>dcdLevel := lv\<rparr> else c)"

section \<open>Initialisation\<close>

text \<open>
  What the host decides: the contents of readable files, which files can be created, and which
  channel specifications open.
\<close>

record host_env =
  env_file :: "string \<Rightarrow> u8 list option"
  env_create :: "string \<Rightarrow> bool"
  env_channel :: "string \<Rightarrow> bool"

fun hex_pairs :: "string \<Rightarrow> u8 list" where
  "hex_pairs (a # b # r) = of_int (fst (strtol [a, b] 16)) # hex_pairs r"
| "hex_pairs _ = []"

definition parseHexBytes :: "string \<Rightarrow> u8 list" where
  "parseHexBytes s = hex_pairs (filter (\<lambda>ch. digit_val ch < 16) s)"

definition openChannel :: "host_env \<Rightarrow> string \<Rightarrow> acia_ctx \<Rightarrow> acia_ctx" where
  "openChannel env spec c =
     (if env_channel env spec then c\<lparr>channels := channels c @ [([], [])]\<rparr> else c)"

text \<open>The level is an \<^verbatim>\<open>int\<close>: the value of \<^verbatim>\<open>strtol\<close> cut to 32 bits.\<close>

definition modem_level :: "string \<Rightarrow> int" where
  "modem_level v = (if truthy v then 1 else signed_take_bit 31 (fst (strtol v 0)))"

definition acia_ports :: "string \<Rightarrow> acia_ctx \<Rightarrow> acia_ctx" where
  "acia_ports config c =
     (let baseStr = cfgValue config ''base''; base = (of_nat (fst (strtoul baseStr 0)) :: u32)
      in if baseStr \<noteq> [] then c\<lparr>ctrlPort := ucast (base AND 0xFF), dataPort := ucast ((base + 1) AND 0xFF)\<rparr>
         else c)"

definition acia_outputs :: "host_env \<Rightarrow> string \<Rightarrow> acia_ctx \<Rightarrow> acia_ctx" where
  "acia_outputs env config c =
     (let tx = cfgValue config ''txlog'';
          c1 = (if tx = ''-'' \<or> tx = ''stdout'' then openChannel env ''stdout'' c
                else if tx \<noteq> [] \<and> env_create env tx then c\<lparr>txlog := Some []\<rparr> else c);
          bg = cfgValue config ''bytegap''; cts = cfgValue config ''cts''; dcd = cfgValue config ''dcd'';
          c2 = (if bg \<noteq> [] then c1\<lparr>bytegap := of_nat (fst (strtoul bg 10))\<rparr> else c1);
          c3 = (if cts \<noteq> [] then c2\<lparr>ctsLevel := modem_level cts\<rparr> else c2);
          c4 = (if dcd \<noteq> [] then c3\<lparr>dcdLevel := modem_level dcd\<rparr> else c3);
          c5 = (if truthy (cfgValue config ''gdbtx'') then openChannel env ''gdbtx'' c4 else c4);
          tcp = cfgValue config ''tcp''
      in if truthy (cfgValue config ''window'')
         then openChannel env (if tcp = [] then ''window'' else ''window='' @ tcp) c5
         else if tcp \<noteq> [] then openChannel env (''tcp='' @ tcp) c5 else c5)"

text \<open>Initialisation fails when the receive file cannot be read.\<close>

definition acia_init :: "host_env \<Rightarrow> string \<Rightarrow> acia_ctx option" where
  "acia_init env config =
     (let c = acia_ports config acia_default; rxfile = cfgValue config ''rxfile''
      in if rxfile \<noteq> [] then
           (case env_file env rxfile of None \<Rightarrow> None
            | Some bytes \<Rightarrow> Some (acia_outputs env config (c\<lparr>rx := bytes\<rparr>)))
         else Some (acia_outputs env config (c\<lparr>rx := parseHexBytes (cfgValue config ''rx'')\<rparr>)))"

section \<open>What the processor receives and sends\<close>

text \<open>
  An IN instruction on a port of the interface: the plugin's pre-read puts the value into the port, the
  processor takes it from there, the post-read follows.  The first component is what the processor reads.
\<close>

definition acia_in :: "acia_ctx \<Rightarrow> State8085 \<Rightarrow> u8 \<Rightarrow> u8 \<times> acia_ctx" where
  "acia_in c s port =
     (let (c1, s1) = acia_on_io_pre_read c s port; b = io s1 port
      in (b, fst (acia_on_io_post_read c1 s1 port b)))"

lemma acia_in_control: "ctrlPort c \<noteq> dataPort c \<Longrightarrow>
    acia_in c s (ctrlPort c) = (0x02 OR (if rdrFull c then 0x01 else 0x00), c)"
  by (simp add: acia_in_def acia_on_io_pre_read_def acia_on_io_post_read_def)

lemma acia_in_data: "ctrlPort c \<noteq> dataPort c \<Longrightarrow>
    acia_in c s (dataPort c) = (rdrByte c, fst (acia_on_io_post_read c s (dataPort c) (rdrByte c)))"
  by (simp add: acia_in_def acia_on_io_pre_read_def acia_on_io_post_read_def)

lemma acia_in_eqD: "acia_in c s p = (b, c') \<Longrightarrow> c' = snd (acia_in c s p)"
  by simp

text \<open>The receive bit of the status byte read at the control port.\<close>

definition announced :: "acia_ctx \<Rightarrow> State8085 \<Rightarrow> bool" where
  "announced c s = bit (fst (acia_in c s (ctrlPort c))) 0"

lemma announced_eq: "ctrlPort c \<noteq> dataPort c \<Longrightarrow> announced c s = rdrFull c"
  by (simp add: announced_def acia_in_control bit_simps)

text \<open>
  \<open>acia_reach c0 c got sent\<close>: from \<open>c0\<close>, steps of the host and accesses of the processor have led to
  \<open>c\<close>; \<open>got\<close> are the values the INs on the data port delivered while the status byte announced one,
  \<open>sent\<close> those the processor wrote to it.
\<close>

inductive acia_reach :: "acia_ctx \<Rightarrow> acia_ctx \<Rightarrow> u8 list \<Rightarrow> u8 list \<Rightarrow> bool" for c0 where
  start: "acia_reach c0 c0 [] []"
| on_step: "acia_reach c0 c got sent \<Longrightarrow> acia_reach c0 (fst (acia_on_step c host s n t)) got sent"
| control: "acia_reach c0 c got sent \<Longrightarrow> port \<noteq> dataPort c \<Longrightarrow>
    acia_reach c0 (fst (acia_on_io_write c s port v)) got sent"
| send: "acia_reach c0 c got sent \<Longrightarrow>
    acia_reach c0 (fst (acia_on_io_write c s (dataPort c) v)) got (sent @ [v])"
| receive: "acia_reach c0 c got sent \<Longrightarrow> acia_in c s (dataPort c) = (b, c') \<Longrightarrow>
    acia_reach c0 c' (got @ (if announced c s then [b] else [])) sent"
| inspect: "acia_reach c0 c got sent \<Longrightarrow> port \<noteq> dataPort c \<Longrightarrow>
    acia_reach c0 (snd (acia_in c s port)) got sent"
| pin: "acia_reach c0 c got sent \<Longrightarrow> acia_reach c0 (acia_pin_set c p lv) got sent"

inductive_cases acia_reachE: "acia_reach c0 c got sent"

definition acia_script_inv :: "acia_ctx \<Rightarrow> bool" where
  "acia_script_inv c \<longleftrightarrow> ctrlPort c \<noteq> dataPort c \<and> channels c = [] \<and> rxq c = [] \<and> rxPos c \<le> length (rx c) \<and>
     (rdrFull c \<longrightarrow> rxPos c < length (rx c) \<and> rdrByte c = rx c ! rxPos c)"

lemma feed_script_keeps:
  "acia_script_inv c \<Longrightarrow> acia_script_inv (feed_script c n)"
  "rx (feed_script c n) = rx c" "dataPort (feed_script c n) = dataPort c" "rxPos (feed_script c n) = rxPos c"
  "txlog (feed_script c n) = txlog c"
  by (auto simp: feed_script_def acia_script_inv_def)

lemma feed_live_keeps:
  "acia_script_inv c \<Longrightarrow> acia_script_inv (feed_live c)"
  "rx (feed_live c) = rx c" "dataPort (feed_live c) = dataPort c" "rxPos (feed_live c) = rxPos c"
  "txlog (feed_live c) = txlog c"
  by (auto simp: feed_live_def acia_script_inv_def)

lemma drain_channels_keeps:
  "acia_script_inv c \<Longrightarrow> acia_script_inv (drain_channels c)"
  "rx (drain_channels c) = rx c" "dataPort (drain_channels c) = dataPort c"
  "rxPos (drain_channels c) = rxPos c" "txlog (drain_channels c) = txlog c"
  by (auto simp: drain_channels_def acia_script_inv_def)

lemma acia_on_step_keeps:
  "acia_script_inv c \<Longrightarrow> acia_script_inv (fst (acia_on_step c host s n t))"
  "rx (fst (acia_on_step c host s n t)) = rx c" "dataPort (fst (acia_on_step c host s n t)) = dataPort c"
  "rxPos (fst (acia_on_step c host s n t)) = rxPos c" "txlog (fst (acia_on_step c host s n t)) = txlog c"
proof -
  have "acia_script_inv (c\<lparr>lastStep := n\<rparr>) = acia_script_inv c" by (simp add: acia_script_inv_def)
  then show "acia_script_inv c \<Longrightarrow> acia_script_inv (fst (acia_on_step c host s n t))"
    by (simp add: acia_on_step_def Let_def feed_script_keeps feed_live_keeps drain_channels_keeps)
qed (simp_all add: acia_on_step_def Let_def feed_script_keeps feed_live_keeps drain_channels_keeps)

lemma acia_writeControl_keeps:
  "acia_script_inv c \<Longrightarrow> acia_script_inv (acia_writeControl c v)"
  "rx (acia_writeControl c v) = rx c" "dataPort (acia_writeControl c v) = dataPort c"
  "rxPos (acia_writeControl c v) = rxPos c" "txlog (acia_writeControl c v) = txlog c"
  by (simp_all add: acia_writeControl_def logRts_def acia_script_inv_def Let_def)

lemma transmit_keeps:
  "acia_script_inv c \<Longrightarrow> acia_script_inv (transmit c v)" "rx (transmit c v) = rx c"
  "dataPort (transmit c v) = dataPort c" "rxPos (transmit c v) = rxPos c"
  by (simp_all add: transmit_def acia_script_inv_def)

lemma acia_pin_set_keeps:
  "acia_script_inv c \<Longrightarrow> acia_script_inv (acia_pin_set c p lv)" "rx (acia_pin_set c p lv) = rx c"
  "dataPort (acia_pin_set c p lv) = dataPort c" "rxPos (acia_pin_set c p lv) = rxPos c"
  "txlog (acia_pin_set c p lv) = txlog c"
  by (simp_all add: acia_pin_set_def acia_script_inv_def Let_def)

lemma post_read_keeps:
  "acia_script_inv c \<Longrightarrow> acia_script_inv (fst (acia_on_io_post_read c s p v))"
  "rx (fst (acia_on_io_post_read c s p v)) = rx c" "dataPort (fst (acia_on_io_post_read c s p v)) = dataPort c"
  "txlog (fst (acia_on_io_post_read c s p v)) = txlog c"
  by (auto simp: acia_on_io_post_read_def acia_script_inv_def)

lemma acia_in_keeps:
  "acia_script_inv c \<Longrightarrow> acia_script_inv (snd (acia_in c s p))" "rx (snd (acia_in c s p)) = rx c"
  "dataPort (snd (acia_in c s p)) = dataPort c" "txlog (snd (acia_in c s p)) = txlog c"
  "p \<noteq> dataPort c \<Longrightarrow> rxPos (snd (acia_in c s p)) = rxPos c"
  by (auto simp: acia_in_def acia_on_io_pre_read_def acia_on_io_post_read_def acia_script_inv_def)

lemmas acia_keeps = acia_in_keeps acia_on_step_keeps acia_writeControl_keeps transmit_keeps acia_pin_set_keeps post_read_keeps

lemma acia_reach_inv:
  assumes "acia_reach c0 c got sent" "acia_script_inv c0"
  shows "acia_script_inv c" "rx c = rx c0" "dataPort c = dataPort c0"
  using assms by (induction; force simp: acia_keeps acia_on_io_write_def dest!: acia_in_eqD)+

lemma acia_reach_got:
  assumes "acia_reach c0 c got sent" "acia_script_inv c0" "rxPos c0 = 0"
  shows "got = take (rxPos c) (rx c0)"
  using assms
proof (induction)
  case (receive c got sent s b c')
  have i: "acia_script_inv c" "rx c = rx c0" using acia_reach_inv [OF receive.hyps(1) receive.prems(1)] by simp_all
  then have p: "ctrlPort c \<noteq> dataPort c" by (simp add: acia_script_inv_def)
  then have "b = rdrByte c" "c' = fst (acia_on_io_post_read c s (dataPort c) (rdrByte c))"
    using receive.hyps(2) unfolding acia_in_data [OF p] by auto
  then show ?case
    using i receive.IH [OF receive.prems] announced_eq [OF p]
    by (auto simp: acia_on_io_post_read_def acia_script_inv_def take_Suc_conv_app_nth)
qed (simp_all add: acia_keeps acia_on_io_write_def)

lemma acia_reach_sent:
  assumes "acia_reach c0 c got sent" "txlog c0 = Some l"
  shows "txlog c = Some (l @ sent)"
  using assms by induction (auto simp: acia_keeps acia_on_io_write_def transmit_def dest!: acia_in_eqD)

text \<open>A freshly opened interface without a live channel is at the start of its script.\<close>

lemma acia_ports_differ: "ctrlPort (acia_ports config acia_default) \<noteq> dataPort (acia_ports config acia_default)"
proof -
  have "ucast (b AND 0xFF) \<noteq> (ucast ((b + 1) AND 0xFF) :: u8)" for b :: u32
  proof
    assume "ucast (b AND 0xFF) = (ucast ((b + 1) AND 0xFF) :: u8)"
    then have "bit (ucast (b AND 0xFF) :: u8) 0 = bit (ucast ((b + 1) AND 0xFF) :: u8) 0" by simp
    then show False by (simp only: bit_ucast_iff bit_and_iff) (simp add: bit_0)
  qed
  then show ?thesis by (simp add: acia_ports_def acia_default_def Let_def)
qed

lemma openChannel_keeps:
  "ctrlPort (openChannel env spec c) = ctrlPort c" "dataPort (openChannel env spec c) = dataPort c"
  "rxq (openChannel env spec c) = rxq c" "rxPos (openChannel env spec c) = rxPos c" "rx (openChannel env spec c) = rx c"
  "rdrFull (openChannel env spec c) = rdrFull c"
  by (simp_all add: openChannel_def)

lemma acia_outputs_keeps:
  "ctrlPort (acia_outputs env cfg c) = ctrlPort c" "dataPort (acia_outputs env cfg c) = dataPort c"
  "rxq (acia_outputs env cfg c) = rxq c" "rxPos (acia_outputs env cfg c) = rxPos c" "rx (acia_outputs env cfg c) = rx c"
  "rdrFull (acia_outputs env cfg c) = rdrFull c"
  by (simp_all add: acia_outputs_def Let_def openChannel_keeps)

lemma acia_init_script:
  assumes "acia_init env config = Some c" "channels c = []"
  shows "acia_script_inv c" "rxPos c = 0"
    "rx c = (if cfgValue config ''rxfile'' = [] then parseHexBytes (cfgValue config ''rx'')
       else the (env_file env (cfgValue config ''rxfile'')))"
proof -
  define c0 where "c0 = acia_ports config acia_default"
  have c0: "ctrlPort c0 \<noteq> dataPort c0" "rxq c0 = []" "rxPos c0 = 0" "\<not> rdrFull c0"
    using acia_ports_differ by (simp_all add: c0_def acia_ports_def acia_default_def Let_def)
  obtain bs where c: "c = acia_outputs env config (c0\<lparr>rx := bs\<rparr>)"
    and bs: "bs = (if cfgValue config ''rxfile'' = [] then parseHexBytes (cfgValue config ''rx'')
       else the (env_file env (cfgValue config ''rxfile'')))"
    using assms(1) by (auto simp: acia_init_def Let_def c0_def split: if_splits option.splits)
  show "acia_script_inv c" "rxPos c = 0" using assms(2) c0 by (simp_all add: acia_script_inv_def c acia_outputs_keeps)
  show "rx c = (if cfgValue config ''rxfile'' = [] then parseHexBytes (cfgValue config ''rx'')
       else the (env_file env (cfgValue config ''rxfile'')))"
    by (simp add: c acia_outputs_keeps bs)
qed

text \<open>The interrupt: the RST 7.5 latch is set while a byte waits, the interrupt is on and no net carries it.\<close>

lemma acia_on_step_latch:
  assumes "acia_on_step c host s n t = (c', s')"
  shows "r7_latch s' = (if rdrFull c' \<and> rxIntEnabled c' \<and> wiring_active host = 0 then 1 else r7_latch s)"
  using assms by (auto simp: acia_on_step_def Let_def split: if_splits)

lemma acia_keeps_cpu:
  "snd (acia_on_reset c s) = s" "snd (acia_on_io_write c s p v) = s" "snd (acia_on_io_post_read c s p v) = s"
  by (simp_all add: acia_on_reset_def acia_on_io_write_def acia_on_io_post_read_def)

end
