(* ===== verification/Boardview.thy ===== *)
theory Boardview
  imports Io_Api
begin

unbundle bit_operations_syntax

text \<open>
  The board viewer, \<^verbatim>\<open>plugins/boardview.cpp\<close>: every \<^verbatim>\<open>interval\<close> steps it asks each peer for its
  snapshot and writes one frame of text to its channel.  It has no snapshot of its own.
\<close>

text \<open>The frames written so far stand for the channel.\<close>

record board_ctx =
  interval :: u64
  nextRender :: u64
  ansi :: bool
  frames :: "string list"

definition ESC :: string where "ESC = [CHR 0x1B, CHR ''['']"

text \<open>\<^verbatim>\<open>snprintf\<close> into a buffer of \<open>n\<close> bytes.\<close>

definition clip :: "nat \<Rightarrow> string \<Rightarrow> string" where
  "clip n s = take (n - 1) s"

definition appendField :: "string \<Rightarrow> state_field \<Rightarrow> string" where
  "appendField line f =
     (let put = (\<lambda>v. line @ clip 128 ('' '' @ fst f @ ''='' @ v))
      in case snd f of
           FIELD_HEX u \<Rightarrow> put (''0x'' @ hex_digits (unat u))
         | FIELD_BOOL u \<Rightarrow> put (if u \<noteq> 0 then ''1'' else ''0'')
         | FIELD_STR s \<Rightarrow> put s
         | FIELD_U8 u \<Rightarrow> put (dec_digits (unat u))
         | FIELD_U16 u \<Rightarrow> put (dec_digits (unat u))
         | FIELD_U32 u \<Rightarrow> put (dec_digits (unat u))
         | FIELD_PINS b \<Rightarrow> line)"

definition appendPin :: "string \<Rightarrow> bool \<Rightarrow> bool \<Rightarrow> bool \<Rightarrow> bool \<Rightarrow> string" where
  "appendPin row input hiz lv colour =
     (let d = (if lv then ''1'' else ''0'')
      in if hiz then row @ (if colour then ESC @ ''2m--'' @ ESC @ ''0m'' else ''z-'')
         else if input then row @ (if colour then ESC @ ''36m>'' @ d @ ESC @ ''0m'' else ''i'' @ d)
         else row @ (if colour then (if lv then ESC @ ''1;32m'' @ d @ ESC @ ''0m'' else ESC @ ''2m'' @ d @ ESC @ ''0m'')
                     else ''o'' @ d))"

definition appendPinBus :: "string \<Rightarrow> string \<Rightarrow> pin_bus \<Rightarrow> bool \<Rightarrow> string" where
  "appendPinBus out name b colour =
     out @ fold (\<lambda>i row. appendPin row (bit (bus_is_input b) i) (bit (bus_hi_z b) i) (bit (bus_level b) i) colour @ '' '')
       (rev [0..<bus_width b]) (clip 24 (''    '' @ left_pad 4 name @ '' '')) @ [CHR 0x0A]"

definition peer_head :: "string \<Rightarrow> plugin_info \<Rightarrow> string" where
  "peer_head kind info =
     clip 64 (if info_span info > 0
        then ''['' @ left_pad 8 kind @ '' @0x'' @ zero_pad 2 (hex_digits (unat (info_base info))) @ ''-0x'' @
             zero_pad 2 (hex_digits (unat (info_base info + info_span info - 1))) @ '']''
        else ''['' @ left_pad 8 kind @ '']'')"

definition peer_text :: "bool \<Rightarrow> (plugin_info \<times> state_field list) option \<Rightarrow> string" where
  "peer_text colour snap =
     (case snap of None \<Rightarrow> []
      | Some (info, fs) \<Rightarrow>
          (case info_kind info of None \<Rightarrow> []
           | Some kind \<Rightarrow>
               (let line = foldl (\<lambda>l f. if field_bus f = None then appendField l f else l) (peer_head kind info) fs;
                    rows = foldl (\<lambda>r f. case field_bus f of Some b \<Rightarrow> appendPinBus r (fst f) b colour | None \<Rightarrow> r) [] fs
                in line @ [CHR 0x0A] @ rows)))"

definition render :: "board_ctx \<Rightarrow> host_api \<Rightarrow> u64 \<Rightarrow> board_ctx" where
  "render c host step =
     (let clear = (if ansi c then ESC @ ''2J'' @ ESC @ ''H'' else []);
          hdr = clip 64 (''=== i8085 board @ step '' @ dec_digits (unat step) @ '' ==='' @ [CHR 0x0A]);
          body = concat (map (\<lambda>i. peer_text (ansi c) (peer_snapshot host i 32)) [0..<peer_count host])
      in c\<lparr>frames := frames c @ [clear @ hdr @ body]\<rparr>)"

definition board_on_step ::
  "board_ctx \<Rightarrow> host_api \<Rightarrow> State8085 \<Rightarrow> u64 \<Rightarrow> u64 \<Rightarrow> board_ctx \<times> State8085" where
  "board_on_step c host s step tstates =
     (if step \<ge> nextRender c then ((render c host step)\<lparr>nextRender := step + interval c\<rparr>, s) else (c, s))"

text \<open>Initialisation fails when the host cannot open the channel.\<close>

definition board_init :: "(string \<Rightarrow> bool) \<Rightarrow> string \<Rightarrow> board_ctx option" where
  "board_init opens config =
     (let n = (of_nat (fst (strtoul (cfgValue config ''interval'') 0)) :: u64);
          out = cfgValue config ''out''
      in if opens (if out = [] then ''stdout'' else out)
         then Some \<lparr>interval = (if n = 0 then 100000 else n), nextRender = 0,
                    ansi = truthy (cfgValue config ''ansi''), frames = []\<rparr>
         else None)"

text \<open>A peer that does not describe itself leaves no trace in the frame.\<close>

lemma peer_text_opaque: "info_kind info = None \<Longrightarrow> peer_text colour (Some (info, fs)) = []"
  by (simp add: peer_text_def)

lemma board_on_step_cpu: "snd (board_on_step c host s step t) = s"
  by (simp add: board_on_step_def)

end
