(* ===== verification/First_Party.thy ===== *)
theory First_Party
  imports Runtime_Laws Mem_Plugin I8255 Pit8254 Mc6850 Boardview
begin

text \<open>
  The plugins of the repository as one type, with the callback table each module's
  \<^verbatim>\<open>i8085_io_plugin_init\<close> fills in, and the interpretation of the runtime's contract on them.
\<close>

section \<open>The modules\<close>

datatype plugin = Mem mem_ctx | Ppi ppi_ctx | Pit pit_ctx | Acia acia_ctx | Board board_ctx

text \<open>
  A callback of a module is only ever called with a context of that module; the other branch of each
  \<open>case\<close> is not reached.
\<close>

definition mem_api :: "plugin plugin_api" where
  "mem_api = empty_api\<lparr>
     api_on_mem_write := Some (\<lambda>p s a v. case p of
         Mem c \<Rightarrow> (let (v', c', s') = mem_on_mem_write c s a v in (v', Mem c', s')) | _ \<Rightarrow> (v, p, s)),
     api_snapshot := Some (\<lambda>p n. case p of Mem c \<Rightarrow> mem_snapshot c n | _ \<Rightarrow> (opaque_info, []))\<rparr>"

definition ppi_api :: "plugin plugin_api" where
  "ppi_api = empty_api\<lparr>
     api_on_reset := Some (\<lambda>p s. case p of Ppi c \<Rightarrow> apfst Ppi (ppi_on_reset c s) | _ \<Rightarrow> (p, s)),
     api_on_io_write := Some (\<lambda>p s port v. case p of Ppi c \<Rightarrow> apfst Ppi (ppi_on_io_write c s port v) | _ \<Rightarrow> (p, s)),
     api_on_io_pre_read := Some (\<lambda>p s port. case p of Ppi c \<Rightarrow> apfst Ppi (ppi_on_io_pre_read c s port) | _ \<Rightarrow> (p, s)),
     api_snapshot := Some (\<lambda>p n. case p of Ppi c \<Rightarrow> ppi_snapshot c n | _ \<Rightarrow> (opaque_info, [])),
     api_pin_set := Some (\<lambda>p pin lv. case p of Ppi c \<Rightarrow> Ppi (ppi_pin_set c pin lv) | _ \<Rightarrow> p)\<rparr>"

definition pit_api :: "plugin plugin_api" where
  "pit_api = empty_api\<lparr>
     api_on_reset := Some (\<lambda>p s. case p of Pit c \<Rightarrow> apfst Pit (pit_on_reset c s) | _ \<Rightarrow> (p, s)),
     api_on_step := Some (\<lambda>p host s n t. case p of Pit c \<Rightarrow> apfst Pit (pit_on_step c host s n t) | _ \<Rightarrow> (p, s)),
     api_on_io_write := Some (\<lambda>p s port v. case p of Pit c \<Rightarrow> apfst Pit (pit_on_io_write c s port v) | _ \<Rightarrow> (p, s)),
     api_on_io_pre_read := Some (\<lambda>p s port. case p of Pit c \<Rightarrow> apfst Pit (pit_on_io_pre_read c s port) | _ \<Rightarrow> (p, s)),
     api_on_io_post_read := Some (\<lambda>p s port v. case p of Pit c \<Rightarrow> apfst Pit (pit_on_io_post_read c s port v) | _ \<Rightarrow> (p, s)),
     api_snapshot := Some (\<lambda>p n. case p of Pit c \<Rightarrow> pit_snapshot c n | _ \<Rightarrow> (opaque_info, []))\<rparr>"

definition acia_api :: "plugin plugin_api" where
  "acia_api = empty_api\<lparr>
     api_on_reset := Some (\<lambda>p s. case p of Acia c \<Rightarrow> apfst Acia (acia_on_reset c s) | _ \<Rightarrow> (p, s)),
     api_on_step := Some (\<lambda>p host s n t. case p of Acia c \<Rightarrow> apfst Acia (acia_on_step c host s n t) | _ \<Rightarrow> (p, s)),
     api_on_io_write := Some (\<lambda>p s port v. case p of Acia c \<Rightarrow> apfst Acia (acia_on_io_write c s port v) | _ \<Rightarrow> (p, s)),
     api_on_io_pre_read := Some (\<lambda>p s port. case p of Acia c \<Rightarrow> apfst Acia (acia_on_io_pre_read c s port) | _ \<Rightarrow> (p, s)),
     api_on_io_post_read := Some (\<lambda>p s port v. case p of Acia c \<Rightarrow> apfst Acia (acia_on_io_post_read c s port v) | _ \<Rightarrow> (p, s)),
     api_snapshot := Some (\<lambda>p n. case p of Acia c \<Rightarrow> acia_snapshot c n | _ \<Rightarrow> (opaque_info, [])),
     api_pin_set := Some (\<lambda>p pin lv. case p of Acia c \<Rightarrow> Acia (acia_pin_set c pin lv) | _ \<Rightarrow> p)\<rparr>"

definition board_api :: "plugin plugin_api" where
  "board_api = empty_api\<lparr>
     api_on_step := Some (\<lambda>p host s n t. case p of Board c \<Rightarrow> apfst Board (board_on_step c host s n t) | _ \<Rightarrow> (p, s))\<rparr>"

fun api_of :: "plugin \<Rightarrow> plugin plugin_api" where
  "api_of (Mem c) = mem_api"
| "api_of (Ppi c) = ppi_api"
| "api_of (Pit c) = pit_api"
| "api_of (Acia c) = acia_api"
| "api_of (Board c) = board_api"

lemmas api_defs = mem_api_def ppi_api_def pit_api_def acia_api_def board_api_def empty_api_def

text \<open>Only a memory region protects addresses.\<close>

fun protects :: "plugin \<Rightarrow> u16 \<Rightarrow> bool" where
  "protects (Mem c) a = mem_protects c a"
| "protects _ a = False"

lemma protects_none [simp]:
  "protects (Ppi c1) = (\<lambda>_. False)" "protects (Pit c2) = (\<lambda>_. False)" "protects (Acia c3) = (\<lambda>_. False)"
  "protects (Board c4) = (\<lambda>_. False)"
  by (simp_all add: fun_eq_iff)

section \<open>The contract holds\<close>

lemma callbacks_keep_cpu:
  "snd (ppi_on_reset c1 s) = s" "snd (ppi_on_io_write c1 s port v) = s"
  "snd (pit_on_reset c2 s) = s" "snd (pit_on_step c2 host s n t) = s" "snd (pit_on_io_write c2 s port v) = s"
  "snd (pit_on_io_post_read c2 s port v) = s"
  by (simp_all add: ppi_on_reset_def ppi_on_io_write_def pit_on_reset_def pit_on_step_def pit_on_io_write_def
      pit_on_io_post_read_def Let_def)

lemma pre_reads_touch_ports:
  "\<exists>ports. snd (ppi_on_io_pre_read c1 s port) = s\<lparr>io := ports\<rparr>"
  "\<exists>ports. snd (pit_on_io_pre_read c2 s port) = s\<lparr>io := ports\<rparr>"
  "\<exists>ports. snd (acia_on_io_pre_read c3 s port) = s\<lparr>io := ports\<rparr>"
proof -
  have r: "\<exists>ports. s = s\<lparr>io := ports\<rparr>" by (rule exI [of _ "io s"]) simp
  show "\<exists>ports. snd (ppi_on_io_pre_read c1 s port) = s\<lparr>io := ports\<rparr>"
    "\<exists>ports. snd (pit_on_io_pre_read c2 s port) = s\<lparr>io := ports\<rparr>"
    "\<exists>ports. snd (acia_on_io_pre_read c3 s port) = s\<lparr>io := ports\<rparr>"
    using r by (auto simp: ppi_on_io_pre_read_def pit_on_io_pre_read_def acia_on_io_pre_read_def Let_def)
qed

lemma acia_step_latch: "\<exists>l. snd (acia_on_step c host s n t) = s\<lparr>r7_latch := l\<rparr>"
proof -
  have "\<exists>l. s = s\<lparr>r7_latch := l\<rparr>" by (rule exI [of _ "r7_latch s"]) simp
  then show ?thesis by (auto simp: acia_on_step_def Let_def)
qed

lemma latch_refl: "\<exists>l. s = s\<lparr>r7_latch := l\<rparr>" for s :: State8085
  by (rule exI [of _ "r7_latch s"]) simp

lemma ports_refl: "\<exists>ports. s = s\<lparr>io := ports\<rparr>" for s :: State8085
  by (rule exI [of _ "io s"]) simp

lemma apfst_eqD: "apfst f x = (a, b) \<Longrightarrow> a = f (fst x) \<and> b = snd x"
  by (cases x) simp

interpretation fp: plugin_contract api_of protects
proof
  fix p f s port v p' s'
  assume "api_on_io_write (api_of p) = Some f" "f p s port v = (p', s')"
  then show "(\<exists>ports. s' = s\<lparr>io := ports\<rparr>) \<and> protects p' = protects p"
    by (cases p) (auto simp: api_defs callbacks_keep_cpu acia_keeps_cpu ports_refl dest!: apfst_eqD)
next
  fix p g s port p' s'
  assume "api_on_io_pre_read (api_of p) = Some g" "g p s port = (p', s')"
  then show "(\<exists>ports. s' = s\<lparr>io := ports\<rparr>) \<and> protects p' = protects p"
    by (cases p) (auto simp: api_defs pre_reads_touch_ports dest!: apfst_eqD)
next
  fix p f s port v p' s'
  assume "api_on_io_post_read (api_of p) = Some f" "f p s port v = (p', s')"
  then show "(\<exists>ports. s' = s\<lparr>io := ports\<rparr>) \<and> protects p' = protects p"
    by (cases p) (auto simp: api_defs callbacks_keep_cpu acia_keeps_cpu ports_refl dest!: apfst_eqD)
next
  fix p m s a v
  assume "api_on_mem_write (api_of p) = Some m"
  then show "m p s a v = (if protects p a then memory s a else v, p, s)"
    by (cases p) (auto simp: api_defs mem_on_mem_write_eq)
next
  fix p a
  assume "api_on_mem_write (api_of p) = None"
  then show "\<not> protects p a" by (cases p) (auto simp: api_defs)
next
  fix p st host s n t p' s'
  assume "api_on_step (api_of p) = Some st" "st p host s n t = (p', s')"
  then show "(\<exists>l. s' = s\<lparr>r7_latch := l\<rparr>) \<and> protects p' = protects p"
    by (cases p) (auto simp: api_defs callbacks_keep_cpu board_on_step_cpu acia_step_latch latch_refl dest!: apfst_eqD)
next
  fix p r s p' s'
  assume "api_on_reset (api_of p) = Some r" "r p s = (p', s')"
  then show "s' = s \<and> protects p' = protects p"
    by (cases p) (auto simp: api_defs callbacks_keep_cpu acia_keeps_cpu dest!: apfst_eqD)
next
  fix p ps pin lv
  assume "api_pin_set (api_of p) = Some ps"
  then show "protects (ps p pin lv) = protects p"
    by (cases p) (auto simp: api_defs)
qed

end
