(* ===== verification/Stack_Laws.thy ===== *)
theory Stack_Laws
  imports First_Party
begin

unbundle bit_operations_syntax

text \<open>
  The stack over the runtime of the repository's plugins: what a store leaves in memory, and the round
  trips of CALL with RET and of PUSH with POP, the PSW byte included.
\<close>

section \<open>Stores\<close>

definition write_protected :: "plugin runtime \<Rightarrow> u16 \<Rightarrow> bool" where
  "write_protected rt a \<longleftrightarrow> anyMemWrite rt \<and> (\<exists>p \<in> set (plugins rt). protects p a)"

abbreviation RB8085 :: "plugin runtime bus" where
  "RB8085 \<equiv> runtime_bus api_of"

lemma guarded_eq: "fp.guarded = write_protected"
  by (simp add: fun_eq_iff fp.guarded_def write_protected_def)

lemma fp_mem_wr:
  "mem_wr RB8085 s rt (uint a) v =
     (s\<lparr>memory := (memory s)(a := if write_protected rt a then memory s a else v)\<rparr>, rt)"
  by (simp add: mem_wr_def runtime_bus_def fp.mem_write_eq guarded_eq)

lemma fp_push16:
  assumes "\<not> write_protected rt (sp s - 1)" "\<not> write_protected rt (sp s - 2)"
  shows "push16 RB8085 s rt w =
    (s\<lparr>memory := (memory s)(sp s - 1 := hi8 w, sp s - 2 := lo8 w), sp := sp s - 2\<rparr>, rt)"
  using assms by (simp add: push16_def fp_mem_wr Let_def)

lemma stack_cells: "w - 2 + 1 = w - 1" "w - 1 \<noteq> w - 2" "w - 2 = 0xFFFF \<longleftrightarrow> w = 1" for w :: u16
proof -
  show "w - 2 + 1 = w - 1" by simp
  show "w - 1 \<noteq> w - 2" by simp
  have "(0xFFFF + 2 :: u16) = 1" by simp
  then show "w - 2 = 0xFFFF \<longleftrightarrow> w = 1" by (simp only: diff_eq_eq)
qed

lemma rd16_pushed: "rd16 (s\<lparr>memory := m(w - 1 := hi8 v, w - 2 := lo8 v), sp := w - 2\<rparr>) (w - 2) =
    (if w = 1 then None else Some v)"
  unfolding rd16_def stack_cells by (simp add: stack_cells(2))

section \<open>The PSW byte\<close>

lemma unpack_psw_byte: "unpack_psw s (psw_byte f) = s\<lparr>cc := f\<rparr>"
proof -
  have "f = \<lparr>fl_z = fl_z f, fl_s = fl_s f, fl_p = fl_p f, fl_cy = fl_cy f, fl_ac = fl_ac f, fl_v = fl_v f, fl_x5 = fl_x5 f\<rparr>"
    by simp
  moreover have "unpack_psw s (psw_byte \<lparr>fl_z = z, fl_s = g, fl_p = p, fl_cy = c, fl_ac = a, fl_v = v, fl_x5 = x\<rparr>) =
      s\<lparr>cc := \<lparr>fl_z = z, fl_s = g, fl_p = p, fl_cy = c, fl_ac = a, fl_v = v, fl_x5 = x\<rparr>\<rparr>" for z g p c a v x
    by (cases z; cases g; cases p; cases c; cases a; cases v; cases x)
      (simp_all add: unpack_psw_def psw_byte_def)
  ultimately show ?thesis by metis
qed

section \<open>Round trips\<close>

lemma opcode_isa:
  assumes "op \<noteq> 0xc6" "op \<noteq> 0xfe"
  shows "exec_switch RB8085 s rt opc op = Some (s', rt', t) \<Longrightarrow>
      isa_exec RB8085 s rt opc (decode op) = Some (s', rt')"
    and "isa_exec RB8085 s rt opc (decode op) = Some (s', rt') \<Longrightarrow>
      \<exists>t. exec_switch RB8085 s rt opc op = Some (s', rt', t)"
  using fp.rt.exec_switch_isa [OF assms, of s rt opc] by auto

lemma decode_stack_ops:
  "decode 0xcd = CALL" "decode 0xc9 = RET" "decode 0xc5 = PUSH PB" "decode 0xd5 = PUSH PD"
  "decode 0xe5 = PUSH PH" "decode 0xf5 = PUSH PSP" "decode 0xc1 = POP PB" "decode 0xd1 = POP PD"
  "decode 0xe1 = POP PH" "decode 0xf1 = POP PSP"
  by (simp_all add: decode_def decode_3_def Let_def pair_of_def)

text \<open>
  The two bytes at the stack pointer that CALL leaves are all a RET needs: the processor and the runtime
  may have changed in any other way.
\<close>

lemma call_ret_isa:
  assumes "isa_exec RB8085 s rt opc CALL = Some (s1, rt1)"
    and "\<not> write_protected rt (sp s - 1)" "\<not> write_protected rt (sp s - 2)" "sp s \<noteq> 1"
    and "sp u = sp s1" "memory u (sp s1) = memory s1 (sp s1)" "memory u (sp s1 + 1) = memory s1 (sp s1 + 1)"
  shows "isa_exec RB8085 u rt2 opc1 RET = Some (u\<lparr>pc := pc s + 2, sp := sp s\<rparr>, rt2)"
proof -
  from assms(1) obtain adr where s1:
    "s1 = s\<lparr>memory := (memory s)(sp s - 1 := hi8 (pc s + 2), sp s - 2 := lo8 (pc s + 2)), sp := sp s - 2, pc := adr\<rparr>"
    by (auto simp: call_spec_def fp_push16 [OF assms(2,3)] split: Option.bind_splits)
  have m: "sp u = sp s - 2" "memory u (sp s - 2) = lo8 (pc s + 2)" "memory u (sp s - 1) = hi8 (pc s + 2)"
    using assms(5-7) by (simp_all add: s1 stack_cells)
  have "rd16 u (sp u) = Some (pc s + 2)"
    using assms(4) m by (simp add: rd16_def stack_cells)
  moreover have "sp u + 2 = sp s" using m(1) by simp
  ultimately show ?thesis by (simp add: ret_spec_def)
qed

text \<open>A pop reads back what a push of any pair has left, into a processor that kept memory and \<open>sp\<close>.\<close>

lemma push_pop_isa:
  assumes "isa_exec RB8085 s rt opc (PUSH p) = Some (s1, rt1)"
    and "\<not> write_protected rt (sp s - 1)" "\<not> write_protected rt (sp s - 2)" "p = PSP \<or> sp s \<noteq> 1"
    and "memory u = memory s1" "sp u = sp s1"
  shows "rt1 = rt" "isa_exec RB8085 u rt1 opc1 (POP q) =
    (if q \<noteq> PSP \<and> sp s = 1 then None else Some ((set_psw u q (psw_of s p))\<lparr>sp := sp s\<rparr>, rt))"
proof -
  from assms(1) have s1: "rt1 = rt"
    "s1 = s\<lparr>memory := (memory s)(sp s - 1 := hi8 (psw_of s p), sp s - 2 := lo8 (psw_of s p)), sp := sp s - 2\<rparr>"
    by (simp_all add: fp_push16 [OF assms(2,3)])
  show "rt1 = rt" by (rule s1)
  have m: "memory u (sp s - 1) = hi8 (psw_of s p)" "memory u (sp s - 2) = lo8 (psw_of s p)" "sp u = sp s - 2"
    using assms(5,6) by (simp_all add: s1 stack_cells(2))
  from m have rd: "rd16_wrap u (sp u) = psw_of s p" "rd16 u (sp u) = (if sp s = 1 then None else Some (psw_of s p))"
    by (simp_all add: rd16_wrap_def rd16_def stack_cells)
  have "sp u + 2 = sp s" using m(3) by simp
  with rd show "isa_exec RB8085 u rt1 opc1 (POP q) =
      (if q \<noteq> PSP \<and> sp s = 1 then None else Some ((set_psw u q (psw_of s p))\<lparr>sp := sp s\<rparr>, rt))"
    by (auto simp: s1(1))
qed

end
