(* ===== verification/Interrupt_Laws.thy ===== *)
theory Interrupt_Laws
  imports Stack_Laws
begin

text \<open>
  The priorities of the interrupt lines as a linear order, and the halted processor.
\<close>

section \<open>Priorities\<close>

fun urgency :: "line \<Rightarrow> nat" where
  "urgency L_TRAP = 4" | "urgency L_RST75 = 3" | "urgency L_RST65 = 2" | "urgency L_RST55 = 1" | "urgency L_INTR = 0"

lemma urgency_inj: "urgency a = urgency b \<longleftrightarrow> a = b"
  by (cases a; cases b) simp_all

instantiation line :: linorder
begin

definition less_eq_line :: "line \<Rightarrow> line \<Rightarrow> bool" where
  "less_eq_line a b \<longleftrightarrow> urgency a \<le> urgency b"

definition less_line :: "line \<Rightarrow> line \<Rightarrow> bool" where
  "less_line a b \<longleftrightarrow> urgency a < urgency b"

instance
  by standard (auto simp: less_eq_line_def less_line_def urgency_inj)

end

lemma accepted_Some_iff:
  "accepted s = Some l \<longleftrightarrow> requested s l \<and> (\<forall>k. requested s k \<longrightarrow> k \<le> l)"
proof -
  have all: "(\<forall>k. P k) \<longleftrightarrow> P L_TRAP \<and> P L_RST75 \<and> P L_RST65 \<and> P L_RST55 \<and> P L_INTR" for P
    by (metis line.exhaust)
  show ?thesis
    unfolding all accepted_def by (cases l) (auto simp: less_eq_line_def)
qed

section \<open>Halt\<close>

lemma halted_waits:
  assumes "hlt_enable s \<noteq> 0" "accepted s = None"
  shows "Emulate8085Op RB8085 s st rt = Some (s, st, rt, 1)"
proof -
  have "checkInterrupts RB8085 s rt = (False, s, rt)"
    using assms(2) by (simp add: fp.rt.checkInterrupts_eq)
  then show ?thesis using assms(1) by (simp add: fp.rt.Emulate8085Op_eq)
qed

end
