(* ===== verification/Daa_Laws.thy ===== *)
theory Daa_Laws
  imports Instr
begin

unbundle bit_operations_syntax

text \<open>
  Decimal adjust: on integers, \<^verbatim>\<open>DAA\<close> adds 6 to each nibble that has left the decimal digits, and after
  an addition of two packed decimals it yields the packed decimal of their sum.
\<close>

section \<open>DAA on integers\<close>

definition daa_correction :: "int \<Rightarrow> bool \<Rightarrow> bool \<Rightarrow> int" where
  "daa_correction a ac cy = (if 9 < a mod 16 \<or> ac then 6 else 0) + (if 0x99 < a \<or> cy then 0x60 else 0)"

lemma daa_fields:
  "reg_a (daa s) = word_of_int (uint (reg_a s) + daa_correction (uint (reg_a s)) (fl_ac (cc s)) (fl_cy (cc s)))"
  "fl_cy (cc (daa s)) \<longleftrightarrow> 0x99 < uint (reg_a s) \<or> fl_cy (cc s)"
proof -
  have "9 < reg_a s AND 0x0f \<longleftrightarrow> 9 < uint (reg_a s) mod 16"
    by (simp add: word_less_def low_nibble)
  moreover have "0x99 < reg_a s \<longleftrightarrow> 0x99 < uint (reg_a s)" by (simp add: word_less_def)
  moreover have "(ucast (ucast a + ucast c :: u16) :: u8) = a + c" for a c :: u8
    using sum16(3) [of a c 0] by simp
  ultimately show "reg_a (daa s) = word_of_int (uint (reg_a s) + daa_correction (uint (reg_a s)) (fl_ac (cc s)) (fl_cy (cc s)))"
    "fl_cy (cc (daa s)) \<longleftrightarrow> 0x99 < uint (reg_a s) \<or> fl_cy (cc s)"
    by (simp_all add: daa_def Let_def daa_correction_def)
qed

section \<open>Packed decimals\<close>

definition bcd :: "u8 \<Rightarrow> bool" where
  "bcd b \<longleftrightarrow> uint b div 16 < 10 \<and> uint b mod 16 < 10"

definition bcd_val :: "u8 \<Rightarrow> int" where
  "bcd_val b = 10 * (uint b div 16) + uint b mod 16"

lemma two_digits: "0 \<le> l \<Longrightarrow> l < 10 \<Longrightarrow> 0 \<le> h \<Longrightarrow> h < 10 \<Longrightarrow> (16 * h + l) mod 256 = 16 * h + l"
  "0 \<le> l \<Longrightarrow> l < 10 \<Longrightarrow> (16 * h + l) div 16 = h" "0 \<le> l \<Longrightarrow> l < 10 \<Longrightarrow> (16 * h + l) mod 16 = l" for h l :: int
  by (simp_all add: mod_pos_pos_trivial)

text \<open>The digits of both summands, the carry in, and the adjusted byte.\<close>

lemma daa_digits:
  fixes a b c d k :: int
  assumes "0 \<le> a" "a < 10" "0 \<le> b" "b < 10" "0 \<le> c" "c < 10" "0 \<le> d" "d < 10" "0 \<le> k" "k \<le> 1"
  defines "n \<equiv> 16 * a + b + (16 * c + d) + k"
  defines "x \<equiv> n mod 256"
  defines "cy \<equiv> 0x99 < x \<or> 255 < n"
  defines "r \<equiv> (x + daa_correction x (15 < b + d + k) (255 < n)) mod 256"
  shows "r div 16 < 10 \<and> r mod 16 < 10 \<and>
    10 * (r div 16) + r mod 16 + (if cy then 100 else 0) = 10 * a + b + (10 * c + d) + k"
proof -
  define lo where "lo = b + d + k"
  define hi where "hi = a + c"
  have n: "n = 16 * hi + lo" by (simp add: n_def lo_def hi_def)
  have bd: "0 \<le> lo" "lo < 20" "0 \<le> hi" "hi < 19" using assms(1-10) by (simp_all add: lo_def hi_def)
  define g where "g = (if 9 < lo then 1 else 0 :: int)"
  have xm: "x mod 16 = lo mod 16" by (simp add: x_def n mod_mod_cancel)
  have nib: "(9 < x mod 16 \<or> 15 < lo) = (9 < lo)"
    unfolding xm using bd by presburger
  have x: "x = (if n < 256 then n else n - 256)"
    unfolding x_def using mod_wrap_sum [of n 256] bd n by simp
  have cy: "cy = (9 < hi + g)"
    unfolding cy_def x n g_def using bd by auto
  define t where "t = (if 9 < hi + g then 1 else 0 :: int)"
  have dig: "0 \<le> lo - 10 * g" "lo - 10 * g < 10" "0 \<le> hi + g - 10 * t" "hi + g - 10 * t < 10"
    using bd by (simp_all add: g_def t_def)
  have corr: "daa_correction x (15 < lo) (255 < n) = 6 * g + 96 * t"
    using nib cy unfolding daa_correction_def cy_def g_def t_def by simp
  have "r = (n + 6 * g + 96 * t) mod 256"
  proof -
    have "r = (x + (6 * g + 96 * t)) mod 256" unfolding r_def corr [unfolded lo_def] ..
    then show ?thesis unfolding x_def by (simp add: mod_simps add.assoc)
  qed
  also have "n + 6 * g + 96 * t = 16 * (hi + g - 10 * t) + (lo - 10 * g) + t * 256"
    by (simp add: n algebra_simps)
  also have "\<dots> mod 256 = (16 * (hi + g - 10 * t) + (lo - 10 * g)) mod 256"
    by (rule mod_mult_self1)
  also have "\<dots> = 16 * (hi + g - 10 * t) + (lo - 10 * g)"
    by (rule two_digits(1) [OF dig])
  finally have r: "r = 16 * (hi + g - 10 * t) + (lo - 10 * g)" .
  have "r div 16 = hi + g - 10 * t" "r mod 16 = lo - 10 * g"
    unfolding r by (rule two_digits(2) [OF dig(1,2)], rule two_digits(3) [OF dig(1,2)])
  then show ?thesis
    using dig by (auto simp: cy t_def lo_def hi_def)
qed

text \<open>The accumulator after the adjustment, from the byte and the flags the addition left.\<close>

lemma daa_add:
  assumes "bcd x" "bcd y" "k = 0 \<or> k = 1"
    and "reg_a s = word_of_int (uint x + uint y + k)" "fl_cy (cc s) = (255 < uint x + uint y + k)"
    and "fl_ac (cc s) = (15 < uint x mod 16 + uint y mod 16 + k)"
  shows "bcd (reg_a (daa s))"
    and "bcd_val (reg_a (daa s)) + (if fl_cy (cc (daa s)) then 100 else 0) = bcd_val x + bcd_val y + k"
proof -
  note bx = u8_bounds [of x] and b_y = u8_bounds [of y]
  have d: "0 \<le> uint x div 16" "uint x div 16 < 10" "0 \<le> uint x mod 16" "uint x mod 16 < 10"
    "0 \<le> uint y div 16" "uint y div 16 < 10" "0 \<le> uint y mod 16" "uint y mod 16 < 10" "0 \<le> k" "k \<le> 1"
    using assms(1-3) bx b_y by (auto simp: bcd_def pos_imp_zdiv_nonneg_iff)
  have n: "16 * (uint x div 16) + uint x mod 16 + (16 * (uint y div 16) + uint y mod 16) + k = uint x + uint y + k"
    by simp
  define r where "r = reg_a (daa s)"
  have a: "uint (reg_a s) = (uint x + uint y + k) mod 256"
    unfolding assms(4) by (simp only: uint_word_of_int) simp
  have r: "uint r = (uint (reg_a s) + daa_correction (uint (reg_a s)) (fl_ac (cc s)) (fl_cy (cc s))) mod 256"
    unfolding r_def daa_fields(1) by (simp only: uint_word_of_int) simp
  note D = daa_digits [OF d, unfolded n, folded a assms(5,6), folded r]
  show "bcd (reg_a (daa s))" using D by (simp add: bcd_def flip: r_def)
  show "bcd_val (reg_a (daa s)) + (if fl_cy (cc (daa s)) then 100 else 0) = bcd_val x + bcd_val y + k"
    using D by (simp add: bcd_val_def daa_fields(2) flip: r_def)
qed

lemma arith_flags_sel [simp]:
  "fl_cy (arith_flags f r cy ac v UPDATE_CARRY) = cy" "fl_ac (arith_flags f r cy ac v p) = ac"
  by (simp_all add: arith_flags_def)

end
