(* ===== verification/Disasm_Laws.thy ===== *)
theory Disasm_Laws
  imports Isa_Disasm First_Party
begin

text \<open>
  The disassembler as a whole: its line as the assembly of the decoded opcode, and the agreement of
  its lengths with the processor's program counter.
\<close>

definition printed_text :: "u8 \<Rightarrow> string" where
  "printed_text op = (if op = 0xec then ''CPE     $'' else asm_text (decode op))"

lemma dis_switch_printed:
  "dis_switch code op = asm_line code (printed_text op) (operand_len (decode op))"
  using dis_switch_asm [of op code] by (simp add: printed_text_def asm_line_def dis_switch_cpe)

lemma Disassemble_asm:
  "Disassemble8085Op code at n =
     do { op \<leftarrow> code at;
          (txt, len) \<leftarrow> asm_line (\<lambda>k. code (at + int k)) (printed_text op) (operand_len (decode op));
          Some (take (n - 1) txt, len) }"
  by (simp add: Disassemble8085Op_def dis_switch_printed disasm_printf_fits split_beta if_distrib cong: if_cong)
    (cases n; simp)

lemma asm_line_length: "asm_line code m k = Some (txt, len) \<Longrightarrow> k \<le> 2 \<Longrightarrow> len = k + 1"
  by (auto simp: asm_line_def dis_ops split: if_splits Option.bind_splits)

lemma operand_len_le: "operand_len i \<le> 2"
  by (cases i) simp_all

lemma Disassemble_length:
  "Disassemble8085Op code at n = Some (txt, len) \<Longrightarrow> code at = Some op \<Longrightarrow> len = operand_len (decode op) + 1"
  by (auto simp: Disassemble_asm operand_len_le dest!: asm_line_length split: Option.bind_splits)

text \<open>The opcode's length past its own byte, where the instruction is no transfer.\<close>

lemma exec_switch_pc:
  assumes "exec_switch (runtime_bus api_of) s rt opc op = Some (s', rt', t)" "\<not> transfers (decode op)"
  shows "pc s' = pc s + of_nat (operand_len (decode op))"
proof -
  obtain s1 v where "isa_exec (runtime_bus api_of) s rt opc (decode op) = Some (s1, rt')"
    "s' = s1\<lparr>cc := (cc s1)\<lparr>fl_v := v\<rparr>\<rparr>"
    by (rule fp.rt.exec_switch_isa_cases [OF assms(1)])
  then show ?thesis using fp.rt.isa_exec_pc [OF _ assms(2)] by simp
qed

end
