(* ===== verification/Net_Laws.thy ===== *)
theory Net_Laws
  imports Logic_Net
begin

text \<open>
  Laws of the logic net: gates are the exact three-valued extension of their Boolean functions, a
  settled step is a consistent assignment, every index the parser writes is in range, and a printed
  netlist parses to the net it was printed from.
\<close>

section \<open>Gates\<close>

text \<open>The Boolean function of a gate, and which Booleans a level may stand for.\<close>

fun gate_bool :: "GateType \<Rightarrow> bool list \<Rightarrow> bool" where
  "gate_bool G_INV bs = (\<not> hd bs)" | "gate_bool G_BUF bs = hd bs"
| "gate_bool G_AND bs = list_all id bs" | "gate_bool G_OR bs = list_ex id bs"
| "gate_bool G_NAND bs = (\<not> list_all id bs)" | "gate_bool G_NOR bs = (\<not> list_ex id bs)"

fun may_be :: "Level \<Rightarrow> bool \<Rightarrow> bool" where
  "may_be LVL_0 b = (\<not> b)" | "may_be LVL_1 b = b" | "may_be LVL_X b = True"

definition level_of :: "bool \<Rightarrow> Level" where
  "level_of b = (if b then LVL_1 else LVL_0)"

lemma scan_inputs_eq:
  "scan_inputs d out other x vs =
     (if d \<in> set vs then out else if x \<or> LVL_X \<in> set vs then LVL_X else other)"
  by (induction vs arbitrary: x) auto

lemma all_known: "LVL_X \<notin> set vs \<Longrightarrow> LVL_0 \<notin> set vs \<Longrightarrow> list_all2 may_be vs bs \<Longrightarrow> list_all id bs"
  by (induction vs arbitrary: bs) (auto simp: list_all2_Cons1 elim: may_be.elims)

lemma none_known: "LVL_X \<notin> set vs \<Longrightarrow> LVL_1 \<notin> set vs \<Longrightarrow> list_all2 may_be vs bs \<Longrightarrow> \<not> list_ex id bs"
  by (induction vs arbitrary: bs) (auto simp: list_all2_Cons1 elim: may_be.elims)

lemma zero_in: "LVL_0 \<in> set vs \<Longrightarrow> list_all2 may_be vs bs \<Longrightarrow> \<not> list_all id bs"
  by (induction vs arbitrary: bs) (auto simp: list_all2_Cons1)

lemma one_in: "LVL_1 \<in> set vs \<Longrightarrow> list_all2 may_be vs bs \<Longrightarrow> list_ex id bs"
  by (induction vs arbitrary: bs) (auto simp: list_all2_Cons1)

definition gate_ins :: "gate \<Rightarrow> Level list \<Rightarrow> Level list" where
  "gate_ins g vals = map (\<lambda>i. vals ! i) (in_nodes g)"

definition gate_arity_ok :: "gate \<Rightarrow> bool" where
  "gate_arity_ok g \<longleftrightarrow> (if gt_type g = G_INV \<or> gt_type g = G_BUF then length (in_nodes g) = 1 else in_nodes g \<noteq> [])"

lemma evalGate_sound:
  assumes "gate_arity_ok g" "list_all2 may_be (gate_ins g vals) bs"
  shows "may_be (evalGate g vals) (gate_bool (gt_type g) bs)"
proof (cases "gt_type g = G_INV \<or> gt_type g = G_BUF")
  case True
  with assms(1) obtain i where "in_nodes g = [i]"
    by (auto simp: gate_arity_ok_def length_Suc_conv)
  with True assms(2) show ?thesis
    by (cases "vals ! i") (auto simp: evalGate_def gate_ins_def list_all2_Cons1)
next
  case False
  with assms(2) show ?thesis
    by (cases "gt_type g")
      (auto simp: evalGate_def Let_def scan_inputs_eq gate_ins_def [symmetric] dest: all_known none_known zero_in one_in)
qed

text \<open>Unknown inputs completed with one value.\<close>

definition complete :: "bool \<Rightarrow> Level list \<Rightarrow> bool list" where
  "complete b vs = map (\<lambda>v. v = LVL_1 \<or> (v = LVL_X \<and> b)) vs"

lemma complete_may_be: "list_all2 may_be vs (complete b vs)"
proof -
  have "may_be a (a = LVL_1 \<or> a = LVL_X \<and> b)" for a by (cases a) simp_all
  then show ?thesis by (simp add: complete_def list_all2_map2 list_all2_same)
qed

lemma exact_zero:
  "LVL_0 \<notin> set vs \<Longrightarrow> LVL_X \<in> set vs \<Longrightarrow> list_all id (complete True vs) \<and> \<not> list_all id (complete False vs)"
  by (auto simp: complete_def list_all_iff) (metis Level.exhaust)

lemma exact_one:
  "LVL_1 \<notin> set vs \<Longrightarrow> LVL_X \<in> set vs \<Longrightarrow> list_ex id (complete True vs) \<and> \<not> list_ex id (complete False vs)"
  by (auto simp: complete_def list_ex_iff)

lemma evalGate_exact:
  assumes "gate_arity_ok g" "evalGate g vals = LVL_X"
  shows "gate_bool (gt_type g) (complete True (gate_ins g vals)) \<noteq>
         gate_bool (gt_type g) (complete False (gate_ins g vals))"
proof (cases "gt_type g = G_INV \<or> gt_type g = G_BUF")
  case True
  with assms(1) obtain i where "in_nodes g = [i]"
    by (auto simp: gate_arity_ok_def length_Suc_conv)
  with True assms(2) show ?thesis
    by (cases "vals ! i") (auto simp: evalGate_def gate_ins_def complete_def)
next
  case False
  from False assms show ?thesis
    by (cases "gt_type g")
      (auto simp: evalGate_def Let_def scan_inputs_eq gate_ins_def [symmetric] exact_zero exact_one split: if_splits)
qed

section \<open>Settling\<close>

text \<open>A net is consistent when every level is what its drivers resolve to and every gate has settled.\<close>

definition consistent :: "Drive list \<Rightarrow> net \<Rightarrow> bool" where
  "consistent drv net \<longleftrightarrow>
     lvls net = map (\<lambda>i. fst (resolve_node drv net i)) [0..<length (nodes net)] \<and>
     gateOut net = map (\<lambda>g. evalGate g (lvls net)) (gates net)"

lemma resolve_node_cong:
  assumes "endpoints n1 = endpoints n2" "gateOut n1 = gateOut n2" "nodeGateSources n1 = nodeGateSources n2"
    "nodes n1 = nodes n2"
  shows "resolve_node drv n1 = resolve_node drv n2"
  by (rule ext) (simp add: resolve_node_def gate_drives_def assms)

lemma settle_pass_keeps:
  assumes "settle_pass drv net = (net', ch, ws)"
  shows "nodes net' = nodes net" "gates net' = gates net" "endpoints net' = endpoints net"
    "nodeGateSources net' = nodeGateSources net" "length (lvls net') = length (nodes net)"
    "length (gateOut net') = length (gates net)" "length (warnedConflict net') = length (nodes net)"
    "length (warnedFloat net') = length (nodes net)" "warnedOscillation net' = warnedOscillation net"
proof -
  have "net' = fst (settle_pass drv net)" using assms by simp
  then show "nodes net' = nodes net" "gates net' = gates net" "endpoints net' = endpoints net"
    "nodeGateSources net' = nodeGateSources net" "length (lvls net') = length (nodes net)"
    "length (gateOut net') = length (gates net)" "length (warnedConflict net') = length (nodes net)"
    "length (warnedFloat net') = length (nodes net)" "warnedOscillation net' = warnedOscillation net"
    by (simp_all add: settle_pass_def Let_def)
qed

lemma settle_pass_stable:
  assumes "settle_pass drv net = (net', False, ws)"
  shows "consistent drv net'"
proof -
  have same: "lvls net' = lvls net" "gateOut net' = gateOut net"
    using assms by (auto simp: settle_pass_def Let_def)
  have "resolve_node drv net' = resolve_node drv net"
    by (rule resolve_node_cong) (use settle_pass_keeps [OF assms] same in simp_all)
  moreover have "lvls net' = map (\<lambda>i. fst (resolve_node drv net i)) [0..<length (nodes net)]"
    "gateOut net' = map (\<lambda>g. evalGate g (lvls net')) (gates net)"
  proof -
    have "net' = fst (settle_pass drv net)" using assms by simp
    then show "lvls net' = map (\<lambda>i. fst (resolve_node drv net i)) [0..<length (nodes net)]"
      "gateOut net' = map (\<lambda>g. evalGate g (lvls net')) (gates net)"
      by (simp_all add: settle_pass_def Let_def comp_def)
  qed
  ultimately show ?thesis
    using settle_pass_keeps [OF assms] by (simp add: consistent_def)
qed

lemma settle_consistent:
  assumes "settle k drv net = (net', False, ws)" "0 < k"
  shows "consistent drv net'"
  using assms
proof (induction k arbitrary: net ws)
  case (Suc k)
  obtain net1 ch ws1 where p: "settle_pass drv net = (net1, ch, ws1)" by (metis prod_cases3)
  show ?case
  proof (cases ch)
    case True
    obtain net2 o2 ws2 where s: "settle k drv net1 = (net2, o2, ws2)" by (metis prod_cases3)
    from Suc.prems p True s have "k \<noteq> 0" "net' = net2" "\<not> o2" by (auto split: if_splits)
    with Suc.IH [of net1 ws2] s show ?thesis by simp
  next
    case False
    with Suc.prems p show ?thesis using settle_pass_stable by simp
  qed
qed simp

lemma settle_keeps:
  assumes "settle k drv net = (net', osc, ws)"
  shows "nodes net' = nodes net" "gates net' = gates net" "endpoints net' = endpoints net"
    "nodeGateSources net' = nodeGateSources net" "warnedOscillation net' = warnedOscillation net"
    and "bound net \<Longrightarrow> bound net'"
proof -
  have "nodes net' = nodes net \<and> gates net' = gates net \<and> endpoints net' = endpoints net \<and>
    nodeGateSources net' = nodeGateSources net \<and> warnedOscillation net' = warnedOscillation net \<and>
    (bound net \<longrightarrow> bound net')"
    using assms
  proof (induction k arbitrary: net net' osc ws)
    case (Suc k)
    obtain net1 ch ws1 where p: "settle_pass drv net = (net1, ch, ws1)" by (metis prod_cases3)
    obtain net2 o2 ws2 where s: "settle k drv net1 = (net2, o2, ws2)" by (metis prod_cases3)
    have b: "bound net \<longrightarrow> bound net1" using settle_pass_keeps [OF p] by (simp add: bound_def)
    show ?case
      using Suc.prems p s b settle_pass_keeps [OF p] Suc.IH [OF s] by (auto split: if_splits)
  qed simp
  then show "nodes net' = nodes net" "gates net' = gates net" "endpoints net' = endpoints net"
    "nodeGateSources net' = nodeGateSources net" "warnedOscillation net' = warnedOscillation net"
    "bound net \<Longrightarrow> bound net'" by simp_all
qed

section \<open>Parsed indices are in range\<close>

definition net_wf :: "net \<Rightarrow> bool" where
  "net_wf net \<longleftrightarrow>
     distinct (map nd_name (nodes net)) \<and>
     (\<forall>ep \<in> set (endpoints net). ep_node ep < length (nodes net)) \<and>
     (\<forall>g \<in> set (gates net). in_nodes g \<noteq> [] \<and> out_node g < length (nodes net) \<and>
        (\<forall>i \<in> set (in_nodes g). i < length (nodes net)))"

lemma find_node_le: "find_node ns name \<le> length ns"
  by (induction ns) auto

lemma find_node_less_iff: "find_node ns name < length ns \<longleftrightarrow> name \<in> nd_name ` set ns"
  by (induction ns) auto

lemma find_node_at: "find_node ns name < length ns \<Longrightarrow> nd_name (ns ! find_node ns name) = name"
  by (induction ns) auto

lemma nodeIndex_wf:
  assumes "nodeIndex net name = (net', i)" "net_wf net"
  shows "net_wf net'" "i < length (nodes net')" "length (nodes net) \<le> length (nodes net')"
    "nd_name (nodes net' ! i) = name"
  using assms find_node_less_iff [of "nodes net" name] find_node_at [of "nodes net" name]
  by (fastforce simp: nodeIndex_def Let_def net_wf_def split: if_splits)+

lemma nodeIndices_wf:
  assumes "nodeIndices net ts = (net', is)" "net_wf net"
  shows "net_wf net' \<and> (\<forall>i \<in> set is. i < length (nodes net')) \<and> length (nodes net) \<le> length (nodes net') \<and>
    length is = length ts"
  using assms
proof (induction ts arbitrary: net net' "is")
  case (Cons t ts)
  obtain net1 i where n: "nodeIndex net t = (net1, i)" by fastforce
  obtain net2 js where r: "nodeIndices net1 ts = (net2, js)" by fastforce
  show ?case
    using Cons.prems n r nodeIndex_wf [OF n Cons.prems(2)] Cons.IH [OF r] by auto
qed simp

lemma parse_pull_wf: "net_wf net \<Longrightarrow> net_wf (fst (parse_pull net n ts))"
proof -
  assume wf: "net_wf net"
  obtain net1 i where n: "nodeIndex net (ts ! 1) = (net1, i)" by fastforce
  have names: "map nd_name ((nodes net1)[i := (nodes net1 ! i)\<lparr>nd_pull := p\<rparr>]) = map nd_name (nodes net1)" for p
    by (metis list_update_id map_update net_node.select_convs(1) net_node.surjective net_node.update_convs(2))
  show ?thesis
    using nodeIndex_wf [OF n wf] names n wf by (auto simp: parse_pull_def Let_def net_wf_def)
qed

lemma parse_wire_wf: "net_wf net \<Longrightarrow> net_wf (fst (parse_wire net n ts))"
proof -
  assume wf: "net_wf net"
  obtain net1 i where n: "nodeIndex net (ts ! 1) = (net1, i)" by fastforce
  show ?thesis
    using nodeIndex_wf [OF n wf] n wf by (auto simp: parse_wire_def net_wf_def)
qed

lemma parse_gate_wf: "net_wf net \<Longrightarrow> net_wf (fst (parse_gate net n ts))"
proof -
  assume wf: "net_wf net"
  obtain net1 js where a: "nodeIndices net (butlast (drop 3 ts)) = (net1, js)" by fastforce
  obtain net2 i where b: "nodeIndex net1 (last ts) = (net2, i)" by fastforce
  note wa = nodeIndices_wf [OF a wf]
  note wb = nodeIndex_wf [OF b wa [THEN conjunct1]]
  have "length ts \<ge> 5 \<Longrightarrow> js \<noteq> []" using wa by auto
  then show ?thesis
    using wa wb a b wf by (fastforce simp: parse_gate_def net_wf_def split: option.splits)
qed

lemma parse_line_wf: "net_wf net \<Longrightarrow> net_wf (fst (parse_line net n l))"
  by (simp add: parse_line_def Let_def parse_pull_wf parse_wire_wf parse_gate_wf)

lemma parse_lines_wf: "net_wf net \<Longrightarrow> net_wf (fst (parse_lines net n ls))"
proof (induction ls arbitrary: net n)
  case (Cons l ls)
  have "net_wf (fst (parse_line net n l))" using Cons.prems by (rule parse_line_wf)
  then show ?case using Cons.IH by (auto split: prod.splits option.splits)
qed simp

lemma parse_wf: "net_wf net \<Longrightarrow> net_wf (fst (parse net txt))"
  by (simp add: parse_def parse_lines_wf)

section \<open>Printing and parsing\<close>

datatype directive =
    D_pull string bool
  | D_wire string string
  | D_gate GateType string "string list" string

fun type_word :: "GateType \<Rightarrow> string" where
  "type_word G_INV = ''inv''" | "type_word G_BUF = ''buf''" | "type_word G_AND = ''and''"
| "type_word G_OR = ''or''" | "type_word G_NAND = ''nand''" | "type_word G_NOR = ''nor''"

fun dir_words :: "directive \<Rightarrow> string list" where
  "dir_words (D_pull node up) = [''pull'', node, if up then ''up'' else ''down'']"
| "dir_words (D_wire node pin) = [''wire'', node, pin]"
| "dir_words (D_gate ty name ins out) = [''gate'', type_word ty, name] @ ins @ [out]"

fun unwords :: "string list \<Rightarrow> string" where
  "unwords [] = []" | "unwords [w] = w" | "unwords (w # ws) = w @ CHR '' '' # unwords ws"

definition print_net :: "directive list \<Rightarrow> string" where
  "print_net ds = concat (map (\<lambda>d. unwords (dir_words d) @ [CHR 0x0A]) ds)"

text \<open>The net the directives describe.\<close>

fun build :: "net \<Rightarrow> directive \<Rightarrow> net" where
  "build net (D_pull node up) =
     (let (net1, i) = nodeIndex net node
      in net1\<lparr>nodes := (nodes net1)[i := (nodes net1 ! i)\<lparr>nd_pull := if up then PULL_UP else PULL_DOWN\<rparr>]\<rparr>)"
| "build net (D_wire node pin) =
     (let (net1, i) = nodeIndex net node
      in net1\<lparr>endpoints := endpoints net1 @ [\<lparr>ep_node = i, ep_pin = pin, ep_handle = - 1, ep_is_output = False\<rparr>]\<rparr>)"
| "build net (D_gate ty name ins out) =
     (let (net1, js) = nodeIndices net ins; (net2, i) = nodeIndex net1 out
      in net2\<lparr>gates := gates net2 @ [\<lparr>gt_type = ty, in_nodes = js, out_node = i\<rparr>]\<rparr>)"

text \<open>A word is not empty and has no blank; a gate has an input.\<close>

definition word_ok :: "string \<Rightarrow> bool" where
  "word_ok w \<longleftrightarrow> w \<noteq> [] \<and> list_all (\<lambda>c. \<not> c_isspace c) w"

fun dir_ok :: "directive \<Rightarrow> bool" where
  "dir_ok (D_pull node up) = word_ok node"
| "dir_ok (D_wire node pin) = (word_ok node \<and> word_ok pin)"
| "dir_ok (D_gate ty name ins out) = (word_ok name \<and> ins \<noteq> [] \<and> list_all word_ok ins \<and> word_ok out)"

lemma space_isspace [simp]: "c_isspace CHR '' ''" "c_isspace CHR 0x0A"
  by (simp_all add: c_isspace_def code_of_def)

lemma dropWhile_first: "w \<noteq> [] \<Longrightarrow> \<not> P (hd w) \<Longrightarrow> dropWhile P w = w"
  by (cases w) auto

lemma word_ok_hd: "word_ok w \<Longrightarrow> \<not> c_isspace (hd w)" "word_ok w \<Longrightarrow> \<not> c_isspace (last w)"
  by (auto simp: word_ok_def list_all_iff)

lemma tokens_word:
  assumes "word_ok w" "r = [] \<or> c_isspace (hd r)"
  shows "tokens (w @ r) = w # tokens r"
proof -
  have "dropWhile c_isspace (w @ r) = w @ r"
    using assms word_ok_hd(1) [OF assms(1)] by (intro dropWhile_first) (auto simp: word_ok_def)
  moreover have "takeWhile (\<lambda>c. \<not> c_isspace c) (w @ r) = w" "dropWhile (\<lambda>c. \<not> c_isspace c) (w @ r) = r"
    using assms by (auto simp: word_ok_def list_all_iff takeWhile_append dropWhile_append; cases r; auto)+
  ultimately show ?thesis
    using assms(1) by (subst tokens.simps) (simp add: word_ok_def Let_def)
qed

lemma tokens_space: "tokens (CHR '' '' # r) = tokens r"
  by (subst (1 2) tokens.simps) simp

lemma tokens_unwords: "list_all word_ok ws \<Longrightarrow> tokens (unwords ws) = ws"
proof (induction ws rule: unwords.induct)
  case 1
  show ?case by (simp add: tokens.simps)
next
  case (2 w)
  then show ?case using tokens_word [of w "[]"] by (simp add: tokens.simps [of "[]"])
next
  case (3 w v vs)
  then show ?case using tokens_word [of w "CHR '' '' # unwords (v # vs)"] by (simp add: tokens_space)
qed

lemma unwords_ends:
  assumes "list_all word_ok ws" "ws \<noteq> []"
  shows "unwords ws \<noteq> [] \<and> hd (unwords ws) = hd (hd ws) \<and> last (unwords ws) = last (last ws)"
  using assms by (induction ws rule: unwords.induct) (auto simp: word_ok_def)

lemma trim_unwords:
  assumes "list_all word_ok ws" "ws \<noteq> []"
  shows "trim (unwords ws) = unwords ws"
proof -
  note e = unwords_ends [OF assms]
  have "word_ok (hd ws)" "word_ok (last ws)" using assms by (auto simp: list_all_iff)
  then have "\<not> c_isspace (hd (unwords ws))" "\<not> c_isspace (hd (rev (unwords ws)))"
    using e word_ok_hd by (simp_all add: hd_rev)
  then show ?thesis
    using e unfolding trim_def by (simp add: dropWhile_first)
qed

lemma split_lines_line: "CHR 0x0A \<notin> set l \<Longrightarrow> split_lines (l @ CHR 0x0A # r) = l # split_lines r"
  by (induction l) auto

lemma unwords_no_newline: "list_all word_ok ws \<Longrightarrow> CHR 0x0A \<notin> set (unwords ws)"
  by (induction ws rule: unwords.induct) (auto simp: word_ok_def list_all_iff)

lemma dir_words_ok: "dir_ok d \<Longrightarrow> list_all word_ok (dir_words d)"
  by (cases d; cases "case d of D_gate ty _ _ _ \<Rightarrow> ty | _ \<Rightarrow> G_INV")
    (auto simp: word_ok_def c_isspace_def code_of_def)

lemma gate_type_word [simp]: "gate_type (type_word ty) = Some ty"
  by (cases ty) (simp_all add: gate_type_def)

lemma parse_line_print:
  assumes "dir_ok d"
  shows "parse_line net n (unwords (dir_words d)) = (build net d, None)"
proof -
  note ok = dir_words_ok [OF assms]
  have ne: "dir_words d \<noteq> []" by (cases d) simp_all
  have hd: "hd (unwords (dir_words d)) \<noteq> CHR ''#''" "unwords (dir_words d) \<noteq> []"
    using unwords_ends [OF ok ne] by (cases d; simp)+
  have line: "parse_line net n (unwords (dir_words d)) =
      (let ts = dir_words d in
       if ts ! 0 = ''pull'' then parse_pull net n ts
       else if ts ! 0 = ''wire'' then parse_wire net n ts
       else if ts ! 0 = ''gate'' then parse_gate net n ts
       else (net, Some (line_err n (''unknown directive '' @ [CHR 0x27] @ ts ! 0 @ [CHR 0x27]))))"
    using hd ne by (simp add: parse_line_def trim_unwords [OF ok ne] tokens_unwords [OF ok] Let_def)
  show ?thesis
  proof (cases d)
    case (D_pull node up)
    then show ?thesis unfolding line by (simp add: parse_pull_def split_beta Let_def)
  next
    case (D_wire node pin)
    then show ?thesis unfolding line by (simp add: parse_wire_def split_beta)
  next
    case (D_gate ty name ins out)
    with assms have "ins \<noteq> []" by simp
    then have "\<not> length ins + 4 < 5" by (cases ins) simp_all
    with D_gate show ?thesis unfolding line by (simp add: parse_gate_def split_beta Let_def butlast_append)
  qed
qed

lemma split_print: "list_all dir_ok ds \<Longrightarrow> split_lines (print_net ds) = map (unwords \<circ> dir_words) ds"
  by (induction ds)
    (auto simp: print_net_def split_lines_line unwords_no_newline dir_words_ok)

lemma parse_lines_print:
  "list_all dir_ok ds \<Longrightarrow> parse_lines net n (map (unwords \<circ> dir_words) ds) = (foldl build net ds, None)"
  by (induction ds arbitrary: net n) (simp_all add: parse_line_print)

lemma parse_print_net: "list_all dir_ok ds \<Longrightarrow> parse net (print_net ds) = (foldl build net ds, None)"
  by (simp add: parse_def split_print parse_lines_print)

end
