(* ===== verification/Net_Settle.thy ===== *)
theory Net_Settle
  imports Net_Laws
begin

text \<open>
  When a net settles: without a loop through its gates, and with at most 14 gates one behind the other,
  the sixteen passes of a step always suffice, and the levels they end with are the only consistent ones.
\<close>

section \<open>Nets in layers\<close>

text \<open>
  \<open>layered r net\<close>: the rank \<open>r\<close> of a node is above the ranks of what the gates that drive it read; no gate
  is without inputs, and each node knows the gates that drive it, as \<^verbatim>\<open>bind\<close> sets up.
\<close>

definition layered :: "(nat \<Rightarrow> nat) \<Rightarrow> net \<Rightarrow> bool" where
  "layered r net \<longleftrightarrow>
     (\<forall>g \<in> set (gates net). in_nodes g \<noteq> [] \<and> (\<forall>i \<in> set (in_nodes g). i < length (nodes net) \<and> r i < r (out_node g))) \<and>
     nodeGateSources net = map (gate_sources (gates net)) [0..<length (nodes net)]"

lemma layered_source:
  assumes "layered r net" "i < length (nodes net)" "j \<in> set (nodeGateSources net ! i)"
  shows "j < length (gates net)" "out_node (gates net ! j) = i"
    "in_nodes (gates net ! j) \<noteq> []" "\<And>k. k \<in> set (in_nodes (gates net ! j)) \<Longrightarrow> k < length (nodes net) \<and> r k < r i"
proof -
  have j: "j < length (gates net)" "out_node (gates net ! j) = i"
    using assms by (auto simp: layered_def gate_sources_def)
  then show "j < length (gates net)" "out_node (gates net ! j) = i" by simp_all
  have "gates net ! j \<in> set (gates net)" using j(1) by simp
  then show "in_nodes (gates net ! j) \<noteq> []"
    "\<And>k. k \<in> set (in_nodes (gates net ! j)) \<Longrightarrow> k < length (nodes net) \<and> r k < r i"
    using assms(1) j(2) by (auto simp: layered_def)
qed

lemma evalGate_cong:
  assumes "\<And>i. i \<in> set (in_nodes g) \<Longrightarrow> l1 ! i = l2 ! i"
  shows "evalGate g l1 = evalGate g l2"
proof -
  have "map (\<lambda>i. l1 ! i) (in_nodes g) = map (\<lambda>i. l2 ! i) (in_nodes g)" using assms by simp
  then show ?thesis by (simp only: evalGate_def)
qed

text \<open>The levels that follow from the outputs of the gates.\<close>

definition levels_of :: "Drive list \<Rightarrow> net \<Rightarrow> Level list" where
  "levels_of drv net = map (\<lambda>i. fst (resolve_node drv net i)) [0..<length (nodes net)]"

lemma resolve_node_sources:
  assumes "endpoints n1 = endpoints n2" "nodeGateSources n1 = nodeGateSources n2" "nodes n1 = nodes n2"
    and "\<And>j. j \<in> set (nodeGateSources n1 ! i) \<Longrightarrow> gateOut n1 ! j = gateOut n2 ! j"
  shows "resolve_node drv n1 i = resolve_node drv n2 i"
proof -
  have "gate_drives n1 i v = gate_drives n2 i v" for v
    using assms(2,4) by (auto simp: gate_drives_def list_ex_iff)
  then show ?thesis by (simp add: resolve_node_def assms(1,3))
qed

section \<open>One consistent valuation\<close>

definition same_wiring :: "net \<Rightarrow> net \<Rightarrow> bool" where
  "same_wiring n1 n2 \<longleftrightarrow> endpoints n1 = endpoints n2 \<and> nodeGateSources n1 = nodeGateSources n2 \<and>
     nodes n1 = nodes n2 \<and> gates n1 = gates n2"

text \<open>
  What both nets below compute from levels that agree up to a rank agrees one rank further; this step
  carries the uniqueness and the convergence.
\<close>

lemma level_step:
  assumes "layered r n1" "same_wiring n1 n2" "i < length (nodes n1)"
    and "\<And>j. j < length (gates n1) \<Longrightarrow> out_node (gates n1 ! j) = i \<Longrightarrow>
      gateOut n1 ! j = evalGate (gates n1 ! j) l1 \<and> gateOut n2 ! j = evalGate (gates n1 ! j) l2"
    and "\<And>k. k < length (nodes n1) \<Longrightarrow> r k < r i \<Longrightarrow> l1 ! k = l2 ! k"
  shows "fst (resolve_node drv n1 i) = fst (resolve_node drv n2 i)"
proof -
  have "gateOut n1 ! j = gateOut n2 ! j" if j: "j \<in> set (nodeGateSources n1 ! i)" for j
  proof -
    note s = layered_source [OF assms(1,3) j]
    have "evalGate (gates n1 ! j) l1 = evalGate (gates n1 ! j) l2"
      by (rule evalGate_cong) (use s(4) assms(5) in blast)
    then show ?thesis using assms(4) [OF s(1,2)] by simp
  qed
  then show ?thesis
    using resolve_node_sources [of n1 n2 i drv] assms(2) by (simp add: same_wiring_def)
qed

lemma consistent_unique:
  assumes "layered r n1" "same_wiring n1 n2" "consistent drv n1" "consistent drv n2"
  shows "lvls n1 = lvls n2 \<and> gateOut n1 = gateOut n2"
proof -
  have w: "nodes n2 = nodes n1" "gates n2 = gates n1" using assms(2) by (simp_all add: same_wiring_def)
  have g: "gateOut n1 ! j = evalGate (gates n1 ! j) (lvls n1) \<and> gateOut n2 ! j = evalGate (gates n1 ! j) (lvls n2)"
    if "j < length (gates n1)" for j
    using that assms(3,4) w by (simp add: consistent_def)
  have lv: "lvls n1 = map (\<lambda>i. fst (resolve_node drv n1 i)) [0..<length (nodes n1)]"
    "lvls n2 = map (\<lambda>i. fst (resolve_node drv n2 i)) [0..<length (nodes n1)]"
    using assms(3,4) by (simp_all only: consistent_def w)
  have l: "lvls n1 ! i = fst (resolve_node drv n1 i)" "lvls n2 ! i = fst (resolve_node drv n2 i)"
    if "i < length (nodes n1)" for i
    by (subst lv, use that in simp)+
  have "lvls n1 ! i = lvls n2 ! i" if "i < length (nodes n1)" for i
    using that
  proof (induction "r i" arbitrary: i rule: less_induct)
    case less
    have "fst (resolve_node drv n1 i) = fst (resolve_node drv n2 i)"
      by (rule level_step [where ?l1.0 = "lvls n1" and ?l2.0 = "lvls n2", OF assms(1,2) less.prems])
        (use g less.hyps in blast)+
    then show ?case using l [OF less.prems] by simp
  qed
  moreover have "length (lvls n1) = length (nodes n1)" "length (lvls n2) = length (nodes n1)"
    by (subst lv, simp)+
  ultimately have e: "lvls n1 = lvls n2" by (simp add: list_eq_iff_nth_eq)
  moreover have "gateOut n1 = map (\<lambda>g. evalGate g (lvls n1)) (gates n1)"
    "gateOut n2 = map (\<lambda>g. evalGate g (lvls n2)) (gates n1)"
    using assms(3,4) by (simp_all only: consistent_def w)
  ultimately show ?thesis by simp
qed

section \<open>Convergence\<close>

definition pass :: "Drive list \<Rightarrow> net \<Rightarrow> net" where
  "pass drv net = fst (settle_pass drv net)"

lemma pass_lvls: "lvls (pass drv net) = levels_of drv net"
  by (simp add: pass_def settle_pass_def levels_of_def Let_def comp_def)

lemma pass_gateOut: "gateOut (pass drv net) = map (\<lambda>g. evalGate g (lvls (pass drv net))) (gates net)"
  by (simp add: pass_def settle_pass_def Let_def)

lemma pass_wiring: "same_wiring (pass drv net) net"
  using settle_pass_keeps [of drv net "pass drv net"] by (simp add: pass_def same_wiring_def prod_eq_iff)

lemma same_wiring_trans: "same_wiring n1 n2 \<Longrightarrow> same_wiring n2 n3 \<Longrightarrow> same_wiring n1 n3"
  by (simp add: same_wiring_def)

lemma passes_wiring: "same_wiring ((pass drv ^^ p) net) net"
  by (induction p) (use same_wiring_trans pass_wiring in \<open>auto simp: same_wiring_def\<close>)

lemma layered_wiring: "layered r net \<Longrightarrow> same_wiring n net \<Longrightarrow> layered r n"
  by (simp add: layered_def same_wiring_def)

text \<open>After \<open>p\<close> passes the nodes of rank below \<open>p\<close> have settled.\<close>

lemma rank_settles:
  assumes "layered r net" "i < length (nodes net)" "r i < p"
  shows "lvls ((pass drv ^^ p) net) ! i = lvls ((pass drv ^^ Suc p) net) ! i"
  using assms(2,3)
proof (induction p arbitrary: i)
  case (Suc p)
  let ?n = "\<lambda>k. (pass drv ^^ k) net"
  have n: "nodes (?n k) = nodes net" "gates (?n k) = gates net" for k
    using passes_wiring [of p drv net] passes_wiring [of k drv net] by (simp_all add: same_wiring_def)
  have lay: "layered r (?n p)" by (rule layered_wiring [OF assms(1) passes_wiring])
  have w: "same_wiring (?n p) (?n (Suc p))" using pass_wiring [of drv "?n p"] by (simp add: same_wiring_def)
  have lv: "lvls (?n (Suc k)) ! i = fst (resolve_node drv (?n k) i)" for k
    using Suc.prems(1) by (simp add: pass_lvls levels_of_def n)
  have go: "gateOut (?n (Suc k)) ! j = evalGate (gates net ! j) (lvls (?n (Suc k)))" if "j < length (gates net)" for j k
    using that by (simp add: pass_gateOut n)
  have "fst (resolve_node drv (?n p) i) = fst (resolve_node drv (?n (Suc p)) i)"
  proof (cases p)
    case 0
    have none: "nodeGateSources (?n 0) ! i = []"
    proof (rule ccontr)
      assume "nodeGateSources (?n 0) ! i \<noteq> []"
      then have "hd (nodeGateSources net ! i) \<in> set (nodeGateSources net ! i)" by simp
      from layered_source(3,4) [OF assms(1) Suc.prems(1) this] Suc.prems(2) 0 hd_in_set show False
        by fastforce
    qed
    have "resolve_node drv (?n 0) i = resolve_node drv (?n (Suc 0)) i"
      by (rule resolve_node_sources) (use w none 0 in \<open>simp_all add: same_wiring_def\<close>)
    then show ?thesis unfolding 0 by simp
  next
    case (Suc q)
    show ?thesis
    proof (rule level_step [OF lay w])
      show "gateOut (?n p) ! j = evalGate (gates (?n p) ! j) (lvls (?n p)) \<and>
          gateOut (?n (Suc p)) ! j = evalGate (gates (?n p) ! j) (lvls (?n (Suc p)))"
        if "j < length (gates (?n p))" for j
        using that go [of j q] go [of j p] unfolding n Suc by simp
      show "lvls (?n p) ! k = lvls (?n (Suc p)) ! k" if "k < length (nodes (?n p))" "r k < r i" for k
        using that Suc.IH [of k] Suc.prems(2) unfolding n by simp
    qed (use Suc.prems(1) n in simp)
  qed
  then show ?case unfolding lv by simp
qed simp

lemma unchanged_pass:
  assumes "layered r net" "\<And>i. i < length (nodes net) \<Longrightarrow> r i < p" "0 < p"
  shows "\<not> fst (snd (settle_pass drv ((pass drv ^^ p) net)))"
proof -
  let ?n = "\<lambda>k. (pass drv ^^ k) net"
  have n: "nodes (?n k) = nodes net" "gates (?n k) = gates net" for k
    using passes_wiring [of k drv net] by (simp_all add: same_wiring_def)
  obtain q where q: "p = Suc q" using assms(3) by (cases p) auto
  have len: "length (lvls (?n (Suc k))) = length (nodes net)" for k by (simp add: pass_lvls levels_of_def n)
  have l: "lvls (?n p) = lvls (?n (Suc p))"
    by (rule nth_equalityI) (use rank_settles [OF assms(1)] assms(2) len q in metis)+
  have g: "gateOut (?n (Suc k)) = map (\<lambda>g. evalGate g (lvls (?n (Suc k)))) (gates net)" for k
    by (simp add: pass_gateOut n)
  have "gateOut (?n p) = gateOut (?n (Suc p))" using g [of q] g [of p] l q by simp
  moreover have "fst (snd (settle_pass drv (?n p))) =
      (lvls (?n (Suc p)) \<noteq> lvls (?n p) \<or> gateOut (?n (Suc p)) \<noteq> gateOut (?n p))"
    by (simp add: pass_def settle_pass_def Let_def)
  ultimately show ?thesis using l by simp
qed

lemma settle_reaches:
  assumes "\<not> fst (snd (settle_pass drv ((pass drv ^^ p) net)))" "p < k"
  shows "\<exists>net' ws. settle k drv net = (net', False, ws)"
  using assms
proof (induction k arbitrary: net p)
  case (Suc k)
  obtain net1 ch ws1 where s: "settle_pass drv net = (net1, ch, ws1)" by (metis prod_cases3)
  show ?case
  proof (cases ch)
    case False
    then show ?thesis using s by simp
  next
    case True
    then have "p \<noteq> 0" using Suc.prems(1) s by (intro notI) simp
    then obtain q where q: "p = Suc q" by (cases p) auto
    have "net1 = pass drv net" by (simp add: pass_def s)
    then have "\<not> fst (snd (settle_pass drv ((pass drv ^^ q) net1)))"
      using Suc.prems(1) unfolding q by (simp add: funpow_swap1)
    then obtain net2 ws2 where "settle k drv net1 = (net2, False, ws2)"
      using Suc.IH [of q net1] Suc.prems(2) q by auto
    then show ?thesis using s True Suc.prems(2) q by simp
  qed
qed simp

text \<open>The ranks 0 to 14 need fifteen passes, and the sixteenth finds nothing to change.\<close>

lemma layered_settles:
  assumes "layered r net" "\<And>i. i < length (nodes net) \<Longrightarrow> r i \<le> 14"
  shows "\<exists>net' ws. settle MAX_PASSES drv net = (net', False, ws)"
proof (rule settle_reaches)
  show "\<not> fst (snd (settle_pass drv ((pass drv ^^ 15) net)))"
    by (rule unchanged_pass [OF assms(1)]) (use assms(2) in \<open>fastforce simp: less_Suc_eq_le\<close>)+
qed (simp add: MAX_PASSES_def)

lemma settle_warns:
  "settle k drv net = (net', osc, ws) \<Longrightarrow> Oscillation \<notin> set ws"
proof (induction k arbitrary: net net' osc ws)
  case (Suc k)
  obtain net1 ch ws1 where p: "settle_pass drv net = (net1, ch, ws1)" by (metis prod_cases3)
  obtain net2 o2 ws2 where s: "settle k drv net1 = (net2, o2, ws2)" by (metis prod_cases3)
  have "ws1 = new_warnings net (map (resolve_node drv net) [0..<length (nodes net)])"
    using p by (simp add: settle_pass_def Let_def)
  then have "Oscillation \<notin> set ws1"
    by (auto simp: new_warnings_def split: option.splits warning.splits if_splits)
  then show ?case using Suc.prems Suc.IH [OF s] p s by (auto split: if_splits)
qed simp

lemma net_step_layered:
  assumes "bound net" "layered r net" "\<And>i. i < length (nodes net) \<Longrightarrow> r i \<le> 14"
    and "net_step hs h net = (h', net', ws)"
  shows "Oscillation \<notin> set ws" "warnedOscillation net' = warnedOscillation net" "layered r net'"
    "consistent (pin_drivers hs h (endpoints net')) net'"
proof -
  define eps where "eps = refresh hs h (endpoints net)"
  have l: "layered r (net\<lparr>endpoints := eps\<rparr>)" using assms(2) by (simp add: layered_def)
  obtain net1 ws1 where s: "settle MAX_PASSES (pin_drivers hs h eps) (net\<lparr>endpoints := eps\<rparr>) = (net1, False, ws1)"
    using layered_settles [OF l] assms(3) by fastforce
  note k = settle_keeps [OF s]
  have e: "net' = net1" "ws = ws1"
    using assms(1,4) s by (simp_all add: net_step_def Let_def flip: eps_def)
  show "Oscillation \<notin> set ws" using settle_warns [OF s] e by simp
  show "warnedOscillation net' = warnedOscillation net" using k e by simp
  show "layered r net'" using assms(2) k e by (simp add: layered_def)
  show "consistent (pin_drivers hs h (endpoints net')) net'"
    using settle_consistent [OF s] k e by (simp add: MAX_PASSES_def)
qed

text \<open>
  The bound is exact: in a chain of fifteen gates the last pass still changes a level, and the net is
  reported to oscillate though it has settled.
\<close>

definition chain_net :: net where
  "chain_net = \<lparr>nodes = \<lparr>nd_name = [], nd_pull = PULL_UP\<rparr> # replicate 15 \<lparr>nd_name = [], nd_pull = PULL_NONE\<rparr>,
     endpoints = [], gates = map (\<lambda>i. \<lparr>gt_type = G_INV, in_nodes = [i], out_node = i + 1\<rparr>) [0..<15],
     lvls = replicate 16 LVL_X, warnedConflict = replicate 16 False, warnedFloat = replicate 16 False,
     gateOut = replicate 15 LVL_X, nodeGateSources = [] # map (\<lambda>i. [i]) [0..<15], warnedOscillation = False\<rparr>"

lemma chain_reported:
  "case settle MAX_PASSES [] chain_net of (net', osc, ws) \<Rightarrow>
     osc \<and> lvls net' = concat (replicate 8 [LVL_1, LVL_0]) \<and> lvls (pass [] net') = lvls net'"
  by code_simp

section \<open>What a step does, exactly\<close>

text \<open>
  The resolution rule by the set of what drives a node: its output pins that are not high-impedance,
  and the gates with this output.
\<close>

fun strong :: "Drive \<Rightarrow> Level set" where
  "strong DRV_0 = {LVL_0}"
| "strong DRV_1 = {LVL_1}"
| "strong DRV_Z = {}"

definition driven_to :: "'h net_host \<Rightarrow> 'h \<Rightarrow> net \<Rightarrow> nat \<Rightarrow> Level set" where
  "driven_to hs h net i =
     (\<Union>ep \<in> {ep \<in> set (endpoints net). ep_node ep = i \<and> ep_is_output ep \<and> 0 \<le> ep_handle ep}.
        strong (read_output hs h (ep_handle ep))) \<union>
     {gateOut net ! j |j. j < length (gates net) \<and> out_node (gates net ! j) = i}"

definition resolved :: "Level set \<Rightarrow> Pull \<Rightarrow> Level" where
  "resolved D pull =
     (if D = {LVL_0} then LVL_0 else if D = {LVL_1} then LVL_1
      else if D = {} then (case pull of PULL_UP \<Rightarrow> LVL_1 | PULL_DOWN \<Rightarrow> LVL_0 | PULL_NONE \<Rightarrow> LVL_X)
      else LVL_X)"

text \<open>One round in which every node and then every gate is brought up to date.\<close>

definition relax :: "'h net_host \<Rightarrow> 'h \<Rightarrow> net \<Rightarrow> net" where
  "relax hs h net =
     (let lv = map (\<lambda>i. resolved (driven_to hs h net i) (nd_pull (nodes net ! i))) [0..<length (nodes net)]
      in net\<lparr>lvls := lv, gateOut := map (\<lambda>g. evalGate g lv) (gates net)\<rparr>)"

definition settled :: "'h net_host \<Rightarrow> 'h \<Rightarrow> net \<Rightarrow> bool" where
  "settled hs h net \<longleftrightarrow> relax hs h net = net"

text \<open>A net as \<^verbatim>\<open>bind\<close> leaves it: every table has its size and every node knows the gates that drive it.\<close>

definition wired :: "net \<Rightarrow> bool" where
  "wired net \<longleftrightarrow> bound net \<and> nodeGateSources net = map (gate_sources (gates net)) [0..<length (nodes net)]"

lemma bind_wired: "net_bind resolve h net = (h', net', None) \<Longrightarrow> wired net'"
  by (auto simp: net_bind_def Let_def wired_def bound_def resize_def split: prod.splits option.splits)

lemma pin_drives_strong:
  assumes "d \<noteq> DRV_Z"
  shows "pin_drives eps (pin_drivers hs h eps) i d \<longleftrightarrow>
    (\<exists>ep \<in> set eps. ep_node ep = i \<and> ep_is_output ep \<and> 0 \<le> ep_handle ep \<and> read_output hs h (ep_handle ep) = d)"
  by (induction eps) (auto simp: pin_drives_def pin_drivers_def)

lemma gate_drives_iff:
  assumes "wired net" "i < length (nodes net)"
  shows "gate_drives net i v \<longleftrightarrow> v \<in> {gateOut net ! j |j. j < length (gates net) \<and> out_node (gates net ! j) = i}"
  using assms by (auto simp: gate_drives_def wired_def gate_sources_def list_ex_iff)

lemma resolve_level_set:
  assumes "\<And>v. v = LVL_0 \<Longrightarrow> v \<in> D \<longleftrightarrow> has0" "\<And>v. v = LVL_1 \<Longrightarrow> v \<in> D \<longleftrightarrow> has1" "LVL_X \<in> D \<longleftrightarrow> gateX"
  shows "fst (resolve_level has0 has1 gateX pull) = resolved D pull"
proof -
  have D: "D = (if has0 then {LVL_0} else {}) \<union> (if has1 then {LVL_1} else {}) \<union> (if gateX then {LVL_X} else {})"
    using assms by (intro set_eqI, case_tac x) auto
  show ?thesis unfolding D by (cases pull) (auto simp: resolve_level_def resolved_def)
qed

lemma resolve_node_resolved:
  assumes "wired net" "i < length (nodes net)"
  shows "fst (resolve_node (pin_drivers hs h (endpoints net)) net i) = resolved (driven_to hs h net i) (nd_pull (nodes net ! i))"
proof -
  have s: "v \<in> strong d \<longleftrightarrow> (v = LVL_0 \<and> d = DRV_0 \<or> v = LVL_1 \<and> d = DRV_1)" for v d by (cases d) auto
  show ?thesis
    unfolding resolve_node_def
    by (rule resolve_level_set) (auto simp: pin_drives_strong gate_drives_iff [OF assms] driven_to_def s)
qed

definition alike :: "net \<Rightarrow> net \<Rightarrow> bool" where
  "alike n m \<longleftrightarrow> same_wiring n m \<and> lvls n = lvls m \<and> gateOut n = gateOut m"

lemma wired_alike: "wired m \<Longrightarrow> wired (relax hs h m)"
  by (simp add: wired_def bound_def relax_def Let_def)

lemma relax_fields [simp]:
  "endpoints (relax hs h m) = endpoints m" "nodes (relax hs h m) = nodes m" "gates (relax hs h m) = gates m"
  "nodeGateSources (relax hs h m) = nodeGateSources m"
  by (simp_all add: relax_def Let_def)

lemma pass_relax:
  assumes "alike n m" "wired m"
  shows "alike (pass (pin_drivers hs h (endpoints m)) n) (relax hs h m)"
proof -
  let ?drv = "pin_drivers hs h (endpoints m)"
  have r: "resolve_node ?drv n = resolve_node ?drv m"
    by (rule resolve_node_cong) (use assms(1) in \<open>simp_all add: alike_def same_wiring_def\<close>)
  have w: "nodes n = nodes m" "gates n = gates m" using assms(1) by (simp_all add: alike_def same_wiring_def)
  have "lvls (pass ?drv n) = lvls (relax hs h m)"
    using resolve_node_resolved [OF assms(2), where hs = hs and h = h]
    by (simp add: pass_lvls levels_of_def relax_def Let_def r w)
  moreover from this have "gateOut (pass ?drv n) = gateOut (relax hs h m)"
    unfolding pass_gateOut w by (simp add: relax_def Let_def)
  moreover have "same_wiring (pass ?drv n) (relax hs h m)"
    using pass_wiring [of ?drv n] assms(1) by (simp add: alike_def same_wiring_def)
  ultimately show ?thesis by (simp add: alike_def)
qed

lemma passes_relax:
  assumes "wired net"
  shows "alike ((pass (pin_drivers hs h (endpoints net)) ^^ k) net) ((relax hs h ^^ k) net) \<and>
    wired ((relax hs h ^^ k) net) \<and> endpoints ((relax hs h ^^ k) net) = endpoints net"
  using assms
proof (induction k)
  case 0
  then show ?case by (simp add: alike_def same_wiring_def)
next
  case (Suc k)
  then show ?case using pass_relax [of _ "(relax hs h ^^ k) net" hs h] by (simp add: wired_alike)
qed

lemma alike_trans: "alike n m \<Longrightarrow> alike m p \<Longrightarrow> alike n p"
  by (simp add: alike_def same_wiring_def)

lemma alike_sym: "alike n m \<Longrightarrow> alike m n"
  by (simp add: alike_def same_wiring_def)

lemma pass_alike: "alike n m \<Longrightarrow> alike (pass drv n) (pass drv m)"
proof -
  assume a: "alike n m"
  then have "resolve_node drv n = resolve_node drv m"
    by (intro resolve_node_cong) (simp_all add: alike_def same_wiring_def)
  then have l: "lvls (pass drv n) = lvls (pass drv m)" using a by (simp add: pass_lvls levels_of_def alike_def same_wiring_def)
  then have "gateOut (pass drv n) = gateOut (pass drv m)" using a by (simp add: pass_gateOut alike_def same_wiring_def)
  then show ?thesis using l a pass_wiring [of drv n] pass_wiring [of drv m] by (simp add: alike_def same_wiring_def)
qed

lemma pass_fixed: "alike (pass drv n) n \<Longrightarrow> alike ((pass drv ^^ k) n) n"
proof (induction k)
  case (Suc k)
  then show ?case using pass_alike [of "(pass drv ^^ k) n" n drv] alike_trans by simp
qed (simp add: alike_def same_wiring_def)

lemma changed_iff: "fst (snd (settle_pass drv n)) \<longleftrightarrow> \<not> alike (pass drv n) n"
proof -
  obtain n1 ch ws where p: "settle_pass drv n = (n1, ch, ws)" by (metis prod_cases3)
  have "ch \<longleftrightarrow> lvls n1 \<noteq> lvls n \<or> gateOut n1 \<noteq> gateOut n"
    using p by (auto simp: settle_pass_def Let_def)
  then show ?thesis using pass_wiring [of drv n] p by (simp add: alike_def pass_def)
qed

lemma settle_exact:
  assumes "settle (Suc k) drv n = (n', osc, ws)"
  shows "alike n' ((pass drv ^^ Suc k) n) \<and> (osc \<longleftrightarrow> \<not> alike ((pass drv ^^ Suc k) n) ((pass drv ^^ k) n))"
  using assms
proof (induction k arbitrary: n n' osc ws)
  case 0
  have "n' = pass drv n" "osc = (\<not> alike (pass drv n) n)"
    using 0 changed_iff [of drv n] by (simp_all add: pass_def split: prod.splits if_splits)
  then show ?case by (simp add: alike_def same_wiring_def)
next
  case (Suc k)
  obtain n1 ch ws1 where p: "settle_pass drv n = (n1, ch, ws1)" by (metis prod_cases3)
  have n1: "n1 = pass drv n" by (simp add: pass_def p)
  have s: "settle (Suc (Suc k)) drv n = (if \<not> ch then (n1, False, ws1)
      else let (net2, osc, ws') = settle (Suc k) drv n1 in (net2, osc, ws1 @ ws'))"
    unfolding settle.simps(2) [of "Suc k"] p by simp
  show ?case
  proof (cases ch)
    case True
    obtain n2 o2 ws2 where e: "settle (Suc k) drv n1 = (n2, o2, ws2)" by (metis prod_cases3)
    have "n' = n2" "osc = o2" using Suc.prems unfolding s by (simp_all add: True e del: settle.simps)
    then show ?thesis using Suc.IH [OF e] by (simp add: n1 funpow_swap1)
  next
    case False
    then have a: "alike (pass drv n) n" using changed_iff [of drv n] p by simp
    have "n' = pass drv n" "\<not> osc" using Suc.prems unfolding s by (simp_all add: False n1 del: settle.simps)
    moreover have "alike (pass drv n) ((pass drv ^^ Suc (Suc k)) n)"
      using alike_trans [OF a alike_sym [OF pass_fixed [OF a]]] .
    moreover have "alike ((pass drv ^^ Suc (Suc k)) n) ((pass drv ^^ Suc k) n)"
      using alike_trans [OF pass_fixed [OF a] alike_sym [OF pass_fixed [OF a]]] .
    ultimately show ?thesis by simp
  qed
qed

lemma settled_iff:
  "settled hs h n \<longleftrightarrow> lvls (relax hs h n) = lvls n \<and> gateOut (relax hs h n) = gateOut n"
  by (cases n) (auto simp: settled_def relax_def Let_def)

lemma relax_alike:
  assumes "alike n m"
  shows "lvls (relax hs h n) = lvls (relax hs h m) \<and> gateOut (relax hs h n) = gateOut (relax hs h m)"
proof -
  have w: "endpoints n = endpoints m" "nodes n = nodes m" "gates n = gates m" "gateOut n = gateOut m"
    using assms by (simp_all add: alike_def same_wiring_def)
  then have "driven_to hs h n = driven_to hs h m" by (simp add: fun_eq_iff driven_to_def)
  then show ?thesis by (simp add: relax_def Let_def w)
qed

text \<open>
  The state after the step is sixteen rounds on, whether the step left off earlier or not; it reports an
  oscillation when the sixteenth round still changed something.
\<close>

lemma net_step_exact:
  assumes "wired net" "net_step hs h net = (h', net', ws)"
  defines "net0 \<equiv> net\<lparr>endpoints := refresh hs h (endpoints net)\<rparr>"
  defines "osc \<equiv> (relax hs h ^^ 16) net0 \<noteq> (relax hs h ^^ 15) net0"
  shows "lvls net' = lvls ((relax hs h ^^ 16) net0)" "gateOut net' = gateOut ((relax hs h ^^ 16) net0)"
    and "same_wiring net' net0"
    and "Oscillation \<in> set ws \<longleftrightarrow> osc \<and> \<not> warnedOscillation net"
    and "warnedOscillation net' \<longleftrightarrow> warnedOscillation net \<or> osc"
    and "wired net'" "osc \<or> settled hs h net'"
proof -
  define drv where "drv = pin_drivers hs h (endpoints net0)"
  have w0: "wired net0" "bound net" using assms(1) by (simp_all add: net0_def wired_def bound_def)
  obtain net1 o1 ws1 where s: "settle (Suc 15) drv net0 = (net1, o1, ws1)" by (metis prod_cases3)
  have s': "settle MAX_PASSES drv net0 = (net1, o1, ws1)" using s by (simp add: MAX_PASSES_def eval_nat_numeral)
  note x = settle_exact [OF s] and k = settle_keeps [OF s']
  note r = passes_relax [OF w0(1), where hs = hs and h = h, folded drv_def]
  have e: "net' = (if o1 then net1\<lparr>warnedOscillation := True\<rparr> else net1)"
    "ws = ws1 @ (if o1 \<and> \<not> warnedOscillation net1 then [Oscillation] else [])"
    using assms(2) s' w0(2) by (auto simp: net_step_def Let_def net0_def drv_def)
  have r16: "alike ((pass drv ^^ Suc 15) net0) ((relax hs h ^^ 16) net0)"
    "alike ((pass drv ^^ 15) net0) ((relax hs h ^^ 15) net0)"
    using r [where k = 16] r [where k = 15] by (simp_all add: eval_nat_numeral)
  have a: "alike net1 ((relax hs h ^^ 16) net0)" using alike_trans x r16(1) by blast
  have more: "n = m" if "alike n m" "warnedConflict n = warnedConflict m" "warnedFloat n = warnedFloat m"
    "warnedOscillation n = warnedOscillation m" for n m :: net
    using that by (cases n; cases m) (simp add: alike_def same_wiring_def)
  have wk: "warnedConflict ((relax hs h ^^ j) net0) = warnedConflict net0 \<and> warnedFloat ((relax hs h ^^ j) net0) = warnedFloat net0 \<and>
      warnedOscillation ((relax hs h ^^ j) net0) = warnedOscillation net0" for j
    by (induction j) (simp_all add: relax_def Let_def)
  have o1: "o1 = osc"
  proof -
    have "o1 \<longleftrightarrow> \<not> alike ((relax hs h ^^ 16) net0) ((relax hs h ^^ 15) net0)"
      using x r16 alike_trans alike_sym by meson
    then show ?thesis
      using more [of "(relax hs h ^^ 16) net0" "(relax hs h ^^ 15) net0"] wk [of 16] wk [of 15]
      by (auto simp: osc_def alike_def same_wiring_def)
  qed
  have f: "lvls net' = lvls net1" "gateOut net' = gateOut net1" "same_wiring net' net1"
    by (simp_all add: e(1) same_wiring_def)
  show "lvls net' = lvls ((relax hs h ^^ 16) net0)" "gateOut net' = gateOut ((relax hs h ^^ 16) net0)"
    using f a by (simp_all add: alike_def)
  have w1: "same_wiring net1 net0" using k by (simp add: same_wiring_def)
  then show sw: "same_wiring net' net0" using f(3) by (simp add: same_wiring_def)
  have wo: "warnedOscillation net1 = warnedOscillation net" using k by (simp add: net0_def)
  show "Oscillation \<in> set ws \<longleftrightarrow> osc \<and> \<not> warnedOscillation net"
    using settle_warns [OF s'] by (auto simp: e(2) o1 wo)
  show "warnedOscillation net' \<longleftrightarrow> warnedOscillation net \<or> osc" by (simp add: e(1) o1 wo)
  have "bound net1" using k(6) w0 by (simp add: wired_def)
  then show w': "wired net'" using sw w0(1) using f(1,2)
    by (cases o1) (auto simp: wired_def e(1) bound_def same_wiring_def)
  show "osc \<or> settled hs h net'"
  proof (cases osc)
    case False
    define R where "R = (relax hs h ^^ 15) net0"
    have R: "(relax hs h ^^ 16) net0 = R" "relax hs h R = R"
      using False by (simp_all add: osc_def R_def eval_nat_numeral)
    have "alike net' R" using f a R(1) by (simp add: alike_def same_wiring_def)
    from relax_alike [OF this, of hs h] this show ?thesis by (simp add: settled_iff R(2) alike_def)
  qed simp
qed

text \<open>The levels go to the input pins in the order of the wires.\<close>

lemma deliver_fold:
  "deliver hs net eps h = fold (\<lambda>ep h. write_input hs h (ep_handle ep) (lvls net ! ep_node ep))
     (filter (\<lambda>ep. \<not> ep_is_output ep \<and> 0 \<le> ep_handle ep) eps) h"
  by (induction eps arbitrary: h) auto

end
