(* ===== verification/Trace_Main.thy ===== *)
theory Trace_Main
  imports Step Disasm First_Party
begin

unbundle bit_operations_syntax

text \<open>
  The command-line program, \<^verbatim>\<open>src/main.cpp\<close>: the parsers of its option arguments, the loading of flat
  and ELF images, and the trace loop with its interrupts, timers, tracepoints and stop conditions.
\<close>

section \<open>Option arguments\<close>

record ScheduledIRQ =
  irq_code :: int
  irq_atStep :: u64

record PeriodicTimer =
  tm_code :: int
  tm_periodCycles :: u64
  tm_nextTriggerCycle :: u64

record MemoryDump =
  dump_start :: u16
  dump_length :: u16

record Tracepoint =
  tp_pc :: u16
  tp_hits :: u32

definition ParseHex :: "string \<Rightarrow> u16 option" where
  "ParseHex str =
     (case str of
        z # x # _ \<Rightarrow>
          (if z \<noteq> CHR ''0'' \<or> (x \<noteq> CHR ''x'' \<and> x \<noteq> CHR ''X'') then None
           else (let (v, end) = strtoul str 16 in if end \<noteq> [] \<or> v > 0xFFFF then None else Some (of_nat v)))
      | _ \<Rightarrow> None)"

definition c_tolower :: "char \<Rightarrow> char" where
  "c_tolower ch = (if 65 \<le> code_of ch \<and> code_of ch \<le> 90 then char_of (code_of ch + 32) else ch)"

text \<open>The interrupt code of \<^verbatim>\<open>ParseIRQ\<close> and \<^verbatim>\<open>ParseTimer\<close>: a number, or else a name.\<close>

definition irq_code_of :: "string \<Rightarrow> int option" where
  "irq_code_of codeStr =
     (let (numeric, end) = strtol codeStr 10
      in if end = [] then
           (if 0 \<le> numeric \<and> numeric \<le> 7 then Some numeric
            else if numeric = 45 \<or> numeric = 55 \<or> numeric = 65 \<or> numeric = 75 then Some numeric
            else None)
         else
           (let n = map c_tolower codeStr
            in if n = ''trap'' \<or> n = ''rst4.5'' \<or> n = ''4.5'' then Some 45
               else if n = ''rst5.5'' \<or> n = ''5.5'' \<or> n = ''r5.5'' then Some 55
               else if n = ''rst6.5'' \<or> n = ''6.5'' \<or> n = ''r6.5'' then Some 65
               else if n = ''rst7.5'' \<or> n = ''7.5'' \<or> n = ''r7.5'' then Some 75
               else None))"

definition ParseIRQ :: "string \<Rightarrow> ScheduledIRQ option" where
  "ParseIRQ str =
     (case find_char (CHR ''@'') str of
        None \<Rightarrow> None
      | Some (codeStr, rest) \<Rightarrow>
          (case irq_code_of codeStr of
             None \<Rightarrow> None
           | Some code \<Rightarrow>
               (let (step, end) = strtoul rest 10
                in if end \<noteq> [] then None else Some \<lparr>irq_code = code, irq_atStep = of_nat step\<rparr>)))"

definition ParseTimer :: "string \<Rightarrow> PeriodicTimer option" where
  "ParseTimer str =
     (case find_char (CHR '':'') str of
        None \<Rightarrow> None
      | Some (codeStr, rest) \<Rightarrow>
          (case irq_code_of codeStr of
             None \<Rightarrow> None
           | Some code \<Rightarrow>
               (let (period, end) = strtoul rest 10
                in if end \<noteq> [] \<or> period = 0 then None
                   else Some \<lparr>tm_code = code, tm_periodCycles = of_nat period,
                              tm_nextTriggerCycle = of_nat period\<rparr>)))"

definition AddTracepoint :: "Tracepoint list \<Rightarrow> u16 \<Rightarrow> Tracepoint list" where
  "AddTracepoint tps adr =
     (if adr \<in> set (map tp_pc tps) then tps else tps @ [\<lparr>tp_pc = adr, tp_hits = 0\<rparr>])"

definition ParseDump :: "string \<Rightarrow> MemoryDump option" where
  "ParseDump str =
     (case find_char (CHR '':'') str of
        None \<Rightarrow> None
      | Some (a, b) \<Rightarrow>
          (case ParseHex a of
             None \<Rightarrow> None
           | Some start \<Rightarrow>
               (let base = (case b of z # x # _ \<Rightarrow>
                               if z = CHR ''0'' \<and> (x = CHR ''x'' \<or> x = CHR ''X'') then 16 else 10 | _ \<Rightarrow> 10);
                    (len, end) = strtoul b base
                in if end \<noteq> [] \<or> len = 0 \<or> len > 0x10000 then None
                   else Some \<lparr>dump_start = start, dump_length = of_nat len\<rparr>)))"

definition ParseIOInit :: "string \<Rightarrow> (u8 \<times> u8) option" where
  "ParseIOInit str =
     (case find_char (CHR '':'') str of
        None \<Rightarrow> None
      | Some (a, b) \<Rightarrow>
          (case ParseHex a of
             None \<Rightarrow> None
           | Some port16 \<Rightarrow>
               (if port16 > 0xFF then None
                else case ParseHex b of
                    None \<Rightarrow> None
                  | Some val16 \<Rightarrow> if val16 > 0xFF then None else Some (ucast port16, ucast val16))))"

section \<open>Images\<close>

text \<open>\<open>bytes\<close> is the contents of the file, \<open>None\<close> when it cannot be read.\<close>

definition copy_to :: "State8085 \<Rightarrow> int \<Rightarrow> u8 list \<Rightarrow> State8085" where
  "copy_to s adr bytes =
     s\<lparr>memory := (\<lambda>a. let i = uint a - adr in if 0 \<le> i \<and> i < int (length bytes) then bytes ! nat i else memory s a)\<rparr>"

definition LoadBinary :: "State8085 \<Rightarrow> u8 list option \<Rightarrow> u16 \<Rightarrow> State8085 option" where
  "LoadBinary s bytes loadAddr =
     (case bytes of
        None \<Rightarrow> None
      | Some bs \<Rightarrow> (if uint loadAddr + int (length bs) > 0x10000 then None
                    else Some (copy_to s (uint loadAddr) bs)))"

definition le16 :: "u8 list \<Rightarrow> nat \<Rightarrow> nat" where
  "le16 d o' = unat (d ! o') + 256 * unat (d ! (o' + 1))"

definition le32 :: "u8 list \<Rightarrow> nat \<Rightarrow> nat" where
  "le32 d o' = le16 d o' + 65536 * le16 d (o' + 2)"

text \<open>
  The program headers from number \<open>i\<close> on, \<open>n\<close> of them left; a segment that does not fit ends the load
  with an error after the earlier ones have been copied.
\<close>

fun load_segments :: "State8085 \<Rightarrow> u8 list \<Rightarrow> nat \<Rightarrow> nat \<Rightarrow> nat \<Rightarrow> nat \<Rightarrow> State8085 \<times> bool" where
  "load_segments s d phoff phentsize i 0 = (s, True)"
| "load_segments s d phoff phentsize i (Suc n) =
     (let ph = phoff + i * phentsize
      in if ph + 20 > length d then (s, True)
         else
           (let p_type = le32 d ph; p_offset = le32 d (ph + 4); p_paddr = le32 d (ph + 12); p_filesz = le32 d (ph + 16)
            in if p_type \<noteq> 1 then load_segments s d phoff phentsize (i + 1) n
               else if p_offset + p_filesz > length d then (s, False)
               else if p_paddr + p_filesz > 0x10000 then (s, False)
               else load_segments (copy_to s (int p_paddr) (take p_filesz (drop p_offset d)))
                      d phoff phentsize (i + 1) n))"

definition LoadElf :: "State8085 \<Rightarrow> u8 list option \<Rightarrow> State8085 \<times> int" where
  "LoadElf s bytes =
     (case bytes of
        None \<Rightarrow> (s, - 1)
      | Some d \<Rightarrow>
          (if length d < 52 then (s, - 1)
           else (let (s', ok) = load_segments s d (le32 d 28) (le16 d 42) 0 (le16 d 44)
                 in (s', if ok then int (le32 d 24 mod 65536) else - 1))))"

definition IsElfFile :: "u8 list option \<Rightarrow> bool" where
  "IsElfFile bytes = (case bytes of None \<Rightarrow> False | Some d \<Rightarrow> take 4 d = [0x7F, 0x45, 0x4C, 0x46])"

section \<open>Trace records\<close>

definition PackFlags :: "Flags \<Rightarrow> u8" where
  "PackFlags f =
     (if fl_s f then 0x80 else 0) OR (if fl_z f then 0x40 else 0) OR (if fl_ac f then 0x10 else 0) OR
     (if fl_p f then 0x04 else 0) OR 0x02 OR (if fl_cy f then 0x01 else 0)"

definition ExtractMnemonic :: "string \<Rightarrow> nat \<Rightarrow> string" where
  "ExtractMnemonic dis outLen =
     (if outLen = 0 then []
      else take (outLen - 1) (takeWhile (\<lambda>c. c \<noteq> CHR '' '' \<and> c \<noteq> CHR 0x09) (dropWhile c_isspace dis)))"

text \<open>One line of output: what was fetched, and the registers when the line is written.\<close>

record TraceState =
  tr_step :: u64
  tr_pc :: u16
  tr_sp :: u16
  tr_flags :: u8
  tr_clocks :: u64
  tr_mnemonic :: string
  tr_disasm :: string
  tr_regs :: "u8 list"

definition OutputTrace ::
  "u64 \<Rightarrow> u16 \<Rightarrow> u16 \<Rightarrow> u8 \<Rightarrow> u64 \<Rightarrow> string \<Rightarrow> string \<Rightarrow> State8085 \<Rightarrow> TraceState" where
  "OutputTrace step pc0 sp0 flags clocks mnem dis s =
     \<lparr>tr_step = step, tr_pc = pc0, tr_sp = sp0, tr_flags = flags, tr_clocks = clocks, tr_mnemonic = mnem,
      tr_disasm = dis, tr_regs = [reg_a s, reg_b s, reg_c s, reg_d s, reg_e s, reg_h s, reg_l s]\<rparr>"

section \<open>The trace loop\<close>

record Config =
  maxSteps :: u64
  loopDetect :: bool
  stopAddrs :: "u16 list"
  irqs :: "ScheduledIRQ list"
  tracepointMax :: u64
  tracepointStop :: bool
  summary :: bool
  doCoverage :: bool

text \<open>\<open>'p\<close> is the type of plugins, whose callbacks \<open>tbl\<close> gives.\<close>

record 'p loop =
  lp_cpu :: State8085
  lp_stats :: ExecutionStats8085
  lp_rt :: "'p runtime"
  lp_step :: u64
  lastPC :: u16
  lastSP :: u16
  nextIRQ :: nat
  halted :: bool
  timers :: "PeriodicTimer list"
  tracepoints :: "Tracepoint list"
  totalTracepointHits :: u64
  pcHits :: "u16 \<Rightarrow> u64"
  opHits :: "u8 \<Rightarrow> u64"
  lp_out :: "TraceState list"

datatype halt_reason = R_max | R_tracepoint_max | R_tracepoint_stop | R_stop | R_loop | R_hlt

definition start_loop :: "State8085 \<Rightarrow> 'p runtime \<Rightarrow> PeriodicTimer list \<Rightarrow> Tracepoint list \<Rightarrow> 'p loop" where
  "start_loop s rt tms tps =
     \<lparr>lp_cpu = s, lp_stats = \<lparr>total_tstates = 0, min_sp = 0, min_sp_set = False\<rparr>, lp_rt = rt, lp_step = 0,
      lastPC = 0xFFFF, lastSP = 0xFFFF, nextIRQ = 0, halted = False, timers = tms, tracepoints = tps,
      totalTracepointHits = 0, pcHits = (\<lambda>_. 0), opHits = (\<lambda>_. 0), lp_out = []\<rparr>"

text \<open>The interrupts scheduled up to this step; \<open>n\<close> are not yet triggered.\<close>

fun trigger_irqs :: "ScheduledIRQ list \<Rightarrow> u64 \<Rightarrow> nat \<Rightarrow> State8085 \<Rightarrow> nat \<times> State8085" where
  "trigger_irqs [] step k s = (k, s)"
| "trigger_irqs (q # qs) step k s =
     (if irq_atStep q \<le> step then trigger_irqs qs step (k + 1) (fst (triggerInterrupt s (irq_code q) 1))
      else (k, s))"

definition IsStopAddress :: "u16 \<Rightarrow> u16 list \<Rightarrow> bool" where
  "IsStopAddress pc0 addrs \<longleftrightarrow> pc0 \<in> set addrs"

definition HasFutureIRQ :: "Config \<Rightarrow> nat \<Rightarrow> bool" where
  "HasFutureIRQ cfg k \<longleftrightarrow> k < length (irqs cfg)"

text \<open>The hit count of the first tracepoint at \<open>pc0\<close>, and whether there is one.\<close>

fun hit_tracepoint :: "u16 \<Rightarrow> Tracepoint list \<Rightarrow> Tracepoint list \<times> bool" where
  "hit_tracepoint pc0 [] = ([], False)"
| "hit_tracepoint pc0 (tp # tps) =
     (if pc0 = tp_pc tp then (tp\<lparr>tp_hits := tp_hits tp + 1\<rparr> # tps, True)
      else (let (tps', hit) = hit_tracepoint pc0 tps in (tp # tps', hit)))"

text \<open>A timer fires until its next trigger lies beyond the T-states counted: \<open>None\<close> if it never does.\<close>

partial_function (option) fire_timer :: "u64 \<Rightarrow> int \<Rightarrow> u64 \<Rightarrow> u64 \<Rightarrow> State8085 \<Rightarrow> (u64 \<times> State8085) option" where
  "fire_timer clk code period nxt s =
     (if clk \<ge> nxt then fire_timer clk code period (nxt + period) (fst (triggerInterrupt s code 1))
      else Some (nxt, s))"

fun fire_timers :: "u64 \<Rightarrow> PeriodicTimer list \<Rightarrow> State8085 \<Rightarrow> (PeriodicTimer list \<times> State8085) option" where
  "fire_timers clk [] s = Some ([], s)"
| "fire_timers clk (t # ts) s =
     do { (nxt, s1) \<leftarrow> fire_timer clk (tm_code t) (tm_periodCycles t) (tm_nextTriggerCycle t) s;
          (ts', s2) \<leftarrow> fire_timers clk ts s1;
          Some (t\<lparr>tm_nextTriggerCycle := nxt\<rparr> # ts', s2) }"

text \<open>The checks before an instruction: interrupts, disassembly, tracepoints and the reasons to stop.\<close>

definition pendingIrq :: "State8085 \<Rightarrow> bool" where
  "pendingIrq s \<longleftrightarrow> pending_trap s \<noteq> 0 \<or> pending_r5 s \<noteq> 0 \<or> pending_r6 s \<noteq> 0 \<or> r7_latch s \<noteq> 0"

definition visit :: "Config \<Rightarrow> 'p loop \<Rightarrow> string \<Rightarrow> string \<Rightarrow> 'p loop" where
  "visit cfg l mnem dis =
     (let s = lp_cpu l;
          l1 = (if doCoverage cfg
                then l\<lparr>pcHits := (pcHits l)(pc s := pcHits l (pc s) + 1),
                       opHits := (opHits l)(memory s (pc s) := opHits l (memory s (pc s)) + 1)\<rparr>
                else l);
          (tps, hit) = hit_tracepoint (pc s) (tracepoints l1)
      in if hit then
           l1\<lparr>tracepoints := tps, totalTracepointHits := totalTracepointHits l1 + 1,
              lp_out := lp_out l1 @ (if summary cfg then
                [OutputTrace (lp_step l) (pc s) (sp s) (PackFlags (cc s)) (total_tstates (lp_stats l)) mnem dis s]
                else [])\<rparr>
         else l1)"

definition stop_reason :: "Config \<Rightarrow> 'p loop \<Rightarrow> halt_reason option" where
  "stop_reason cfg l =
     (let s = lp_cpu l
      in if tracepointMax cfg > 0 \<and> totalTracepointHits l \<ge> tracepointMax cfg then Some R_tracepoint_max
         else if tracepointStop cfg \<and> tracepoints l \<noteq> [] \<and> (\<forall>tp \<in> set (tracepoints l). tp_hits tp \<noteq> 0)
           then Some R_tracepoint_stop
         else if IsStopAddress (pc s) (stopAddrs cfg) then Some R_stop
         else if loopDetect cfg \<and> \<not> halted l \<and> pc s = lastPC l \<and> sp s = lastSP l \<and> \<not> pendingIrq s \<and>
           \<not> HasFutureIRQ cfg (nextIRQ l) \<and> timers l = [] then Some R_loop
         else None)"

definition before_step :: "Config \<Rightarrow> 'p loop \<Rightarrow> ('p loop \<times> string \<times> string \<times> halt_reason option) option" where
  "before_step cfg l =
     (let (k, s) = trigger_irqs (drop (nextIRQ l) (irqs cfg)) (lp_step l) (nextIRQ l) (lp_cpu l)
      in do { (dis, n) \<leftarrow> Disassemble8085Op (rd s) (uint (pc s)) 80;
           let mnem = ExtractMnemonic dis 16;
           let l' = visit cfg (l\<lparr>lp_cpu := s, nextIRQ := k\<rparr>) mnem dis;
           Some (l', mnem, dis, stop_reason cfg l') })"

text \<open>The instruction: the runtime steps, the processor executes, timers fire, the line is written.\<close>

definition do_step ::
  "('p \<Rightarrow> 'p plugin_api) \<Rightarrow> Config \<Rightarrow> 'p loop \<Rightarrow> string \<Rightarrow> string \<Rightarrow> ('p loop \<times> halt_reason option) option" where
  "do_step tbl cfg l mnem dis =
     (let s = lp_cpu l; clocks = total_tstates (lp_stats l); flags = PackFlags (cc s);
          (rt1, s1) = io_runtime_on_step tbl (lp_rt l) s (lp_step l) clocks
      in do { (s2, st, rt2, h) \<leftarrow> Emulate8085Op (runtime_bus tbl) s1 (lp_stats l) rt1;
           (tms, s3) \<leftarrow> fire_timers (total_tstates st) (timers l) s2;
           let stop = (h \<noteq> 0 \<and> \<not> HasFutureIRQ cfg (nextIRQ l) \<and> tms = []);
           Some (l\<lparr>lp_cpu := s3, lp_stats := st, lp_rt := rt2, lastPC := pc s, lastSP := sp s, halted := (h \<noteq> 0),
                   timers := tms, lp_step := lp_step l + 1,
                   lp_out := lp_out l @ (if \<not> summary cfg
                     then [OutputTrace (lp_step l) (pc s) (sp s) flags clocks mnem dis s3] else [])\<rparr>,
                 if stop then Some R_hlt else None) })"

definition loop_body ::
  "('p \<Rightarrow> 'p plugin_api) \<Rightarrow> Config \<Rightarrow> 'p loop \<Rightarrow> ('p loop \<times> halt_reason option) option" where
  "loop_body tbl cfg l =
     do { (l1, mnem, dis, why) \<leftarrow> before_step cfg l;
          if why \<noteq> None then Some (l1, why) else do_step tbl cfg l1 mnem dis }"

text \<open>
  The loop with \<open>n\<close> iterations of fuel: stopped with a reason, undefined (a read outside the memory
  buffer, or a timer that never stops firing), or still running.
\<close>

datatype 'p outcome = Stopped "'p loop" halt_reason | Undefined | Running "'p loop"

fun trace_loop :: "nat \<Rightarrow> ('p \<Rightarrow> 'p plugin_api) \<Rightarrow> Config \<Rightarrow> 'p loop \<Rightarrow> 'p outcome" where
  "trace_loop 0 tbl cfg l =
     (if maxSteps cfg = 0 \<or> lp_step l < maxSteps cfg then Running l else Stopped l R_max)"
| "trace_loop (Suc n) tbl cfg l =
     (if maxSteps cfg = 0 \<or> lp_step l < maxSteps cfg then
        (case loop_body tbl cfg l of
           None \<Rightarrow> Undefined
         | Some (l', Some why) \<Rightarrow> Stopped l' why
         | Some (l', None) \<Rightarrow> trace_loop n tbl cfg l')
      else Stopped l R_max)"

end
