(* ===== verification/Gdb_Stub.thy ===== *)
theory Gdb_Stub
  imports Trace_Main
begin

unbundle bit_operations_syntax

text \<open>
  The GDB remote stub, \<^verbatim>\<open>src/gdb_stub.cpp\<close>: hexadecimal coding, packets with their checksum, register
  access for the i8085 and for the z80 masquerade, and the packet handlers of \<^verbatim>\<open>gdb_main\<close>.  The
  client's bytes are a list, its connection the operating system's business; a read past the end of a
  packet's NUL is undefined (\<open>None\<close>), as is an exception no handler catches.
\<close>

section \<open>Hexadecimal\<close>

definition hexchars :: string where
  "hexchars = ''0123456789abcdef''"

definition hex_val :: "char \<Rightarrow> int" where
  "hex_val c =
     (if 48 \<le> code_of c \<and> code_of c \<le> 57 then int (code_of c) - 48
      else if 97 \<le> code_of c \<and> code_of c \<le> 102 then int (code_of c) - 97 + 10
      else if 65 \<le> code_of c \<and> code_of c \<le> 70 then int (code_of c) - 65 + 10
      else - 1)"

definition hex_byte :: "u8 \<Rightarrow> string" where
  "hex_byte val = [hexchars ! unat (drop_bit 4 val AND 0xF), hexchars ! unat (val AND 0xF)]"

text \<open>The value of the leading hexadecimal digits, modulo 64 bits; a NUL or any other character ends it.\<close>

fun parse_hex_loop :: "string \<Rightarrow> u64 \<Rightarrow> u64" where
  "parse_hex_loop [] val = val"
| "parse_hex_loop (c # cs) val =
     (if hex_val c < 0 then val else parse_hex_loop cs (push_bit 4 val OR word_of_int (hex_val c)))"

definition parse_hex :: "string \<Rightarrow> u64" where
  "parse_hex s = parse_hex_loop s 0"

definition two_digits :: "char \<Rightarrow> char \<Rightarrow> u8" where
  "two_digits a b = word_of_int (push_bit 4 (hex_val a) OR hex_val b)"

section \<open>Packets\<close>

definition checksum :: "string \<Rightarrow> u8" where
  "checksum data = sum_list (map (\<lambda>c. of_nat (code_of c)) data)"

definition packet_frame :: "string \<Rightarrow> string" where
  "packet_frame data = CHR ''$'' # data @ CHR ''#'' # hex_byte (checksum data)"

text \<open>
  \<^verbatim>\<open>send_packet\<close> writes the frame and waits for one byte; the result says whether that was an ACK.  The
  pair is what is left of the input, and what is written.
\<close>

definition send_packet :: "string \<Rightarrow> string \<Rightarrow> bool \<times> string \<times> string" where
  "send_packet inp data =
     (case inp of [] \<Rightarrow> (False, [], packet_frame data)
      | c # rest \<Rightarrow> (c = CHR ''+'', rest, packet_frame data))"

text \<open>Bytes before a \<^verbatim>\<open>$\<close> are skipped, but a Ctrl-C is a packet of its own.\<close>

fun packet_start :: "string \<Rightarrow> (bool \<times> string) option" where
  "packet_start [] = None"
| "packet_start (c # cs) =
     (if c = CHR ''$'' then Some (True, cs) else if c = CHR 0x03 then Some (False, cs) else packet_start cs)"

text \<open>The packet, the rest of the input and what is written; the empty packet on a closed connection.\<close>

definition recv_packet :: "string \<Rightarrow> string \<times> string \<times> string" where
  "recv_packet inp =
     (case packet_start inp of
        None \<Rightarrow> ([], [], [])
      | Some (False, rest) \<Rightarrow> ([CHR 0x03], rest, [])
      | Some (True, rest) \<Rightarrow>
          (case find_char (CHR ''#'') rest of
             None \<Rightarrow> ([], [], [])
           | Some (data, cks) \<Rightarrow> (if length cks < 2 then ([], [], []) else (data, drop 2 cks, ''+''))))"

section \<open>Registers\<close>

definition pack_flags :: "Flags \<Rightarrow> u8" where
  "pack_flags f =
     (if fl_s f then 0x80 else 0) OR (if fl_z f then 0x40 else 0) OR (if fl_ac f then 0x10 else 0) OR
     (if fl_p f then 0x04 else 0) OR 0x02 OR (if fl_cy f then 0x01 else 0)"

definition unpack_flags :: "State8085 \<Rightarrow> u8 \<Rightarrow> State8085" where
  "unpack_flags s f =
     s\<lparr>cc := (cc s)\<lparr>fl_s := drop_bit 7 f AND 1 \<noteq> 0, fl_z := drop_bit 6 f AND 1 \<noteq> 0,
        fl_ac := drop_bit 4 f AND 1 \<noteq> 0, fl_p := drop_bit 2 f AND 1 \<noteq> 0, fl_cy := f AND 1 \<noteq> 0\<rparr>\<rparr>"

definition NUM_REGS :: int where "NUM_REGS = 15"
definition NUM_Z80_REGS :: int where "NUM_Z80_REGS = 13"

definition reg_size :: "int \<Rightarrow> nat" where
  "reg_size r = (if (0 \<le> r \<and> r \<le> 7) \<or> r = 9 then 1 else if r = 8 \<or> (10 \<le> r \<and> r \<le> 14) then 2 else 0)"

definition read_reg :: "State8085 \<Rightarrow> int \<Rightarrow> u16" where
  "read_reg s r =
     (if r = 0 then ucast (reg_b s) else if r = 1 then ucast (reg_c s) else if r = 2 then ucast (reg_d s)
      else if r = 3 then ucast (reg_e s) else if r = 4 then ucast (reg_h s) else if r = 5 then ucast (reg_l s)
      else if r = 6 then ucast (memory s (HL s)) else if r = 7 then ucast (reg_a s)
      else if r = 8 then sp s else if r = 9 then ucast (pack_flags (cc s))
      else if r = 10 then pair16 (reg_a s) (pack_flags (cc s)) else if r = 11 then pc s
      else if r = 12 then BC s else if r = 13 then DE s else if r = 14 then HL s else 0)"

definition write_reg :: "State8085 \<Rightarrow> int \<Rightarrow> u16 \<Rightarrow> State8085" where
  "write_reg s r v =
     (if r = 0 then s\<lparr>reg_b := lo8 v\<rparr> else if r = 1 then s\<lparr>reg_c := lo8 v\<rparr>
      else if r = 2 then s\<lparr>reg_d := lo8 v\<rparr> else if r = 3 then s\<lparr>reg_e := lo8 v\<rparr>
      else if r = 4 then s\<lparr>reg_h := lo8 v\<rparr> else if r = 5 then s\<lparr>reg_l := lo8 v\<rparr>
      else if r = 6 then s\<lparr>memory := (memory s)(HL s := lo8 v)\<rparr> else if r = 7 then s\<lparr>reg_a := lo8 v\<rparr>
      else if r = 8 then s\<lparr>sp := v\<rparr> else if r = 9 then unpack_flags s (lo8 v)
      else if r = 10 then unpack_flags (s\<lparr>reg_a := hi8 v\<rparr>) (lo8 v) else if r = 11 then s\<lparr>pc := v\<rparr>
      else if r = 12 then s\<lparr>reg_b := hi8 v, reg_c := lo8 v\<rparr>
      else if r = 13 then s\<lparr>reg_d := hi8 v, reg_e := lo8 v\<rparr>
      else if r = 14 then s\<lparr>reg_h := hi8 v, reg_l := lo8 v\<rparr> else s)"

definition z80_read :: "State8085 \<Rightarrow> int \<Rightarrow> u16" where
  "z80_read s r =
     (if r = 0 then pair16 (reg_a s) (pack_flags (cc s)) else if r = 1 then BC s else if r = 2 then DE s
      else if r = 3 then HL s else if r = 4 then sp s else if r = 5 then pc s else 0)"

definition z80_write :: "State8085 \<Rightarrow> int \<Rightarrow> u16 \<Rightarrow> State8085" where
  "z80_write s r v =
     (if r = 0 then unpack_flags (s\<lparr>reg_a := hi8 v\<rparr>) (lo8 v)
      else if r = 1 then s\<lparr>reg_b := hi8 v, reg_c := lo8 v\<rparr>
      else if r = 2 then s\<lparr>reg_d := hi8 v, reg_e := lo8 v\<rparr>
      else if r = 3 then s\<lparr>reg_h := hi8 v, reg_l := lo8 v\<rparr>
      else if r = 4 then s\<lparr>sp := v\<rparr> else if r = 5 then s\<lparr>pc := v\<rparr> else s)"

text \<open>The Boolean is the global \<^verbatim>\<open>g_gdbZ80\<close>.\<close>

definition reg_count :: "bool \<Rightarrow> int" where
  "reg_count z80 = (if z80 then NUM_Z80_REGS else NUM_REGS)"

definition reg_bytes :: "bool \<Rightarrow> int \<Rightarrow> nat" where
  "reg_bytes z80 r = (if z80 then 2 else reg_size r)"

definition reg_get :: "bool \<Rightarrow> State8085 \<Rightarrow> int \<Rightarrow> u16" where
  "reg_get z80 s r = (if z80 then z80_read s r else read_reg s r)"

definition reg_set :: "bool \<Rightarrow> State8085 \<Rightarrow> int \<Rightarrow> u16 \<Rightarrow> State8085" where
  "reg_set z80 s r v = (if z80 then z80_write s r v else write_reg s r v)"

definition hex_reg :: "bool \<Rightarrow> State8085 \<Rightarrow> int \<Rightarrow> string" where
  "hex_reg z80 s r =
     (let val = reg_get z80 s r; sz = reg_bytes z80 r
      in if sz = 1 then hex_byte (lo8 val)
         else if sz = 2 then hex_byte (lo8 val) @ hex_byte (hi8 val) else [])"

section \<open>The session\<close>

text \<open>
  \<open>gd_in\<close> holds the bytes the client will send, \<open>gd_polls\<close> the answers of the polls during a
  continue (no more of them: nothing to read), \<open>gd_out\<close> what was sent, \<open>gd_max_string\<close> the length
  of the longest string the host can allocate: a longer one raises an exception nothing catches.
\<close>

record 'p gdb =
  gd_cpu :: State8085
  gd_stats :: ExecutionStats8085
  gd_rt :: "'p runtime"
  gd_timers :: "PeriodicTimer list"
  breakpoints :: "u16 set"
  gdbStep :: u64
  g_gdbZ80 :: bool
  gd_in :: string
  gd_polls :: "bool list"
  gd_out :: string
  gd_max_string :: nat

text \<open>
  What a handler does: it has a reply, it closes the connection, the process fails (undefined behaviour
  or an uncaught exception), or it is still running when the fuel is spent.
\<close>

datatype 'p handled = Reply "'p gdb" string | Closed "'p gdb" | Failed | Busy "'p gdb"

definition c_str :: "string \<Rightarrow> string" where
  "c_str s = takeWhile (\<lambda>c. c \<noteq> CHR 0x00) s"

text \<open>A character of the buffer of a \<^verbatim>\<open>std::string\<close>, which ends with a NUL.\<close>

definition char_at :: "string \<Rightarrow> nat \<Rightarrow> char option" where
  "char_at s i = (if i < length s then Some (s ! i) else if i = length s then Some CHR 0x00 else None)"

text \<open>\<^verbatim>\<open>(int)parse_hex(...)\<close>: the low 32 bits, signed.\<close>

definition parse_regnum :: "string \<Rightarrow> int" where
  "parse_regnum s = sint (ucast (parse_hex s) :: u32)"

section \<open>Register packets\<close>

definition read_all_regs :: "bool \<Rightarrow> State8085 \<Rightarrow> string" where
  "read_all_regs z80 s = concat (map (hex_reg z80 s) [0..reg_count z80 - 1])"

text \<open>The loop of \<^verbatim>\<open>G\<close> over the registers left; it calls \<^verbatim>\<open>write_reg\<close> whatever the architecture.\<close>

fun write_all_regs :: "bool \<Rightarrow> int list \<Rightarrow> string \<Rightarrow> State8085 \<Rightarrow> State8085" where
  "write_all_regs z80 [] p s = s"
| "write_all_regs z80 (i # is) p s =
     (if reg_bytes z80 i = 1 then
        (case p of
           a # b # p' \<Rightarrow>
             (if hex_val a < 0 \<or> hex_val b < 0 then s
              else write_all_regs z80 is p' (write_reg s i (ucast (two_digits a b))))
         | _ \<Rightarrow> s)
      else if reg_bytes z80 i = 2 then
        (case p of
           a # b # c # d # p' \<Rightarrow>
             (if hex_val a < 0 \<or> hex_val b < 0 \<or> hex_val c < 0 \<or> hex_val d < 0 then s
              else write_all_regs z80 is p' (write_reg s i (pair16 (two_digits c d) (two_digits a b))))
         | _ \<Rightarrow> s)
      else write_all_regs z80 is p s)"

definition handle_p :: "bool \<Rightarrow> State8085 \<Rightarrow> string \<Rightarrow> string" where
  "handle_p z80 s pkt =
     (let regnum = parse_regnum (drop 1 pkt)
      in if 0 \<le> regnum \<and> regnum < reg_count z80 then hex_reg z80 s regnum else ''E00'')"

definition digits_or_0 :: "char \<Rightarrow> char \<Rightarrow> u8" where
  "digits_or_0 a b = (if 0 \<le> hex_val a \<and> 0 \<le> hex_val b then two_digits a b else 0)"

text \<open>The digits after the equals sign are read without a look at where the packet ends.\<close>

definition handle_P :: "bool \<Rightarrow> State8085 \<Rightarrow> string \<Rightarrow> (State8085 \<times> string) option" where
  "handle_P z80 s pkt =
     (case find_char (CHR ''='') (c_str pkt) of
        None \<Rightarrow> Some (s, ''E00'')
      | Some (before_eq, _) \<Rightarrow>
          (let regnum = parse_regnum (drop 1 pkt); vp = length before_eq + 1; sz = reg_bytes z80 regnum
           in do { val \<leftarrow>
                (if sz = 1 then
                   do { a \<leftarrow> char_at pkt vp; b \<leftarrow> char_at pkt (vp + 1); Some (ucast (digits_or_0 a b)) }
                 else if sz = 2 then
                   do { a \<leftarrow> char_at pkt vp; b \<leftarrow> char_at pkt (vp + 1);
                        c \<leftarrow> char_at pkt (vp + 2); d \<leftarrow> char_at pkt (vp + 3);
                        Some (pair16 (digits_or_0 c d) (digits_or_0 a b)) }
                 else Some 0);
              Some (if 0 \<le> regnum \<and> regnum < reg_count z80 then (reg_set z80 s regnum val, ''OK'')
                    else (s, ''E00'')) }))"

section \<open>Memory packets\<close>

definition hex_dump :: "State8085 \<Rightarrow> u16 \<Rightarrow> nat \<Rightarrow> string" where
  "hex_dump s maddr len = concat (map (\<lambda>i. hex_byte (memory s (maddr + of_nat i))) [0..<len])"

definition handle_m :: "nat \<Rightarrow> State8085 \<Rightarrow> string \<Rightarrow> string option" where
  "handle_m max_string s pkt =
     (case find_char (CHR '','') (c_str pkt) of
        None \<Rightarrow> Some ''E00''
      | Some (_, len_str) \<Rightarrow>
          (let maddr = ucast (parse_hex (drop 1 pkt)); len = unat (parse_hex len_str)
           in if 2 * len \<le> max_string then Some (hex_dump s maddr len) else None))"

fun poke_hex :: "string \<Rightarrow> nat \<Rightarrow> u16 \<Rightarrow> State8085 \<Rightarrow> State8085" where
  "poke_hex (a # b # r) len adr s =
     (if len = 0 \<or> hex_val a < 0 \<or> hex_val b < 0 then s
      else poke_hex r (len - 1) (adr + 1) (s\<lparr>memory := (memory s)(adr := two_digits a b)\<rparr>))"
| "poke_hex _ len adr s = s"

definition handle_M :: "State8085 \<Rightarrow> string \<Rightarrow> State8085 \<times> string" where
  "handle_M s pkt =
     (case (find_char (CHR '','') (c_str pkt), find_char (CHR '':'') (c_str pkt)) of
        (Some (_, len_str), Some (_, hexdata)) \<Rightarrow>
          (poke_hex hexdata (unat (parse_hex len_str)) (ucast (parse_hex (drop 1 pkt))) s, ''OK'')
      | _ \<Rightarrow> (s, ''E00''))"

section \<open>Running\<close>

text \<open>
  One instruction, with the timers before and after it: \<^verbatim>\<open>fire_timers\<close> of this file is the loop of the
  command-line program.
\<close>

definition gdb_step :: "('p \<Rightarrow> 'p plugin_api) \<Rightarrow> 'p gdb \<Rightarrow> ('p gdb \<times> int) option" where
  "gdb_step tbl g =
     do { (tms, s) \<leftarrow> fire_timers (total_tstates (gd_stats g)) (gd_timers g) (gd_cpu g);
          let (rt, s) = io_runtime_on_step tbl (gd_rt g) s (gdbStep g) (total_tstates (gd_stats g));
          (s, st, rt, h) \<leftarrow> Emulate8085Op (runtime_bus tbl) s (gd_stats g) rt;
          (tms, s) \<leftarrow> fire_timers (total_tstates st) tms s;
          Some (g\<lparr>gd_cpu := s, gd_stats := st, gd_rt := rt, gd_timers := tms, gdbStep := gdbStep g + 1\<rparr>, h) }"

definition poll_break :: "'p gdb \<Rightarrow> 'p gdb \<times> bool" where
  "poll_break g =
     (case gd_polls g of
        [] \<Rightarrow> (g, False)
      | readable # rest \<Rightarrow>
          (let g = g\<lparr>gd_polls := rest\<rparr>
           in if \<not> readable then (g, False)
              else case gd_in g of [] \<Rightarrow> (g, False) | brk # inp \<Rightarrow> (g\<lparr>gd_in := inp\<rparr>, brk = CHR 0x03)))"

text \<open>The loop of a continue with \<open>n\<close> instructions of fuel.\<close>

fun gdb_continue :: "nat \<Rightarrow> ('p \<Rightarrow> 'p plugin_api) \<Rightarrow> nat \<Rightarrow> 'p gdb \<Rightarrow> 'p handled" where
  "gdb_continue 0 tbl pollCounter g = Busy g"
| "gdb_continue (Suc n) tbl pollCounter g =
     (case gdb_step tbl g of
        None \<Rightarrow> Failed
      | Some (g1, h) \<Rightarrow>
          (if pc (gd_cpu g1) \<in> breakpoints g1 then Reply g1 ''S05''
           else if h \<noteq> 0 \<and> gd_timers g1 = [] then Reply g1 ''S05''
           else if pollCounter + 1 \<ge> 1024 then
             (case poll_break g1 of
                (g2, True) \<Rightarrow> Reply g2 ''S02''
              | (g2, False) \<Rightarrow> gdb_continue n tbl 0 g2)
           else gdb_continue n tbl (pollCounter + 1) g1))"

definition resume_at :: "'p gdb \<Rightarrow> string \<Rightarrow> 'p gdb" where
  "resume_at g pkt =
     (if length pkt > 1 then g\<lparr>gd_cpu := (gd_cpu g)\<lparr>pc := ucast (parse_hex (drop 1 pkt))\<rparr>\<rparr> else g)"

definition handle_s :: "('p \<Rightarrow> 'p plugin_api) \<Rightarrow> 'p gdb \<Rightarrow> string \<Rightarrow> 'p handled" where
  "handle_s tbl g pkt =
     (case gdb_step tbl (resume_at g pkt) of None \<Rightarrow> Failed | Some (g', h) \<Rightarrow> Reply g' ''S05'')"

definition handle_c :: "nat \<Rightarrow> ('p \<Rightarrow> 'p plugin_api) \<Rightarrow> 'p gdb \<Rightarrow> string \<Rightarrow> 'p handled" where
  "handle_c fuel tbl g pkt =
     (let g = resume_at g pkt
      in if pc (gd_cpu g) \<in> breakpoints g then
           (case gdb_step tbl g of None \<Rightarrow> Failed | Some (g1, h) \<Rightarrow> gdb_continue fuel tbl 0 g1)
         else gdb_continue fuel tbl 0 g)"

section \<open>Breakpoints and queries\<close>

definition handle_Z :: "'p gdb \<Rightarrow> string \<Rightarrow> 'p gdb" where
  "handle_Z g pkt =
     (let bpAddr = ucast (parse_hex (drop 3 pkt))
      in if hd pkt = CHR ''Z'' then g\<lparr>breakpoints := insert bpAddr (breakpoints g)\<rparr>
         else g\<lparr>breakpoints := breakpoints g - {bpAddr}\<rparr>)"

definition target_xml :: "string \<Rightarrow> string" where
  "target_xml arch =
     ''<?xml version=\"1.0\"?>'' @ [CHR 0x0A] @ ''<!DOCTYPE target SYSTEM \"gdb-target.dtd\">'' @ [CHR 0x0A] @
     ''<target version=\"1.0\">'' @ [CHR 0x0A] @ ''  <architecture>'' @ arch @ ''</architecture>'' @ [CHR 0x0A] @
     ''</target>'' @ [CHR 0x0A]"

definition targetXML :: string where
  "targetXML = target_xml ''i8085''"

definition targetXMLz80 :: string where
  "targetXMLz80 = target_xml ''z80''"

definition xml_prefix :: string where
  "xml_prefix = ''qXfer:features:read:target.xml:''"

definition handle_xml :: "bool \<Rightarrow> string \<Rightarrow> string" where
  "handle_xml z80 pkt =
     (let args = drop 31 pkt
      in case find_char (CHR '','') (c_str args) of
           None \<Rightarrow> ''E00''
         | Some (_, len_str) \<Rightarrow>
             (let offset = unat (parse_hex args); len = unat (parse_hex len_str);
                  xml = (if z80 then targetXMLz80 else targetXML)
              in if offset \<ge> length xml then ''l''
                 else (let remaining = length xml - offset; chunk = (if remaining < len then remaining else len)
                       in (if offset + chunk \<ge> length xml then ''l'' else ''m'') @ take chunk (drop offset xml))))"

section \<open>The dispatch and the loop\<close>

definition send_reply :: "string \<Rightarrow> 'p gdb \<Rightarrow> 'p gdb" where
  "send_reply data g =
     (let (ack, inp, out) = send_packet (gd_in g) data in g\<lparr>gd_in := inp, gd_out := gd_out g @ out\<rparr>)"

definition gdb_handle :: "nat \<Rightarrow> ('p \<Rightarrow> 'p plugin_api) \<Rightarrow> 'p gdb \<Rightarrow> string \<Rightarrow> 'p handled" where
  "gdb_handle fuel tbl g pkt =
     (let k = hd pkt; z80 = g_gdbZ80 g; s = gd_cpu g
      in if k = CHR 0x03 \<or> k = CHR ''?'' then Reply g ''S05''
         else if k = CHR ''g'' then Reply g (read_all_regs z80 s)
         else if k = CHR ''G'' then
           Reply (g\<lparr>gd_cpu := write_all_regs z80 [0..reg_count z80 - 1] (c_str (drop 1 pkt)) s\<rparr>) ''OK''
         else if k = CHR ''p'' then Reply g (handle_p z80 s pkt)
         else if k = CHR ''P'' then
           (case handle_P z80 s pkt of None \<Rightarrow> Failed | Some (s', r) \<Rightarrow> Reply (g\<lparr>gd_cpu := s'\<rparr>) r)
         else if k = CHR ''m'' then
           (case handle_m (gd_max_string g) s pkt of None \<Rightarrow> Failed | Some r \<Rightarrow> Reply g r)
         else if k = CHR ''M'' then (let (s', r) = handle_M s pkt in Reply (g\<lparr>gd_cpu := s'\<rparr>) r)
         else if k = CHR ''s'' then handle_s tbl g pkt
         else if k = CHR ''c'' then handle_c fuel tbl g pkt
         else if (k = CHR ''Z'' \<or> k = CHR ''z'') \<and> length pkt \<ge> 3 \<and> pkt ! 1 = CHR ''0'' \<and> pkt ! 2 = CHR '',''
           then Reply (handle_Z g pkt) ''OK''
         else if starts_with ''qSupported'' pkt then Reply g ''PacketSize=4096;qXfer:features:read+''
         else if starts_with xml_prefix pkt then Reply g (handle_xml z80 pkt)
         else if pkt = ''qfThreadInfo'' then Reply g ''m1''
         else if pkt = ''qsThreadInfo'' then Reply g ''l''
         else if pkt = ''qC'' then Reply g ''QC1''
         else if pkt = ''qAttached'' then Reply g ''1''
         else if k = CHR ''H'' then Reply g ''OK''
         else if k = CHR ''k'' then Closed g
         else if k = CHR ''D'' then Closed (send_reply ''OK'' g)
         else Reply g [])"

text \<open>\<open>n\<close> bounds the packets, \<open>fuel\<close> the instructions of each continue.\<close>

fun gdb_main :: "nat \<Rightarrow> nat \<Rightarrow> ('p \<Rightarrow> 'p plugin_api) \<Rightarrow> 'p gdb \<Rightarrow> 'p handled" where
  "gdb_main 0 fuel tbl g = Busy g"
| "gdb_main (Suc n) fuel tbl g =
     (let (pkt, inp, ack) = recv_packet (gd_in g); g1 = g\<lparr>gd_in := inp, gd_out := gd_out g @ ack\<rparr>
      in if pkt = [] then Closed g1
         else case gdb_handle fuel tbl g1 pkt of
             Reply g2 r \<Rightarrow> gdb_main n fuel tbl (send_reply r g2)
           | other \<Rightarrow> other)"

end
