(* ===== verification/Trace_Laws.thy ===== *)
theory Trace_Laws
  imports Trace_Main Stack_Laws
begin

text \<open>
  Laws of the trace loop: write protection over a whole run, the bound that a step limit sets, and timers.
\<close>

section \<open>Interrupt lines\<close>

lemma triggerInterrupt_keeps [simp]:
  "memory (fst (triggerInterrupt s c b)) = memory s" "pc (fst (triggerInterrupt s c b)) = pc s"
  "sp (fst (triggerInterrupt s c b)) = sp s" "hlt_enable (fst (triggerInterrupt s c b)) = hlt_enable s"
  by (simp_all add: triggerInterrupt_def Let_def)

lemma trigger_irqs_keeps:
  "trigger_irqs qs n k s = (k', s') \<Longrightarrow> memory s' = memory s \<and> pc s' = pc s \<and> sp s' = sp s"
  by (induction qs arbitrary: k s) (auto split: if_splits)

section \<open>Timers\<close>

text \<open>
  With a positive period and no wrap-around of the 64-bit count, firing ends; the next trigger is the
  first one of its arithmetic progression beyond the count.
\<close>

lemma fire_timer_ends:
  assumes "0 < period" "unat clk + unat period < 2 ^ 64"
  shows "\<exists>k s'. fire_timer clk code period nxt s = Some (nxt + of_nat k * period, s') \<and>
    clk < nxt + of_nat k * period \<and> (nxt \<le> clk \<longrightarrow> 0 < k \<and> nxt + of_nat k * period \<le> clk + period) \<and>
    (\<not> nxt \<le> clk \<longrightarrow> k = 0)"
proof (induction "unat clk + unat period - unat nxt" arbitrary: nxt s rule: less_induct)
  case less
  show ?case
  proof (cases "nxt \<le> clk")
    case False
    then show ?thesis
      by (intro exI [of _ 0] exI [of _ s]) (subst fire_timer.simps, auto)
  next
    case True
    have le: "unat nxt \<le> unat clk" using True by (simp add: word_le_nat_alt)
    have p: "0 < unat period" using assms(1) by (simp add: word_less_nat_alt)
    have sum: "unat (nxt + period) = unat nxt + unat period"
      using le assms(2) by (subst unat_add_lem [THEN iffD1]) simp_all
    have m: "unat clk + unat period - unat (nxt + period) < unat clk + unat period - unat nxt"
      using sum p le by simp
    obtain k s' where IH: "fire_timer clk code period (nxt + period) (fst (triggerInterrupt s code 1)) =
        Some (nxt + period + of_nat k * period, s')"
      "clk < nxt + period + of_nat k * period"
      "nxt + period \<le> clk \<longrightarrow> 0 < k \<and> nxt + period + of_nat k * period \<le> clk + period"
      "\<not> nxt + period \<le> clk \<longrightarrow> k = 0"
      using less.hyps [OF m, of "fst (triggerInterrupt s code 1)"] by blast
    have e: "nxt + of_nat (Suc k) * period = nxt + period + of_nat k * period" by (simp add: algebra_simps)
    have "nxt + period + of_nat k * period \<le> clk + period"
    proof (cases "nxt + period \<le> clk")
      case False
      then have "k = 0" using IH(4) by simp
      moreover have "unat (clk + period) = unat clk + unat period"
        using assms(2) by (subst unat_add_lem [THEN iffD1]) simp_all
      ultimately show ?thesis using sum le by (simp add: word_le_nat_alt)
    qed (use IH(3) in simp)
    then show ?thesis
      using True IH(1,2)
      by (intro exI [of _ "Suc k"] exI [of _ s']) (subst fire_timer.simps, simp only: e, simp)
  qed
qed

definition same_memory :: "State8085 \<Rightarrow> State8085 \<Rightarrow> bool" where
  "same_memory s s' \<longleftrightarrow> memory s' = memory s \<and> pc s' = pc s \<and> sp s' = sp s"

lemma fire_timer_same:
  assumes "fire_timer clk code period nxt s = Some r"
  shows "same_memory s (snd r)"
proof (rule fire_timer.raw_induct [where P = "\<lambda>clk code period nxt s r. same_memory s (snd r)", OF _ assms])
  fix fire clk code period nxt and s :: State8085 and r
  assume IH: "\<And>clk code period nxt s r. fire clk code period nxt s = Some r \<Longrightarrow> same_memory s (snd r)"
    and "(if nxt \<le> clk then fire clk code period (nxt + period) (fst (triggerInterrupt s code 1)) else Some (nxt, s)) = Some r"
  then show "same_memory s (snd r)"
    by (cases "nxt \<le> clk") (auto simp: same_memory_def dest!: IH)
qed

lemma fire_timers_same:
  "fire_timers clk ts s = Some (ts', s') \<Longrightarrow> same_memory s s'"
proof (induction ts arbitrary: s ts')
  case (Cons t ts)
  then show ?case
    by (auto split: Option.bind_splits prod.splits dest!: fire_timer_same Cons.IH simp: same_memory_def)
qed (simp add: same_memory_def)

section \<open>Write protection over a run\<close>

lemmas step_protected' = fp.rt.step_protected [unfolded guarded_eq]
lemmas on_step_keeps' = fp.on_step_keeps [unfolded guarded_eq]

lemma do_step_cases:
  assumes "do_step tbl cfg l mnem dis = Some (l', why)"
  obtains rt1 s1 s2 st rt2 h tms s3
  where "io_runtime_on_step tbl (lp_rt l) (lp_cpu l) (lp_step l) (total_tstates (lp_stats l)) = (rt1, s1)"
    and "Emulate8085Op (runtime_bus tbl) s1 (lp_stats l) rt1 = Some (s2, st, rt2, h)"
    and "fire_timers (total_tstates st) (timers l) s2 = Some (tms, s3)"
    and "lp_cpu l' = s3" "lp_rt l' = rt2" "lp_stats l' = st" "timers l' = tms" "lp_step l' = lp_step l + 1"
    and "lastPC l' = pc (lp_cpu l)" "lastSP l' = sp (lp_cpu l)" "halted l' = (h \<noteq> 0)"
    and "why = (if h \<noteq> 0 \<and> \<not> HasFutureIRQ cfg (nextIRQ l) \<and> tms = [] then Some R_hlt else None)"
  using assms unfolding do_step_def Let_def
  by (auto split: prod.splits Option.bind_splits)

lemma do_step_protected:
  assumes "do_step api_of cfg l mnem dis = Some (l', why)"
  shows "write_protected (lp_rt l) a \<Longrightarrow> memory (lp_cpu l') a = memory (lp_cpu l) a"
    and "write_protected (lp_rt l') = write_protected (lp_rt l)"
proof -
  obtain rt1 s1 s2 st rt2 h tms s3
    where on: "io_runtime_on_step api_of (lp_rt l) (lp_cpu l) (lp_step l) (total_tstates (lp_stats l)) = (rt1, s1)"
    and x: "Emulate8085Op (runtime_bus api_of) s1 (lp_stats l) rt1 = Some (s2, st, rt2, h)"
    and f: "fire_timers (total_tstates st) (timers l) s2 = Some (tms, s3)"
    and l': "lp_cpu l' = s3" "lp_rt l' = rt2"
    by (rule do_step_cases [OF assms])
  note k = on_step_keeps' [OF on] step_protected' [OF x] fire_timers_same [OF f, unfolded same_memory_def]
  show "write_protected (lp_rt l') = write_protected (lp_rt l)" using k l' by simp
  show "memory (lp_cpu l') a = memory (lp_cpu l) a" if "write_protected (lp_rt l) a"
    using k l' that lines_only_fields by (metis (no_types))
qed

lemma visit_keeps [simp]:
  "lp_cpu (visit cfg l mnem dis) = lp_cpu l" "lp_rt (visit cfg l mnem dis) = lp_rt l"
  "lp_step (visit cfg l mnem dis) = lp_step l" "timers (visit cfg l mnem dis) = timers l"
  "lastPC (visit cfg l mnem dis) = lastPC l" "lastSP (visit cfg l mnem dis) = lastSP l"
  "halted (visit cfg l mnem dis) = halted l" "lp_stats (visit cfg l mnem dis) = lp_stats l"
  "nextIRQ (visit cfg l mnem dis) = nextIRQ l"
  by (simp_all add: visit_def Let_def split_beta)

lemma before_step_keeps:
  assumes "before_step cfg l = Some (l', mnem, dis, why)"
  shows "memory (lp_cpu l') = memory (lp_cpu l)" "lp_rt l' = lp_rt l" "lp_step l' = lp_step l"
    "pc (lp_cpu l') = pc (lp_cpu l)" "sp (lp_cpu l') = sp (lp_cpu l)" "timers l' = timers l"
    "lastPC l' = lastPC l" "lastSP l' = lastSP l" "halted l' = halted l" "lp_stats l' = lp_stats l"
    "why = stop_reason cfg l'"
proof -
  obtain k s where q: "trigger_irqs (drop (nextIRQ l) (irqs cfg)) (lp_step l) (nextIRQ l) (lp_cpu l) = (k, s)"
    by fastforce
  from assms obtain d n where l': "l' = visit cfg (l\<lparr>lp_cpu := s, nextIRQ := k\<rparr>) (ExtractMnemonic d 16) d"
    and w: "why = stop_reason cfg l'"
    unfolding before_step_def q Let_def prod.case by (auto split: Option.bind_splits)
  show "memory (lp_cpu l') = memory (lp_cpu l)" "lp_rt l' = lp_rt l" "lp_step l' = lp_step l"
    "pc (lp_cpu l') = pc (lp_cpu l)" "sp (lp_cpu l') = sp (lp_cpu l)" "timers l' = timers l"
    "lastPC l' = lastPC l" "lastSP l' = lastSP l" "halted l' = halted l" "lp_stats l' = lp_stats l"
    by (simp_all add: l' trigger_irqs_keeps [OF q])
  show "why = stop_reason cfg l'" by (rule w)
qed

lemma loop_body_cases:
  assumes "loop_body tbl cfg l = Some (l', why)"
  obtains (stop) mnem dis r where "before_step cfg l = Some (l', mnem, dis, Some r)" "why = Some r"
  | (step) l1 mnem dis where "before_step cfg l = Some (l1, mnem, dis, None)" "do_step tbl cfg l1 mnem dis = Some (l', why)"
  using assms unfolding loop_body_def by (auto split: Option.bind_splits prod.splits if_splits)

lemma loop_body_protected:
  assumes "loop_body api_of cfg l = Some (l', why)"
  shows "(write_protected (lp_rt l) a \<longrightarrow> memory (lp_cpu l') a = memory (lp_cpu l) a) \<and>
    write_protected (lp_rt l') = write_protected (lp_rt l)"
  using assms
proof (cases rule: loop_body_cases)
  case stop
  then show ?thesis using before_step_keeps [OF stop(1)] by simp
next
  case step
  then show ?thesis using before_step_keeps [OF step(1)] do_step_protected [OF step(2)] by simp
qed

text \<open>The loop an outcome ends in.\<close>

fun outcome_loop :: "'p outcome \<Rightarrow> 'p loop option" where
  "outcome_loop (Stopped l r) = Some l"
| "outcome_loop Undefined = None"
| "outcome_loop (Running l) = Some l"

lemma trace_loop_invariant:
  assumes "\<And>l l' why. P l \<Longrightarrow> loop_body tbl cfg l = Some (l', why) \<Longrightarrow> P l'"
    and "P l" "outcome_loop (trace_loop n tbl cfg l) = Some l'"
  shows "P l'"
  using assms(2,3)
  by (induction n arbitrary: l) (auto split: if_splits option.splits prod.splits intro: assms(1))

lemma trace_loop_protected:
  assumes "write_protected (lp_rt l) a" "outcome_loop (trace_loop n api_of cfg l) = Some l'"
  shows "memory (lp_cpu l') a = memory (lp_cpu l) a"
proof -
  have "memory (lp_cpu l') a = memory (lp_cpu l) a \<and> write_protected (lp_rt l') = write_protected (lp_rt l)"
  proof (rule trace_loop_invariant [OF _ _ assms(2)])
    show "memory (lp_cpu k') a = memory (lp_cpu l) a \<and> write_protected (lp_rt k') = write_protected (lp_rt l)"
      if "memory (lp_cpu k) a = memory (lp_cpu l) a \<and> write_protected (lp_rt k) = write_protected (lp_rt l)"
        "loop_body api_of cfg k = Some (k', why)" for k k' why
      using that assms(1) loop_body_protected [OF that(2)] by simp
  qed simp
  then show ?thesis ..
qed

section \<open>Termination with a step limit\<close>

lemma loop_body_step:
  assumes "loop_body tbl cfg l = Some (l', None)"
  shows "lp_step l' = lp_step l + 1"
  using assms
proof (cases rule: loop_body_cases)
  case (step l1 mnem dis)
  show ?thesis
    by (rule do_step_cases [OF step(2)]) (simp add: before_step_keeps(3) [OF step(1)])
qed simp

lemma trace_loop_bounded:
  assumes "maxSteps cfg \<noteq> 0" "unat (maxSteps cfg) - unat (lp_step l) \<le> n"
  shows "trace_loop n tbl cfg l \<noteq> Running l'"
  using assms(2)
proof (induction n arbitrary: l)
  case 0
  then show ?case using assms(1) by (simp add: word_less_nat_alt)
next
  case (Suc n)
  show ?case
  proof (cases "lp_step l < maxSteps cfg \<and> (\<exists>l1. loop_body tbl cfg l = Some (l1, None))")
    case False
    then show ?thesis using assms(1) by (auto split: option.splits)
  next
    case True
    then obtain l1 where lt: "lp_step l < maxSteps cfg" and b: "loop_body tbl cfg l = Some (l1, None)" by blast
    have "lp_step l1 = lp_step l + 1" by (rule loop_body_step [OF b])
    moreover have "unat (lp_step l + 1) = unat (lp_step l) + 1"
      proof -
      have "unat (lp_step l) + 1 < 2 ^ 64"
        using lt unsigned_less [where 'a = nat, of "maxSteps cfg"] by (simp add: word_less_nat_alt)
      then show ?thesis by (simp add: unat_word_ariths)
    qed
    ultimately have "unat (maxSteps cfg) - unat (lp_step l1) \<le> n" using Suc.prems by simp
    from Suc.IH [OF this] show ?thesis using b by simp
  qed
qed

text \<open>More fuel changes nothing once the loop has ended.\<close>

lemma trace_loop_more_fuel:
  assumes "\<And>l'. trace_loop n tbl cfg l \<noteq> Running l'"
  shows "trace_loop (n + k) tbl cfg l = trace_loop n tbl cfg l"
  using assms
proof (induction n arbitrary: l)
  case 0
  then have "\<not> (maxSteps cfg = 0 \<or> lp_step l < maxSteps cfg)"
    using 0 [of l] by (metis trace_loop.simps(1))
  then show ?case by (cases k) simp_all
next
  case (Suc n)
  show ?case
  proof (cases "(maxSteps cfg = 0 \<or> lp_step l < maxSteps cfg) \<and> (\<exists>l1. loop_body tbl cfg l = Some (l1, None))")
    case True
    then obtain l1 where "maxSteps cfg = 0 \<or> lp_step l < maxSteps cfg" "loop_body tbl cfg l = Some (l1, None)" by blast
    then show ?thesis using Suc.IH [of l1] Suc.prems by simp
  next
    case False
    then show ?thesis by (auto split: option.splits)
  qed
qed

end
