(* ===== verification/Gdb_Laws.thy ===== *)
theory Gdb_Laws
  imports Gdb_Stub Trace_Laws
begin

unbundle bit_operations_syntax

text \<open>
  Laws of the GDB stub: its hexadecimal texts are read back, packets survive the wire, registers and
  memory round trips, what a continue stops at, and what running leaves of protected memory.
\<close>

section \<open>Hexadecimal\<close>

lemma hexchars_val:
  assumes "n < 16"
  shows "hex_val (hexchars ! n) = int n" "hexchars ! n \<in> set hexchars"
proof -
  have "\<forall>k \<in> set [0..<16]. hex_val (hexchars ! k) = int k"
    by (simp add: upt_rec hexchars_def hex_val_def code_of_def)
  then show "hex_val (hexchars ! n) = int n" using assms by simp
  show "hexchars ! n \<in> set hexchars" using assms by (intro nth_mem) (simp add: hexchars_def)
qed

lemma nibble_less: "unat (v AND 0xF :: u8) < 16"
proof -
  have "uint (v AND 0xF) = uint v mod 16"
    using take_bit_eq_mod [of 4 "uint v"] by (simp add: uint_and take_bit_eq_mask mask_eq_exp_minus_1)
  then show ?thesis by (simp add: unat_eq_nat_uint nat_less_iff)
qed

lemma nibbles_join: "word_of_int (push_bit 4 (uint (drop_bit 4 v AND 0xF)) OR uint (v AND 0xF)) = (v :: u8)"
proof -
  have m: "(0xF :: u8) = mask 4" by (simp add: mask_eq_exp_minus_1)
  have "push_bit 4 (drop_bit 4 v AND 0xF) OR (v AND 0xF) = v"
    unfolding m by (rule bit_word_eqI) (auto simp: bit_simps)
  then show ?thesis by (simp add: of_int_or_eq of_int_push_bit)
qed

lemma hex_byte_digits:
  obtains a b where "hex_byte v = [a, b]" "0 \<le> hex_val a" "0 \<le> hex_val b" "two_digits a b = v"
    "a \<in> set hexchars" "b \<in> set hexchars"
proof
  let ?h = "unat (drop_bit 4 v AND 0xF)" and ?l = "unat (v AND 0xF)"
  note h = hexchars_val [OF nibble_less, of "drop_bit 4 v"] and l = hexchars_val [OF nibble_less, of v]
  show "hex_byte v = [hexchars ! ?h, hexchars ! ?l]" by (simp add: hex_byte_def)
  show "0 \<le> hex_val (hexchars ! ?h)" "0 \<le> hex_val (hexchars ! ?l)" by (simp_all add: h l)
  show "hexchars ! ?h \<in> set hexchars" "hexchars ! ?l \<in> set hexchars" by (rule h l)+
  have i: "int (unat x) = uint x" for x :: u8 by simp
  show "two_digits (hexchars ! ?h) (hexchars ! ?l) = v"
    unfolding two_digits_def h l i by (rule nibbles_join)
qed

lemma digits_or_0_eq: "0 \<le> hex_val a \<Longrightarrow> 0 \<le> hex_val b \<Longrightarrow> digits_or_0 a b = two_digits a b"
  by (simp add: digits_or_0_def)

section \<open>Packets on the wire\<close>

text \<open>What the stub receives from a frame, whatever stands before it that is neither a \<^verbatim>\<open>$\<close> nor a Ctrl-C.\<close>

lemma packet_start_skip:
  assumes "CHR ''$'' \<notin> set junk" "CHR 0x03 \<notin> set junk"
  shows "packet_start (junk @ CHR ''$'' # rest) = Some (True, rest)"
  using assms by (induction junk) auto

lemma recv_frame:
  assumes "CHR ''#'' \<notin> set data" "CHR ''$'' \<notin> set junk" "CHR 0x03 \<notin> set junk"
  shows "recv_packet (junk @ packet_frame data @ rest) = (data, rest, ''+'')"
proof -
  obtain a b where "hex_byte (checksum data) = [a, b]" by (rule hex_byte_digits)
  then have f: "packet_frame data @ rest = CHR ''$'' # data @ CHR ''#'' # [a, b] @ rest"
    by (simp add: packet_frame_def)
  show ?thesis
    unfolding recv_packet_def f packet_start_skip [OF assms(2,3)]
    by (simp add: find_char_first [OF assms(1)])
qed

text \<open>A text without the characters that structure a packet.\<close>

definition plain_text :: "string \<Rightarrow> bool" where
  "plain_text r \<longleftrightarrow> CHR ''#'' \<notin> set r \<and> CHR ''$'' \<notin> set r \<and> CHR ''}'' \<notin> set r \<and> CHR ''*'' \<notin> set r"

lemma plain_append [simp]: "plain_text (a @ b) \<longleftrightarrow> plain_text a \<and> plain_text b"
  by (auto simp: plain_text_def)

lemma plain_concat: "(\<And>x. x \<in> set xs \<Longrightarrow> plain_text x) \<Longrightarrow> plain_text (concat xs)"
  by (auto simp: plain_text_def)

lemma plain_take_drop: "plain_text r \<Longrightarrow> plain_text (take n (drop k r))"
  by (auto simp: plain_text_def dest!: in_set_takeD in_set_dropD)

lemma plain_drop: "plain_text r \<Longrightarrow> plain_text (drop k r)"
  by (auto simp: plain_text_def dest!: in_set_dropD)

lemma plain_hex_byte [simp]: "plain_text (hex_byte v)"
proof -
  obtain a b where "hex_byte v = [a, b]" "a \<in> set hexchars" "b \<in> set hexchars" by (rule hex_byte_digits)
  then show ?thesis by (auto simp: plain_text_def hexchars_def)
qed

lemma plain_hex_reg [simp]: "plain_text (hex_reg z80 s r)"
  by (auto simp: hex_reg_def Let_def) (simp add: plain_text_def)

lemma plain_xml [simp]: "plain_text targetXML" "plain_text targetXMLz80"
  by (simp_all add: plain_text_def targetXML_def targetXMLz80_def target_xml_def)

lemma plain_handle_p: "plain_text (handle_p z80 s pkt)"
  by (simp add: handle_p_def Let_def plain_text_def [of "''E00''"])

lemma plain_handle_m: "handle_m cap s pkt = Some r \<Longrightarrow> plain_text r"
  by (auto simp: handle_m_def Let_def hex_dump_def plain_text_def [of "''E00''"] intro!: plain_concat
      split: option.splits if_splits)

lemma plain_handle_xml: "plain_text (handle_xml z80 pkt)"
  by (auto simp: handle_xml_def Let_def plain_text_def [of "''E00''"] plain_text_def [of "''l''"]
      plain_text_def [of "''m''"] plain_take_drop plain_drop
      split: option.splits)

lemma plain_handle_PM:
  "handle_P z80 s pkt = Some (s', r) \<Longrightarrow> plain_text r" "handle_M s pkt = (s', r) \<Longrightarrow> plain_text r"
  by (auto simp: handle_P_def handle_M_def Let_def plain_text_def
      split: option.splits if_splits Option.bind_splits)

lemma plain_run:
  "gdb_continue n tbl k g = Reply g' r \<Longrightarrow> plain_text r"
  "handle_s tbl g pkt = Reply g' r \<Longrightarrow> plain_text r"
proof -
  show "gdb_continue n tbl k g = Reply g' r \<Longrightarrow> plain_text r"
    by (induction n tbl k g rule: gdb_continue.induct)
      (auto simp: plain_text_def split: option.splits if_splits prod.splits bool.splits)
qed (auto simp: handle_s_def plain_text_def split: option.splits)

text \<open>The dispatch is a chain of conditions: each branch by itself.\<close>

definition replies_plain :: "'p handled \<Rightarrow> bool" where
  "replies_plain h \<longleftrightarrow> (\<forall>g r. h = Reply g r \<longrightarrow> plain_text r)"

lemma replies_if: "replies_plain a \<Longrightarrow> replies_plain b \<Longrightarrow> replies_plain (if c then a else b)"
  by simp

lemma replies_Reply: "plain_text r \<Longrightarrow> replies_plain (Reply g r)"
  by (simp add: replies_plain_def)

lemma replies_handlers:
  "replies_plain (case handle_P z80 s pkt of None \<Rightarrow> Failed | Some (s', r) \<Rightarrow> Reply (g\<lparr>gd_cpu := s'\<rparr>) r)"
  "replies_plain (case handle_m cap s pkt of None \<Rightarrow> Failed | Some r \<Rightarrow> Reply g r)"
  "replies_plain (case handle_M s pkt of (s', r) \<Rightarrow> Reply (g\<lparr>gd_cpu := s'\<rparr>) r)"
  "replies_plain (handle_s tbl g pkt)" "replies_plain (handle_c fuel tbl g pkt)" "replies_plain (Closed g)"
  using plain_handle_PM plain_handle_m plain_run
  by (auto simp: replies_plain_def handle_c_def Let_def split: option.splits prod.splits if_splits)

lemma gdb_reply_plain:
  assumes "gdb_handle fuel tbl g pkt = Reply g' r"
  shows "plain_text r"
proof -
  have regs: "plain_text (read_all_regs z80 s)" for z80 s
    unfolding read_all_regs_def by (intro plain_concat) auto
  have texts: "plain_text ''S05''" "plain_text ''OK''" "plain_text ''PacketSize=4096;qXfer:features:read+''"
    "plain_text ''m1''" "plain_text ''l''" "plain_text ''QC1''" "plain_text ''1''" "plain_text []"
    by (simp_all add: plain_text_def)
  have "replies_plain (gdb_handle fuel tbl g pkt)"
    unfolding gdb_handle_def Let_def
    by (intro replies_if replies_handlers replies_Reply texts regs plain_handle_p plain_handle_xml)
  then show ?thesis using assms by (simp add: replies_plain_def)
qed

section \<open>Registers\<close>

lemma unpack_pack_flags:
  "unpack_flags s (pack_flags f) =
     s\<lparr>cc := (cc s)\<lparr>fl_s := fl_s f, fl_z := fl_z f, fl_ac := fl_ac f, fl_p := fl_p f, fl_cy := fl_cy f\<rparr>\<rparr>"
  by (cases "fl_s f"; cases "fl_z f"; cases "fl_ac f"; cases "fl_p f"; cases "fl_cy f")
    (simp_all add: unpack_flags_def pack_flags_def)

lemma lo8_ucast [simp]: "lo8 (ucast (b :: u8)) = b"
  by (rule bit_word_eqI) (auto simp: bit_lo8 bit_simps)

lemma reg_cases:
  assumes "0 \<le> r" "r < (15 :: int)"
  shows "r \<in> {0, 1, 2, 3, 4, 5, 6, 7, 8, 9, 10, 11, 12, 13, 14}"
  using assms by simp presburger

text \<open>What \<^verbatim>\<open>hex_reg\<close> prints, \<^verbatim>\<open>write_reg\<close> is given back.\<close>

lemma hex_reg_digits:
  assumes "reg_bytes z80 r = 1"
  obtains a b where "hex_reg z80 s r = [a, b]" "0 \<le> hex_val a" "0 \<le> hex_val b"
    "two_digits a b = lo8 (reg_get z80 s r)"
proof -
  obtain a b where "hex_byte (lo8 (reg_get z80 s r)) = [a, b]" "0 \<le> hex_val a" "0 \<le> hex_val b"
    "two_digits a b = lo8 (reg_get z80 s r)" by (rule hex_byte_digits)
  then show thesis using assms by (intro that) (simp_all add: hex_reg_def Let_def)
qed

lemma hex_reg_digits2:
  assumes "reg_bytes z80 r = 2"
  obtains a b c d where "hex_reg z80 s r = [a, b, c, d]" "0 \<le> hex_val a" "0 \<le> hex_val b"
    "0 \<le> hex_val c" "0 \<le> hex_val d" "pair16 (two_digits c d) (two_digits a b) = reg_get z80 s r"
proof -
  obtain a b where l: "hex_byte (lo8 (reg_get z80 s r)) = [a, b]" "0 \<le> hex_val a" "0 \<le> hex_val b"
    "two_digits a b = lo8 (reg_get z80 s r)" by (rule hex_byte_digits)
  obtain c d where h: "hex_byte (hi8 (reg_get z80 s r)) = [c, d]" "0 \<le> hex_val c" "0 \<le> hex_val d"
    "two_digits c d = hi8 (reg_get z80 s r)" by (rule hex_byte_digits)
  show thesis
    by (rule that [of a b c d]) (use assms l h in \<open>simp_all add: hex_reg_def Let_def\<close>)
qed

lemma write_all_step:
  assumes "reg_bytes z80 r = 1 \<Longrightarrow> write_reg s r (ucast (lo8 (reg_get z80 t r))) = write_reg s r (reg_get z80 t r)"
    and "reg_bytes z80 r \<in> {1, 2}"
  shows "write_all_regs z80 (r # rs) (hex_reg z80 t r @ p) s =
    write_all_regs z80 rs p (write_reg s r (reg_get z80 t r))"
proof (cases "reg_bytes z80 r = 1")
  case True
  obtain a b where "hex_reg z80 t r = [a, b]" "0 \<le> hex_val a" "0 \<le> hex_val b"
    "two_digits a b = lo8 (reg_get z80 t r)" by (rule hex_reg_digits [OF True])
  then show ?thesis using True assms(1) by simp
next
  case False
  then have "reg_bytes z80 r = 2" using assms(2) by simp
  then obtain a b c d where "hex_reg z80 t r = [a, b, c, d]" "0 \<le> hex_val a" "0 \<le> hex_val b"
    "0 \<le> hex_val c" "0 \<le> hex_val d" "pair16 (two_digits c d) (two_digits a b) = reg_get z80 t r"
    by (rule hex_reg_digits2)
  then show ?thesis using \<open>reg_bytes z80 r = 2\<close> by simp
qed

lemma write_all_fold:
  assumes "\<And>r s. r \<in> set rs \<Longrightarrow> reg_bytes z80 r \<in> {1, 2} \<and>
      (reg_bytes z80 r = 1 \<longrightarrow> write_reg s r (ucast (lo8 (reg_get z80 t r))) = write_reg s r (reg_get z80 t r))"
  shows "write_all_regs z80 rs (concat (map (hex_reg z80 t) rs)) s =
    fold (\<lambda>r s. write_reg s r (reg_get z80 t r)) rs s"
  using assms
proof (induction rs arbitrary: s)
  case (Cons r rs)
  have "write_all_regs z80 (r # rs) (hex_reg z80 t r @ concat (map (hex_reg z80 t) rs)) s =
      write_all_regs z80 rs (concat (map (hex_reg z80 t) rs)) (write_reg s r (reg_get z80 t r))"
    by (rule write_all_step) (use Cons.prems in auto)
  then show ?case using Cons.IH Cons.prems by simp
qed simp

lemma write_reg_low:
  "reg_bytes False r = 1 \<Longrightarrow> write_reg s r (ucast (lo8 v)) = write_reg s r v"
proof -
  assume "reg_bytes False r = 1"
  then have "r \<in> {0, 1, 2, 3, 4, 5, 6, 7, 9}"
    by (auto simp: reg_bytes_def reg_size_def split: if_splits)
  then show ?thesis
    by (elim insertE emptyE; hypsubst) (simp_all add: write_reg_def)
qed

lemma sized_8085: "r \<in> set [0..14] \<Longrightarrow> reg_bytes False r \<in> {1, 2}"
  by (auto simp: reg_bytes_def reg_size_def)

lemma read_all_8085: "read_all_regs False s = concat (map (hex_reg False s) [0..14])"
  and read_all_z80: "read_all_regs True s = concat (map (hex_reg True s) [0..12])"
  by (simp_all only: read_all_regs_def reg_count_def NUM_REGS_def NUM_Z80_REGS_def if_True if_False) simp_all

lemma reg_list: "[0..14] = [0, 1, 2, 3, 4, 5, 6, 7, 8, 9, 10, 11, 12, 13, 14 :: int]"
  "[0..12] = [0, 1, 2, 3, 4, 5, 6, 7, 8, 9, 10, 11, 12 :: int]"
  by (simp_all add: upto_rec1)

text \<open>All registers written from what another state reads as: the i8085 layout.\<close>

lemma write_all_8085:
  "write_all_regs False [0..14] (read_all_regs False t) s =
     s\<lparr>reg_a := reg_a t, reg_b := reg_b t, reg_c := reg_c t, reg_d := reg_d t, reg_e := reg_e t,
       reg_h := reg_h t, reg_l := reg_l t, sp := sp t, pc := pc t,
       cc := (cc s)\<lparr>fl_s := fl_s (cc t), fl_z := fl_z (cc t), fl_ac := fl_ac (cc t), fl_p := fl_p (cc t),
         fl_cy := fl_cy (cc t)\<rparr>,
       memory := (memory s)(HL t := memory t (HL t))\<rparr>"
proof -
  have "write_all_regs False [0..14] (read_all_regs False t) s =
      fold (\<lambda>r s. write_reg s r (reg_get False t r)) [0..14] s"
    unfolding read_all_8085 by (rule write_all_fold) (intro conjI impI write_reg_low sized_8085)
  also have "\<dots> = s\<lparr>reg_a := reg_a t, reg_b := reg_b t, reg_c := reg_c t, reg_d := reg_d t, reg_e := reg_e t,
       reg_h := reg_h t, reg_l := reg_l t, sp := sp t, pc := pc t,
       cc := (cc s)\<lparr>fl_s := fl_s (cc t), fl_z := fl_z (cc t), fl_ac := fl_ac (cc t), fl_p := fl_p (cc t),
         fl_cy := fl_cy (cc t)\<rparr>,
       memory := (memory s)(HL t := memory t (HL t))\<rparr>"
    unfolding reg_list
    by (simp add: write_reg_def reg_get_def read_reg_def unpack_pack_flags)
  finally show ?thesis .
qed

text \<open>
  The z80 layout: the values go to the i8085's registers of the same numbers, and the last ones, of
  registers the 8085 lacks, are zero.
\<close>

lemma write_all_z80:
  assumes "s' = write_all_regs True [0..12] (read_all_regs True t) s"
  shows "reg_a s' = 0" "reg_b s' = 0" "reg_c s' = 0" "sp s' = 0" "pc s' = 0"
proof -
  define f where "f = (\<lambda>r s. write_reg s r (reg_get True t r))"
  have "s' = fold f [0..12] s"
    unfolding assms read_all_z80 f_def by (rule write_all_fold) (simp add: reg_bytes_def)
  then have "s' = fold f [8, 9, 10, 11, 12] (fold f [0, 1, 2, 3, 4, 5, 6, 7] s)"
    unfolding reg_list by simp
  then obtain u where s': "s' = fold f [8, 9, 10, 11, 12] u" by blast
  have z: "reg_get True t r = 0" if "6 \<le> r" for r
    using that by (simp add: reg_get_def z80_read_def)
  have "f r v = write_reg v r 0" if "6 \<le> r" for r v using z [OF that] by (simp add: f_def)
  then have "s' = write_reg (write_reg (write_reg (write_reg (write_reg u 8 0) 9 0) 10 0) 11 0) 12 0"
    by (simp add: s')
  then show "reg_a s' = 0" "reg_b s' = 0" "reg_c s' = 0" "sp s' = 0" "pc s' = 0"
    by (simp_all add: write_reg_def unpack_flags_def hi8_def lo8_def)
qed

end
