(* ===== verification/Gdb_Packets.thy ===== *)
theory Gdb_Packets
  imports Gdb_Laws
begin

unbundle bit_operations_syntax

text \<open>
  Round trips of the debugger's packets: one register (P, then p), a block of memory (M, then m), and
  the target description, fetched in pieces of any size.
\<close>

section \<open>Numbers in packets\<close>

definition hex_text :: "string \<Rightarrow> bool" where
  "hex_text t \<longleftrightarrow> (\<forall>c \<in> set t. 0 \<le> hex_val c)"

lemma hex_text_simps [simp]: "hex_text []" "hex_text (c # t) \<longleftrightarrow> 0 \<le> hex_val c \<and> hex_text t"
  by (auto simp: hex_text_def)

lemma hex_text_lacks:
  assumes "hex_text t" "hex_val c < 0"
  shows "c \<notin> set t"
  using assms by (auto simp: hex_text_def)

lemma separators_no_hex [simp]:
  "hex_val CHR ''='' = - 1" "hex_val CHR '','' = - 1" "hex_val CHR '':'' = - 1" "hex_val CHR 0x00 = - 1"
  "hex_val CHR ''#'' = - 1"
  by (simp_all add: hex_val_def code_of_def)

lemma parse_loop_stop:
  assumes "hex_text t" "hex_val c < 0"
  shows "parse_hex_loop (t @ c # u) v = parse_hex_loop t v"
  using assms by (induction t arbitrary: v) simp_all

lemma parse_hex_stop [simp]:
  assumes "hex_text t"
  shows "parse_hex (t @ CHR ''='' # u) = parse_hex t" "parse_hex (t @ CHR '','' # u) = parse_hex t"
    "parse_hex (t @ CHR '':'' # u) = parse_hex t"
  by (simp_all add: parse_hex_def parse_loop_stop [OF assms])

lemma c_str_id: "CHR 0x00 \<notin> set s \<Longrightarrow> c_str s = s"
  by (auto simp: c_str_def takeWhile_eq_all_conv)

lemma hex_reg_text: "hex_text (hex_reg z80 s r)"
proof -
  have "hex_text (hex_byte v)" for v
  proof -
    obtain a b where "hex_byte v = [a, b]" "0 \<le> hex_val a" "0 \<le> hex_val b" by (rule hex_byte_digits)
    then show ?thesis by simp
  qed
  then show ?thesis by (auto simp: hex_reg_def Let_def hex_text_def)
qed

lemma c_str_hex: "hex_text t \<Longrightarrow> c_str t = t"
  by (rule c_str_id) (rule hex_text_lacks, simp_all)

lemma read_all_text: "hex_text (read_all_regs z80 s)"
  using hex_reg_text [of z80 s] by (auto simp: read_all_regs_def hex_text_def)

section \<open>One register\<close>

lemma pack_flags_update [simp]:
  "pack_flags (f\<lparr>fl_s := fl_s g, fl_z := fl_z g, fl_ac := fl_ac g, fl_p := fl_p g, fl_cy := fl_cy g\<rparr>) = pack_flags g"
  by (simp add: pack_flags_def)

lemma reg_set_get:
  assumes "0 \<le> r" "r < reg_count z80" "z80 \<longrightarrow> r < 6"
  shows "reg_get z80 (reg_set z80 s r (reg_get z80 t r)) r = reg_get z80 t r"
proof (cases z80)
  case True
  then have "r \<in> {0, 1, 2, 3, 4, 5}" using assms by auto
  then show ?thesis using True
    by (elim insertE emptyE; hypsubst) (simp_all add: reg_get_def reg_set_def z80_read_def z80_write_def
        unpack_pack_flags)
next
  case False
  then have "r \<in> {0, 1, 2, 3, 4, 5, 6, 7, 8, 9, 10, 11, 12, 13, 14}"
    using assms reg_cases by (simp add: reg_count_def NUM_REGS_def)
  then show ?thesis using False
    by (elim insertE emptyE; hypsubst) (simp_all add: reg_get_def reg_set_def read_reg_def write_reg_def
        unpack_pack_flags)
qed

lemma char_at_append: "char_at (a @ b) (length a + k) = char_at b k"
  by (auto simp: char_at_def nth_append)

lemma handle_P_eq:
  assumes "hex_text n" "parse_regnum n = r" "0 \<le> r" "r < reg_count z80"
  shows "handle_P z80 s (''P'' @ n @ ''='' @ hex_reg z80 t r) = Some (reg_set z80 s r (reg_get z80 t r), ''OK'')"
proof -
  let ?v = "hex_reg z80 t r"
  have pkt: "''P'' @ n @ ''='' @ ?v = (CHR ''P'' # n) @ CHR ''='' # ?v" by simp
  have nul: "CHR 0x00 \<notin> set ((CHR ''P'' # n) @ CHR ''='' # ?v)"
    using hex_text_lacks [OF assms(1)] hex_text_lacks [OF hex_reg_text [of z80 t r]] by simp
  have eq: "find_char (CHR ''='') ((CHR ''P'' # n) @ CHR ''='' # ?v) = Some (CHR ''P'' # n, ?v)"
    by (rule find_char_first) (use hex_text_lacks [OF assms(1)] in simp)
  have num: "parse_regnum (drop 1 ((CHR ''P'' # n) @ CHR ''='' # ?v)) = r"
    using assms(1,2) by (simp add: parse_regnum_def)
  have at: "char_at ((CHR ''P'' # n) @ CHR ''='' # ?v) (length (CHR ''P'' # n) + 1 + k) = char_at ?v k" for k
    using char_at_append [of "(CHR ''P'' # n) @ [CHR ''='']" ?v k] by (simp add: ac_simps)
  note at = at [of 0, unfolded add_0_right] at [of 1] at [of 2] at [of 3]
  have sz: "reg_bytes z80 r = 1 \<or> reg_bytes z80 r = 2"
    using assms(3,4) sized_8085 [of r] by (cases z80) (auto simp: reg_bytes_def reg_count_def NUM_REGS_def)
  then show ?thesis
  proof
    assume s1: "reg_bytes z80 r = 1"
    obtain a b where d: "?v = [a, b]" "0 \<le> hex_val a" "0 \<le> hex_val b" "two_digits a b = lo8 (reg_get z80 t r)"
      by (rule hex_reg_digits [OF s1])
    have low: "reg_set z80 s r (ucast (lo8 (reg_get z80 t r))) = reg_set z80 s r (reg_get z80 t r)"
      using s1 by (cases z80) (simp_all add: reg_bytes_def reg_set_def write_reg_low)
    have ch: "char_at ?v 0 = Some a" "char_at ?v 1 = Some b" by (simp_all add: d char_at_def)
    then show ?thesis
      unfolding pkt handle_P_def c_str_id [OF nul] eq option.case prod.case Let_def num
      by (simp only: s1 at refl if_True ch bind.bind_lunit digits_or_0_eq d(2-) low assms simp_thms)
  next
    assume s2: "reg_bytes z80 r = 2"
    obtain a b c e where d: "?v = [a, b, c, e]" "0 \<le> hex_val a" "0 \<le> hex_val b"
      "0 \<le> hex_val c" "0 \<le> hex_val e" "pair16 (two_digits c e) (two_digits a b) = reg_get z80 t r"
      by (rule hex_reg_digits2 [OF s2])
    have ne21: "(2 :: nat) \<noteq> 1" by simp
    have ch: "char_at ?v 0 = Some a" "char_at ?v 1 = Some b" "char_at ?v 2 = Some c" "char_at ?v 3 = Some e"
      by (simp_all add: d char_at_def)
    then show ?thesis
      unfolding pkt handle_P_def c_str_id [OF nul] eq option.case prod.case Let_def num
      by (simp only: s2 at refl if_True if_False ne21 ch bind.bind_lunit digits_or_0_eq d(2-) assms simp_thms)
  qed
qed

lemma handle_p_eq:
  assumes "parse_regnum n = r" "0 \<le> r" "r < reg_count z80"
  shows "handle_p z80 s (''p'' @ n) = hex_reg z80 s r"
  using assms by (simp add: handle_p_def)

section \<open>Memory\<close>

fun poke_bytes :: "(u16 \<Rightarrow> u8) \<Rightarrow> u16 \<Rightarrow> u8 list \<Rightarrow> u16 \<Rightarrow> u8" where
  "poke_bytes m a [] = m"
| "poke_bytes m a (b # bs) = poke_bytes (m(a := b)) (a + 1) bs"

lemma poke_hex_bytes:
  "poke_hex (concat (map hex_byte bs)) (length bs) a s = s\<lparr>memory := poke_bytes (memory s) a bs\<rparr>"
proof (induction bs arbitrary: a s)
  case (Cons v bs)
  obtain c d where "hex_byte v = [c, d]" "0 \<le> hex_val c" "0 \<le> hex_val d" "two_digits c d = v"
    by (rule hex_byte_digits)
  then show ?case by (simp add: Cons.IH fun_upd_def)
qed simp

lemma poke_bytes_other:
  "(\<And>i. i < length bs \<Longrightarrow> x \<noteq> a + of_nat i) \<Longrightarrow> poke_bytes m a bs x = m x"
proof (induction bs arbitrary: a m)
  case (Cons b bs)
  have "x \<noteq> a + 1 + of_nat i" if "i < length bs" for i
    using Cons.prems [of "Suc i"] that by (simp add: ac_simps)
  then have "poke_bytes (m(a := b)) (a + 1) bs x = (m(a := b)) x" by (rule Cons.IH)
  moreover have "x \<noteq> a" using Cons.prems [of 0] by simp
  ultimately show ?case by simp
qed simp

lemma poke_bytes_nth:
  "length bs \<le> 65536 \<Longrightarrow> i < length bs \<Longrightarrow> poke_bytes m a bs (a + of_nat i) = bs ! i"
proof (induction bs arbitrary: a m i)
  case (Cons b bs)
  show ?case
  proof (cases i)
    case 0
    have "a \<noteq> a + 1 + of_nat k" if "k < length bs" for k
    proof
      assume "a = a + 1 + of_nat k"
      then have "(of_nat (Suc k) :: u16) = 0" by simp
      then have "65536 dvd Suc k" by (simp only: word_of_nat_eq_0_iff) simp
      then show False using that Cons.prems(1) by (auto dest: dvd_imp_le)
    qed
    then have "poke_bytes (m(a := b)) (a + 1) bs a = (m(a := b)) a" by (rule poke_bytes_other)
    then show ?thesis using 0 by simp
  next
    case (Suc k)
    then have "poke_bytes (m(a := b)) (a + 1) bs (a + 1 + of_nat k) = bs ! k"
      using Cons.prems by (intro Cons.IH) simp_all
    then show ?thesis using Suc by (simp add: ac_simps)
  qed
qed simp

lemma handle_M_eq:
  assumes "hex_text ad" "hex_text n" "unat (parse_hex n) = length bs"
  shows "handle_M s (''M'' @ ad @ '','' @ n @ '':'' @ concat (map hex_byte bs)) =
    (s\<lparr>memory := poke_bytes (memory s) (ucast (parse_hex ad)) bs\<rparr>, ''OK'')"
proof -
  let ?h = "concat (map hex_byte bs)"
  have h: "hex_text ?h"
  proof -
    have "hex_text (hex_byte v)" for v
    proof -
      obtain a b where "hex_byte v = [a, b]" "0 \<le> hex_val a" "0 \<le> hex_val b" by (rule hex_byte_digits)
      then show ?thesis by simp
    qed
    then show ?thesis by (auto simp: hex_text_def)
  qed
  note lacks = hex_text_lacks [OF assms(1)] hex_text_lacks [OF assms(2)] hex_text_lacks [OF h]
  let ?p = "(CHR ''M'' # ad) @ CHR '','' # (n @ CHR '':'' # ?h)"
  have p: "''M'' @ ad @ '','' @ n @ '':'' @ ?h = ?p" by simp
  have "CHR 0x00 \<notin> set ?p" using lacks [of "CHR 0x00"] by (simp only: set_append) simp
  then have cs: "c_str ?p = ?p" by (rule c_str_id)
  have comma: "find_char (CHR '','') ?p = Some (CHR ''M'' # ad, n @ CHR '':'' # ?h)"
    by (rule find_char_first) (use lacks in simp)
  have colon: "find_char (CHR '':'') ?p = Some ((CHR ''M'' # ad) @ CHR '','' # n, ?h)"
    using find_char_first [of "CHR '':''" "(CHR ''M'' # ad) @ CHR '','' # n" ?h] lacks by simp
  show ?thesis
    unfolding p handle_M_def cs comma colon option.case prod.case
    using assms by (simp add: poke_hex_bytes)
qed

lemma handle_m_eq:
  assumes "hex_text ad" "hex_text n" "unat (parse_hex n) = len" "2 * len \<le> cap"
  shows "handle_m cap s (''m'' @ ad @ '','' @ n) = Some (hex_dump s (ucast (parse_hex ad)) len)"
proof -
  note lacks = hex_text_lacks [OF assms(1)] hex_text_lacks [OF assms(2)]
  let ?p = "(CHR ''m'' # ad) @ CHR '','' # n"
  have p: "''m'' @ ad @ '','' @ n = ?p" by simp
  have "CHR 0x00 \<notin> set ?p" using lacks [of "CHR 0x00"] by (simp only: set_append) simp
  then have cs: "c_str ?p = ?p" by (rule c_str_id)
  have comma: "find_char (CHR '','') ?p = Some (CHR ''m'' # ad, n)"
    by (rule find_char_first) (use lacks in simp)
  show ?thesis
    unfolding p handle_m_def cs comma option.case prod.case
    using assms by simp
qed

lemma hex_dump_poked:
  assumes "length bs \<le> 65536"
  shows "hex_dump (s\<lparr>memory := poke_bytes m a bs\<rparr>) a (length bs) = concat (map hex_byte bs)"
proof -
  have "map (\<lambda>i. hex_byte (poke_bytes m a bs (a + of_nat i))) [0..<length bs] = map (\<lambda>i. hex_byte (bs ! i)) [0..<length bs]"
    using poke_bytes_nth [OF assms] by simp
  also have "\<dots> = map hex_byte bs"
    by (rule nth_equalityI) simp_all
  finally show ?thesis by (simp add: hex_dump_def)
qed

section \<open>The target description\<close>

lemma hex_upper_val: "hex_val (hex_upper n) = int (n mod 16)"
proof -
  have "\<forall>k \<in> set [0..<16]. hex_val (''0123456789ABCDEF'' ! k) = int k"
    by (simp add: upt_rec hex_val_def code_of_def)
  then show ?thesis by (simp add: hex_upper_def)
qed

lemma hex_text_digits: "hex_text (hex_digits n)"
proof (induction n rule: hex_digits.induct)
  case (1 n)
  then show ?case by (subst hex_digits.simps) (auto simp: hex_text_def hex_upper_val)
qed

lemma parse_loop_append:
  "hex_text a \<Longrightarrow> parse_hex_loop (a @ b) v = parse_hex_loop b (parse_hex_loop a v)"
  by (induction a arbitrary: v) simp_all

lemma shift_in: "d < 16 \<Longrightarrow> push_bit 4 v OR word_of_int (int d) = 16 * v + (of_nat d :: u64)"
proof -
  assume d: "d < 16"
  have "push_bit 4 v OR (of_nat d :: u64) = push_bit 4 v + of_nat d"
  proof (rule disjunctive_add [symmetric])
    have "take_bit 4 (of_nat d :: u64) = of_nat d"
      using d by (simp add: take_bit_of_nat [symmetric] flip: of_nat_take_bit) (simp add: take_bit_nat_eq_self)
    then show "\<not> bit (push_bit 4 v) n \<or> \<not> bit (of_nat d :: u64) n" for n
      by (metis bit_push_bit_iff bit_take_bit_iff not_le)
  qed
  then show ?thesis by (simp add: push_bit_eq_mult mult.commute)
qed

text \<open>The packets of a client that fetches the description in pieces, and what it puts together.\<close>

definition xml_request :: "nat \<Rightarrow> nat \<Rightarrow> string" where
  "xml_request off len = xml_prefix @ hex_digits off @ '','' @ hex_digits len"

fun fetch_xml :: "nat \<Rightarrow> bool \<Rightarrow> nat \<Rightarrow> nat \<Rightarrow> string option" where
  "fetch_xml 0 z80 len off = None"
| "fetch_xml (Suc n) z80 len off =
     (case handle_xml z80 (xml_request off len) of
        k # chunk \<Rightarrow>
          (if k = CHR ''l'' then Some chunk
           else if k = CHR ''m'' then map_option ((@) chunk) (fetch_xml n z80 len (off + length chunk))
           else None)
      | [] \<Rightarrow> None)"

definition description :: "bool \<Rightarrow> string" where
  "description z80 = (if z80 then targetXMLz80 else targetXML)"

lemma parse_hex_digits: "parse_hex (hex_digits n) = of_nat n"
proof (induction n rule: hex_digits.induct)
  case (1 n)
  show ?case
  proof (cases "n < 16")
    case True
    then show ?thesis
      using shift_in [of n 0] by (subst hex_digits.simps) (simp add: parse_hex_def hex_upper_val)
  next
    case False
    have "parse_hex (hex_digits n) = 16 * parse_hex (hex_digits (n div 16)) + of_nat (n mod 16)"
      using False shift_in [of "n mod 16"]
      by (subst hex_digits.simps) (simp add: parse_hex_def parse_loop_append hex_text_digits hex_upper_val)
    also have "\<dots> = of_nat (16 * (n div 16) + n mod 16)"
      using 1 False by (simp only: of_nat_add of_nat_mult) simp
    finally show ?thesis by simp
  qed
qed

lemma handle_xml_eq:
  assumes "off < 2 ^ 64" "len < 2 ^ 64"
  shows "handle_xml z80 (xml_request off len) =
    (if off \<ge> length (description z80) then ''l''
     else (if off + len \<ge> length (description z80) then ''l'' else ''m'') @ take len (drop off (description z80)))"
proof -
  let ?a = "hex_digits off @ CHR '','' # hex_digits len"
  note lacks = hex_text_lacks [OF hex_text_digits]
  have d: "drop 31 (xml_request off len) = ?a" by (simp add: xml_request_def xml_prefix_def)
  have "CHR 0x00 \<notin> set ?a" using lacks [of "CHR 0x00"] by simp
  then have cs: "c_str ?a = ?a" by (rule c_str_id)
  have f: "find_char (CHR '','') ?a = Some (hex_digits off, hex_digits len)"
    by (rule find_char_first) (simp add: lacks)
  have n: "unat (parse_hex ?a) = off" "unat (parse_hex (hex_digits len)) = len"
    using assms by (simp_all add: hex_text_digits parse_hex_digits unat_of_nat)
  show ?thesis
    unfolding handle_xml_def Let_def d cs f option.case prod.case n description_def [symmetric]
    by auto
qed

lemma fetch_xml_complete:
  assumes "0 < len" "len < 2 ^ 64" "off \<le> length (description z80)" "length (description z80) - off < n"
  shows "fetch_xml n z80 len off = Some (drop off (description z80))"
  using assms(3,4)
proof (induction n arbitrary: off)
  case (Suc n)
  have "length (description z80) < 2 ^ 64"
    by (simp add: description_def targetXML_def targetXMLz80_def target_xml_def)
  then have o: "off < 2 ^ 64" using Suc.prems by simp
  show ?case
  proof (cases "off + len < length (description z80)")
    case False
    then show ?thesis by (simp add: handle_xml_eq [OF o assms(2)])
  next
    case True
    then have "fetch_xml n z80 len (off + len) = Some (drop (off + len) (description z80))"
      using Suc.prems assms(1) by (intro Suc.IH) simp_all
    moreover have "take len (drop off (description z80)) @ drop (off + len) (description z80) = drop off (description z80)"
      by (metis append_take_drop_id drop_drop add.commute)
    ultimately show ?thesis using True by (simp add: handle_xml_eq [OF o assms(2)])
  qed
qed simp

end
