(* ===== verification/Gdb_Run.thy ===== *)
theory Gdb_Run
  imports Gdb_Laws
begin

text \<open>
  Running under the debugger: a continue ends exactly at the first instruction that reaches a breakpoint
  or halts for good, whatever the polling of the client does; running respects the write protection
  of the plugins; each packet uses up a part of the input.
\<close>

section \<open>Instructions without polls\<close>

text \<open>After the instruction that left \<open>g\<close> and returned \<open>h\<close> a continue does not end by itself.\<close>

definition quiet :: "'p gdb \<Rightarrow> int \<Rightarrow> bool" where
  "quiet g h \<longleftrightarrow> pc (gd_cpu g) \<notin> breakpoints g \<and> \<not> (h \<noteq> 0 \<and> gd_timers g = [])"

text \<open>The first instruction after which it ends by itself is number \<open>k\<close> from here.\<close>

inductive first_stop :: "('p \<Rightarrow> 'p plugin_api) \<Rightarrow> 'p gdb \<Rightarrow> nat \<Rightarrow> 'p gdb \<Rightarrow> bool" for tbl where
  here: "gdb_step tbl g = Some (g', h) \<Longrightarrow> \<not> quiet g' h \<Longrightarrow> first_stop tbl g 1 g'"
| later: "gdb_step tbl g = Some (g1, h) \<Longrightarrow> quiet g1 h \<Longrightarrow> first_stop tbl g1 k g' \<Longrightarrow> first_stop tbl g (Suc k) g'"

text \<open>\<open>k\<close> instructions, none of which ends a continue.\<close>

inductive quiet_run :: "('p \<Rightarrow> 'p plugin_api) \<Rightarrow> 'p gdb \<Rightarrow> nat \<Rightarrow> 'p gdb \<Rightarrow> bool" for tbl where
  none: "quiet_run tbl g 0 g"
| more: "gdb_step tbl g = Some (g1, h) \<Longrightarrow> quiet g1 h \<Longrightarrow> quiet_run tbl g1 k g' \<Longrightarrow> quiet_run tbl g (Suc k) g'"

definition with_client :: "string \<Rightarrow> bool list \<Rightarrow> 'p gdb \<Rightarrow> 'p gdb" where
  "with_client i p g = g\<lparr>gd_in := i, gd_polls := p\<rparr>"

lemma with_client_simps [simp]:
  "gd_cpu (with_client i p g) = gd_cpu g" "breakpoints (with_client i p g) = breakpoints g"
  "gd_timers (with_client i p g) = gd_timers g" "gd_rt (with_client i p g) = gd_rt g"
  "gdbStep (with_client i p g) = gdbStep g" "gd_in (with_client i p g) = i"
  "gd_polls (with_client i p g) = p" "with_client i p (with_client j q g) = with_client i p g"
  "quiet (with_client i p g) h = quiet g h" "with_client (gd_in g) (gd_polls g) g = g"
  by (simp_all add: with_client_def quiet_def)

lemma gdb_step_client:
  assumes "gdb_step tbl g = Some (g', h)"
  shows "gdb_step tbl (with_client i p g) = Some (with_client i p g', h)"
    "gd_in g' = gd_in g" "gd_polls g' = gd_polls g" "breakpoints g' = breakpoints g" "gdbStep g' = gdbStep g + 1"
  using assms unfolding gdb_step_def with_client_def
  by (auto split: Option.bind_splits prod.splits)

lemma poll_break_cases:
  obtains i p where "poll_break g = (with_client i p g, False)" "set i \<subseteq> set (gd_in g)"
  | i p where "poll_break g = (with_client i p g, True)" "gd_in g = CHR 0x03 # i"
proof (cases "gd_polls g")
  case Nil
  then have "poll_break g = (with_client (gd_in g) (gd_polls g) g, False)"
    by (simp add: poll_break_def with_client_def)
  then show thesis by (rule that(1)) simp
next
  case (Cons b bs)
  show thesis
  proof (cases "b \<and> gd_in g \<noteq> []")
    case False
    then have "poll_break g = (with_client (gd_in g) bs g, False)"
      using Cons by (auto simp: poll_break_def with_client_def Let_def split: list.splits)
    then show thesis by (rule that(1)) simp
  next
    case True
    then obtain c i where i: "gd_in g = c # i" by (cases "gd_in g") auto
    then have "poll_break g = (with_client i bs g, c = CHR 0x03)"
      using Cons True by (simp add: poll_break_def with_client_def)
    then show thesis using that i by (cases "c = CHR 0x03") auto
  qed
qed

lemma first_stop_client:
  "first_stop tbl g k u \<Longrightarrow> first_stop tbl (with_client i p g) k (with_client i p u)"
proof (induction rule: first_stop.induct)
  case (here g g' h)
  show ?case by (rule first_stop.here [OF gdb_step_client(1) [OF here(1)]]) (simp add: here(2))
next
  case (later g g1 h k g')
  show ?case by (rule first_stop.later [OF gdb_step_client(1) [OF later(1)] _ later(4)]) (simp add: later(2))
qed

lemma quiet_run_client:
  "quiet_run tbl g k u \<Longrightarrow> quiet_run tbl (with_client i p g) k (with_client i p u)"
proof (induction rule: quiet_run.induct)
  case (more g g1 h k g')
  show ?case by (rule quiet_run.more [OF gdb_step_client(1) [OF more(1)] _ more(4)]) (simp add: more(2))
qed (rule quiet_run.none)

section \<open>What ends a continue\<close>

lemma continue_quiet:
  assumes "gdb_step tbl g = Some (g1, h)" "quiet g1 h"
  obtains (no_poll) "\<And>n. gdb_continue (Suc n) tbl c g = gdb_continue n tbl (c + 1) g1"
  | (poll) i p where "set i \<subseteq> set (gd_in g1)"
      "\<And>n. gdb_continue (Suc n) tbl c g = gdb_continue n tbl 0 (with_client i p g1)"
  | (brk) i p where "gd_in g1 = CHR 0x03 # i" "\<And>n. gdb_continue (Suc n) tbl c g = Reply (with_client i p g1) ''S02''"
proof -
  have e: "gdb_continue (Suc n) tbl c g =
      (if c + 1 \<ge> 1024 then (case poll_break g1 of (g2, b) \<Rightarrow> if b then Reply g2 ''S02'' else gdb_continue n tbl 0 g2)
       else gdb_continue n tbl (c + 1) g1)" for n
    using assms by (auto simp: quiet_def split: prod.splits bool.splits)
  show thesis
  proof (cases "c + 1 \<ge> 1024")
    case False
    then show thesis using e by (intro no_poll) simp
  next
    case True
    show thesis
    proof (cases rule: poll_break_cases [of g1])
      case (1 i p)
      then show thesis using e True by (intro poll [of i p]) simp_all
    next
      case (2 i p)
      then show thesis using e True by (intro brk [of i p]) simp_all
    qed
  qed
qed

lemma gdb_continue_stops:
  assumes "gdb_continue n tbl c g = Reply g' r"
  shows "(r = ''S05'' \<and> (\<exists>k u. k \<le> n \<and> first_stop tbl g k u \<and> g' = with_client (gd_in g') (gd_polls g') u)) \<or>
    (r = ''S02'' \<and> (\<exists>k u. k \<le> n \<and> quiet_run tbl g k u \<and> g' = with_client (gd_in g') (gd_polls g') u) \<and>
      CHR 0x03 \<in> set (gd_in g))"
  using assms
proof (induction n arbitrary: c g)
  case (Suc n)
  obtain g1 h where st: "gdb_step tbl g = Some (g1, h)"
    using Suc.prems by (auto split: option.splits)
  note cl = gdb_step_client [OF st]
  show ?case
  proof (cases "quiet g1 h")
    case False
    then have "g' = g1" "r = ''S05''" using Suc.prems st by (auto simp: quiet_def split: if_splits)
    then show ?thesis using first_stop.here [OF st False] by (intro disjI1 conjI exI [of _ 1] exI [of _ g1]) simp_all
  next
    case q: True
    have next_case: ?thesis
      if i: "set i \<subseteq> set (gd_in g)" and run: "gdb_continue n tbl c' (with_client i p g1) = Reply g' r" for i p c'
      using Suc.IH [OF run]
    proof (elim disjE conjE exE)
      fix k u
      assume r: "r = ''S05''" and k: "k \<le> n" "first_stop tbl (with_client i p g1) k u"
        and g': "g' = with_client (gd_in g') (gd_polls g') u"
      have "first_stop tbl g (Suc k) (with_client (gd_in g1) (gd_polls g1) u)"
        using first_stop.later [OF st q] first_stop_client [OF k(2), of "gd_in g1" "gd_polls g1"] by simp
      then show ?thesis using r k(1) g'
        by (intro disjI1 conjI exI [of _ "Suc k"] exI [of _ "with_client (gd_in g1) (gd_polls g1) u"]) simp_all
    next
      fix k u
      assume r: "r = ''S02''" and k: "k \<le> n" "quiet_run tbl (with_client i p g1) k u"
        and g': "g' = with_client (gd_in g') (gd_polls g') u" and b: "CHR 0x03 \<in> set (gd_in (with_client i p g1))"
      have "quiet_run tbl g (Suc k) (with_client (gd_in g1) (gd_polls g1) u)"
        using quiet_run.more [OF st q] quiet_run_client [OF k(2), of "gd_in g1" "gd_polls g1"] by simp
      then show ?thesis using r k(1) g' b i
        by (intro disjI2 conjI exI [of _ "Suc k"] exI [of _ "with_client (gd_in g1) (gd_polls g1) u"]) auto
    qed
    from st q show ?thesis
    proof (cases rule: continue_quiet [where c = c])
      case no_poll
      have "with_client (gd_in g1) (gd_polls g1) g1 = g1" by simp
      then show ?thesis using next_case [of "gd_in g1" "c + 1" "gd_polls g1"] Suc.prems no_poll cl(2)
        by (simp del: gdb_continue.simps)
    next
      case (poll i p)
      then show ?thesis using next_case [of i 0 p] Suc.prems cl by (simp del: gdb_continue.simps)
    next
      case (brk i p)
      have "quiet_run tbl g (Suc 0) g1" by (rule quiet_run.more [OF st q quiet_run.none])
      moreover have "g' = with_client i p g1" "r = ''S02''"
        using Suc.prems brk(2) by (auto simp del: gdb_continue.simps)
      ultimately show ?thesis using brk(1) cl(2)
        by (intro disjI2 conjI exI [of _ "Suc 0"] exI [of _ g1]) (auto simp del: gdb_continue.simps)
    qed
  qed
qed simp

text \<open>Conversely, a stop that is reached is reported, if the client does not interrupt.\<close>

lemma gdb_continue_reports:
  assumes "first_stop tbl g k u" "k \<le> n" "CHR 0x03 \<notin> set (gd_in g)"
  shows "\<exists>g'. gdb_continue n tbl c g = Reply g' ''S05'' \<and> g' = with_client (gd_in g') (gd_polls g') u"
  using assms
proof (induction k arbitrary: c n g u)
  case (Suc k)
  obtain m where n: "n = Suc m" using Suc.prems(2) by (cases n) auto
  from Suc.prems(1) show ?case
  proof (cases rule: first_stop.cases)
    case (here h)
    then show ?thesis by (intro exI [of _ u]) (auto simp: n quiet_def)
  next
    case (later g1 h)
    note cl = gdb_step_client [OF later(1)]
    have go: "\<exists>g'. gdb_continue m tbl c' (with_client i p g1) = Reply g' ''S05'' \<and>
        g' = with_client (gd_in g') (gd_polls g') u" if i: "set i \<subseteq> set (gd_in g1)" for i p c'
    proof -
      have "first_stop tbl (with_client i p g1) k (with_client i p u)" by (rule first_stop_client [OF later(3)])
      moreover have "CHR 0x03 \<notin> set (gd_in (with_client i p g1))" using Suc.prems(3) i cl by auto
      ultimately obtain g' where g': "gdb_continue m tbl c' (with_client i p g1) = Reply g' ''S05''"
        "g' = with_client (gd_in g') (gd_polls g') (with_client i p u)"
        using Suc.IH [of "with_client i p g1" "with_client i p u" m c'] Suc.prems(2) n by auto
      show ?thesis by (intro exI [of _ g'] conjI g'(1)) (use g'(2) in simp)
    qed
    from later(1,2) show ?thesis
    proof (cases rule: continue_quiet [where c = c])
      case no_poll
      then show ?thesis using n go [of "gd_in g1" "c + 1" "gd_polls g1"] by (simp del: gdb_continue.simps)
    next
      case (poll i p)
      then show ?thesis using n go [of i 0 p] by (simp del: gdb_continue.simps)
    next
      case (brk i p)
      then show ?thesis using n Suc.prems(3) cl by simp
    qed
  qed
qed (auto elim: first_stop.cases)

lemma first_stop_keeps:
  "first_stop tbl g k u \<Longrightarrow> gd_in u = gd_in g \<and> gd_polls u = gd_polls g"
  by (induction rule: first_stop.induct) (auto dest: gdb_step_client)

text \<open>Without an interruption both directions together: the continue is the search for the first stop.\<close>

lemma gdb_continue_iff:
  assumes "CHR 0x03 \<notin> set (gd_in g)"
  shows "(\<exists>g'. gdb_continue n tbl c g = Reply g' ''S05'' \<and> with_client (gd_in g) (gd_polls g) g' = u) \<longleftrightarrow>
    (\<exists>k \<le> n. first_stop tbl g k u)"
proof
  assume "\<exists>g'. gdb_continue n tbl c g = Reply g' ''S05'' \<and> with_client (gd_in g) (gd_polls g) g' = u"
  then obtain g' where r: "gdb_continue n tbl c g = Reply g' ''S05''" and u: "with_client (gd_in g) (gd_polls g) g' = u"
    by blast
  from gdb_continue_stops [OF r] obtain k w
    where w: "k \<le> n" "first_stop tbl g k w" "g' = with_client (gd_in g') (gd_polls g') w" by auto
  have "with_client (gd_in g) (gd_polls g) g' = with_client (gd_in w) (gd_polls w) w"
    using w(3) first_stop_keeps [OF w(2)] by (metis with_client_simps(8))
  then show "\<exists>k \<le> n. first_stop tbl g k u" using w u by auto
next
  assume "\<exists>k \<le> n. first_stop tbl g k u"
  then obtain k where k: "first_stop tbl g k u" "k \<le> n" by blast
  obtain g' where g': "gdb_continue n tbl c g = Reply g' ''S05''" "g' = with_client (gd_in g') (gd_polls g') u"
    using gdb_continue_reports [OF k assms] by blast
  have "with_client (gd_in g) (gd_polls g) g' = with_client (gd_in u) (gd_polls u) u"
    using g'(2) first_stop_keeps [OF k(1)] by (metis with_client_simps(8))
  then show "\<exists>g'. gdb_continue n tbl c g = Reply g' ''S05'' \<and> with_client (gd_in g) (gd_polls g) g' = u"
    using g'(1) by auto
qed

section \<open>Write protection while running\<close>

definition keeps_rom :: "plugin gdb \<Rightarrow> plugin gdb \<Rightarrow> bool" where
  "keeps_rom g g' \<longleftrightarrow>
     (\<forall>a. write_protected (gd_rt g) a \<longrightarrow> memory (gd_cpu g') a = memory (gd_cpu g) a) \<and>
     write_protected (gd_rt g') = write_protected (gd_rt g)"

lemma keeps_rom_refl [simp]: "keeps_rom g g"
  by (simp add: keeps_rom_def)

lemma keeps_rom_trans: "keeps_rom g g1 \<Longrightarrow> keeps_rom g1 g2 \<Longrightarrow> keeps_rom g g2"
  by (auto simp: keeps_rom_def)

lemma keeps_rom_same:
  "memory (gd_cpu g') = memory (gd_cpu g) \<Longrightarrow> gd_rt g' = gd_rt g \<Longrightarrow> keeps_rom g g'"
  by (simp add: keeps_rom_def)

lemma gdb_step_protected:
  assumes "gdb_step api_of g = Some (g', h)"
  shows "keeps_rom g g'"
proof -
  obtain tms s1 rt1 s2 s3 st rt2 tms' s4
    where f1: "fire_timers (total_tstates (gd_stats g)) (gd_timers g) (gd_cpu g) = Some (tms, s1)"
      and on: "io_runtime_on_step api_of (gd_rt g) s1 (gdbStep g) (total_tstates (gd_stats g)) = (rt1, s2)"
      and x: "Emulate8085Op (runtime_bus api_of) s2 (gd_stats g) rt1 = Some (s3, st, rt2, h)"
      and f2: "fire_timers (total_tstates st) tms s3 = Some (tms', s4)"
      and g': "gd_cpu g' = s4" "gd_rt g' = rt2"
    using assms unfolding gdb_step_def Let_def by (auto split: Option.bind_splits prod.splits)
  note k = on_step_keeps' [OF on] step_protected' [OF x] fire_timers_same [OF f1, unfolded same_memory_def]
    fire_timers_same [OF f2, unfolded same_memory_def]
  show ?thesis
    unfolding keeps_rom_def using k g' lines_only_fields by (metis (no_types))
qed

lemma gdb_continue_protected:
  assumes "gdb_continue n api_of c g = Reply g' r"
  shows "keeps_rom g g'"
  using gdb_continue_stops [OF assms]
proof (elim disjE conjE exE)
  fix k u
  assume "first_stop api_of g k u" and u: "g' = with_client (gd_in g') (gd_polls g') u"
  then have "keeps_rom g u"
    by (induction rule: first_stop.induct) (auto intro: gdb_step_protected keeps_rom_trans)
  moreover have "keeps_rom u (with_client (gd_in g') (gd_polls g') u)" by (rule keeps_rom_same) simp_all
  ultimately show ?thesis using u keeps_rom_trans by metis
next
  fix k u
  assume "quiet_run api_of g k u" and u: "g' = with_client (gd_in g') (gd_polls g') u"
  then have "keeps_rom g u"
    by (induction rule: quiet_run.induct) (auto intro: gdb_step_protected keeps_rom_trans)
  moreover have "keeps_rom u (with_client (gd_in g') (gd_polls g') u)" by (rule keeps_rom_same) simp_all
  ultimately show ?thesis using u keeps_rom_trans by metis
qed

lemma resume_at_rom: "keeps_rom g (resume_at g pkt)"
  by (rule keeps_rom_same) (simp_all add: resume_at_def)

lemma handle_run_protected:
  "handle_s api_of g pkt = Reply g' r \<Longrightarrow> keeps_rom g g'"
  "handle_c fuel api_of g pkt = Reply g' r \<Longrightarrow> keeps_rom g g'"
  using resume_at_rom [of g pkt]
  by (auto simp: handle_s_def handle_c_def Let_def split: option.splits if_splits
      dest!: gdb_step_protected gdb_continue_protected intro: keeps_rom_trans)

lemma gdb_handle_protected:
  assumes "gdb_handle fuel api_of g pkt = Reply g' r" "hd pkt \<notin> {CHR ''G'', CHR ''P'', CHR ''M''}"
  shows "keeps_rom g g'"
  using assms handle_run_protected
  unfolding gdb_handle_def Let_def
  by (auto split: if_splits option.splits intro!: keeps_rom_same simp: handle_Z_def Let_def)

section \<open>The end of a session\<close>

lemma packet_start_shorter: "packet_start s = Some (b, r) \<Longrightarrow> length r < length s \<and> set r \<subseteq> set s"
  by (induction s) (auto split: if_splits)

lemma recv_packet_shorter:
  assumes "recv_packet s = (pkt, r, ack)" "pkt \<noteq> []"
  shows "length r < length s" "set r \<subseteq> set s" "set pkt \<subseteq> insert CHR 0x03 (set s)"
proof -
  have "length r < length s \<and> set r \<subseteq> set s \<and> set pkt \<subseteq> insert CHR 0x03 (set s)"
  proof (cases "packet_start s")
    case None
    then show ?thesis using assms by (simp add: recv_packet_def)
  next
    case (Some br)
    obtain b r1 where br: "br = (b, r1)" by fastforce
    note sh = packet_start_shorter [OF Some [unfolded br]]
    show ?thesis
    proof (cases "b \<and> (\<exists>d k. find_char (CHR ''#'') r1 = Some (d, k) \<and> \<not> length k < 2)")
      case True
      then obtain d k where dk: "find_char (CHR ''#'') r1 = Some (d, k)" "\<not> length k < 2" by blast
      then have "pkt = d" "r = drop 2 k" "r1 = d @ CHR ''#'' # k"
        using assms Some br True find_char_append [OF dk(1)] by (simp_all add: recv_packet_def)
      then show ?thesis using sh by (auto dest!: in_set_dropD)
    next
      case False
      then show ?thesis using assms Some br sh
        by (cases b) (auto simp: recv_packet_def split: option.splits if_splits)
    qed
  qed
  then show "length r < length s" "set r \<subseteq> set s" "set pkt \<subseteq> insert CHR 0x03 (set s)" by simp_all
qed

lemma gdb_handle_in:
  assumes "hd pkt \<noteq> CHR ''c''"
  shows "gdb_handle fuel tbl g pkt \<noteq> Busy g'" "gdb_handle fuel tbl g pkt = Reply g1 r \<Longrightarrow> gd_in g1 = gd_in g"
proof -
  have r: "gd_in (resume_at g pkt) = gd_in g" by (simp add: resume_at_def)
  show "gdb_handle fuel tbl g pkt \<noteq> Busy g'"
    using assms unfolding gdb_handle_def Let_def handle_s_def by (simp split: option.splits prod.splits)
  show "gdb_handle fuel tbl g pkt = Reply g1 r \<Longrightarrow> gd_in g1 = gd_in g"
    using assms unfolding gdb_handle_def Let_def handle_s_def
    by (auto simp: handle_Z_def Let_def r split: if_splits option.splits prod.splits dest!: gdb_step_client(2))
qed

end
