(* ===== verification/Report.thy ===== *)
theory Report
  imports Trace_Main
begin

unbundle bit_operations_syntax

text \<open>
  What the command-line program writes, \<^verbatim>\<open>src/main.cpp\<close>: the JSON line of an executed instruction, the
  coverage file, the closing summary and the memory dumps.
\<close>

section \<open>JSON\<close>

text \<open>The conversions \<^verbatim>\<open>%02X\<close>, \<^verbatim>\<open>%04X\<close> and \<^verbatim>\<open>%u\<close> of unsigned values.\<close>

definition fmt02X :: "nat \<Rightarrow> string" where "fmt02X n = zero_pad 2 (hex_digits n)"
definition fmt04X :: "nat \<Rightarrow> string" where "fmt04X n = zero_pad 4 (hex_digits n)"

definition quoted :: "string \<Rightarrow> string" where
  "quoted s = CHR 0x22 # s @ [CHR 0x22]"

definition member :: "string \<Rightarrow> string \<Rightarrow> string" where
  "member k v = quoted k @ '':'' @ v"

fun comma_list :: "string list \<Rightarrow> string" where
  "comma_list [] = []"
| "comma_list [x] = x"
| "comma_list (x # y # ys) = x @ '','' @ comma_list (y # ys)"

definition json_object :: "string list \<Rightarrow> string" where
  "json_object ms = ''{'' @ comma_list ms @ ''}''"

definition json_array :: "string list \<Rightarrow> string" where
  "json_array xs = ''['' @ comma_list xs @ '']''"

definition regs_json :: "u8 list \<Rightarrow> string" where
  "regs_json rs = json_array (map (\<lambda>b. quoted (fmt02X (unat b))) rs)"

definition trace_line :: "TraceState \<Rightarrow> string" where
  "trace_line t =
     json_object
       [member ''step'' (dec_digits (unat (tr_step t))), member ''pc'' (quoted (fmt04X (unat (tr_pc t)))),
        member ''sp'' (quoted (fmt04X (unat (tr_sp t)))), member ''f'' (quoted (fmt02X (unat (tr_flags t)))),
        member ''clk'' (dec_digits (unat (tr_clocks t))), member ''op'' (quoted (tr_mnemonic t)),
        member ''asm'' (quoted (tr_disasm t)), member ''r'' (regs_json (tr_regs t))] @ [CHR 0x0A]"

section \<open>Coverage\<close>

text \<open>The counters that are not zero, by increasing index.\<close>

definition hits_json :: "string \<Rightarrow> (nat \<Rightarrow> string) \<Rightarrow> u64 list \<Rightarrow> string" where
  "hits_json k fmt hits =
     json_array (map (\<lambda>(i, n). json_object [member k (quoted (fmt i)), member ''count'' (dec_digits (unat n))])
       (filter (\<lambda>(i, n). n \<noteq> 0) (enumerate 0 hits)))"

definition WriteCoverage :: "u64 \<Rightarrow> u64 list \<Rightarrow> u64 list \<Rightarrow> string" where
  "WriteCoverage steps pc_hits op_hits =
     json_object [member ''steps'' (dec_digits (unat steps)), member ''pc_hits'' (hits_json ''pc'' fmt04X pc_hits),
       member ''op_hits'' (hits_json ''op'' fmt02X op_hits)] @ [CHR 0x0A]"

definition coverage_file :: "'p loop \<Rightarrow> string" where
  "coverage_file l = WriteCoverage (lp_step l) (map (\<lambda>i. pcHits l (of_nat i)) [0..<0x10000])
     (map (\<lambda>i. opHits l (of_nat i)) [0..<0x100])"

section \<open>Summary\<close>

definition reason_text :: "halt_reason \<Rightarrow> string" where
  "reason_text r = (case r of R_max \<Rightarrow> ''max'' | R_tracepoint_max \<Rightarrow> ''tracepoint-max''
     | R_tracepoint_stop \<Rightarrow> ''tracepoint-stop'' | R_stop \<Rightarrow> ''stop'' | R_loop \<Rightarrow> ''loop'' | R_hlt \<Rightarrow> ''hlt'')"

definition summary_line :: "'p loop \<Rightarrow> halt_reason \<Rightarrow> string" where
  "summary_line l why =
     (let s = lp_cpu l
      in json_object
          [member ''pc'' (quoted (fmt04X (unat (pc s)))), member ''sp'' (quoted (fmt04X (unat (sp s)))),
           member ''f'' (quoted (fmt02X (unat (PackFlags (cc s))))),
           member ''clk'' (dec_digits (unat (total_tstates (lp_stats l)))), member ''steps'' (dec_digits (unat (lp_step l))),
           member ''halt'' (quoted (reason_text why)), member ''sod'' (if sod_line s \<noteq> 0 then ''1'' else ''0''),
           member ''r'' (regs_json [reg_a s, reg_b s, reg_c s, reg_d s, reg_e s, reg_h s, reg_l s])] @ [CHR 0x0A])"

text \<open>The output file: the lines of the run, and the summary when one is asked for.\<close>

definition output_file :: "Config \<Rightarrow> 'p loop \<Rightarrow> halt_reason \<Rightarrow> string" where
  "output_file cfg l why =
     concat (map trace_line (lp_out l)) @ (if summary cfg then summary_line l why else [])"

section \<open>Memory dumps\<close>

text \<open>
  A row has the address printed, the bytes printed in hexadecimal, read at 16-bit addresses, and the
  bytes printed as text, read at the unreduced sums: past the buffer these have no value.
\<close>

fun row_bytes :: "State8085 \<Rightarrow> int \<Rightarrow> nat \<Rightarrow> u8 list option" where
  "row_bytes s a 0 = Some []"
| "row_bytes s a (Suc n) = do { b \<leftarrow> rd s a; bs \<leftarrow> row_bytes s (a + 1) n; Some (b # bs) }"

definition row_len :: "MemoryDump \<Rightarrow> u16 \<Rightarrow> nat" where
  "row_len d offset = (if unat offset + 16 \<le> unat (dump_length d) then 16 else unat (dump_length d) - unat offset)"

definition dump_row :: "State8085 \<Rightarrow> MemoryDump \<Rightarrow> u16 \<Rightarrow> (int \<times> u8 list \<times> u8 list) option" where
  "dump_row s d offset =
     (let n = row_len d offset; a = uint (dump_start d) + uint offset
      in do { txt \<leftarrow> row_bytes s a n;
           Some (a, map (\<lambda>i. memory s (dump_start d + offset + of_nat i)) [0..<n], txt) })"

text \<open>The loop over a 16-bit offset: \<open>None\<close> also when it never ends.\<close>

partial_function (option) dump_rows ::
  "State8085 \<Rightarrow> MemoryDump \<Rightarrow> u16 \<Rightarrow> (int \<times> u8 list \<times> u8 list) list option" where
  "dump_rows s d offset =
     (if offset < dump_length d then
        do { row \<leftarrow> dump_row s d offset; rows \<leftarrow> dump_rows s d (offset + 16); Some (row # rows) }
      else Some [])"

definition printable :: "u8 \<Rightarrow> char" where
  "printable b = (if 32 \<le> unat b \<and> unat b < 127 then char_of (unat b) else CHR ''.'')"

definition row_text :: "int \<times> u8 list \<times> u8 list \<Rightarrow> string" where
  "row_text r = (case r of (a, bs, txt) \<Rightarrow>
     ''  '' @ fmt04X (nat a) @ '':'' @ concat (map (\<lambda>b. '' '' @ fmt02X (unat b)) bs) @ ''  |'' @
     map printable txt @ ''|'' @ [CHR 0x0A])"

definition dump_head :: "MemoryDump \<Rightarrow> string" where
  "dump_head d =
     [CHR 0x0A] @ ''Memory dump 0x'' @ fmt04X (unat (dump_start d)) @ '' - 0x'' @
     fmt04X (nat ((uint (dump_start d) + uint (dump_length d) - 1) mod 2 ^ 32)) @ '' ('' @
     dec_digits (unat (dump_length d)) @ '' bytes):'' @ [CHR 0x0A]"

definition memory_dump :: "State8085 \<Rightarrow> MemoryDump \<Rightarrow> string option" where
  "memory_dump s d = map_option (\<lambda>rows. dump_head d @ concat (map row_text rows)) (dump_rows s d 0)"

end
