(* ===== verification/Cli.thy ===== *)
theory Cli
  imports Report Gdb_Stub
begin

unbundle bit_operations_syntax

text \<open>
  The start of the command-line program, \<^verbatim>\<open>main\<close> of \<^verbatim>\<open>src/main.cpp\<close>: the options, the tracepoint file, the
  image, the plugins and the netlist, up to the debugger or the trace loop.  What \<^verbatim>\<open>getopt_long\<close> made of
  the command line is a list of options with their arguments.
\<close>

section \<open>Configuration\<close>

record cli = Config +
  inputFile :: "string option"
  outputFile :: "string option"
  coverageFile :: "string option"
  netlistFile :: "string option"
  diskDir :: "string option"
  loadAddr :: u16
  entryAddr :: u16
  spAddr :: u16
  cfg_timers :: "PeriodicTimer list"
  dumps :: "MemoryDump list"
  cfg_tracepoints :: "Tracepoint list"
  ioInit :: "(u8 \<times> u8) list"
  ioPlugins :: "(string \<times> string option) list"
  ioTrace :: bool
  sidInit :: int
  gdbPort :: int
  cfg_quiet :: bool
  entrySet :: bool
  cfg_gdbZ80 :: bool

definition default_cli :: cli where
  "default_cli = \<lparr>maxSteps = 1000000, loopDetect = True, stopAddrs = [], irqs = [], tracepointMax = 0,
     tracepointStop = False, summary = False, doCoverage = False,
     inputFile = None, outputFile = None, coverageFile = None, netlistFile = None, diskDir = None,
     loadAddr = 0, entryAddr = 0, spAddr = 0xFFFF, cfg_timers = [], dumps = [], cfg_tracepoints = [],
     ioInit = [], ioPlugins = [], ioTrace = False, sidInit = - 1, gdbPort = 0, cfg_quiet = False,
     entrySet = False, cfg_gdbZ80 = False\<rparr>"

section \<open>The tracepoint file\<close>

text \<open>\<^verbatim>\<open>fgets\<close> with a buffer of 256 bytes: a line with its newline, or 255 characters of a longer one.\<close>

function fgets_lines :: "string \<Rightarrow> string list" where
  "fgets_lines s =
     (if s = [] then []
      else (let n = length (takeWhile (\<lambda>c. c \<noteq> CHR 0x0A) s); k = (if n < 255 then n + 1 else 255)
            in take k s # fgets_lines (drop k s)))"
  by pat_completeness auto
termination
  by (relation "measure length") (auto simp: Let_def)

declare fgets_lines.simps [simp del]

definition strip_0x :: "string \<Rightarrow> string" where
  "strip_0x p = (if starts_with ''0x'' p \<or> starts_with ''0X'' p then drop 2 p else p)"

text \<open>One line; \<open>None\<close> ends the file with an error.  What follows the number is ignored.\<close>

definition tracepoint_line :: "string \<Rightarrow> Tracepoint list \<Rightarrow> Tracepoint list option" where
  "tracepoint_line line tps =
     (let p = dropWhile c_isspace (c_str line)
      in if p = [] \<or> hd p = CHR ''#'' then Some tps
         else (let val = fst (strtoul (strip_0x p) 16)
               in if val > 0xFFFF then None else Some (AddTracepoint tps (of_nat val))))"

fun tracepoint_lines :: "string list \<Rightarrow> Tracepoint list \<Rightarrow> Tracepoint list option" where
  "tracepoint_lines [] tps = Some tps"
| "tracepoint_lines (l # ls) tps =
     (case tracepoint_line l tps of None \<Rightarrow> None | Some tps' \<Rightarrow> tracepoint_lines ls tps')"

definition ParseTracepointFile :: "string option \<Rightarrow> Tracepoint list \<Rightarrow> Tracepoint list option" where
  "ParseTracepointFile contents tps =
     (case contents of None \<Rightarrow> None | Some txt \<Rightarrow> tracepoint_lines (fgets_lines txt) tps)"

section \<open>Options\<close>

text \<open>One constructor per case of the switch, with the argument the case reads.\<close>

datatype cli_opt =
    Opt_l string | Opt_e string | Opt_p string | Opt_n string | Opt_s string | Opt_i string
  | Opt_R string | Opt_1000 | Opt_o string | Opt_d string | Opt_C string | Opt_I string
  | Opt_1001 string | Opt_1002 string | Opt_O | Opt_1003 string | Opt_1004 string | Opt_y string
  | Opt_t string | Opt_T string | Opt_M string | Opt_P | Opt_G string | Opt_1010 string
  | Opt_q | Opt_S | Opt_h | Opt_default

text \<open>\<^verbatim>\<open>strrchr(optarg, ':')\<close>: what follows the last colon, or all of it.\<close>

definition after_last_colon :: "string \<Rightarrow> string" where
  "after_last_colon s = rev (takeWhile (\<lambda>c. c \<noteq> CHR '':'') (rev s))"

definition set_last_config :: "(string \<times> string option) list \<Rightarrow> string \<Rightarrow> (string \<times> string option) list" where
  "set_last_config ps a = (if ps = [] then [] else butlast ps @ [(fst (last ps), Some a)])"

text \<open>The new configuration, or the exit code of \<^verbatim>\<open>main\<close>.  \<open>files\<close> gives the contents of a text file.\<close>

fun apply_opt :: "(string \<Rightarrow> string option) \<Rightarrow> cli \<Rightarrow> cli_opt \<Rightarrow> int + cli" where
  "apply_opt files cfg (Opt_l a) = (case ParseHex a of None \<Rightarrow> Inl 1 | Some v \<Rightarrow> Inr (cfg\<lparr>loadAddr := v\<rparr>))"
| "apply_opt files cfg (Opt_e a) =
     (case ParseHex a of None \<Rightarrow> Inl 1 | Some v \<Rightarrow> Inr (cfg\<lparr>entryAddr := v, entrySet := True\<rparr>))"
| "apply_opt files cfg (Opt_p a) = (case ParseHex a of None \<Rightarrow> Inl 1 | Some v \<Rightarrow> Inr (cfg\<lparr>spAddr := v\<rparr>))"
| "apply_opt files cfg (Opt_n a) = Inr (cfg\<lparr>maxSteps := of_nat (fst (strtoul a 10))\<rparr>)"
| "apply_opt files cfg (Opt_s a) =
     (case ParseHex a of None \<Rightarrow> Inl 1 | Some v \<Rightarrow> Inr (cfg\<lparr>stopAddrs := stopAddrs cfg @ [v]\<rparr>))"
| "apply_opt files cfg (Opt_i a) =
     (case ParseIRQ a of None \<Rightarrow> Inl 1 | Some q \<Rightarrow> Inr (cfg\<lparr>irqs := irqs cfg @ [q]\<rparr>))"
| "apply_opt files cfg (Opt_R a) =
     (case ParseTimer a of None \<Rightarrow> Inl 1 | Some t \<Rightarrow> Inr (cfg\<lparr>cfg_timers := cfg_timers cfg @ [t]\<rparr>))"
| "apply_opt files cfg Opt_1000 = Inr (cfg\<lparr>loopDetect := False\<rparr>)"
| "apply_opt files cfg (Opt_o a) = Inr (cfg\<lparr>outputFile := Some a\<rparr>)"
| "apply_opt files cfg (Opt_d a) =
     (case ParseDump a of None \<Rightarrow> Inl 1 | Some d \<Rightarrow> Inr (cfg\<lparr>dumps := dumps cfg @ [d]\<rparr>))"
| "apply_opt files cfg (Opt_C a) = Inr (cfg\<lparr>coverageFile := Some a\<rparr>)"
| "apply_opt files cfg (Opt_I a) =
     (case ParseIOInit a of None \<Rightarrow> Inl 1 | Some p \<Rightarrow> Inr (cfg\<lparr>ioInit := ioInit cfg @ [p]\<rparr>))"
| "apply_opt files cfg (Opt_1001 a) = Inr (cfg\<lparr>ioPlugins := ioPlugins cfg @ [(a, None)]\<rparr>)"
| "apply_opt files cfg (Opt_1002 a) = Inr (cfg\<lparr>ioPlugins := set_last_config (ioPlugins cfg) a\<rparr>)"
| "apply_opt files cfg Opt_O = Inr (cfg\<lparr>ioTrace := True\<rparr>)"
| "apply_opt files cfg (Opt_1003 a) = Inr (cfg\<lparr>diskDir := Some a\<rparr>)"
| "apply_opt files cfg (Opt_1004 a) = Inr (cfg\<lparr>netlistFile := Some a\<rparr>)"
| "apply_opt files cfg (Opt_y a) =
     (let (val, end) = strtol a 0
      in if end \<noteq> [] \<or> (val \<noteq> 0 \<and> val \<noteq> 1) then Inl 1 else Inr (cfg\<lparr>sidInit := val\<rparr>))"
| "apply_opt files cfg (Opt_t a) =
     (case ParseHex a of None \<Rightarrow> Inl 1
      | Some v \<Rightarrow> Inr (cfg\<lparr>cfg_tracepoints := AddTracepoint (cfg_tracepoints cfg) v\<rparr>))"
| "apply_opt files cfg (Opt_T a) =
     (case ParseTracepointFile (files a) (cfg_tracepoints cfg) of None \<Rightarrow> Inl 1
      | Some tps \<Rightarrow> Inr (cfg\<lparr>cfg_tracepoints := tps\<rparr>))"
| "apply_opt files cfg (Opt_M a) = Inr (cfg\<lparr>tracepointMax := of_nat (fst (strtoul a 10))\<rparr>)"
| "apply_opt files cfg Opt_P = Inr (cfg\<lparr>tracepointStop := True\<rparr>)"
| "apply_opt files cfg (Opt_G a) =
     (let (port, end) = strtol (after_last_colon a) 10
      in if end \<noteq> [] \<or> port \<le> 0 \<or> port > 65535 then Inl 1 else Inr (cfg\<lparr>gdbPort := port\<rparr>))"
| "apply_opt files cfg (Opt_1010 a) =
     (if a = ''z80'' then Inr (cfg\<lparr>cfg_gdbZ80 := True\<rparr>) else if a \<noteq> ''i8085'' then Inl 1 else Inr cfg)"
| "apply_opt files cfg Opt_q = Inr (cfg\<lparr>cfg_quiet := True\<rparr>)"
| "apply_opt files cfg Opt_S = Inr (cfg\<lparr>summary := True\<rparr>)"
| "apply_opt files cfg Opt_h = Inl 0"
| "apply_opt files cfg Opt_default = Inl 1"

fun apply_opts :: "(string \<Rightarrow> string option) \<Rightarrow> cli \<Rightarrow> cli_opt list \<Rightarrow> int + cli" where
  "apply_opts files cfg [] = Inr cfg"
| "apply_opts files cfg (o' # os) =
     (case apply_opt files cfg o' of Inl code \<Rightarrow> Inl code | Inr cfg' \<Rightarrow> apply_opts files cfg' os)"

section \<open>Starting the machine\<close>

text \<open>
  The host: the bytes of its files and which it lets the program create, the result of the three
  allocations, what a module answers (the number of plugins loaded before it, its path and
  configuration), the files under the disk emulator, what a debugging client will send, and the order
  \<^verbatim>\<open>std::sort\<close> leaves the scheduled interrupts in.
\<close>

record 'p host =
  ho_file :: "string \<Rightarrow> u8 list option"
  ho_creates :: "string \<Rightarrow> bool"
  ho_alloc :: "bool \<times> bool \<times> bool"
  ho_module :: "nat \<Rightarrow> string \<Rightarrow> string \<Rightarrow> 'p module_init"
  ho_disk :: disk
  ho_client :: string
  ho_polls :: "bool list"
  ho_max_string :: nat
  ho_sort :: "ScheduledIRQ list \<Rightarrow> ScheduledIRQ list"

definition ho_text :: "'p host \<Rightarrow> string \<Rightarrow> string option" where
  "ho_text h path = map_option (map (\<lambda>b. char_of (unat b))) (ho_file h path)"

definition empty_runtime :: "disk \<Rightarrow> 'p runtime" where
  "empty_runtime d = \<lparr>plugins = [], anyMemWrite = False, rt_net = empty_net, wiring = False, wiring_flag = 0,
     pinTable = [], rt_disk = d, state_set = False, rt_warnings = []\<rparr>"

definition load_image :: "'p host \<Rightarrow> cli \<Rightarrow> string \<Rightarrow> State8085 \<Rightarrow> int + cli \<times> State8085" where
  "load_image h cfg file s =
     (if IsElfFile (ho_file h file) then
        (let (s', elf_entry) = LoadElf s (ho_file h file)
         in if elf_entry < 0 then Inl 1
            else Inr (if entrySet cfg then cfg else cfg\<lparr>entryAddr := word_of_int elf_entry\<rparr>, s'))
      else case LoadBinary s (ho_file h file) (loadAddr cfg) of None \<Rightarrow> Inl 1 | Some s' \<Rightarrow> Inr (cfg, s'))"

fun load_plugins ::
  "('p \<Rightarrow> 'p plugin_api) \<Rightarrow> 'p host \<Rightarrow> (string \<times> string option) list \<Rightarrow> 'p runtime \<Rightarrow> int + 'p runtime" where
  "load_plugins tbl h [] rt = Inr rt"
| "load_plugins tbl h ((path, config) # specs) rt =
     (case io_runtime_load_plugin tbl rt (Some path)
             (ho_module h (length (plugins rt)) path (case config of None \<Rightarrow> [] | Some c \<Rightarrow> c)) of
        (rt', None) \<Rightarrow> load_plugins tbl h specs rt'
      | (rt', Some e) \<Rightarrow> Inl 1)"

definition init_ports :: "(u8 \<times> u8) list \<Rightarrow> State8085 \<Rightarrow> State8085" where
  "init_ports ps s = foldl (\<lambda>s (port, v). s\<lparr>io := (io s)(port := v)\<rparr>) s ps"

definition start_machine ::
  "('p \<Rightarrow> 'p plugin_api) \<Rightarrow> 'p host \<Rightarrow> cli \<Rightarrow> string \<Rightarrow> State8085 \<Rightarrow> int + cli \<times> State8085 \<times> 'p runtime" where
  "start_machine tbl h cfg0 file s0 =
     (case load_image h cfg0 file (s0\<lparr>memory := (\<lambda>_. 0), io := (\<lambda>_. 0)\<rparr>) of
        Inl code \<Rightarrow> Inl code
      | Inr (cfg, s1) \<Rightarrow>
          (let s2 = Reset8085 s1 (entryAddr cfg) (spAddr cfg)
           in case load_plugins tbl h (ioPlugins cfg) (io_runtime_set_state (empty_runtime (ho_disk h)) True) of
                Inl code \<Rightarrow> Inl code
              | Inr rt1 \<Rightarrow>
                  (let (rt2, err) = (case netlistFile cfg of None \<Rightarrow> (rt1, None)
                         | Some path \<Rightarrow> io_runtime_load_netlist tbl rt1 (Some path) (ho_text h path))
                   in if err \<noteq> None then Inl 1
                      else (let (rt3, s3) = io_runtime_on_reset tbl rt2 s2;
                                rt4 = (case diskDir cfg of None \<Rightarrow> rt3
                                  | Some dir \<Rightarrow> rt3\<lparr>rt_disk := disk_emu_init (rt_disk rt3) (Some dir)\<rparr>);
                                s4 = init_ports (ioInit cfg) s3;
                                s5 = (if sidInit cfg \<ge> 0 then setSIDLine s4 (sidInit cfg) else s4)
                            in Inr (cfg, s5, rt4)))))"

text \<open>How the program goes on: it exits, serves the debugger, or traces.\<close>

datatype 'p main_result = Exits int | Debugs "'p handled" | Traces cli "'p outcome"

definition debug_session :: "'p host \<Rightarrow> cli \<Rightarrow> State8085 \<Rightarrow> 'p runtime \<Rightarrow> 'p gdb" where
  "debug_session h cfg s rt =
     \<lparr>gd_cpu = s, gd_stats = \<lparr>total_tstates = 0, min_sp = 0, min_sp_set = False\<rparr>, gd_rt = rt,
      gd_timers = cfg_timers cfg, breakpoints = {}, gdbStep = 0, g_gdbZ80 = cfg_gdbZ80 cfg,
      gd_in = ho_client h, gd_polls = ho_polls h, gd_out = [], gd_max_string = ho_max_string h\<rparr>"

definition main_program ::
  "nat \<Rightarrow> ('p \<Rightarrow> 'p plugin_api) \<Rightarrow> 'p host \<Rightarrow> cli_opt list \<Rightarrow> string option \<Rightarrow> 'p main_result" where
  "main_program fuel tbl h opts file_arg =
     (case apply_opts (ho_text h) default_cli opts of
        Inl code \<Rightarrow> Exits code
      | Inr cfg \<Rightarrow>
          (case file_arg of
             None \<Rightarrow> Exits 1
           | Some file \<Rightarrow>
               (let cfg1 = cfg\<lparr>inputFile := Some file,
                      entryAddr := (if entrySet cfg then entryAddr cfg else loadAddr cfg),
                      irqs := ho_sort h (irqs cfg), doCoverage := (coverageFile cfg \<noteq> None)\<rparr>;
                    (a, m, p) = ho_alloc h
                in case Init8085 a m p of
                     None \<Rightarrow> Exits 1
                   | Some s0 \<Rightarrow>
                       (case start_machine tbl h cfg1 file s0 of
                          Inl code \<Rightarrow> Exits code
                        | Inr (cfg2, s, rt) \<Rightarrow>
                            (if gdbPort cfg2 > 0
                             then Debugs (gdb_main fuel fuel tbl (debug_session h cfg2 s rt))
                             else if (case outputFile cfg2 of None \<Rightarrow> False | Some f \<Rightarrow> \<not> ho_creates h f) then Exits 1
                             else Traces cfg2 (trace_loop fuel tbl (Config.truncate cfg2)
                                    (start_loop s rt (cfg_timers cfg2) (cfg_tracepoints cfg2))))))))"

section \<open>The end of a run\<close>

text \<open>
  What a stopped run leaves behind: the output, the coverage file when one can be opened, and the memory
  dumps; \<open>None\<close> when one of the dumps has no value.
\<close>

definition finish ::
  "'p host \<Rightarrow> cli \<Rightarrow> 'p loop \<Rightarrow> halt_reason \<Rightarrow> (string \<times> string option \<times> string list) option" where
  "finish h cfg l why =
     do { texts \<leftarrow> those (map (memory_dump (lp_cpu l)) (dumps cfg));
          Some (output_file (Config.truncate cfg) l why,
                (case coverageFile cfg of None \<Rightarrow> None | Some f \<Rightarrow> if ho_creates h f then Some (coverage_file l) else None),
                texts) }"

end
