(* ===== verification/Cli_Laws.thy ===== *)
theory Cli_Laws
  imports Cli Trace_Laws "HOL-Library.Multiset"
begin

text \<open>
  Laws of the program's start: the order of the scheduled interrupts as an interface, what the loaded
  machine looks like, and the whole way from the image file to the memory at the end of a run.
\<close>

section \<open>Scheduled interrupts\<close>

text \<open>What the program relies on in \<^verbatim>\<open>std::sort\<close>: a permutation in the order of the steps, ties in any order.\<close>

locale irq_order =
  fixes srt :: "ScheduledIRQ list \<Rightarrow> ScheduledIRQ list"
  assumes same_irqs: "mset (srt qs) = mset qs"
    and by_step: "sorted (map irq_atStep (srt qs))"
begin

lemma due_prefix: "takeWhile (\<lambda>q. irq_atStep q \<le> n) (srt qs) = filter (\<lambda>q. irq_atStep q \<le> n) (srt qs)"
proof -
  have "sorted (map irq_atStep xs) \<Longrightarrow> takeWhile (\<lambda>q. irq_atStep q \<le> n) xs = filter (\<lambda>q. irq_atStep q \<le> n) xs" for xs
  proof (induction xs)
    case (Cons q xs)
    show ?case
    proof (cases "irq_atStep q \<le> n")
      case False
      then have "filter (\<lambda>q. irq_atStep q \<le> n) xs = []"
        using Cons.prems by (fastforce simp: filter_empty_conv)
      then show ?thesis using False by simp
    qed (use Cons in simp)
  qed simp
  then show ?thesis using by_step by blast
qed

text \<open>The number of interrupts triggered by step \<open>n\<close> is the number scheduled up to it.\<close>

lemma due_count: "length (takeWhile (\<lambda>q. irq_atStep q \<le> n) (srt qs)) = length (filter (\<lambda>q. irq_atStep q \<le> n) qs)"
proof -
  have "mset (filter (\<lambda>q. irq_atStep q \<le> n) (srt qs)) = mset (filter (\<lambda>q. irq_atStep q \<le> n) qs)"
    by (simp add: same_irqs)
  then show ?thesis unfolding due_prefix by (rule mset_eq_length)
qed

end

lemma trigger_irqs_eq:
  "trigger_irqs qs n k s =
    (k + length (takeWhile (\<lambda>q. irq_atStep q \<le> n) qs),
     foldl (\<lambda>s q. fst (triggerInterrupt s (irq_code q) 1)) s (takeWhile (\<lambda>q. irq_atStep q \<le> n) qs))"
  by (induction qs arbitrary: k s) simp_all

text \<open>A stable sort keeps the contract, so the program's sort can be it.\<close>

interpretation stable: irq_order "sort_key irq_atStep"
  by unfold_locales simp_all

text \<open>Of a schedule in order, what is due at a step and was not due before it is what is scheduled for it.\<close>

lemma due_now:
  assumes "sorted (map irq_atStep qs)"
  shows "takeWhile (\<lambda>q. irq_atStep q \<le> n) (drop (length (filter (\<lambda>q. irq_atStep q < n) qs)) qs) =
    filter (\<lambda>q. irq_atStep q = n) qs"
  using assms
proof (induction qs)
  case (Cons q qs)
  have srt: "\<forall>x \<in> set qs. irq_atStep q \<le> irq_atStep x" using Cons.prems by simp
  show ?case
  proof (cases "irq_atStep q < n")
    case False
    then have "filter (\<lambda>q. irq_atStep q < n) (q # qs) = []" using srt by (auto simp: filter_empty_conv)
    moreover have "filter (\<lambda>q. irq_atStep q < n) qs = []" using calculation by (simp split: if_splits)
    moreover have "irq_atStep q \<noteq> n \<Longrightarrow> filter (\<lambda>q. irq_atStep q = n) qs = []"
      using False srt by (auto simp: filter_empty_conv)
    ultimately show ?thesis using Cons False by auto
  qed (use Cons in auto)
qed simp

text \<open>
  Before the instruction of number \<open>n\<close> the interrupts scheduled for earlier steps have been triggered, and no
  others.
\<close>

definition irqs_done :: "Config \<Rightarrow> nat \<Rightarrow> 'p loop \<Rightarrow> bool" where
  "irqs_done cfg n l \<longleftrightarrow> lp_step l = of_nat n \<and>
     nextIRQ l = length (filter (\<lambda>q. irq_atStep q < of_nat n) (irqs cfg))"

lemma due_counts: "length (filter (\<lambda>q. irq_atStep q < n) qs) + length (filter (\<lambda>q. irq_atStep q = n) qs) =
    length (filter (\<lambda>q. irq_atStep q \<le> n) qs)"
  by (induction qs) auto

lemma irqs_due:
  assumes "irqs_done cfg n l" "sorted (map irq_atStep (irqs cfg))"
  shows "trigger_irqs (drop (nextIRQ l) (irqs cfg)) (lp_step l) (nextIRQ l) s =
    (length (filter (\<lambda>q. irq_atStep q \<le> of_nat n) (irqs cfg)),
     foldl (\<lambda>s q. fst (triggerInterrupt s (irq_code q) 1)) s (filter (\<lambda>q. irq_atStep q = of_nat n) (irqs cfg)))"
  using assms due_now [OF assms(2), of "of_nat n"] due_counts [of "of_nat n" "irqs cfg"]
  by (simp add: irqs_done_def trigger_irqs_eq)

lemma do_step_keeps_irq:
  assumes "do_step tbl cfg l mnem dis = Some (l', why)"
  shows "nextIRQ l' = nextIRQ l" "lp_step l' = lp_step l + 1"
  using assms unfolding do_step_def Let_def by (auto split: prod.splits Option.bind_splits)

lemma visit_nextIRQ [simp]: "nextIRQ (visit cfg l mnem dis) = nextIRQ l"
  by (simp add: visit_def Let_def split_beta)

lemma before_step_irq:
  assumes "before_step cfg l = Some (l', mnem, dis, why)"
  shows "nextIRQ l' = fst (trigger_irqs (drop (nextIRQ l) (irqs cfg)) (lp_step l) (nextIRQ l) (lp_cpu l))"
  using assms unfolding before_step_def Let_def split_beta by (auto split: Option.bind_splits)

lemma irqs_done_step:
  assumes "loop_body tbl cfg l = Some (l', None)" "irqs_done cfg n l" "sorted (map irq_atStep (irqs cfg))"
    and "Suc n < 2 ^ 64"
  shows "irqs_done cfg (Suc n) l'"
  using assms(1)
proof (cases rule: loop_body_cases)
  case (step l1 mnem dis)
  have "nextIRQ l1 = length (filter (\<lambda>q. irq_atStep q \<le> of_nat n) (irqs cfg))"
    using before_step_irq [OF step(1)] irqs_due [OF assms(2,3)] by simp
  moreover have "lp_step l1 = of_nat n" using before_step_keeps(3) [OF step(1)] assms(2) by (simp add: irqs_done_def)
  moreover have "x \<le> of_nat n \<longleftrightarrow> x < of_nat (Suc n)" for x :: u64
    using assms(4) by (simp add: word_le_nat_alt word_less_nat_alt unat_of_nat less_Suc_eq_le del: of_nat_Suc)
  ultimately show ?thesis
    using do_step_keeps_irq [OF step(2)] by (simp add: irqs_done_def add.commute)
qed simp

lemma irqs_done_run:
  assumes "trace_loop k tbl cfg l = Running l'" "irqs_done cfg n l" "sorted (map irq_atStep (irqs cfg))"
    and "n + k < 2 ^ 64"
  shows "irqs_done cfg (n + k) l'"
  using assms(1,2,4)
proof (induction k arbitrary: n l)
  case 0
  then show ?case by (simp split: if_splits)
next
  case (Suc k)
  obtain l1 where b: "loop_body tbl cfg l = Some (l1, None)" and r: "trace_loop k tbl cfg l1 = Running l'"
    using Suc.prems(1) by (auto split: if_splits option.splits)
  have "irqs_done cfg (Suc n) l1" by (rule irqs_done_step [OF b Suc.prems(2) assms(3)]) (use Suc.prems in simp)
  from Suc.IH [OF r this] show ?case using Suc.prems(3) by simp
qed

section \<open>The machine that starts\<close>

context plugin_contract
begin

lemma on_reset_keeps:
  assumes "io_runtime_on_reset tbl rt s = (rt', s')"
  shows "s' = s \<and> guarded rt' = guarded rt"
proof (cases "state_set rt")
  case True
  have "snd (each (opt_call (\<lambda>p. api_on_reset (tbl p)) (\<lambda>f. f)) ps s) = s \<and>
      map prot_of (fst (each (opt_call (\<lambda>p. api_on_reset (tbl p)) (\<lambda>f. f)) ps s)) = map prot_of ps" for ps
  proof (induction ps)
    case (Cons p ps)
    obtain p' s1 where p: "opt_call (\<lambda>p. api_on_reset (tbl p)) (\<lambda>f. f) p s = (p', s1)" by fastforce
    have "s1 = s \<and> prot_of p' = prot_of p"
      using p by (auto simp: opt_call_def dest: reset_law split: option.splits)
    then show ?case using Cons p by (simp add: split_beta)
  qed simp
  from this [of "plugins rt"] show ?thesis
    using assms True guarded_cong [of rt' rt] by (auto simp: io_runtime_on_reset_def split: prod.splits)
qed (use assms in \<open>simp add: io_runtime_on_reset_def\<close>)

end

lemmas on_reset_keeps' = fp.on_reset_keeps [unfolded guarded_eq]

lemma init_ports_keeps [simp]:
  "memory (init_ports ps s) = memory s" "pc (init_ports ps s) = pc s" "sp (init_ports ps s) = sp s"
  by (induction ps rule: rev_induct) (auto simp: init_ports_def split: prod.splits)

lemma start_machine_state:
  assumes "start_machine api_of h cfg0 file s0 = Inr (cfg, s, rt)"
  obtains s1 where "load_image h cfg0 file (s0\<lparr>memory := (\<lambda>_. 0), io := (\<lambda>_. 0)\<rparr>) = Inr (cfg, s1)"
    "memory s = memory s1" "pc s = entryAddr cfg" "sp s = spAddr cfg"
proof -
  obtain s1 rt1 rt2 err rt3 s3
    where img: "load_image h cfg0 file (s0\<lparr>memory := (\<lambda>_. 0), io := (\<lambda>_. 0)\<rparr>) = Inr (cfg, s1)"
      and reset: "io_runtime_on_reset api_of rt2 (Reset8085 s1 (entryAddr cfg) (spAddr cfg)) = (rt3, s3)"
      and s: "s = (if sidInit cfg \<ge> 0 then setSIDLine (init_ports (ioInit cfg) s3) (sidInit cfg)
        else init_ports (ioInit cfg) s3)"
    using assms unfolding start_machine_def Let_def
    by (auto split: sum.splits prod.splits if_splits)
  have "s3 = Reset8085 s1 (entryAddr cfg) (spAddr cfg)" using on_reset_keeps' [OF reset] by simp
  then have "memory s = memory s1" "pc s = entryAddr cfg" "sp s = spAddr cfg"
    by (simp_all add: s setSIDLine_def Reset8085_def zero_state_def)
  with img show thesis by (rule that)
qed

text \<open>The memory of a loaded flat image: its bytes from the load address, zero elsewhere.\<close>

lemma LoadBinary_memory:
  assumes "LoadBinary s (Some bs) adr = Some s'"
  shows "uint adr + int (length bs) \<le> 0x10000"
    "memory s' a = (if adr \<le> a \<and> unat a - unat adr < length bs then bs ! (unat a - unat adr) else memory s a)"
proof -
  show fit: "uint adr + int (length bs) \<le> 0x10000" using assms by (auto simp: LoadBinary_def split: if_splits)
  have s': "s' = copy_to s (uint adr) bs" using assms by (auto simp: LoadBinary_def split: if_splits)
  show "memory s' a = (if adr \<le> a \<and> unat a - unat adr < length bs then bs ! (unat a - unat adr) else memory s a)"
  proof (cases "adr \<le> a")
    case True
    then have e: "uint a - uint adr = int (unat a - unat adr)"
      by (simp add: word_le_nat_alt of_nat_diff)
    have u: "uint adr \<le> uint a" using True by (simp add: word_le_def)
    show ?thesis unfolding s' copy_to_def Let_def by (simp add: e True u)
  next
    case False
    then have "\<not> 0 \<le> uint a - uint adr" by (simp add: word_le_def)
    then show ?thesis using False by (simp add: s' copy_to_def Let_def)
  qed
qed

section \<open>From the file to the end of a run\<close>

lemma main_program_traces:
  assumes "main_program fuel tbl h opts (Some file) = Traces cfg out"
  obtains cfg0 cfg1 s0 s rt where "apply_opts (ho_text h) default_cli opts = Inr cfg0"
    "cfg1 = cfg0\<lparr>inputFile := Some file, entryAddr := (if entrySet cfg0 then entryAddr cfg0 else loadAddr cfg0),
        irqs := ho_sort h (irqs cfg0), doCoverage := (coverageFile cfg0 \<noteq> None)\<rparr>"
    "s0 = zero_state (\<lambda>_. 0) (\<lambda>_. 0)"
    "start_machine tbl h cfg1 file s0 = Inr (cfg, s, rt)"
    "out = trace_loop fuel tbl (Config.truncate cfg) (start_loop s rt (cfg_timers cfg) (cfg_tracepoints cfg))"
  using assms unfolding main_program_def Let_def Init8085_def
  by (auto split: sum.splits prod.splits if_splits option.splits)

lemma trace_loop_protection:
  assumes "outcome_loop (trace_loop n api_of cfg l) = Some l'"
  shows "write_protected (lp_rt l') = write_protected (lp_rt l)"
proof (rule trace_loop_invariant [OF _ _ assms])
  show "write_protected (lp_rt k') = write_protected (lp_rt l)"
    if "write_protected (lp_rt k) = write_protected (lp_rt l)" "loop_body api_of cfg k = Some (k', why)" for k k' why
    using that loop_body_protected [OF that(2)] by simp
qed simp

lemma image_to_end:
  assumes "main_program fuel api_of h opts (Some file) = Traces cfg out" "outcome_loop out = Some l'"
    and "ho_file h file = Some bs" "\<not> IsElfFile (Some bs)" "write_protected (lp_rt l') a"
  shows "memory (lp_cpu l') a =
    (if loadAddr cfg \<le> a \<and> unat a - unat (loadAddr cfg) < length bs then bs ! (unat a - unat (loadAddr cfg)) else 0)"
proof -
  obtain cfg1 s0 s rt where m: "start_machine api_of h cfg1 file s0 = Inr (cfg, s, rt)"
    and out: "out = trace_loop fuel api_of (Config.truncate cfg) (start_loop s rt (cfg_timers cfg) (cfg_tracepoints cfg))"
    by (rule main_program_traces [OF assms(1)])
  let ?l = "start_loop s rt (cfg_timers cfg) (cfg_tracepoints cfg)"
  have o': "outcome_loop (trace_loop fuel api_of (Config.truncate cfg) ?l) = Some l'" using assms(2) out by simp
  have "write_protected (lp_rt ?l) a" using assms(5) trace_loop_protection [OF o'] by simp
  from trace_loop_protected [OF this o'] have end_start: "memory (lp_cpu l') a = memory s a"
    by (simp add: start_loop_def)
  obtain s1 where img: "load_image h cfg1 file (s0\<lparr>memory := (\<lambda>_. 0), io := (\<lambda>_. 0)\<rparr>) = Inr (cfg, s1)"
    and s1: "memory s = memory s1" by (rule start_machine_state [OF m])
  have "LoadBinary (s0\<lparr>memory := (\<lambda>_. 0), io := (\<lambda>_. 0)\<rparr>) (Some bs) (loadAddr cfg) = Some s1"
    using img assms(3,4) by (auto simp: load_image_def split: option.splits)
  from LoadBinary_memory(2) [OF this, of a] show ?thesis using end_start s1 by simp
qed

end
