(* ===== verification/Run_Laws.thy ===== *)
theory Run_Laws
  imports Cli_Laws Interrupt_Laws
begin

text \<open>
  Laws of whole runs of the trace loop: with timers that count on, a run with a step limit ends and can
  only be undefined by a read beyond the memory buffer; a reported loop is one that is never left.
\<close>

section \<open>Timers end\<close>

text \<open>A timer whose period is positive and does not carry the clock past 64 bits.\<close>

definition timer_ok :: "nat \<Rightarrow> PeriodicTimer \<Rightarrow> bool" where
  "timer_ok T t \<longleftrightarrow> 0 < tm_periodCycles t \<and> T + unat (tm_periodCycles t) < 2 ^ 64"

lemma timer_ok_next [simp]: "timer_ok T (t\<lparr>tm_nextTriggerCycle := n\<rparr>) = timer_ok T t"
  by (simp add: timer_ok_def)

lemma fire_timers_end:
  assumes "list_all (timer_ok T) ts" "unat clk \<le> T"
  shows "\<exists>ts' s'. fire_timers clk ts s = Some (ts', s') \<and> list_all (timer_ok T) ts'"
  using assms(1)
proof (induction ts arbitrary: s)
  case (Cons t ts)
  have "0 < tm_periodCycles t" "unat clk + unat (tm_periodCycles t) < 2 ^ 64"
    using Cons.prems assms(2) by (simp_all add: timer_ok_def)
  from fire_timer_ends [OF this] obtain nxt s1
    where f: "fire_timer clk (tm_code t) (tm_periodCycles t) (tm_nextTriggerCycle t) s = Some (nxt, s1)" by blast
  obtain ts' s2 where "fire_timers clk ts s1 = Some (ts', s2)" "list_all (timer_ok T) ts'"
    using Cons.IH [of s1] Cons.prems by auto
  then show ?case using f Cons.prems by simp
qed simp

lemma step_tstates:
  assumes "Emulate8085Op (runtime_bus api_of) s st rt = Some (s', st', rt', h)"
  shows "unat (total_tstates st') \<le> unat (total_tstates st) + 18"
proof -
  obtain tak s1 rt1 where c: "checkInterrupts (runtime_bus api_of) s rt = (tak, s1, rt1)" by (metis prod_cases3)
  show ?thesis
  proof (cases "hlt_enable s1 \<noteq> 0 \<and> \<not> tak")
    case True
    then show ?thesis using assms by (simp add: fp.rt.Emulate8085Op_eq [OF c])
  next
    case False
    obtain n where n: "total_tstates st' = total_tstates st + of_nat n" "n \<le> 18"
      using fp.rt.step_stats(1) [OF assms c False] cycles_bounds(2) by blast
    have "unat (of_nat n :: u64) = n" using n(2) by (simp add: unat_of_nat)
    then have "unat (total_tstates st + of_nat n) \<le> unat (total_tstates st) + n"
      by (simp add: unat_word_ariths)
    then show ?thesis unfolding n(1) using n(2) by simp
  qed
qed

section \<open>Runs with a step limit\<close>

text \<open>
  What can make an iteration undefined: the disassembler, or then the instruction, reads beyond the 64K
  buffer.
\<close>

definition overread :: "(plugin \<Rightarrow> plugin plugin_api) \<Rightarrow> Config \<Rightarrow> plugin loop \<Rightarrow> bool" where
  "overread tbl cfg l \<longleftrightarrow>
     (case before_step cfg l of
        None \<Rightarrow> True
      | Some (l1, mnem, dis, why) \<Rightarrow> why = None \<and>
          (let (rt1, s1) = io_runtime_on_step tbl (lp_rt l1) (lp_cpu l1) (lp_step l1) (total_tstates (lp_stats l1))
           in Emulate8085Op (runtime_bus tbl) s1 (lp_stats l1) rt1 = None))"

text \<open>The invariant of such a run: at most 18 T-states a step, and the timers can go on.\<close>

definition clock_ok :: "nat \<Rightarrow> plugin loop \<Rightarrow> bool" where
  "clock_ok N l \<longleftrightarrow> unat (total_tstates (lp_stats l)) \<le> 18 * unat (lp_step l) \<and> list_all (timer_ok (18 * N)) (timers l)"

lemma loop_body_undefined:
  assumes "loop_body api_of cfg l = None" "clock_ok N l" "unat (lp_step l) < N"
  shows "overread api_of cfg l"
proof (cases "before_step cfg l")
  case (Some r)
  obtain l1 m d why where b: "before_step cfg l = Some (l1, m, d, why)" using Some by (metis prod_cases4)
  have why: "why = None" and d: "do_step api_of cfg l1 m d = None"
    using assms(1) by (auto simp: loop_body_def b split: if_splits)
  note k = before_step_keeps [OF b]
  obtain rt1 s1 where on: "io_runtime_on_step api_of (lp_rt l1) (lp_cpu l1) (lp_step l1) (total_tstates (lp_stats l1)) = (rt1, s1)"
    by fastforce
  show ?thesis
  proof (cases "Emulate8085Op (runtime_bus api_of) s1 (lp_stats l1) rt1")
    case None
    then show ?thesis by (simp add: overread_def b why on)
  next
    case (Some r)
    obtain s2 st rt2 h where e: "Emulate8085Op (runtime_bus api_of) s1 (lp_stats l1) rt1 = Some (s2, st, rt2, h)"
      using Some by (metis prod_cases4)
    have "unat (total_tstates st) \<le> 18 * N"
      using step_tstates [OF e] assms(2,3) k(3,10) by (simp add: clock_ok_def)
    from fire_timers_end [OF _ this, of "timers l1" s2] assms(2) k(6)
    obtain ts' s' where "fire_timers (total_tstates st) (timers l1) s2 = Some (ts', s')" by (auto simp: clock_ok_def)
    then have False using d by (simp add: do_step_def on e Let_def)
    then show ?thesis ..
  qed
qed (simp add: overread_def)

lemma loop_body_clock:
  assumes "loop_body api_of cfg l = Some (l', why)" "clock_ok N l" "unat (lp_step l) < N" "N = unat (m :: u64)"
  shows "clock_ok N l'"
  using assms(1)
proof (cases rule: loop_body_cases)
  case (stop mn d r)
  show ?thesis using before_step_keeps [OF stop(1)] assms(2) by (simp add: clock_ok_def)
next
  case (step l1 mn d)
  note k = before_step_keeps [OF step(1)]
  obtain s2 s1 st rt1 rt2 h tms s3 where e: "Emulate8085Op (runtime_bus api_of) s1 (lp_stats l1) rt1 = Some (s2, st, rt2, h)"
    and f: "fire_timers (total_tstates st) (timers l1) s2 = Some (tms, s3)"
    and l': "lp_stats l' = st" "timers l' = tms" "lp_step l' = lp_step l1 + 1"
    by (rule do_step_cases [OF step(2)])
  have n: "unat (lp_step l + 1) = unat (lp_step l) + 1"
    using assms(3) unsigned_less [where 'a = nat, of m] by (simp add: assms(4) unat_word_ariths)
  have t: "unat (total_tstates st) \<le> 18 * unat (lp_step l) + 18"
    using step_tstates [OF e] assms(2) k(10) by (simp add: clock_ok_def)
  then have "unat (total_tstates st) \<le> 18 * N" using assms(3) by simp
  from fire_timers_end [OF _ this, of "timers l1" s2] assms(2) k(6) f
  have "list_all (timer_ok (18 * N)) tms" by (auto simp: clock_ok_def)
  then show ?thesis using t n by (simp add: clock_ok_def l' k(3))
qed

lemma trace_loop_undefined:
  assumes "trace_loop n api_of cfg l = Undefined" "clock_ok (unat (maxSteps cfg)) l" "maxSteps cfg \<noteq> 0"
  shows "\<exists>k l'. k < n \<and> trace_loop k api_of cfg l = Running l' \<and> overread api_of cfg l'"
  using assms(1,2)
proof (induction n arbitrary: l)
  case 0
  then show ?case by (simp split: if_splits)
next
  case (Suc n)
  have lt: "lp_step l < maxSteps cfg" using Suc.prems(1) assms(3) by (simp split: if_splits)
  then have lt': "unat (lp_step l) < unat (maxSteps cfg)" by (simp add: word_less_nat_alt)
  show ?case
  proof (cases "loop_body api_of cfg l")
    case None
    then show ?thesis
      using loop_body_undefined [OF None Suc.prems(2) lt'] lt by (intro exI [of _ 0]) simp
  next
    case (Some r)
    obtain l1 where b: "loop_body api_of cfg l = Some (l1, None)" "trace_loop n api_of cfg l1 = Undefined"
      using Suc.prems(1) Some lt by (auto split: option.splits prod.splits)
    have "clock_ok (unat (maxSteps cfg)) l1" by (rule loop_body_clock [OF b(1) Suc.prems(2) lt' refl])
    from Suc.IH [OF b(2) this] obtain k l' where "k < n" "trace_loop k api_of cfg l1 = Running l'" "overread api_of cfg l'"
      by blast
    then show ?thesis using b(1) lt by (intro exI [of _ "Suc k"]) auto
  qed
qed

lemma trace_loop_steps:
  assumes "trace_loop n tbl cfg l = Stopped l' r" "maxSteps cfg \<noteq> 0" "lp_step l \<le> maxSteps cfg"
  shows "lp_step l' \<le> maxSteps cfg \<and> (r = R_max \<longrightarrow> lp_step l' = maxSteps cfg)"
  using assms(1,3)
proof (induction n arbitrary: l)
  case (Suc n)
  show ?case
  proof (cases "lp_step l < maxSteps cfg")
    case True
    obtain l1 w where b: "loop_body tbl cfg l = Some (l1, w)"
      using Suc.prems(1) True by (auto split: option.splits)
    show ?thesis
    proof (cases w)
      case None
      have "lp_step l1 = lp_step l + 1" using loop_body_step b None by blast
      then have "lp_step l1 \<le> maxSteps cfg" using True by (simp add: inc_le)
      then show ?thesis using Suc.IH [of l1] Suc.prems(1) True b None by simp
    next
      case (Some q)
      then have e: "l' = l1" "r = q" using Suc.prems(1) True b by simp_all
      show ?thesis
        using b
      proof (cases rule: loop_body_cases)
        case (stop m d r')
        have "q \<noteq> R_max" using before_step_keeps(11) [OF stop(1)] stop(2) Some
          by (auto simp: stop_reason_def Let_def split: if_splits)
        then show ?thesis using before_step_keeps(3) [OF stop(1)] Suc.prems(2) e by simp
      next
        case (step l2 m d)
        have "lp_step l1 = lp_step l + 1" "q \<noteq> R_max"
          by (rule do_step_cases [OF step(2)], use before_step_keeps(3) [OF step(1)] Some in \<open>simp split: if_splits\<close>)+
        then show ?thesis using True e by (simp add: inc_le)
      qed
    qed
  next
    case False
    then have "l' = l" "r = R_max" using Suc.prems(1) assms(2) by simp_all
    then show ?thesis using False Suc.prems(2) by simp
  qed
qed (use assms(2) in \<open>auto split: if_splits\<close>)

lemma start_clock:
  "list_all (timer_ok (18 * N)) tms \<Longrightarrow> clock_ok N (start_loop s rt tms tps)"
  by (simp add: clock_ok_def start_loop_def)

section \<open>Reported loops\<close>

text \<open>The same processor with the interrupt enable and the EI delay at other values.\<close>

definition with_enable :: "State8085 \<Rightarrow> State8085 \<Rightarrow> bool" where
  "with_enable s u \<longleftrightarrow> (\<exists>a d. u = s\<lparr>int_enable := a, int_enable_delay := d\<rparr>)"

lemma with_enable_refl: "with_enable s s"
  unfolding with_enable_def by (rule exI [of _ "int_enable s"], rule exI [of _ "int_enable_delay s"]) simp

lemma with_enable_tick: "with_enable s u \<Longrightarrow> with_enable s (tick_ei_delay u)"
proof -
  assume "with_enable s u"
  then obtain a d where u: "u = s\<lparr>int_enable := a, int_enable_delay := d\<rparr>" by (auto simp: with_enable_def)
  have "\<exists>a d. tick_ei_delay u = s\<lparr>int_enable := a, int_enable_delay := d\<rparr>"
  proof (cases "d = 0")
    case True
    then have "tick_ei_delay u = u" by (simp add: tick_ei_delay_def u)
    then show ?thesis using u by blast
  next
    case False
    then have "tick_ei_delay u = s\<lparr>int_enable := (if d - 1 = 0 then 1 else a), int_enable_delay := d - 1\<rparr>"
      by (simp add: tick_ei_delay_def Let_def u word_gt_0)
    then show ?thesis by blast
  qed
  then show ?thesis by (simp add: with_enable_def)
qed

context cpu_bus
begin

text \<open>A jump to itself stays one whatever the interrupt enable is.\<close>

lemma isa_loop_enable:
  assumes "isa_exec bs s e opc i = Some (s\<lparr>pc := pc s - 1\<rparr>, e)" "transfers i"
  shows "isa_exec bs (s\<lparr>int_enable := a, int_enable_delay := d\<rparr>) e opc i =
    Some (s\<lparr>int_enable := a, int_enable_delay := d, pc := pc s - 1\<rparr>, e)"
proof -
  have ne: "pc s + 2 \<noteq> pc s - 1" "sp s - 2 \<noteq> sp s" "sp s + 2 \<noteq> sp s" "pc s \<noteq> pc s - 1"
    by (simp_all add: eq_diff_eq)
  obtain s' where s': "isa_exec bs s e opc i = Some (s', e)" "pc s' = pc s - 1" "sp s' = sp s"
    using assms(1) by simp
  have i: "i \<in> {JMP, JNX5, JX5, PCHL} \<union> range JCC"
    using assms(2) s' by (cases i)
      (auto simp: call_spec_def ret_spec_def skip_def split_beta frame_simps apfst_beta Let_def ne
        split: Option.bind_splits if_splits)
  have at: "imm16 (s\<lparr>int_enable := a, int_enable_delay := d\<rparr>) opc = imm16 s opc" by (simp add: imm16_def rd_def)
  have "jump_spec b (s\<lparr>int_enable := a, int_enable_delay := d\<rparr>) e opc =
      Some (s\<lparr>int_enable := a, int_enable_delay := d, pc := pc s - 1\<rparr>, e)"
    if j: "jump_spec b s e opc = Some (s', e)" for b
  proof (cases b)
    case True
    then obtain adr where "imm16 s opc = Some adr" "s' = s\<lparr>pc := adr\<rparr>"
      using j by (auto simp: jump_spec_def split: Option.bind_splits)
    then show ?thesis using True s'(2) by (simp add: jump_spec_def at)
  next
    case False
    then show ?thesis using j s'(2) ne(1) by (auto simp: jump_spec_def skip_def)
  qed
  moreover have "HL (s\<lparr>int_enable := a, int_enable_delay := d\<rparr>) = HL s" by simp
  ultimately show ?thesis using i s' by auto
qed

lemma step_loop_enable:
  assumes "Emulate8085Op bs s st e = Some (s', st', e', h)" "accepted s = None" "hlt_enable s = 0"
    and "pc s' = pc s" "sp s' = sp s" "with_enable s u" "accepted u = None"
  shows "\<exists>st2. Emulate8085Op bs u st1 e = Some (tick_ei_delay u, st2, e, 0)"
proof -
  define s2 where "s2 = s\<lparr>hlt_enable := 0, pc := pc s + 1\<rparr>"
  define op where "op = memory s (pc s)"
  note sl = step_loop [OF assms(1-5)]
  have c: "checkInterrupts bs s e = (False, s, e)" using assms(2) by (simp add: checkInterrupts_eq)
  from assms(1,3) obtain s3 t where x: "exec_switch bs s2 e (uint (pc s)) op = Some (s3, e, t)"
    and s3: "s' = tick_ei_delay s3"
    using sl(2) by (auto simp: Emulate8085Op_eq [OF c] Let_def s2_def op_def)
  have at: "pc s3 = pc s2 - 1" "sp s3 = sp s2" using assms(4,5) by (simp_all add: s3 s2_def)
  have t: "transfers (decode op)" using sl(4) by (simp add: op_def)
  then have op: "op \<noteq> 0xc6" "op \<noteq> 0xfe" by (auto simp: decode_def decode_3_def Let_def)
  have i: "isa_exec bs s2 e (uint (pc s)) (decode op) = Some (s3, e)"
    using exec_switch_isa [OF op, of s2 e "uint (pc s)"] x by simp
  from isa_exec_loop [OF i at] have "s3 = s2\<lparr>pc := pc s2 - 1\<rparr>" by simp
  note i' = isa_loop_enable [OF i [unfolded this] t]
  obtain a d where u: "u = s\<lparr>int_enable := a, int_enable_delay := d\<rparr>" using assms(6) by (auto simp: with_enable_def)
  define u2 where "u2 = u\<lparr>hlt_enable := 0, pc := pc u + 1\<rparr>"
  have u2: "u2 = s2\<lparr>int_enable := a, int_enable_delay := d\<rparr>" by (simp add: u2_def s2_def u)
  have "u2\<lparr>pc := pc s\<rparr> = u" using assms(3) by (cases s) (simp add: u2_def u)
  then have "isa_exec bs u2 e (uint (pc s)) (decode op) = Some (u, e)"
    using i' [where a = a and d = d] by (simp add: u2 s2_def)
  then obtain k where k: "exec_switch bs u2 e (uint (pc s)) op = Some (u, e, k)"
    using exec_switch_isa [OF op, of u2 e "uint (pc s)"] by auto
  have cu: "checkInterrupts bs u e = (False, u, e)" using assms(7) by (simp add: checkInterrupts_eq)
  have "memory u (pc u) = op" "pc u = pc s" "hlt_enable u = 0" by (simp_all add: u op_def assms(3))
  then show ?thesis
    using k by (simp add: Emulate8085Op_eq [OF cu] Let_def u2_def)
qed

end

text \<open>A runtime that leaves the processor alone between instructions: no plugin steps and no net is wired.\<close>

definition quiet_rt :: "plugin runtime \<Rightarrow> bool" where
  "quiet_rt rt \<longleftrightarrow> \<not> wiring rt \<and> (\<forall>p \<in> set (plugins rt). api_on_step (api_of p) = None)"

lemma step_plugins_quiet:
  assumes "quiet_rt rt" "k + n \<le> length (plugins rt)"
  shows "step_plugins api_of st ts k rt s n = (rt, s)"
  using assms(2)
proof (induction n arbitrary: k)
  case (Suc n)
  have "api_on_step (api_of (plugins rt ! k)) = None" using assms(1) Suc.prems by (simp add: quiet_rt_def)
  then show ?case using Suc.IH [of "k + 1"] Suc.prems by simp
qed simp

lemma on_step_quiet: "quiet_rt rt \<Longrightarrow> io_runtime_on_step api_of rt s n t = (rt, s)"
  by (simp add: io_runtime_on_step_def step_plugins_quiet) (simp add: quiet_rt_def)

text \<open>A scheduled interrupt on one of the four lines shows in the pending fields until it is taken.\<close>

lemma trigger_pending:
  assumes "irq_code q \<in> {45, 55, 65, 75}"
  shows "pendingIrq (fst (triggerInterrupt s (irq_code q) 1))"
  using assms by (auto simp: triggerInterrupt_def pendingIrq_def)

lemma trigger_irqs_pending:
  assumes "trigger_irqs qs n k s = (k', s')" "irq_code ` set qs \<subseteq> {45, 55, 65, 75}"
  shows "k' = k \<and> s' = s \<or> pendingIrq s'"
  using assms
proof (induction qs arbitrary: k s)
  case (Cons q qs)
  then show ?case using trigger_pending [of q] by (auto split: if_splits) 
qed simp

text \<open>The same run without the limits a user may set, and without the detection of loops.\<close>

definition unlimited :: "Config \<Rightarrow> Config" where
  "unlimited cfg = cfg\<lparr>maxSteps := 0, loopDetect := False, tracepointMax := 0, tracepointStop := False\<rparr>"

definition spins :: "Config \<Rightarrow> plugin runtime \<Rightarrow> State8085 \<Rightarrow> plugin loop \<Rightarrow> bool" where
  "spins cfg rt s l \<longleftrightarrow> lp_rt l = rt \<and> with_enable s (lp_cpu l) \<and> timers l = [] \<and> \<not> HasFutureIRQ cfg (nextIRQ l)"

lemma enable_irrelevant:
  assumes "with_enable s u"
  shows "pc u = pc s" "sp u = sp s" "rd u = rd s" "pendingIrq u = pendingIrq s" "pending_int u = pending_int s"
  using assms by (auto simp: with_enable_def rd_def pendingIrq_def fun_eq_iff)

lemma none_accepted: "\<not> pendingIrq s \<Longrightarrow> pending_int s = 0 \<Longrightarrow> accepted s = None"
  by (simp add: accepted_def requested_def pendingIrq_def)

lemma spins_body:
  assumes "spins cfg rt s l" "quiet_rt rt"
    and "Emulate8085Op (runtime_bus api_of) s st rt = Some (s', st', rt', h)" "accepted s = None" "hlt_enable s = 0"
    and "pc s' = pc s" "sp s' = sp s" "\<not> pendingIrq s" "pending_int s = 0"
    and "Disassemble8085Op (rd s) (uint (pc s)) 80 = Some dn" "\<not> IsStopAddress (pc s) (stopAddrs cfg)"
  shows "\<exists>l'. loop_body api_of (unlimited cfg) l = Some (l', None) \<and> spins cfg rt s l'"
proof -
  let ?c = "unlimited cfg" and ?u = "lp_cpu l"
  have l: "lp_rt l = rt" "with_enable s ?u" "timers l = []" "\<not> HasFutureIRQ cfg (nextIRQ l)"
    using assms(1) by (simp_all add: spins_def)
  note u = enable_irrelevant [OF l(2)]
  have a: "accepted ?u = None" using none_accepted [of ?u] u assms(8,9) by simp
  obtain dis k where dn: "dn = (dis, k)" by fastforce
  define l1 where "l1 = visit ?c (l\<lparr>lp_cpu := ?u, nextIRQ := nextIRQ l\<rparr>) (ExtractMnemonic dis 16) dis"
  have f: "lp_cpu l1 = ?u" "lp_rt l1 = rt" "timers l1 = []" "nextIRQ l1 = nextIRQ l" by (simp_all add: l1_def l)
  have "drop (nextIRQ l) (irqs ?c) = []" using l(4) by (simp add: HasFutureIRQ_def unlimited_def)
  moreover have "stop_reason ?c l1 = None"
    using assms(11) by (simp add: stop_reason_def f u unlimited_def)
  ultimately have b: "before_step ?c l = Some (l1, ExtractMnemonic dis 16, dis, None)"
    unfolding before_step_def by (simp add: u assms(10) dn l1_def Let_def)
  obtain st2 where e: "Emulate8085Op (runtime_bus api_of) ?u (lp_stats l1) rt = Some (tick_ei_delay ?u, st2, rt, 0)"
    using fp.rt.step_loop_enable [OF assms(3-7) l(2) a] by blast
  obtain l2 where d: "do_step api_of ?c l1 (ExtractMnemonic dis 16) dis = Some (l2, None)"
    and l2: "lp_rt l2 = rt" "lp_cpu l2 = tick_ei_delay ?u" "timers l2 = []" "nextIRQ l2 = nextIRQ l"
    by (simp add: do_step_def f on_step_quiet [OF assms(2)] e Let_def)
  have "spins cfg rt s l2" using with_enable_tick [OF l(2)] l(4) by (simp add: spins_def l2)
  then show ?thesis using b d by (simp add: loop_body_def)
qed

lemma spins_forever:
  assumes "spins cfg rt s l" "\<And>l. spins cfg rt s l \<Longrightarrow> \<exists>l'. loop_body api_of (unlimited cfg) l = Some (l', None) \<and> spins cfg rt s l'"
  shows "\<exists>l'. trace_loop n api_of (unlimited cfg) l = Running l' \<and> spins cfg rt s l'"
  using assms(1)
proof (induction n arbitrary: l)
  case 0
  then show ?case by (simp add: unlimited_def)
next
  case (Suc n)
  obtain l' where "loop_body api_of (unlimited cfg) l = Some (l', None)" "spins cfg rt s l'"
    using assms(2) [OF Suc.prems] by blast
  then show ?case using Suc.IH [of l'] by (simp add: unlimited_def)
qed

lemma with_enable_trans: "with_enable s u \<Longrightarrow> with_enable s v \<Longrightarrow> with_enable u v"
proof -
  assume "with_enable s u" "with_enable s v"
  then obtain a d a' d' where "u = s\<lparr>int_enable := a, int_enable_delay := d\<rparr>"
    "v = s\<lparr>int_enable := a', int_enable_delay := d'\<rparr>" by (auto simp: with_enable_def)
  then have "v = u\<lparr>int_enable := a', int_enable_delay := d'\<rparr>" by simp
  then show ?thesis unfolding with_enable_def by blast
qed

lemma reported_loop_cases:
  assumes "loop_body api_of cfg l2 = Some (l3, Some R_loop)" "do_step api_of cfg l1 m d = Some (l2, None)"
    and "irq_code ` set (irqs cfg) \<subseteq> {45, 55, 65, 75}"
  shows "\<not> pendingIrq (lp_cpu l2)" "\<not> HasFutureIRQ cfg (nextIRQ l2)" "timers l2 = []" "\<not> halted l2"
    "pc (lp_cpu l2) = lastPC l2" "sp (lp_cpu l2) = lastSP l2" "\<not> IsStopAddress (pc (lp_cpu l2)) (stopAddrs cfg)"
    "\<exists>dn. Disassemble8085Op (rd (lp_cpu l2)) (uint (pc (lp_cpu l2))) 80 = Some dn"
proof -
  have b: "\<exists>m d. before_step cfg l2 = Some (l3, m, d, Some R_loop)"
    using assms(1)
  proof (cases rule: loop_body_cases)
    case (step k m d)
    show ?thesis by (rule do_step_cases [OF step(2)]) (simp split: if_splits)
  qed auto
  then obtain m d where b: "before_step cfg l2 = Some (l3, m, d, Some R_loop)" by blast
  note k = before_step_keeps [OF b]
  obtain j s where q: "trigger_irqs (drop (nextIRQ l2) (irqs cfg)) (lp_step l2) (nextIRQ l2) (lp_cpu l2) = (j, s)"
    by fastforce
  have l3: "lp_cpu l3 = s" "nextIRQ l3 = j" "\<exists>dn. Disassemble8085Op (rd s) (uint (pc s)) 80 = Some dn"
    using b unfolding before_step_def q by (auto simp: Let_def split: Option.bind_splits)
  have r: "\<not> IsStopAddress (pc s) (stopAddrs cfg)" "\<not> halted l3" "pc s = lastPC l3" "sp s = lastSP l3" "\<not> pendingIrq s"
    "\<not> HasFutureIRQ cfg j" "timers l3 = []"
    using k(11) by (auto simp: stop_reason_def Let_def l3 split: if_splits)
  have sub: "irq_code ` set (drop (nextIRQ l2) (irqs cfg)) \<subseteq> {45, 55, 65, 75}"
    using assms(3) by (auto dest: in_set_dropD)
  have "j = nextIRQ l2" "s = lp_cpu l2" using trigger_irqs_pending [OF q sub] r(5) by simp_all
  then show "\<not> pendingIrq (lp_cpu l2)" "\<not> HasFutureIRQ cfg (nextIRQ l2)" "timers l2 = []" "\<not> halted l2"
    "pc (lp_cpu l2) = lastPC l2" "sp (lp_cpu l2) = lastSP l2" "\<not> IsStopAddress (pc (lp_cpu l2)) (stopAddrs cfg)"
    "\<exists>dn. Disassemble8085Op (rd (lp_cpu l2)) (uint (pc (lp_cpu l2))) 80 = Some dn"
    using r l3(3) k by simp_all
qed

lemma reported_loop_spins:
  assumes "do_step api_of cfg l1 m d = Some (l2, None)" "loop_body api_of cfg l2 = Some (l3, Some R_loop)"
    and "quiet_rt (lp_rt l1)" "accepted (lp_cpu l1) = None" "pending_int (lp_cpu l1) = 0"
    and "irq_code ` set (irqs cfg) \<subseteq> {45, 55, 65, 75}"
  shows "\<exists>l'. trace_loop n api_of (unlimited cfg) l2 = Running l' \<and> lp_rt l' = lp_rt l2 \<and> with_enable (lp_cpu l2) (lp_cpu l')"
proof -
  note r = reported_loop_cases [OF assms(2,1,6)]
  let ?s = "lp_cpu l1"
  obtain s2 st rt2 h tms s3
    where e: "Emulate8085Op (runtime_bus api_of) ?s (lp_stats l1) (lp_rt l1) = Some (s2, st, rt2, h)"
    and f: "fire_timers (total_tstates st) (timers l1) s2 = Some (tms, s3)"
    and l2: "lp_cpu l2 = s3" "lp_rt l2 = rt2" "timers l2 = tms" "lastPC l2 = pc ?s" "lastSP l2 = sp ?s" "halted l2 = (h \<noteq> 0)"
    by (rule do_step_cases [OF assms(1)]) (simp add: on_step_quiet [OF assms(3)])
  have "timers l1 = []" using f r(3) l2(3) by (cases "timers l1") (auto split: Option.bind_splits prod.splits)
  then have s3: "s3 = s2" using f by simp
  have hl: "hlt_enable ?s = 0"
  proof (rule ccontr)
    assume "hlt_enable ?s \<noteq> 0"
    with halted_waits [OF this assms(4)] e have "h \<noteq> 0" by auto
    then show False using r(4) l2(6) by simp
  qed
  have at: "pc s2 = pc ?s" "sp s2 = sp ?s" using r(5,6) l2 s3 by simp_all
  note sl = fp.rt.step_loop [OF e assms(4) hl at]
  have w: "with_enable ?s s2" using with_enable_tick [OF with_enable_refl] by (simp add: sl(1))
  note u = enable_irrelevant [OF w]
  have p: "\<not> pendingIrq ?s" using r(1) u(4) by (simp add: l2(1) s3)
  obtain dn where dn: "Disassemble8085Op (rd ?s) (uint (pc ?s)) 80 = Some dn"
    using r(8) u(1,3) by (auto simp: l2(1) s3)
  have st: "\<not> IsStopAddress (pc ?s) (stopAddrs cfg)" using r(7) u(1) by (simp add: l2(1) s3)
  have i: "spins cfg (lp_rt l1) ?s l2"
    using w r(2,3) sl(2) by (simp add: spins_def l2(1,2) s3)
  from spins_forever [OF this spins_body [OF _ assms(3) e assms(4) hl at p assms(5) dn st], of n]
  obtain l' where l': "trace_loop n api_of (unlimited cfg) l2 = Running l'" "spins cfg (lp_rt l1) ?s l'" by blast
  then show ?thesis
    using w sl(2) with_enable_trans [of ?s s2 "lp_cpu l'"] by (simp add: spins_def l2(1,2) s3)
qed

end
