(* ===== verification/Gdb_Session.thy ===== *)
theory Gdb_Session
  imports Gdb_Run Run_Laws
begin

unbundle bit_operations_syntax

text \<open>
  The stub seen from its client: every reply passes a reader of the protocol that verifies the checksum;
  a c packet is the search for the first stop, behind one unchecked instruction when it starts at a
  breakpoint; a session without c packets ends with its input.
\<close>

section \<open>A client of the protocol\<close>

text \<open>
  A frame as the remote protocol describes it: from the dollar sign to the number sign, then the sum of
  the characters modulo 256 as two hexadecimal digits.  A text with an escape or a run length, or with a
  wrong sum, is not accepted.
\<close>

definition client_digit :: "char \<Rightarrow> nat option" where
  "client_digit c =
     (let k = of_char c :: nat
      in if 48 \<le> k \<and> k \<le> 57 then Some (k - 48) else if 97 \<le> k \<and> k \<le> 102 then Some (k - 87)
         else if 65 \<le> k \<and> k \<le> 70 then Some (k - 55) else None)"

definition client_recv :: "string \<Rightarrow> (string \<times> string) option" where
  "client_recv s =
     (case dropWhile (\<lambda>c. c \<noteq> CHR ''$'') s of
        [] \<Rightarrow> None
      | _ # body \<Rightarrow>
          (let data = takeWhile (\<lambda>c. c \<noteq> CHR ''#'') body
           in case dropWhile (\<lambda>c. c \<noteq> CHR ''#'') body of
                _ # a # b # rest \<Rightarrow>
                  do { x \<leftarrow> client_digit a; y \<leftarrow> client_digit b;
                       if 16 * x + y = sum_list (map of_char data) mod 256 \<and> CHR ''}'' \<notin> set data \<and> CHR ''*'' \<notin> set data
                       then Some (data, rest) else None }
              | _ \<Rightarrow> None))"

lemma client_digit_hex: "n < 16 \<Longrightarrow> client_digit (hexchars ! n) = Some n"
proof -
  have "\<forall>n \<in> set [0..<16]. client_digit (hexchars ! n) = Some n"
    by (simp add: upt_rec client_digit_def hexchars_def)
  then show "n < 16 \<Longrightarrow> client_digit (hexchars ! n) = Some n" by simp
qed

lemma checksum_sum: "unat (checksum data) = sum_list (map of_char data) mod 256"
proof -
  have "checksum data = of_nat (sum_list (map of_char data))"
    unfolding checksum_def by (induction data) (simp_all add: code_of_def)
  then show ?thesis by (simp add: unat_of_nat)
qed

lemma nibble_sum: "16 * unat (drop_bit 4 v AND 0xF) + unat (v AND 0xF) = unat v" for v :: u8
proof -
  have m: "(0xF :: u8) = mask 4" by (simp add: mask_eq_exp_minus_1)
  have lo: "unat (x AND 0xF) = unat x mod 16" for x :: u8
    unfolding m by (simp flip: take_bit_eq_mask add: unsigned_take_bit_eq) (simp add: take_bit_eq_mod)
  have hi: "unat (drop_bit 4 v) = unat v div 16"
    by (simp add: drop_bit_eq_div unat_div)
  have "unat v div 16 < 16" using unsigned_less [where 'a = nat, of v] by simp
  then show ?thesis unfolding lo hi by simp
qed

lemma client_recv_frame:
  assumes "plain_text r"
  shows "client_recv (packet_frame r @ rest) = Some (r, rest)"
proof -
  let ?v = "checksum r"
  have n: "unat (drop_bit 4 ?v AND 0xF) < 16" "unat (?v AND 0xF) < 16"
    "16 * unat (drop_bit 4 ?v AND 0xF) + unat (?v AND 0xF) = unat ?v"
    using nibble_less nibble_sum by blast+
  have tw: "takeWhile (\<lambda>c. c \<noteq> CHR ''#'') (r @ CHR ''#'' # k) = r" "dropWhile (\<lambda>c. c \<noteq> CHR ''#'') (r @ CHR ''#'' # k) = CHR ''#'' # k" for k
    using assms by (simp_all add: plain_text_def takeWhile_append dropWhile_append)
  show ?thesis
    using assms n client_digit_hex checksum_sum [of r]
    by (simp add: client_recv_def packet_frame_def hex_byte_def tw plain_text_def)
qed

lemma gdb_handle_closed:
  assumes "gdb_handle fuel tbl g pkt = Closed g'"
  shows "g' = (if hd pkt = CHR ''D'' then send_reply ''OK'' g else g)"
proof -
  have c: "gdb_continue n tbl k u \<noteq> Closed v" for n k u v
    by (induction n tbl k u rule: gdb_continue.induct) (simp split: option.split prod.split bool.split)+
  show ?thesis
    using assms c unfolding gdb_handle_def Let_def handle_s_def handle_c_def
    by (auto split: if_splits option.splits prod.splits)
qed

section \<open>A c packet\<close>

lemma first_stop_count:
  "first_stop tbl g k u \<Longrightarrow> 0 < k \<and> gdbStep u = gdbStep g + of_nat k"
  by (induction rule: first_stop.induct) (auto dest: gdb_step_client(5))

lemma handle_c_exact:
  assumes "CHR 0x03 \<notin> set (gd_in g)" "hd pkt = CHR ''c''"
  shows "(\<exists>g'. gdb_handle fuel tbl g pkt = Reply g' ''S05'' \<and> with_client (gd_in g) (gd_polls g) g' = u) \<longleftrightarrow>
    (if pc (gd_cpu (resume_at g pkt)) \<in> breakpoints g
     then (\<exists>g1 h k. gdb_step tbl (resume_at g pkt) = Some (g1, h) \<and> k \<le> fuel \<and> first_stop tbl g1 k u)
     else (\<exists>k \<le> fuel. first_stop tbl (resume_at g pkt) k u))"
proof -
  define g0 where "g0 = resume_at g pkt"
  have g0: "gd_in g0 = gd_in g" "gd_polls g0 = gd_polls g" "breakpoints g0 = breakpoints g"
    by (simp_all add: g0_def resume_at_def)
  have c: "gdb_handle fuel tbl g pkt = handle_c fuel tbl g pkt"
    using assms(2) by (simp add: gdb_handle_def Let_def)
  show ?thesis
  proof (cases "pc (gd_cpu g0) \<in> breakpoints g")
    case False
    then show ?thesis
      using gdb_continue_iff [of g0 fuel tbl 0 u] assms(1) g0
      by (simp add: c handle_c_def Let_def flip: g0_def)
  next
    case True
    show ?thesis
    proof (cases "gdb_step tbl g0")
      case None
      then show ?thesis using True g0 by (simp add: c handle_c_def Let_def flip: g0_def)
    next
      case (Some r)
      obtain g1 h where r: "r = (g1, h)" by fastforce
      note cl = gdb_step_client [OF Some [unfolded r]]
      have "CHR 0x03 \<notin> set (gd_in g1)" using assms(1) cl(2) g0 by simp
      from gdb_continue_iff [OF this, of fuel tbl 0 u] show ?thesis
        using True Some cl(2,3) g0 by (simp add: c r handle_c_def Let_def flip: g0_def)
    qed
  qed
qed

text \<open>
  So a continue from a breakpoint does not stop after its first instruction, even where that ends at
  another breakpoint.
\<close>

lemma breakpoint_run_past:
  assumes "gdb_handle fuel tbl g ''c'' = Reply g' ''S05''" "pc (gd_cpu g) \<in> breakpoints g"
  shows "\<exists>k. 2 \<le> k \<and> gdbStep g' = gdbStep g + of_nat k"
proof -
  have "handle_c fuel tbl g ''c'' = Reply g' ''S05''" using assms(1) by (simp add: gdb_handle_def Let_def)
  then obtain g1 h where s: "gdb_step tbl g = Some (g1, h)" and c: "gdb_continue fuel tbl 0 g1 = Reply g' ''S05''"
    using assms(2) by (auto simp: handle_c_def Let_def resume_at_def split: option.splits)
  obtain k u where u: "first_stop tbl g1 k u" "g' = with_client (gd_in g') (gd_polls g') u"
    using gdb_continue_stops [OF c] by auto
  have "gdbStep g' = gdbStep u" using u(2) by (metis with_client_simps(5))
  then have "gdbStep g' = gdbStep g + of_nat (Suc k)" "2 \<le> Suc k"
    using first_stop_count [OF u(1)] gdb_step_client(5) [OF s] by simp_all
  then show ?thesis by blast
qed

section \<open>The end of a session\<close>

text \<open>
  The packets of a session whose handlers take nothing from the input themselves: behind each the stub
  takes one byte as the answer to its reply.  At most \<open>n\<close> of them.
\<close>

fun client_packets :: "nat \<Rightarrow> string \<Rightarrow> string list" where
  "client_packets 0 inp = []"
| "client_packets (Suc n) inp =
     (let (pkt, rest, ack) = recv_packet inp
      in if pkt = [] then [] else pkt # client_packets n (drop 1 rest))"

text \<open>
  What stops a handler: P with too few digits, m with more bytes than a string can hold, and a step that
  reads beyond the memory buffer.
\<close>

definition unreadable :: "(plugin \<Rightarrow> plugin plugin_api) \<Rightarrow> plugin gdb \<Rightarrow> string \<Rightarrow> bool" where
  "unreadable tbl g pkt \<longleftrightarrow>
     hd pkt = CHR ''P'' \<and> handle_P (g_gdbZ80 g) (gd_cpu g) pkt = None \<or>
     hd pkt = CHR ''m'' \<and> handle_m (gd_max_string g) (gd_cpu g) pkt = None \<or>
     hd pkt = CHR ''s'' \<and>
       (\<exists>tms s rt s1. fire_timers (total_tstates (gd_stats g)) (gd_timers g) (gd_cpu (resume_at g pkt)) = Some (tms, s) \<and>
         io_runtime_on_step tbl (gd_rt g) s (gdbStep g) (total_tstates (gd_stats g)) = (rt, s1) \<and>
         Emulate8085Op (runtime_bus tbl) s1 (gd_stats g) rt = None)"

definition gdb_clock :: "nat \<Rightarrow> nat \<Rightarrow> 'p gdb \<Rightarrow> bool" where
  "gdb_clock B n g \<longleftrightarrow> unat (total_tstates (gd_stats g)) + 18 * n \<le> B \<and> list_all (timer_ok B) (gd_timers g)"

lemma resume_at_fields [simp]:
  "gd_stats (resume_at g pkt) = gd_stats g" "gd_timers (resume_at g pkt) = gd_timers g" "gd_rt (resume_at g pkt) = gd_rt g"
  "gdbStep (resume_at g pkt) = gdbStep g" "gd_in (resume_at g pkt) = gd_in g"
  by (simp_all add: resume_at_def)

lemma gdb_step_clock:
  assumes "gdb_clock B (Suc n) g"
  shows "gdb_step api_of g = Some (g', h) \<Longrightarrow> gdb_clock B n g'"
    and "gdb_step api_of g = None \<Longrightarrow>
      \<exists>tms s rt s1. fire_timers (total_tstates (gd_stats g)) (gd_timers g) (gd_cpu g) = Some (tms, s) \<and>
         io_runtime_on_step api_of (gd_rt g) s (gdbStep g) (total_tstates (gd_stats g)) = (rt, s1) \<and>
         Emulate8085Op (runtime_bus api_of) s1 (gd_stats g) rt = None"
proof -
  have b: "unat (total_tstates (gd_stats g)) + 18 + 18 * n \<le> B" "list_all (timer_ok B) (gd_timers g)"
    using assms by (simp_all add: gdb_clock_def)
  obtain tms s where f: "fire_timers (total_tstates (gd_stats g)) (gd_timers g) (gd_cpu g) = Some (tms, s)"
    and tms: "list_all (timer_ok B) tms"
    using fire_timers_end [OF b(2), of "total_tstates (gd_stats g)" "gd_cpu g"] b(1) by auto
  obtain rt s1 where on: "io_runtime_on_step api_of (gd_rt g) s (gdbStep g) (total_tstates (gd_stats g)) = (rt, s1)"
    by fastforce
  show "gdb_step api_of g = Some (g', h) \<Longrightarrow> gdb_clock B n g'"
    "gdb_step api_of g = None \<Longrightarrow> \<exists>tms s rt s1.
         fire_timers (total_tstates (gd_stats g)) (gd_timers g) (gd_cpu g) = Some (tms, s) \<and>
         io_runtime_on_step api_of (gd_rt g) s (gdbStep g) (total_tstates (gd_stats g)) = (rt, s1) \<and>
         Emulate8085Op (runtime_bus api_of) s1 (gd_stats g) rt = None"
  proof -
    show "gdb_clock B n g'" if run: "gdb_step api_of g = Some (g', h)"
    proof -
      obtain s2 st rt2 tms' s4
        where e: "Emulate8085Op (runtime_bus api_of) s1 (gd_stats g) rt = Some (s2, st, rt2, h)"
          and f2: "fire_timers (total_tstates st) tms s2 = Some (tms', s4)"
          and g': "gd_stats g' = st" "gd_timers g' = tms'"
        using run unfolding gdb_step_def f Let_def by (auto simp: on split: Option.bind_splits prod.splits)
      have t: "unat (total_tstates st) + 18 * n \<le> B" using step_tstates [OF e] b(1) by simp
      then have "list_all (timer_ok B) tms'" using fire_timers_end [OF tms, of "total_tstates st" s2] f2 by auto
      then show ?thesis using t by (simp add: gdb_clock_def g')
    qed
    assume n: "gdb_step api_of g = None"
    have "Emulate8085Op (runtime_bus api_of) s1 (gd_stats g) rt = None"
    proof (cases "Emulate8085Op (runtime_bus api_of) s1 (gd_stats g) rt")
      case (Some r)
      obtain s2 st rt2 h where e: "Emulate8085Op (runtime_bus api_of) s1 (gd_stats g) rt = Some (s2, st, rt2, h)"
        using Some by (metis prod_cases4)
      have "unat (total_tstates st) \<le> B" using step_tstates [OF e] b(1) by simp
      then have False using fire_timers_end [OF tms, of "total_tstates st" s2] n
        by (auto simp: gdb_step_def f on e)
      then show ?thesis ..
    qed
    then show "\<exists>tms s rt s1.
         fire_timers (total_tstates (gd_stats g)) (gd_timers g) (gd_cpu g) = Some (tms, s) \<and>
         io_runtime_on_step api_of (gd_rt g) s (gdbStep g) (total_tstates (gd_stats g)) = (rt, s1) \<and>
         Emulate8085Op (runtime_bus api_of) s1 (gd_stats g) rt = None"
      using f on by blast
  qed
qed

lemma gdb_clock_fields [simp]:
  "gdb_clock B n (g\<lparr>gd_cpu := s\<rparr>) = gdb_clock B n g" "gdb_clock B n (g\<lparr>breakpoints := bs\<rparr>) = gdb_clock B n g"
  "gdb_clock B n (g\<lparr>gd_in := i, gd_out := out\<rparr>) = gdb_clock B n g"
  by (simp_all add: gdb_clock_def)

lemma gdb_handle_clock:
  assumes "hd pkt \<noteq> CHR ''c''" "gdb_clock B (Suc n) g"
  shows "gdb_handle fuel api_of g pkt = Reply g1 r \<Longrightarrow> gdb_clock B n g1"
    and "gdb_handle fuel api_of g pkt = Failed \<Longrightarrow> unreadable api_of g pkt"
proof -
  have c: "gdb_clock B (Suc n) (resume_at g pkt)" "gdb_clock B n g" using assms(2) by (simp_all add: gdb_clock_def)
  note st = gdb_step_clock [OF c(1)]
  show "gdb_handle fuel api_of g pkt = Reply g1 r \<Longrightarrow> gdb_clock B n g1"
    using assms(1) c(2) unfolding gdb_handle_def Let_def handle_s_def
    by (auto simp: handle_Z_def Let_def split: if_splits option.splits prod.splits dest: st(1))
  show "gdb_handle fuel api_of g pkt = Failed \<Longrightarrow> unreadable api_of g pkt"
    using assms(1) st(2) unfolding gdb_handle_def Let_def handle_s_def unreadable_def
    by (auto split: if_splits option.splits prod.splits)
qed

lemma send_reply_rest: "gd_in (send_reply r g) = drop 1 (gd_in g)" "gdb_clock B n (send_reply r g) = gdb_clock B n g"
  by (auto simp: send_reply_def send_packet_def gdb_clock_def split: list.splits)

lemma gdb_session:
  assumes "length (gd_in g) < n" "\<forall>p \<in> set (client_packets n (gd_in g)). hd p \<noteq> CHR ''c''" "gdb_clock B n g"
  shows "case gdb_main n fuel api_of g of
      Closed g' \<Rightarrow> True
    | Failed \<Rightarrow> \<exists>k g1. k < n \<and> gdb_main k fuel api_of g = Busy g1 \<and>
        (let (pkt, inp, ack) = recv_packet (gd_in g1) in unreadable api_of (g1\<lparr>gd_in := inp, gd_out := gd_out g1 @ ack\<rparr>) pkt)
    | _ \<Rightarrow> False"
  using assms
proof (induction n arbitrary: g)
  case (Suc n)
  obtain pkt r ack where p: "recv_packet (gd_in g) = (pkt, r, ack)" by (metis prod_cases3)
  define g1 where "g1 = g\<lparr>gd_in := r, gd_out := gd_out g @ ack\<rparr>"
  show ?case
  proof (cases "pkt = []")
    case False
    note s = recv_packet_shorter [OF p False]
    have hd: "hd pkt \<noteq> CHR ''c''" and later: "\<forall>p \<in> set (client_packets n (drop 1 r)). hd p \<noteq> CHR ''c''"
      using Suc.prems(2) False by (simp_all add: p)
    have ck: "gdb_clock B (Suc n) g1" using Suc.prems(3) by (simp add: g1_def)
    note hc = gdb_handle_clock [OF hd ck]
    show ?thesis
    proof (cases "gdb_handle fuel api_of g1 pkt")
      case (Reply g2 d)
      have "gd_in g2 = r" using gdb_handle_in(2) [OF hd Reply] by (simp add: g1_def)
      then have i: "gd_in (send_reply d g2) = drop 1 r" by (simp add: send_reply_rest)
      have "length (gd_in (send_reply d g2)) < n" using i s(1) Suc.prems(1) by simp
      moreover have "gdb_clock B n (send_reply d g2)" using hc(1) [OF Reply] by (simp add: send_reply_rest)
      ultimately have ih: "case gdb_main n fuel api_of (send_reply d g2) of
          Closed g' \<Rightarrow> True
        | Failed \<Rightarrow> \<exists>k g1. k < n \<and> gdb_main k fuel api_of (send_reply d g2) = Busy g1 \<and>
            (let (pkt, inp, ack) = recv_packet (gd_in g1) in unreadable api_of (g1\<lparr>gd_in := inp, gd_out := gd_out g1 @ ack\<rparr>) pkt)
        | _ \<Rightarrow> False"
        using Suc.IH [of "send_reply d g2"] later by (simp add: i)
      have e: "gdb_main (Suc k) fuel api_of g = gdb_main k fuel api_of (send_reply d g2)" for k
        using Reply False by (simp add: p g1_def)
      show ?thesis
      proof (cases "gdb_main n fuel api_of (send_reply d g2)")
        case Failed
        then obtain k u where k: "k < n" "gdb_main k fuel api_of (send_reply d g2) = Busy u"
          "let (pkt, inp, ack) = recv_packet (gd_in u) in unreadable api_of (u\<lparr>gd_in := inp, gd_out := gd_out u @ ack\<rparr>) pkt"
          using ih by auto
        have "gdb_main (Suc k) fuel api_of g = Busy u" unfolding e by (rule k(2))
        then show ?thesis unfolding e [of n] Failed using k(1,3) by (auto intro!: exI [of _ "Suc k"])
      qed (use ih in \<open>simp_all only: e [of n] handled.case\<close>)
    next
      case Failed
      then have "gdb_main (Suc n) fuel api_of g = Failed" using False by (simp add: p g1_def)
      moreover have "gdb_main 0 fuel api_of g = Busy g" by simp
      ultimately show ?thesis using hc(2) [OF Failed] p by (auto simp: g1_def intro!: exI [of _ 0])
    next
      case (Busy u)
      then have False using gdb_handle_in(1) [OF hd, of fuel api_of g1 u] by simp
      then show ?thesis ..
    next
      case (Closed u)
      then show ?thesis using False by (simp add: p g1_def)
    qed
  qed (simp add: p)
qed simp

end
