(* ===== verification/Pit_Laws.thy ===== *)
theory Pit_Laws
  imports Pit8254
begin

unbundle bit_operations_syntax

text \<open>
  Laws of the interval timer: the closed form of each mode's count and output after any number of
  ticks, the exact division of the processor's clock, and the latched read of a running counter.
\<close>

section \<open>The modes\<close>

text \<open>The count a load of \<open>N\<close> stands for: 0 counts as 65536.\<close>

definition full_of :: "u32 \<Rightarrow> nat" where
  "full_of v = (if v AND 0xFFFF = 0 then 65536 else unat (v AND 0xFFFF))"

lemma low16_less: "unat (v AND 0xFFFF :: u32) < 65536"
proof -
  have "uint (v AND 0xFFFF) = uint v mod 65536"
    using take_bit_eq_mod [of 16 "uint v"] by (simp add: uint_and take_bit_eq_mask mask_eq_exp_minus_1)
  then show ?thesis by (simp add: unat_eq_nat_uint nat_less_iff)
qed

lemma full_of_bounds: "0 < full_of v" "full_of v \<le> 65536"
  using low16_less [of v] by (auto simp: full_of_def unat_gt_0)

lemma fullCount_load: "fullCount (loadCounter k v) = of_nat (full_of v)"
  by (simp add: fullCount_def loadCounter_def Let_def full_of_def)

lemma load_fields:
  "k_count (loadCounter k v) = of_nat (full_of v)" "k_running (loadCounter k v)"
  "k_mode (loadCounter k v) = k_mode k" "k_out (loadCounter k v) = (k_mode k \<noteq> 0)"
  "k_rw (loadCounter k v) = k_rw k" "k_latched (loadCounter k v) = k_latched k"
  "k_readMsbNext (loadCounter k v) = k_readMsbNext k"
  by (simp_all add: fullCount_def loadCounter_def Let_def full_of_def)

text \<open>Ticking leaves the programming of a counter, its latch and its byte sequencing.\<close>

lemma tick_keeps [simp]:
  "k_initial (tickCounter k) = k_initial k" "k_mode (tickCounter k) = k_mode k"
  "k_running (tickCounter k) = k_running k" "k_rw (tickCounter k) = k_rw k"
  "k_latched (tickCounter k) = k_latched k" "k_latchVal (tickCounter k) = k_latchVal k"
  "k_readMsbNext (tickCounter k) = k_readMsbNext k"
  "fullCount (tickCounter k) = fullCount k"
  by (simp_all add: tickCounter_def Let_def fullCount_def)

lemma ticks_keep [simp]:
  "k_mode ((tickCounter ^^ n) k) = k_mode k" "k_running ((tickCounter ^^ n) k) = k_running k"
  "k_rw ((tickCounter ^^ n) k) = k_rw k" "k_latched ((tickCounter ^^ n) k) = k_latched k"
  "k_latchVal ((tickCounter ^^ n) k) = k_latchVal k" "k_readMsbNext ((tickCounter ^^ n) k) = k_readMsbNext k"
  "fullCount ((tickCounter ^^ n) k) = fullCount k"
  by (induction n) simp_all

lemma tick2: "k_running k \<Longrightarrow> k_mode k = 2 \<Longrightarrow> tickCounter k =
    (if k_count k \<le> 1 then k\<lparr>k_count := fullCount k, k_out := True\<rparr>
     else k\<lparr>k_count := k_count k - 1, k_out := (k_count k - 1 \<noteq> 1)\<rparr>)"
  and tick3: "k_running k \<Longrightarrow> k_mode k = 3 \<Longrightarrow> tickCounter k =
    (if k_count k \<le> 2 then k\<lparr>k_count := fullCount k, k_out := \<not> k_out k\<rparr> else k\<lparr>k_count := k_count k - 2\<rparr>)"
  and tick0: "k_running k \<Longrightarrow> k_mode k = 0 \<Longrightarrow> tickCounter k =
    (if k_count k = 0 then k\<lparr>k_count := 0xFFFF\<rparr>
     else if k_count k - 1 = 0 then k\<lparr>k_count := 0, k_out := True\<rparr> else k\<lparr>k_count := k_count k - 1\<rparr>)"
  by (simp_all add: tickCounter_def Let_def)

lemma small_words:
  fixes a b :: nat
  assumes "a \<le> 65536" "b \<le> 65536"
  shows "(of_nat a :: u32) = of_nat b \<longleftrightarrow> a = b" "(of_nat a :: u32) \<le> of_nat b \<longleftrightarrow> a \<le> b"
  using assms by (simp_all add: word_le_nat_alt unat_of_nat word_of_nat_eq_iff take_bit_nat_eq_self)

lemma down: "b \<le> a \<Longrightarrow> (of_nat a :: u32) - of_nat b = of_nat (a - b)"
  by simp

text \<open>
  Mode 2, the rate generator: the count runs from \<open>N\<close> to 1 and OUT is low while it is 1, so the period
  is \<open>N\<close>.
\<close>

lemma mode2_ticks:
  assumes "k_running k" "k_mode k = 2" "fullCount k = of_nat N" "k_count k = of_nat N" "k_out k"
    "2 \<le> N" "N \<le> 65536"
  shows "k_count ((tickCounter ^^ n) k) = of_nat (N - n mod N) \<and>
    k_out ((tickCounter ^^ n) k) = (n mod N \<noteq> N - 1)"
proof (induction n)
  case 0
  then show ?case using assms by simp
next
  case (Suc n)
  let ?k = "(tickCounter ^^ n) k" and ?m = "n mod N"
  have m: "?m < N" using assms(6) by simp
  have one: "k_count ?k \<le> 1 \<longleftrightarrow> N - ?m \<le> 1"
    using Suc small_words(2) [of "N - ?m" 1] assms(7) by simp
  show ?case
  proof (cases "Suc ?m = N")
    case True
    then have "k_count ?k \<le> 1" using one by simp
    then show ?thesis using assms True by (simp add: mod_Suc tick2)
  next
    case False
    then have "\<not> k_count ?k \<le> 1" using one m by simp
    moreover have "k_count ?k - 1 = of_nat (N - Suc ?m)"
      using Suc down [of 1 "N - ?m"] m by simp
    moreover have "(of_nat (N - Suc ?m) :: u32) = 1 \<longleftrightarrow> N - Suc ?m = 1"
      using small_words(1) [of "N - Suc ?m" 1] assms(7) by simp
    ultimately show ?thesis using assms False m by (simp add: mod_Suc tick2) linarith?
  qed
qed

text \<open>
  Mode 3, the square wave: the count falls by two, and OUT toggles every \<open>(N + 1) div 2\<close> ticks.
\<close>

lemma mode3_ticks:
  assumes "k_running k" "k_mode k = 3" "fullCount k = of_nat N" "k_count k = of_nat N" "k_out k"
    "0 < N" "N \<le> 65536"
  defines "h \<equiv> (N + 1) div 2"
  shows "k_count ((tickCounter ^^ n) k) = of_nat (N - 2 * (n mod h)) \<and>
    k_out ((tickCounter ^^ n) k) = even (n div h)"
proof (induction n)
  case 0
  then show ?case using assms by simp
next
  case (Suc n)
  let ?k = "(tickCounter ^^ n) k" and ?m = "n mod h"
  have h0: "0 < h" using assms(6) by (simp add: h_def)
  have m: "?m < h" using h0 by simp
  have two: "k_count ?k \<le> 2 \<longleftrightarrow> N - 2 * ?m \<le> 2"
    using Suc small_words(2) [of "N - 2 * ?m" 2] assms(7) by simp
  show ?case
  proof (cases "Suc ?m = h")
    case True
    then have "N - 2 * ?m \<le> 2" using h_def by linarith
    then have "k_count ?k \<le> 2" using two by simp
    moreover have "Suc n div h = Suc (n div h)" using True h0 by (simp add: div_Suc mod_Suc)
    ultimately show ?thesis using assms True Suc by (simp add: mod_Suc tick3)
  next
    case False
    then have "\<not> N - 2 * ?m \<le> 2" using m h_def by linarith
    then have "\<not> k_count ?k \<le> 2" "2 \<le> N - 2 * ?m" using two by simp_all
    moreover have "k_count ?k - 2 = of_nat (N - 2 * Suc ?m)"
      using Suc down [of 2 "N - 2 * ?m"] \<open>2 \<le> N - 2 * ?m\<close> by simp
    moreover have "Suc n div h = n div h" using False by (simp add: div_Suc mod_Suc)
    ultimately show ?thesis using assms False Suc by (simp add: mod_Suc tick3)
  qed
qed

text \<open>Mode 0: OUT rises with tick number \<open>N\<close> and stays high.\<close>

lemma mode0_out_stays:
  "k_mode k = 0 \<Longrightarrow> k_out k \<Longrightarrow> k_out ((tickCounter ^^ n) k)"
  by (induction n) (auto simp: tickCounter_def Let_def)

lemma mode0_ticks:
  assumes "k_running k" "k_mode k = 0" "k_count k = of_nat N" "\<not> k_out k" "0 < N" "N \<le> 65536" "n \<le> N"
  shows "k_count ((tickCounter ^^ n) k) = of_nat (N - n) \<and> k_out ((tickCounter ^^ n) k) = (n = N)"
  using assms(7)
proof (induction n)
  case 0
  then show ?case using assms by simp
next
  case (Suc n)
  let ?k = "(tickCounter ^^ n) k"
  have "k_count ?k \<noteq> 0" using Suc small_words(1) [of "N - n" 0] assms(6) by simp
  moreover have "k_count ?k - 1 = of_nat (N - Suc n)" using Suc down [of 1 "N - n"] by simp
  moreover have "(of_nat (N - Suc n) :: u32) = 0 \<longleftrightarrow> N - Suc n = 0"
    using small_words(1) [of "N - Suc n" 0] assms(6) by simp
  ultimately show ?case using Suc assms by (auto simp: tick0 simp del: of_nat_diff)
qed

lemma mode0_rises:
  assumes "k_running k" "k_mode k = 0" "k_count k = of_nat N" "\<not> k_out k" "0 < N" "N \<le> 65536"
  shows "k_out ((tickCounter ^^ n) k) \<longleftrightarrow> N \<le> n"
proof (cases "N \<le> n")
  case True
  have "k_out ((tickCounter ^^ N) k)" using mode0_ticks [OF assms order_refl] by simp
  then have "k_out ((tickCounter ^^ (n - N)) ((tickCounter ^^ N) k))" by (rule mode0_out_stays [rotated]) (simp add: assms(2))
  moreover have "(tickCounter ^^ (n - N)) ((tickCounter ^^ N) k) = (tickCounter ^^ n) k"
    using True funpow_add [of "n - N" N tickCounter] by simp
  ultimately show ?thesis using True by (simp only:)
qed (use mode0_ticks [OF assms, of n] in auto)

section \<open>The clock\<close>

lemma tick_gated_nth:
  "i < length cs \<Longrightarrow> tick_gated g cs ! i = (if bit g i then tickCounter (cs ! i) else cs ! i)"
  by (simp add: tick_gated_def nth_enumerate_eq)

lemma tick_gated_length [simp]: "length (tick_gated g cs) = length cs"
  by (simp add: tick_gated_def)

lemma tick_gated_pow:
  "length ((tick_gated g ^^ n) cs) = length cs"
  "i < length cs \<Longrightarrow> (tick_gated g ^^ n) cs ! i = (if bit g i then (tickCounter ^^ n) (cs ! i) else cs ! i)"
proof -
  show l: "length ((tick_gated g ^^ n) cs) = length cs" for n by (induction n) simp_all
  show "i < length cs \<Longrightarrow> (tick_gated g ^^ n) cs ! i = (if bit g i then (tickCounter ^^ n) (cs ! i) else cs ! i)"
    by (induction n) (simp_all add: tick_gated_nth l)
qed

text \<open>
  Steps at times \<open>T\<close>, each less than \<open>2\<^sup>1\<^sup>8\<close> clock ticks after the one before, the T-states not wrapping
  around.
\<close>

inductive pit_run :: "pit_ctx \<Rightarrow> u64 \<Rightarrow> pit_ctx \<Rightarrow> bool" for c0 where
  start: "pit_run c0 (lastTstates c0) c0"
| step: "pit_run c0 T c \<Longrightarrow> T \<le> T' \<Longrightarrow> unat (T' - T) + unat (clkdiv c) \<le> 0x40000 * unat (clkdiv c) \<Longrightarrow>
    pit_run c0 T' (fst (pit_on_step c host s n T'))"

lemma tick_division:
  fixes a delta :: u64 and D :: u32
  assumes "unat a < unat D" "unat delta + unat D \<le> 0x40000 * unat D"
  shows "pit_ticks ((a + delta) div ucast D) = (unat a + unat delta) div unat D"
    "unat ((a + delta) - (a + delta) div ucast D * ucast D) = (unat a + unat delta) mod unat D"
proof -
  let ?acc = "a + delta" and ?D = "ucast D :: u64"
  have d: "0 < unat D" "unat D < 2 ^ 32" using assms(1) unsigned_less [where 'a = nat, of D] by simp_all
  have D: "unat ?D = unat D"
    using d(2) by (simp add: unsigned_ucast_eq take_bit_nat_eq_self)
  have small: "unat a + unat delta < 2 ^ 64" using assms d(2) by simp
  have acc: "unat ?acc = unat a + unat delta"
    using small by (subst unat_add_lem [THEN iffD1]) simp_all
  have ticks: "unat (?acc div ?D) = (unat a + unat delta) div unat D" by (simp only: unat_div acc D)
  have "(unat a + unat delta) div unat D \<le> (0x40000 * unat D) div unat D"
    using assms by (intro div_le_mono) simp
  then have "(unat a + unat delta) div unat D \<le> 0x40000" using d by simp
  then show "pit_ticks (?acc div ?D) = (unat a + unat delta) div unat D"
    using ticks by (auto simp: pit_ticks_def word_less_nat_alt)
  have le: "(unat a + unat delta) div unat D * unat D \<le> unat a + unat delta" by simp
  then have p: "unat (?acc div ?D * ?D) = (unat a + unat delta) div unat D * unat D"
    using order_le_less_trans [OF le small] by (subst unat_mult_lem [THEN iffD1]) (simp_all only: ticks D, simp)
  have "unat (?acc - ?acc div ?D * ?D) = (unat a + unat delta) - (unat a + unat delta) div unat D * unat D"
    using le by (subst unat_sub) (simp_all only: word_le_nat_alt acc p)
  then show "unat (?acc - ?acc div ?D * ?D) = (unat a + unat delta) mod unat D"
    by (simp only: minus_div_mult_eq_mod)
qed

lemma pit_run_clock:
  assumes "pit_run c0 T c" "unat (clkAccum c0) < unat (clkdiv c0)"
  shows "pit_c c = (tick_gated (gateMask c0) ^^ ((unat (clkAccum c0) + (unat T - unat (lastTstates c0))) div unat (clkdiv c0))) (pit_c c0)"
    "unat (clkAccum c) = (unat (clkAccum c0) + (unat T - unat (lastTstates c0))) mod unat (clkdiv c0)"
    "clkdiv c = clkdiv c0" "gateMask c = gateMask c0" "lastTstates c = T" "lastTstates c0 \<le> T"
proof -
  have "pit_c c = (tick_gated (gateMask c0) ^^ ((unat (clkAccum c0) + (unat T - unat (lastTstates c0))) div unat (clkdiv c0))) (pit_c c0) \<and>
    unat (clkAccum c) = (unat (clkAccum c0) + (unat T - unat (lastTstates c0))) mod unat (clkdiv c0) \<and>
    clkdiv c = clkdiv c0 \<and> gateMask c = gateMask c0 \<and> lastTstates c = T \<and> lastTstates c0 \<le> T"
    using assms(1)
  proof induction
    case start
    then show ?case using assms by simp
  next
    case (step T c T' host s n)
    let ?d = "unat (clkdiv c0)" and ?t0 = "unat (lastTstates c0)"
    define x where "x = unat (clkAccum c0) + (unat T - ?t0)"
    define y where "y = unat (T' - T)"
    have d: "0 < ?d" using assms(2) by simp
    have IH: "clkdiv c = clkdiv c0" "gateMask c = gateMask c0" "lastTstates c = T"
      "unat (clkAccum c) = x mod ?d" "pit_c c = (tick_gated (gateMask c0) ^^ (x div ?d)) (pit_c c0)"
      and ge: "lastTstates c0 \<le> T" using step.IH by (simp_all add: x_def)
    have "y = unat T' - unat T" using step.hyps(2) by (simp add: y_def unat_sub word_le_nat_alt)
    then have sum: "unat (clkAccum c0) + (unat T' - ?t0) = x mod ?d + y + x div ?d * ?d"
      using step.hyps(2) ge by (simp add: x_def word_le_nat_alt)
    have lt: "unat (clkAccum c) < unat (clkdiv c)" using d by (simp add: IH)
    note td = tick_division [OF lt step.hyps(3), unfolded IH, folded y_def, unfolded IH(4)]
    have "pit_c (fst (pit_on_step c host s n T')) =
        (tick_gated (gateMask c0) ^^ ((x mod ?d + y) div ?d)) ((tick_gated (gateMask c0) ^^ (x div ?d)) (pit_c c0))"
      unfolding pit_on_step_def Let_def using td(1) by (simp add: IH)
    moreover have "(unat (clkAccum c0) + (unat T' - ?t0)) div ?d = (x mod ?d + y) div ?d + x div ?d"
      unfolding sum using d by (subst div_mult_self1) simp_all
    ultimately have "pit_c (fst (pit_on_step c host s n T')) =
        (tick_gated (gateMask c0) ^^ ((unat (clkAccum c0) + (unat T' - ?t0)) div ?d)) (pit_c c0)" by (simp only: funpow_add comp_apply)
    moreover have "unat (clkAccum (fst (pit_on_step c host s n T'))) = (unat (clkAccum c0) + (unat T' - ?t0)) mod ?d"
      unfolding pit_on_step_def Let_def sum using td(2) by (simp only: IH mod_mult_self1) simp
    moreover have "lastTstates c0 \<le> T'" using ge step.hyps(2) by (rule order_trans)
    ultimately show ?case by (simp add: pit_on_step_def Let_def IH)
  qed
  then show "pit_c c = (tick_gated (gateMask c0) ^^ ((unat (clkAccum c0) + (unat T - unat (lastTstates c0))) div unat (clkdiv c0))) (pit_c c0)"
    "unat (clkAccum c) = (unat (clkAccum c0) + (unat T - unat (lastTstates c0))) mod unat (clkdiv c0)"
    "clkdiv c = clkdiv c0" "gateMask c = gateMask c0" "lastTstates c = T" "lastTstates c0 \<le> T" by simp_all
qed

section \<open>Programming a counter\<close>

text \<open>A control word to the plugin's fourth port, then both bytes of the count to the counter's own.\<close>

definition pit_port :: "pit_ctx \<Rightarrow> nat \<Rightarrow> u8" where
  "pit_port ctx i = word_of_int (uint (pit_base ctx) + int i)"

definition pit_program :: "pit_ctx \<Rightarrow> State8085 \<Rightarrow> nat \<Rightarrow> u8 \<Rightarrow> u16 \<Rightarrow> pit_ctx" where
  "pit_program ctx s i control n =
     (let c1 = fst (pit_on_io_write ctx s (pit_port ctx 3) control);
          c2 = fst (pit_on_io_write c1 s (pit_port ctx i) (lo8 n))
      in fst (pit_on_io_write c2 s (pit_port ctx i) (hi8 n)))"

lemma pit_port_sub:
  assumes "uint (pit_base ctx) + 3 < 256" "i \<le> 3"
  shows "uint (pit_port ctx i) - uint (pit_base ctx) = int i"
proof -
  have "uint (pit_port ctx i) = uint (pit_base ctx) + int i"
    unfolding pit_port_def using assms u8_bounds [of "pit_base ctx"] by (intro uint_word_of_int_id) simp_all
  then show ?thesis by simp
qed

text \<open>The mode a control word selects, 6 and 7 standing for 2 and 3.\<close>

definition control_mode :: "u8 \<Rightarrow> u8" where
  "control_mode v = (let m = drop_bit 1 v AND 0x07 in if m > 5 then m - 4 else m)"

lemma count_word: "push_bit 8 (ucast (hi8 n)) OR ucast (lo8 n) = (ucast n :: u32)"
  by (rule bit_word_eqI) (auto simp: bit_simps bit_hi8 bit_lo8 dest: bit_imp_le_length)

lemma full_of_count: "full_of (ucast n) = (if n = 0 then 65536 else unat (n :: u16))"
proof -
  have "(ucast n :: u32) AND 0xFFFF = ucast n"
  proof -
    have m: "(0xFFFF :: u32) = mask 16" by (simp add: mask_eq_exp_minus_1)
    show ?thesis unfolding m by (rule bit_word_eqI) (auto simp: bit_simps dest: bit_imp_le_length)
  qed
  moreover have u: "unat (ucast n :: u32) = unat n"
    using unsigned_less [where 'a = nat, of n] by (simp add: unsigned_ucast_eq take_bit_nat_eq_self)
  moreover have "(ucast n :: u32) = 0 \<longleftrightarrow> n = 0"
    using u by (metis unat_0 unat_eq_zero)
  ultimately show ?thesis by (simp add: full_of_def)
qed

lemma pit_program_counter:
  fixes s :: State8085 and n :: u16
  assumes "uint (pit_base ctx) + 3 < 256" "length (pit_c ctx) = 3" "i < 3"
    and "unat (drop_bit 6 control AND 0x03) = i" "drop_bit 4 control AND 0x03 = 3"
  defines "c \<equiv> pit_program ctx s i control n"
  shows "k_count (pit_c c ! i) = of_nat (full_of (ucast n))" "k_running (pit_c c ! i)"
    "k_mode (pit_c c ! i) = control_mode control" "k_out (pit_c c ! i) = (control_mode control \<noteq> 0)"
    "fullCount (pit_c c ! i) = of_nat (full_of (ucast n))" "k_rw (pit_c c ! i) = 3"
    "\<not> k_latched (pit_c c ! i)" "\<not> k_readMsbNext (pit_c c ! i)"
    "j \<noteq> i \<Longrightarrow> pit_c c ! j = pit_c ctx ! j" "length (pit_c c) = 3"
    "gateMask c = gateMask ctx" "clkdiv c = clkdiv ctx" "clkAccum c = clkAccum ctx"
    "lastTstates c = lastTstates ctx" "pit_base c = pit_base ctx"
proof -
  let ?k0 = "(pit_c ctx ! i)\<lparr>k_rw := 3, k_mode := control_mode control, k_bcd := (control AND 1 \<noteq> 0),
    k_running := False, k_writeMsbNext := False, k_readMsbNext := False, k_latched := False,
    k_out := (control_mode control \<noteq> 0)\<rparr>"
  let ?k1 = "?k0\<lparr>k_writeLsb := lo8 n, k_writeMsbNext := True\<rparr>"
  let ?k2 = "(loadCounter ?k1 (ucast n))\<lparr>k_writeMsbNext := False\<rparr>"
  have sc: "drop_bit 6 control AND 0x03 \<noteq> 0x03" using assms(3,4) by auto
  have c1: "fst (pit_on_io_write ctx s (pit_port ctx 3) control) = ctx\<lparr>pit_c := (pit_c ctx)[i := ?k0]\<rparr>"
    using sc assms(4,5) pit_port_sub [OF assms(1), of 3]
    by (simp add: pit_on_io_write_def Let_def pit_writeControl_def control_mode_def)
  have c2: "fst (pit_on_io_write (ctx\<lparr>pit_c := (pit_c ctx)[i := ?k0]\<rparr>) s (pit_port ctx i) (lo8 n)) =
      ctx\<lparr>pit_c := (pit_c ctx)[i := ?k1]\<rparr>"
    using assms(2,3) pit_port_sub [OF assms(1), of i]
    by (simp add: pit_on_io_write_def Let_def writeCounter_def)
  have c: "c = ctx\<lparr>pit_c := (pit_c ctx)[i := ?k2]\<rparr>"
    unfolding c_def pit_program_def Let_def c1 c2
    using assms(2,3) pit_port_sub [OF assms(1), of i]
    by (simp add: pit_on_io_write_def Let_def writeCounter_def count_word)
  have full: "fullCount (k\<lparr>k_writeMsbNext := b\<rparr>) = fullCount k" for k b by (simp add: fullCount_def)
  have "pit_c c ! i = ?k2" using assms(2,3) by (simp add: c)
  then show "k_count (pit_c c ! i) = of_nat (full_of (ucast n))" "k_running (pit_c c ! i)"
    "k_mode (pit_c c ! i) = control_mode control" "k_out (pit_c c ! i) = (control_mode control \<noteq> 0)"
    "fullCount (pit_c c ! i) = of_nat (full_of (ucast n))" "k_rw (pit_c c ! i) = 3"
    "\<not> k_latched (pit_c c ! i)" "\<not> k_readMsbNext (pit_c c ! i)"
    by (simp_all add: load_fields fullCount_load full)
  show "j \<noteq> i \<Longrightarrow> pit_c c ! j = pit_c ctx ! j" "length (pit_c c) = 3"
    "gateMask c = gateMask ctx" "clkdiv c = clkdiv ctx" "clkAccum c = clkAccum ctx"
    "lastTstates c = lastTstates ctx" "pit_base c = pit_base ctx"
    using assms(2) by (simp_all add: c)
qed

text \<open>The output of a counter \<open>t\<close> ticks after it was loaded with \<open>N\<close>; in mode 2 a count of 1 never shows.\<close>

definition waveform :: "u8 \<Rightarrow> nat \<Rightarrow> nat \<Rightarrow> bool" where
  "waveform m N t =
     (if m = 0 then N \<le> t else if m = 2 then N = 1 \<or> t mod N \<noteq> N - 1 else even (t div ((N + 1) div 2)))"

lemma mode2_one:
  assumes "k_running k" "k_mode k = 2" "fullCount k = 1" "k_count k = 1" "k_out k"
  shows "k_count ((tickCounter ^^ n) k) = 1 \<and> k_out ((tickCounter ^^ n) k)"
  using assms by (induction n) (simp_all add: tick2)

lemma pit_waveform_law:
  assumes "uint (pit_base ctx) + 3 < 256" "length (pit_c ctx) = 3" "i < 3"
    and "unat (drop_bit 6 control AND 0x03) = i" "drop_bit 4 control AND 0x03 = 3"
    and "control_mode control \<in> {0, 2, 3}" "unat (clkAccum ctx) < unat (clkdiv ctx)"
    and "pit_run (pit_program ctx s i control n) T c"
  shows "k_out (pit_c c ! i) =
    waveform (control_mode control) (if n = 0 then 65536 else unat n)
      (if bit (gateMask ctx) i
       then (unat (clkAccum ctx) + (unat T - unat (lastTstates ctx))) div unat (clkdiv ctx) else 0)"
proof -
  let ?p = "pit_program ctx s i control n"
  define N where "N = (if n = 0 then 65536 else unat n)"
  define t where "t = (if bit (gateMask ctx) i
       then (unat (clkAccum ctx) + (unat T - unat (lastTstates ctx))) div unat (clkdiv ctx) else 0)"
  note pc = pit_program_counter [OF assms(1-5), where s = s and n = n]
  have "unat (clkAccum ?p) < unat (clkdiv ?p)" using assms(7) by (simp add: pc)
  then have at: "pit_c c ! i = (tickCounter ^^ t) (pit_c ?p ! i)"
    using pit_run_clock(1) [OF assms(8)] assms(3) by (simp add: pc tick_gated_pow t_def)
  have N: "0 < N" "N \<le> 65536" using full_of_bounds [of "ucast n"] by (simp_all only: full_of_count N_def)
  note f = pc(1,5) [unfolded full_of_count, folded N_def]
  consider "control_mode control = 0" | "control_mode control = 2" "N = 1" | "control_mode control = 2" "2 \<le> N"
    | "control_mode control = 3" using assms(6) N(1) by fastforce
  then have "k_out (pit_c c ! i) = waveform (control_mode control) N t"
  proof cases
    case 1
    then show ?thesis
      using mode0_rises [of "pit_c ?p ! i" N t] pc(2,3,4) f N at by (simp add: waveform_def)
  next
    case 2
    then show ?thesis
      using mode2_one [of "pit_c ?p ! i" t] pc(2,3,4) f at by (simp add: waveform_def)
  next
    case 3
    then show ?thesis
      using mode2_ticks [of "pit_c ?p ! i" N t] pc(2,3,4) f N at by (simp add: waveform_def)
  next
    case 4
    then show ?thesis
      using mode3_ticks [of "pit_c ?p ! i" N t] pc(2,3,4) f N at by (simp add: waveform_def)
  qed
  then show ?thesis by (simp only: N_def t_def)
qed

section \<open>Latched reads\<close>

text \<open>
  The latch command for a counter, then its low and its high byte, with a step of the plugin before each
  of the two reads: the word read, and the plugin's state.
\<close>

definition pit_read :: "pit_ctx \<Rightarrow> State8085 \<Rightarrow> nat \<Rightarrow> u8 \<times> pit_ctx" where
  "pit_read ctx s i =
     (let b = io (snd (pit_on_io_pre_read ctx s (pit_port ctx i))) (pit_port ctx i)
      in (b, fst (pit_on_io_post_read ctx s (pit_port ctx i) b)))"

definition pit_latched_read ::
  "pit_ctx \<Rightarrow> State8085 \<Rightarrow> host_api \<Rightarrow> nat \<Rightarrow> u8 \<Rightarrow> u64 \<Rightarrow> u64 \<Rightarrow> u64 \<Rightarrow> u64 \<Rightarrow> u16 \<times> pit_ctx" where
  "pit_latched_read ctx s host i latch n1 T1 n2 T2 =
     (let c1 = fst (pit_on_io_write ctx s (pit_port ctx 3) latch);
          c2 = fst (pit_on_step c1 host s n1 T1);
          (lsb, c3) = pit_read c2 s i;
          c4 = fst (pit_on_step c3 host s n2 T2);
          (msb, c5) = pit_read c4 s i
      in (pair16 msb lsb, c5))"

lemma pit_read_eq:
  assumes "uint (pit_base ctx) + 3 < 256" "i < 3"
  shows "pit_read ctx s i =
    (readCounterByte (pit_c ctx ! i), ctx\<lparr>pit_c := (pit_c ctx)[i := advanceRead (pit_c ctx ! i)]\<rparr>)"
  using assms(2) pit_port_sub [OF assms(1), of i]
  by (simp add: pit_read_def pit_on_io_pre_read_def pit_on_io_post_read_def Let_def)

lemma pit_on_step_counter:
  assumes "i < length (pit_c ctx)" "c = fst (pit_on_step ctx host s n T)"
  shows "\<exists>k. pit_c c ! i = (tickCounter ^^ k) (pit_c ctx ! i)" "length (pit_c c) = length (pit_c ctx)"
    "pit_base c = pit_base ctx"
proof -
  show "\<exists>k. pit_c c ! i = (tickCounter ^^ k) (pit_c ctx ! i)"
    using assms(1) unfolding assms(2) pit_on_step_def Let_def
    by (simp add: tick_gated_pow) (metis funpow_0)
  show "length (pit_c c) = length (pit_c ctx)" "pit_base c = pit_base ctx"
    by (simp_all add: assms(2) pit_on_step_def Let_def tick_gated_pow)
qed

lemma latched_bytes:
  assumes "k_latched k" "k_rw k = 3"
  shows "\<not> k_readMsbNext k \<Longrightarrow> readCounterByte k = lo8 (k_latchVal k)"
    "k_readMsbNext k \<Longrightarrow> readCounterByte k = hi8 (k_latchVal k)"
proof -
  have "ucast (drop_bit 8 v) = hi8 v" for v :: u16
    by (rule bit_word_eqI) (auto simp: bit_hi8 bit_simps add.commute dest: bit_imp_le_length)
  then show "k_readMsbNext k \<Longrightarrow> readCounterByte k = hi8 (k_latchVal k)"
    using assms by (simp add: readCounterByte_def)
  show "\<not> k_readMsbNext k \<Longrightarrow> readCounterByte k = lo8 (k_latchVal k)"
    using assms by (simp add: readCounterByte_def lo8_def)
qed

lemma pit_latched_read_law:
  assumes "uint (pit_base ctx) + 3 < 256" "length (pit_c ctx) = 3" "i < 3"
    and "unat (drop_bit 6 latch AND 0x03) = i" "drop_bit 4 latch AND 0x03 = 0"
    and "k_rw (pit_c ctx ! i) = 3" "\<not> k_latched (pit_c ctx ! i)"
  shows "case pit_latched_read ctx s host i latch n1 T1 n2 T2 of (v, c) \<Rightarrow>
    v = ucast (k_count (pit_c ctx ! i)) \<and> \<not> k_latched (pit_c c ! i) \<and> \<not> k_readMsbNext (pit_c c ! i)"
proof -
  let ?v = "ucast (k_count (pit_c ctx ! i)) :: u16"
  have sc: "drop_bit 6 latch AND 0x03 \<noteq> 0x03" using assms(3,4) by auto
  define c1 where "c1 = fst (pit_on_io_write ctx s (pit_port ctx 3) latch)"
  have c1: "c1 = ctx\<lparr>pit_c := (pit_c ctx)[i := (pit_c ctx ! i)\<lparr>k_latchVal := ?v, k_latched := True, k_readMsbNext := False\<rparr>]\<rparr>"
    unfolding c1_def using sc assms(4,5,7) pit_port_sub [OF assms(1), of 3]
    by (simp add: pit_on_io_write_def Let_def pit_writeControl_def)
  have l1: "i < length (pit_c c1)" "length (pit_c c1) = 3" "pit_base c1 = pit_base ctx" using assms(2,3) by (simp_all add: c1)
  define c2 where "c2 = fst (pit_on_step c1 host s n1 T1)"
  note s2 = pit_on_step_counter [OF l1(1) c2_def]
  obtain k where k: "pit_c c2 ! i = (tickCounter ^^ k) (pit_c c1 ! i)" using s2(1) by blast
  have at2: "k_latched (pit_c c2 ! i)" "k_rw (pit_c c2 ! i) = 3" "k_latchVal (pit_c c2 ! i) = ?v" "\<not> k_readMsbNext (pit_c c2 ! i)"
    using assms(2,3,6) by (simp_all add: k c1)
  have b2: "uint (pit_base c2) + 3 < 256" using assms(1) by (simp add: s2 l1)
  obtain c3 where r3: "pit_read c2 s i = (lo8 ?v, c3)" and c3: "c3 = c2\<lparr>pit_c := (pit_c c2)[i := (pit_c c2 ! i)\<lparr>k_readMsbNext := True\<rparr>]\<rparr>"
    using at2 by (simp add: pit_read_eq [OF b2 assms(3)] latched_bytes advanceRead_def)
  have l3: "i < length (pit_c c3)" "pit_base c3 = pit_base ctx" using s2 l1 by (simp_all add: c3)
  define c4 where "c4 = fst (pit_on_step c3 host s n2 T2)"
  note s4 = pit_on_step_counter [OF l3(1) c4_def]
  obtain m where m: "pit_c c4 ! i = (tickCounter ^^ m) (pit_c c3 ! i)" using s4(1) by blast
  have at4: "k_latched (pit_c c4 ! i)" "k_rw (pit_c c4 ! i) = 3" "k_latchVal (pit_c c4 ! i) = ?v" "k_readMsbNext (pit_c c4 ! i)"
    using at2 l3 by (simp_all add: m c3 s2 l1)
  have b4: "uint (pit_base c4) + 3 < 256" using assms(1) by (simp add: s4 l3)
  have r5: "pit_read c4 s i = (hi8 ?v, c4\<lparr>pit_c := (pit_c c4)[i := (pit_c c4 ! i)\<lparr>k_readMsbNext := False, k_latched := False\<rparr>]\<rparr>)"
    using at4 by (simp add: pit_read_eq [OF b4 assms(3)] latched_bytes advanceRead_def)
  have "length (pit_c c4) = 3" using s4 s2 l1 by (simp add: c3)
  then show ?thesis
    unfolding pit_latched_read_def Let_def c1_def [symmetric] c2_def [symmetric] r3 prod.case c4_def [symmetric] r5
    using assms(3) by simp
qed

end
