(* ===== verification/Report_Laws.thy ===== *)
theory Report_Laws
  imports Report Trace_Laws
begin

text \<open>
  Laws of the program's output: when a memory dump is complete and when it has no value, what the trace
  lines and the coverage counters add up to.
\<close>

section \<open>Memory dumps\<close>

lemma row_bytes_eq:
  "0 \<le> a \<Longrightarrow> row_bytes s a n =
    (if n = 0 \<or> a + int n \<le> 65536 then Some (map (\<lambda>i. memory s (word_of_int (a + int i))) [0..<n]) else None)"
proof (induction n arbitrary: a)
  case (Suc n)
  have m: "map (\<lambda>i. memory s (word_of_int (a + int i))) [0..<Suc n] =
      memory s (word_of_int a) # map (\<lambda>i. memory s (word_of_int (a + 1 + int i))) [0..<n]"
    by (simp add: upt_conv_Cons map_Suc_upt [symmetric] comp_def add.assoc del: upt_Suc)
  show ?case
    using Suc.IH [of "a + 1"] Suc.prems unfolding m by (auto simp: rd_def)
qed simp

lemma row_addr: "word_of_int (uint p + uint q + int i) = (p + q + of_nat i :: u16)"
  by simp

lemma dump_row_eq:
  "dump_row s d offset =
    (let n = row_len d offset; bs = map (\<lambda>i. memory s (dump_start d + offset + of_nat i)) [0..<n]
     in if n = 0 \<or> uint (dump_start d) + uint offset + int n \<le> 65536
        then Some (uint (dump_start d) + uint offset, bs, bs) else None)"
proof -
  have "0 \<le> uint (dump_start d) + uint offset" by simp
  from row_bytes_eq [OF this, of s "row_len d offset"] show ?thesis
    by (simp add: dump_row_def Let_def)
qed

text \<open>A length of more than 0xFFF0 makes the offset wrap around before the loop can end.\<close>

lemma dump_rows_bounds:
  assumes "dump_rows s d offset = Some rows" "unat offset mod 16 = 0" "offset < dump_length d"
  shows "uint (dump_start d) + uint (dump_length d) \<le> 65536 \<and> unat (dump_length d) \<le> 0xFFF0"
proof -
  have "unat offset mod 16 = 0 \<longrightarrow> offset < dump_length d \<longrightarrow>
      uint (dump_start d) + uint (dump_length d) \<le> 65536 \<and> unat (dump_length d) \<le> 0xFFF0"
  proof (rule dump_rows.raw_induct [where P = "\<lambda>s d offset r. unat offset mod 16 = 0 \<longrightarrow> offset < dump_length d \<longrightarrow>
        uint (dump_start d) + uint (dump_length d) \<le> 65536 \<and> unat (dump_length d) \<le> 0xFFF0", OF _ assms(1)], intro impI)
    fix f s d and offset :: u16 and r
    assume IH: "\<And>s d offset r. f s d offset = Some r \<Longrightarrow> unat offset mod 16 = 0 \<longrightarrow> offset < dump_length d \<longrightarrow>
        uint (dump_start d) + uint (dump_length d) \<le> 65536 \<and> unat (dump_length d) \<le> 0xFFF0"
      and e: "(if offset < dump_length d
        then do { row \<leftarrow> dump_row s d offset; rows \<leftarrow> f s d (offset + 16); Some (row # rows) } else Some []) = Some r"
      and m: "unat offset mod 16 = 0" and lt: "offset < dump_length d"
    have lt': "unat offset < unat (dump_length d)" using lt by (simp add: word_less_nat_alt)
    obtain row rows where row: "dump_row s d offset = Some row" and rest: "f s d (offset + 16) = Some rows"
      using e lt by (auto split: Option.bind_splits)
    have n0: "row_len d offset \<noteq> 0" using lt' by (simp add: row_len_def)
    then have fits: "uint (dump_start d) + uint offset + int (row_len d offset) \<le> 65536"
      using row by (simp add: dump_row_eq Let_def split: if_splits)
    have u: "uint w = int (unat w)" for w :: u16 by simp
    show "uint (dump_start d) + uint (dump_length d) \<le> 65536 \<and> unat (dump_length d) \<le> 0xFFF0"
    proof (cases "unat offset + 16 < unat (dump_length d)")
      case True
      have "unat offset + 16 < 65536" using True unsigned_less [where 'a = nat, of "dump_length d"] by simp
      then have o16: "unat (offset + 16) = unat offset + 16"
        by (subst unat_add_lem [THEN iffD1]) simp_all
      have "offset + 16 < dump_length d" using True by (simp add: word_less_nat_alt o16)
      then show ?thesis using IH [OF rest] m by (simp add: o16)
    next
      case False
      have last: "unat offset + row_len d offset = unat (dump_length d)" using False lt' by (auto simp: row_len_def)
      have "uint (dump_start d) + uint (dump_length d) \<le> 65536"
        using fits last [symmetric] unfolding u by simp
      moreover have "unat (dump_length d) \<le> 0xFFF0"
      proof (rule ccontr)
        assume big: "\<not> unat (dump_length d) \<le> 0xFFF0"
        have "unat offset \<ge> 65505" using big False by linarith
        moreover have "unat offset < 65536" using unsigned_less [where 'a = nat, of offset] by simp
        ultimately have "unat offset = 0xFFF0" using m by presburger
        then have "unat (offset + 16) = 0" by (simp add: unat_word_ariths)
        then have "offset + 16 = 0" by (simp only: unat_eq_zero)
        then have "f s d 0 = Some rows" using rest by simp
        moreover have "(0 :: u16) < dump_length d" using lt' by (simp add: word_less_nat_alt)
        ultimately show False using IH [of s d 0 rows] big by simp
      qed
      ultimately show ?thesis by simp
    qed
  qed
  then show ?thesis using assms by simp
qed

lemma dump_rows_complete:
  assumes "uint (dump_start d) + uint (dump_length d) \<le> 65536" "unat (dump_length d) \<le> 0xFFF0"
    and "unat offset \<le> unat (dump_length d)"
  shows "\<exists>rows. dump_rows s d offset = Some rows \<and>
    concat (map (\<lambda>r. fst (snd r)) rows) =
      map (\<lambda>i. memory s (dump_start d + of_nat i)) [unat offset..<unat (dump_length d)] \<and>
    (\<forall>r \<in> set rows. snd (snd r) = fst (snd r))"
  using assms(3)
proof (induction "unat (dump_length d) - unat offset" arbitrary: offset rule: less_induct)
  case less
  show ?case
  proof (cases "offset < dump_length d")
    case False
    then have "unat offset = unat (dump_length d)" using less.prems by (simp add: word_less_nat_alt)
    then show ?thesis using False by (subst dump_rows.simps) simp
  next
    case True
    let ?n = "row_len d offset" and ?L = "unat (dump_length d)" and ?o = "unat offset"
    have lt: "?o < ?L" using True by (simp add: word_less_nat_alt)
    have o16: "unat (offset + 16) = ?o + 16"
      using lt assms(2) by (subst unat_add_lem [THEN iffD1]) simp_all
    let ?bs = "map (\<lambda>i. memory s (dump_start d + of_nat i)) [?o..<?o + ?n]"
    have bs: "map (\<lambda>i. memory s (dump_start d + offset + of_nat i)) [0..<?n] = ?bs"
      by (rule nth_equalityI) (simp_all add: add.assoc)
    have n: "?o + ?n = min (?o + 16) ?L" using lt by (auto simp: row_len_def)
    have fits: "uint (dump_start d) + uint offset + int ?n \<le> 65536"
    proof -
      have u: "uint w = int (unat w)" for w :: u16 by simp
      have "?o + ?n \<le> ?L" using n by simp
      then have "uint offset + int ?n \<le> uint (dump_length d)" unfolding u by linarith
      then show ?thesis using assms(1) by simp
    qed
    have row: "dump_row s d offset = Some (uint (dump_start d) + uint offset, ?bs, ?bs)"
      using fits by (simp only: dump_row_eq Let_def bs) simp
    obtain rows where rows: "dump_rows s d (offset + 16) = Some rows"
      "concat (map (\<lambda>r. fst (snd r)) rows) = map (\<lambda>i. memory s (dump_start d + of_nat i)) [?o + ?n..<?L]"
      "\<forall>r \<in> set rows. snd (snd r) = fst (snd r)"
    proof (cases "?o + 16 \<le> ?L")
      case True
      then have "?o + ?n = unat (offset + 16)" using n o16 by simp
      moreover have "?L - unat (offset + 16) < ?L - ?o" using True lt o16 by simp
      moreover have "unat (offset + 16) \<le> ?L" using True o16 by simp
      ultimately show thesis using less.hyps [of "offset + 16"] that by auto
    next
      case False
      then have "\<not> offset + 16 < dump_length d" by (simp add: word_less_nat_alt o16)
      then have "dump_rows s d (offset + 16) = Some []" by (subst dump_rows.simps) simp
      then show thesis using that [of "[]"] False n by simp
    qed
    have "dump_rows s d offset = Some ((uint (dump_start d) + uint offset, ?bs, ?bs) # rows)"
      by (subst dump_rows.simps) (simp add: True row rows(1))
    moreover
    have "[?o..<?o + ?n] @ [?o + ?n..<?L] = [?o..<?L]" 
    proof -
      have "?o \<le> ?o + ?n" "?o + ?n \<le> ?L" using n by simp_all
      then show ?thesis using upt_add_eq_append [of ?o "?o + ?n" "?L - (?o + ?n)"] by simp
    qed
    then have "?bs @ map (\<lambda>i. memory s (dump_start d + of_nat i)) [?o + ?n..<?L] =
        map (\<lambda>i. memory s (dump_start d + of_nat i)) [?o..<?L]" by (metis map_append)
    ultimately show ?thesis using rows(2,3) by simp
  qed
qed

text \<open>The lengths a dump has a value for.\<close>

definition dump_fits :: "MemoryDump \<Rightarrow> bool" where
  "dump_fits d \<longleftrightarrow> dump_length d = 0 \<or>
     (uint (dump_start d) + uint (dump_length d) \<le> 65536 \<and> unat (dump_length d) \<le> 0xFFF0)"

section \<open>Accounting\<close>

text \<open>
  Without the summary every instruction has its line, numbered from 0; with coverage the counters add
  up to the instructions, \<open>k\<close> more.
\<close>

definition accounts :: "Config \<Rightarrow> u64 \<Rightarrow> 'p loop \<Rightarrow> bool" where
  "accounts cfg k l \<longleftrightarrow>
     (\<not> summary cfg \<longrightarrow> map tr_step (lp_out l) = map of_nat [0..<length (lp_out l)] \<and>
        lp_step l = of_nat (length (lp_out l))) \<and>
     (doCoverage cfg \<longrightarrow> sum (pcHits l) UNIV = lp_step l + k \<and> sum (opHits l) UNIV = lp_step l + k)"

lemma sum_hit:
  fixes f :: "'a::finite \<Rightarrow> 'b::comm_ring_1"
  shows "(\<Sum>x \<in> UNIV. if x = a then f a + 1 else f x) = sum f UNIV + 1"
proof -
  have "(\<Sum>x \<in> UNIV. if x = a then f a + 1 else f x) = (\<Sum>x \<in> UNIV. f x + (if x = a then 1 else 0))"
    by (rule sum.cong) simp_all
  then show ?thesis by (simp add: sum.distrib)
qed

lemma accounts_visit:
  assumes "accounts cfg 0 l"
  shows "accounts cfg 1 (visit cfg l mnem dis)"
  using assms by (auto simp: accounts_def visit_def Let_def sum_hit split: prod.splits)

lemma accounts_before:
  assumes "before_step cfg l = Some (l', mnem, dis, why)" "accounts cfg 0 l"
  shows "accounts cfg 1 l'"
proof -
  obtain k s where q: "trigger_irqs (drop (nextIRQ l) (irqs cfg)) (lp_step l) (nextIRQ l) (lp_cpu l) = (k, s)"
    by fastforce
  from assms(1) obtain d where "l' = visit cfg (l\<lparr>lp_cpu := s, nextIRQ := k\<rparr>) (ExtractMnemonic d 16) d"
    unfolding before_step_def q Let_def prod.case by (auto split: Option.bind_splits)
  moreover have "accounts cfg 0 (l\<lparr>lp_cpu := s, nextIRQ := k\<rparr>)" using assms(2) by (simp add: accounts_def)
  ultimately show ?thesis by (simp add: accounts_visit)
qed

lemma accounts_step:
  assumes "do_step tbl cfg l mnem dis = Some (l', why)" "accounts cfg 1 l"
  shows "accounts cfg 0 l'"
proof -
  have "lp_step l' = lp_step l + 1 \<and> pcHits l' = pcHits l \<and> opHits l' = opHits l \<and>
      (\<not> summary cfg \<longrightarrow> (\<exists>t. lp_out l' = lp_out l @ [t] \<and> tr_step t = lp_step l))"
    using assms(1) unfolding do_step_def Let_def by (auto simp: OutputTrace_def split: prod.splits Option.bind_splits)
  then show ?thesis using assms(2) by (auto simp: accounts_def)
qed

text \<open>The reasons found before the instruction at the program counter was executed.\<close>

definition unexecuted :: "halt_reason \<Rightarrow> bool" where
  "unexecuted r \<longleftrightarrow> r \<in> {R_tracepoint_max, R_tracepoint_stop, R_stop, R_loop}"

lemma stop_reason_unexecuted: "stop_reason cfg l = Some r \<Longrightarrow> unexecuted r"
  by (auto simp: stop_reason_def unexecuted_def Let_def split: if_splits)

lemma accounts_loop:
  assumes "accounts cfg 0 l" "trace_loop n tbl cfg l = Stopped l' why"
  shows "accounts cfg (if unexecuted why then 1 else 0) l'"
  using assms
proof (induction n arbitrary: l)
  case 0
  then show ?case by (auto simp: unexecuted_def split: if_splits)
next
  case (Suc n)
  show ?case
  proof (cases "maxSteps cfg = 0 \<or> lp_step l < maxSteps cfg")
    case False
    then show ?thesis using Suc.prems by (auto simp: unexecuted_def)
  next
    case True
    then obtain l1 r where b: "loop_body tbl cfg l = Some (l1, r)"
      and rest: "(case r of None \<Rightarrow> trace_loop n tbl cfg l1 | Some w \<Rightarrow> Stopped l1 w) = Stopped l' why"
      using Suc.prems(2) by (auto split: option.splits)
    from b show ?thesis
    proof (cases rule: loop_body_cases)
      case (stop mnem dis w)
      have "unexecuted w" using before_step_keeps(11) [OF stop(1)] by (intro stop_reason_unexecuted) simp
      then show ?thesis using rest stop(2) accounts_before [OF stop(1) Suc.prems(1)] by simp
    next
      case (step l2 mnem dis)
      have a: "accounts cfg 0 l1" by (rule accounts_step [OF step(2) accounts_before [OF step(1) Suc.prems(1)]])
      show ?thesis
      proof (cases r)
        case None
        then show ?thesis using Suc.IH [OF a] rest by simp
      next
        case (Some w)
        have "w = R_hlt" by (rule do_step_cases [OF step(2)]) (use Some in \<open>simp split: if_splits\<close>)
        then show ?thesis using a rest Some by (auto simp: unexecuted_def)
      qed
    qed
  qed
qed

lemma accounts_start: "accounts cfg 0 (start_loop s rt tms tps)"
  by (simp add: accounts_def start_loop_def)

end
