(* ===== verification/Io_Channel.thy ===== *)
theory Io_Channel
  imports Text
begin

unbundle bit_operations_syntax

text \<open>
  The byte channels the core offers to plugins, \<^verbatim>\<open>src/io_channel.cpp\<close>: a serial line bridged to a TCP
  client, a mirror to standard output, and the line-buffered mirror for a debugger's console.  What
  the operating system answers to \<^verbatim>\<open>accept\<close>, \<^verbatim>\<open>recv\<close> and \<^verbatim>\<open>send\<close> is a list of answers each channel
  consumes; the channels write to the same standard output.
\<close>

section \<open>The TCP bridge\<close>

text \<open>
  \<^verbatim>\<open>accept\<close> has a client or not; \<^verbatim>\<open>recv\<close> of at most 64 bytes delivers some, finds the connection
  closed, or has nothing (or an error, which the code does not tell apart); \<^verbatim>\<open>send\<close> takes a number of
  bytes, would block, or fails.
\<close>

datatype recv_answer = Got "u8 list" | Peer_closed | Nothing
datatype send_answer = Took nat | Would_block | Broken

record tcp =
  listenSock :: bool
  clientSock :: bool
  tcp_rxq :: "u8 list"
  txbuf :: "u8 list"
  os_accepts :: "bool list"
  os_recvs :: "recv_answer list"
  os_sends :: "send_answer list"
  os_wire :: "u8 list"

text \<open>An answer list that is used up: no client, nothing received, everything sent.\<close>

definition ask_accept :: "tcp \<Rightarrow> bool \<times> tcp" where
  "ask_accept t = (case os_accepts t of [] \<Rightarrow> (False, t) | a # as \<Rightarrow> (a, t\<lparr>os_accepts := as\<rparr>))"

definition ask_recv :: "tcp \<Rightarrow> recv_answer \<times> tcp" where
  "ask_recv t = (case os_recvs t of [] \<Rightarrow> (Nothing, t) | a # as \<Rightarrow>
     (case a of Got bs \<Rightarrow> if bs = [] then Nothing else Got (take 64 bs) | _ \<Rightarrow> a, t\<lparr>os_recvs := as\<rparr>))"

text \<open>What a \<^verbatim>\<open>send\<close> of \<open>bs\<close> puts on the wire, and its answer.\<close>

definition ask_send :: "u8 list \<Rightarrow> tcp \<Rightarrow> send_answer \<times> tcp" where
  "ask_send bs t =
     (let (a, as) = (case os_sends t of [] \<Rightarrow> (Took (length bs), []) | a # as \<Rightarrow> (a, as))
      in (a, t\<lparr>os_sends := as, os_wire := os_wire t @ (case a of Took n \<Rightarrow> take n bs | _ \<Rightarrow> [])\<rparr>))"

text \<open>The bytes buffered before a client came are sent to it one by one, whatever \<^verbatim>\<open>send\<close> answers.\<close>

fun send_banner :: "u8 list \<Rightarrow> tcp \<Rightarrow> tcp" where
  "send_banner [] t = t\<lparr>txbuf := []\<rparr>"
| "send_banner (b # bs) t = send_banner bs (snd (ask_send [b] t))"

definition tcp_accept :: "tcp \<Rightarrow> tcp" where
  "tcp_accept t =
     (if \<not> clientSock t \<and> listenSock t then
        (let (cs, t') = ask_accept t in if cs then send_banner (txbuf t') (t'\<lparr>clientSock := True\<rparr>) else t')
      else t)"

definition tcp_receive :: "tcp \<Rightarrow> tcp" where
  "tcp_receive t =
     (if clientSock t then
        (case ask_recv t of
           (Got bs, t') \<Rightarrow> t'\<lparr>tcp_rxq := tcp_rxq t' @ bs\<rparr>
         | (Peer_closed, t') \<Rightarrow> t'\<lparr>clientSock := False\<rparr>
         | (Nothing, t') \<Rightarrow> t')
      else t)"

definition tcp_tick :: "tcp \<Rightarrow> tcp" where
  "tcp_tick t = tcp_receive (tcp_accept t)"

definition tcp_read :: "tcp \<Rightarrow> nat \<Rightarrow> u8 list \<times> tcp" where
  "tcp_read t maxlen = (take maxlen (tcp_rxq t), t\<lparr>tcp_rxq := drop maxlen (tcp_rxq t)\<rparr>)"

definition TXBUF_MAX :: nat where "TXBUF_MAX = 8192"

fun buffer_tx :: "u8 list \<Rightarrow> u8 list \<Rightarrow> u8 list" where
  "buffer_tx [] q = q"
| "buffer_tx (b # bs) q = (if length q < TXBUF_MAX then buffer_tx bs (q @ [b]) else q)"

definition tcp_write :: "tcp \<Rightarrow> u8 list \<Rightarrow> tcp" where
  "tcp_write t bs =
     (if clientSock t then
        (case ask_send bs t of (Broken, t') \<Rightarrow> t'\<lparr>clientSock := False\<rparr> | (_, t') \<Rightarrow> t')
      else t\<lparr>txbuf := buffer_tx bs (txbuf t)\<rparr>)"

section \<open>The console mirror\<close>

record gdbtx =
  gx_line :: "u8 list"
  idleTicks :: nat

definition new_gdbtx :: gdbtx where
  "new_gdbtx = \<lparr>gx_line = [], idleTicks = 0\<rparr>"

text \<open>The second component is what goes to standard output.\<close>

definition gdbtx_flush :: "gdbtx \<Rightarrow> gdbtx \<times> u8 list" where
  "gdbtx_flush g = (g\<lparr>gx_line := [], idleTicks := 0\<rparr>, gx_line g @ [0x0A])"

definition gdbtx_putc :: "gdbtx \<Rightarrow> u8 \<Rightarrow> gdbtx \<times> u8 list" where
  "gdbtx_putc g0 v =
     (let g = g0\<lparr>idleTicks := 0\<rparr>
      in if v = 0x0A then gdbtx_flush g
         else if v = 0x0D then (g, [])
         else if v = 0x09 \<or> (0x20 \<le> v \<and> v \<le> 0x7E) then
           (let g1 = g\<lparr>gx_line := gx_line g @ [v]\<rparr>
            in if length (gx_line g1) \<ge> 512 then gdbtx_flush g1 else (g1, []))
         else (g, []))"

fun gdbtx_write :: "gdbtx \<Rightarrow> u8 list \<Rightarrow> gdbtx \<times> u8 list" where
  "gdbtx_write g [] = (g, [])"
| "gdbtx_write g (v # vs) =
     (let (g1, out1) = gdbtx_putc g v; (g2, out2) = gdbtx_write g1 vs in (g2, out1 @ out2))"

definition gdbtx_tick :: "gdbtx \<Rightarrow> gdbtx \<times> u8 list" where
  "gdbtx_tick g =
     (if gx_line g = [] then (g, [])
      else (let g1 = g\<lparr>idleTicks := idleTicks g + 1\<rparr>
            in if idleTicks g1 \<ge> 256 then gdbtx_flush g1 else (g1, [])))"

definition gdbtx_destroy :: "gdbtx \<Rightarrow> u8 list" where
  "gdbtx_destroy g = (if gx_line g = [] then [] else snd (gdbtx_flush g))"

section \<open>Channels and their registry\<close>

datatype chan = Tcp tcp | Stdout | Gdbtx gdbtx

fun chan_read :: "chan \<Rightarrow> nat \<Rightarrow> u8 list \<times> chan" where
  "chan_read (Tcp t) maxlen = map_prod id Tcp (tcp_read t maxlen)"
| "chan_read ch maxlen = ([], ch)"

fun chan_write :: "chan \<Rightarrow> u8 list \<Rightarrow> chan \<times> u8 list" where
  "chan_write (Tcp t) bs = (Tcp (tcp_write t bs), [])"
| "chan_write Stdout bs = (Stdout, bs)"
| "chan_write (Gdbtx g) bs = map_prod Gdbtx id (gdbtx_write g bs)"

fun chan_tick :: "chan \<Rightarrow> chan \<times> u8 list" where
  "chan_tick (Tcp t) = (Tcp (tcp_tick t), [])"
| "chan_tick Stdout = (Stdout, [])"
| "chan_tick (Gdbtx g) = map_prod Gdbtx id (gdbtx_tick g)"

fun chan_destroy :: "chan \<Rightarrow> u8 list" where
  "chan_destroy (Gdbtx g) = gdbtx_destroy g"
| "chan_destroy ch = []"

text \<open>
  \<^verbatim>\<open>gChannels\<close> in the order of opening, each with the handle the plugin holds; a use of a handle that is
  not (or no longer) there is undefined.
\<close>

record channel_host =
  gChannels :: "(nat \<times> chan) list"
  next_handle :: nat
  host_stdout :: "u8 list"

definition no_channels :: channel_host where
  "no_channels = \<lparr>gChannels = [], next_handle = 1, host_stdout = []\<rparr>"

text \<open>The part of a specification before and after the first equals sign.\<close>

definition channel_spec :: "string \<Rightarrow> string \<times> string" where
  "channel_spec s = (case find_char (CHR ''='') s of None \<Rightarrow> (s, []) | Some (type, arg) \<Rightarrow> (type, arg))"

text \<open>
  \<open>os\<close> is what opening the listening socket on a port gives: the bridge with the answers to come, or an
  error.  The handle is \<open>None\<close> for NULL.
\<close>

definition host_channel_open ::
  "(int \<Rightarrow> bool \<Rightarrow> string + tcp) \<Rightarrow> string option \<Rightarrow> channel_host \<Rightarrow> (nat option \<times> string) \<times> channel_host" where
  "host_channel_open os spec h =
     (let s = (case spec of None \<Rightarrow> [] | Some x \<Rightarrow> x);
          (type, arg) = channel_spec s;
          add = (\<lambda>ch. ((Some (next_handle h), []),
            h\<lparr>gChannels := gChannels h @ [(next_handle h, ch)], next_handle := next_handle h + 1\<rparr>))
      in if type = ''tcp'' \<or> type = ''window'' then
           (case os (if arg = [] then 0 else atoi arg) (type = ''window'') of
              Inl err \<Rightarrow> ((None, err), h) | Inr t \<Rightarrow> add (Tcp t))
         else if type = ''stdout'' then add Stdout
         else if type = ''gdbtx'' then add (Gdbtx new_gdbtx)
         else ((None, ''unknown channel spec '' @ [CHR 0x27] @ s @ [CHR 0x27]), h))"

fun set_chan :: "nat \<Rightarrow> chan \<Rightarrow> (nat \<times> chan) list \<Rightarrow> (nat \<times> chan) list" where
  "set_chan k ch [] = []"
| "set_chan k ch ((j, c) # cs) = (if j = k then (j, ch) # cs else (j, c) # set_chan k ch cs)"

fun drop_chan :: "nat \<Rightarrow> (nat \<times> chan) list \<Rightarrow> (nat \<times> chan) list" where
  "drop_chan k [] = []"
| "drop_chan k ((j, c) # cs) = (if j = k then cs else (j, c) # drop_chan k cs)"

definition host_channel_read :: "nat option \<Rightarrow> int \<Rightarrow> channel_host \<Rightarrow> (u8 list \<times> channel_host) option" where
  "host_channel_read c maxlen h =
     (case c of
        None \<Rightarrow> Some ([], h)
      | Some k \<Rightarrow>
          (if maxlen \<le> 0 then Some ([], h)
           else case map_of (gChannels h) k of
               None \<Rightarrow> None
             | Some ch \<Rightarrow> (let (bs, ch') = chan_read ch (nat maxlen)
                           in Some (bs, h\<lparr>gChannels := set_chan k ch' (gChannels h)\<rparr>))))"

text \<open>The result is the number of bytes the caller is told were written.\<close>

definition host_channel_write :: "nat option \<Rightarrow> u8 list \<Rightarrow> channel_host \<Rightarrow> (nat \<times> channel_host) option" where
  "host_channel_write c bs h =
     (case c of
        None \<Rightarrow> Some (0, h)
      | Some k \<Rightarrow>
          (if bs = [] then Some (0, h)
           else case map_of (gChannels h) k of
               None \<Rightarrow> None
             | Some ch \<Rightarrow> (let (ch', out) = chan_write ch bs
                           in Some (length bs, h\<lparr>gChannels := set_chan k ch' (gChannels h),
                                host_stdout := host_stdout h @ out\<rparr>))))"

definition host_channel_close :: "nat option \<Rightarrow> channel_host \<Rightarrow> channel_host option" where
  "host_channel_close c h =
     (case c of
        None \<Rightarrow> Some h
      | Some k \<Rightarrow>
          (case map_of (gChannels h) k of
             None \<Rightarrow> None
           | Some ch \<Rightarrow> Some (h\<lparr>gChannels := drop_chan k (gChannels h),
                host_stdout := host_stdout h @ chan_destroy ch\<rparr>)))"

definition io_channels_tick :: "channel_host \<Rightarrow> channel_host" where
  "io_channels_tick h =
     (let ticked = map (\<lambda>(k, ch). (k, chan_tick ch)) (gChannels h)
      in h\<lparr>gChannels := map (\<lambda>(k, r). (k, fst r)) ticked,
           host_stdout := host_stdout h @ concat (map (\<lambda>(k, r). snd r) ticked)\<rparr>)"

definition io_channels_shutdown :: "channel_host \<Rightarrow> channel_host" where
  "io_channels_shutdown h =
     h\<lparr>gChannels := [], host_stdout := host_stdout h @ concat (map (\<lambda>(k, ch). chan_destroy ch) (gChannels h))\<rparr>"

section \<open>The console helper's path\<close>

text \<open>\<open>env\<close> is the variable \<^verbatim>\<open>I8085_CONSOLE\<close>, \<open>exe\<close> the path the simulator was started by.\<close>

definition consoleHelperPath :: "string option \<Rightarrow> string \<Rightarrow> string" where
  "consoleHelperPath env exe =
     (case env of
        Some ov \<Rightarrow> ov
      | None \<Rightarrow>
          (let is_slash = (\<lambda>c. c = CHR ''/'' \<or> c = CHR 0x5C); rdir = dropWhile (\<lambda>c. \<not> is_slash c) (rev exe)
           in (if rdir = [] then ''.'' else rev (tl rdir)) @ ''/i8085-console''))"

end
