(* ===== verification/Channel_Laws.thy ===== *)
theory Channel_Laws
  imports Io_Channel "HOL-Library.Sublist"
begin

text \<open>
  Laws of the byte channels: what the console mirror prints of what is written to it, and in which order
  a client of the TCP bridge receives the bytes.
\<close>

section \<open>The console mirror\<close>

definition visible :: "u8 \<Rightarrow> bool" where
  "visible v \<longleftrightarrow> v = 0x09 \<or> (0x20 \<le> v \<and> v \<le> 0x7E)"

definition line_ok :: "u8 list \<Rightarrow> bool" where
  "line_ok l \<longleftrightarrow> length l \<le> 512 \<and> list_all visible l"

definition print_lines :: "u8 list list \<Rightarrow> u8 list" where
  "print_lines ls = concat (map (\<lambda>l. l @ [0x0A]) ls)"

lemma print_lines_simps [simp]:
  "print_lines [] = []" "print_lines (l # ls) = l @ [0x0A] @ print_lines ls"
  "print_lines (ks @ ls) = print_lines ks @ print_lines ls"
  by (simp_all add: print_lines_def)

text \<open>
  \<open>mirror g vs g' out\<close>: after the bytes \<open>vs\<close> the mirror has printed whole lines, and these with the
  line still open are what was open before and the visible bytes of \<open>vs\<close>.
\<close>

definition mirror :: "gdbtx \<Rightarrow> u8 list \<Rightarrow> gdbtx \<Rightarrow> u8 list \<Rightarrow> bool" where
  "mirror g vs g' out \<longleftrightarrow> length (gx_line g') < 512 \<and> list_all visible (gx_line g') \<and>
     (\<exists>ls. out = print_lines ls \<and> list_all line_ok ls \<and>
       concat ls @ gx_line g' = gx_line g @ filter visible vs)"

lemma mirror_trans:
  assumes "mirror g vs g1 out1" "mirror g1 ws g2 out2"
  shows "mirror g (vs @ ws) g2 (out1 @ out2)"
proof -
  obtain ks where ks: "out1 = print_lines ks" "list_all line_ok ks" "concat ks @ gx_line g1 = gx_line g @ filter visible vs"
    using assms(1) by (auto simp: mirror_def)
  obtain ls where ls: "out2 = print_lines ls" "list_all line_ok ls" "concat ls @ gx_line g2 = gx_line g1 @ filter visible ws"
    using assms(2) by (auto simp: mirror_def)
  have "concat (ks @ ls) @ gx_line g2 = concat ks @ gx_line g1 @ filter visible ws" using ls(3) by simp
  also have "\<dots> = gx_line g @ filter visible (vs @ ws)" using ks(3) by (metis append.assoc filter_append)
  finally show ?thesis
    using assms(2) ks(1,2) ls(1,2) by (auto simp: mirror_def intro!: exI [of _ "ks @ ls"])
qed

definition mirror_ok :: "gdbtx \<Rightarrow> bool" where
  "mirror_ok g \<longleftrightarrow> length (gx_line g) < 512 \<and> list_all visible (gx_line g)"

lemma mirror_ok_after: "mirror g vs g' out \<Longrightarrow> mirror_ok g'"
  by (simp add: mirror_def mirror_ok_def)

lemma mirror_flush:
  assumes "mirror_ok g" "gdbtx_flush g = (g', out)"
  shows "mirror g [] g' out"
  using assms by (auto simp: gdbtx_flush_def mirror_def mirror_ok_def line_ok_def intro!: exI [of _ "[gx_line g]"])

lemma mirror_same: "mirror_ok g \<Longrightarrow> gx_line g' = gx_line g \<Longrightarrow> list_all (\<lambda>v. \<not> visible v) vs \<Longrightarrow> mirror g vs g' []"
  by (auto simp: mirror_def mirror_ok_def list_all_iff intro!: exI [of _ "[]"])

lemma control_bytes: "\<not> visible 0x0A" "\<not> visible 0x0D"
  by (simp_all add: visible_def)

lemma mirror_putc:
  assumes "mirror_ok g" "gdbtx_putc g v = (g', out)"
  shows "mirror g [v] g' out"
proof (cases "visible v")
  case False
  then show ?thesis
    using assms control_bytes
    by (auto simp: gdbtx_putc_def Let_def visible_def gdbtx_flush_def mirror_ok_def mirror_def line_ok_def
        intro: exI [of _ "[]"] exI [of _ "[gx_line g]"] split: if_splits)
next
  case True
  then have c: "v \<noteq> 0x0A" "v \<noteq> 0x0D" using control_bytes by auto
  have full: "length (gx_line g @ [v]) \<le> 512" "list_all visible (gx_line g @ [v])"
    using assms(1) True by (simp_all add: mirror_ok_def)
  show ?thesis
  proof (cases "length (gx_line g @ [v]) \<ge> 512")
    case False
    then have "gx_line g' = gx_line g @ [v]" "out = []"
      using assms(2) True c by (auto simp: gdbtx_putc_def Let_def visible_def)
    then show ?thesis
      using full False True by (auto simp: mirror_def intro!: exI [of _ "[]"])
  next
    case fl: True
    then have "gx_line g' = []" "out = (gx_line g @ [v]) @ [0x0A]"
      using assms(2) True c by (auto simp: gdbtx_putc_def Let_def visible_def gdbtx_flush_def)
    then show ?thesis
      using full True by (auto simp: mirror_def line_ok_def intro!: exI [of _ "[gx_line g @ [v]]"])
  qed
qed

lemma mirror_write:
  assumes "mirror_ok g" "gdbtx_write g vs = (g', out)"
  shows "mirror g vs g' out"
  using assms
proof (induction vs arbitrary: g out)
  case Nil
  then show ?case by (auto intro: mirror_same)
next
  case (Cons v vs)
  obtain g1 out1 where p: "gdbtx_putc g v = (g1, out1)" by fastforce
  obtain out2 where w: "gdbtx_write g1 vs = (g', out2)" "out = out1 @ out2"
    using Cons.prems(2) p by (auto split: prod.splits)
  have m: "mirror g [v] g1 out1" by (rule mirror_putc [OF Cons.prems(1) p])
  have "mirror g ([v] @ vs) g' (out1 @ out2)"
    by (rule mirror_trans [OF m Cons.IH [OF mirror_ok_after [OF m] w(1)]])
  then show ?case by (simp add: w)
qed

lemma mirror_tick:
  assumes "mirror_ok g" "gdbtx_tick g = (g', out)"
  shows "mirror g [] g' out"
proof (cases "gx_line g = [] \<or> idleTicks g + 1 < 256")
  case True
  then have "gx_line g' = gx_line g" "out = []" using assms(2) by (auto simp: gdbtx_tick_def Let_def split: if_splits)
  then show ?thesis using mirror_same [OF assms(1)] by simp
next
  case False
  then have "gdbtx_flush (g\<lparr>idleTicks := idleTicks g + 1\<rparr>) = (g', out)"
    using assms(2) by (simp add: gdbtx_tick_def Let_def)
  from mirror_flush [OF _ this] show ?thesis using assms(1) by (simp add: mirror_ok_def mirror_def)
qed

text \<open>Any interleaving of writes and ticks.\<close>

inductive mirror_run :: "u8 list \<Rightarrow> gdbtx \<Rightarrow> u8 list \<Rightarrow> bool" where
  start: "mirror_run [] new_gdbtx []"
| put: "mirror_run vs g out \<Longrightarrow> gdbtx_write g ws = (g', out') \<Longrightarrow> mirror_run (vs @ ws) g' (out @ out')"
| tick: "mirror_run vs g out \<Longrightarrow> gdbtx_tick g = (g', out') \<Longrightarrow> mirror_run vs g' (out @ out')"

lemma mirror_run_mirror: "mirror_run vs g out \<Longrightarrow> mirror new_gdbtx vs g out"
proof (induction rule: mirror_run.induct)
  case start
  show ?case by (rule mirror_same) (simp_all add: mirror_ok_def new_gdbtx_def)
next
  case (put vs g out ws g' out')
  show ?case by (rule mirror_trans [OF put(3) mirror_write [OF mirror_ok_after [OF put(3)] put(2)]])
next
  case (tick vs g out g' out')
  show ?case using mirror_trans [OF tick(3) mirror_tick [OF mirror_ok_after [OF tick(3)] tick(2)]] by simp
qed

text \<open>An open line is printed at the latest after 256 ticks without a write.\<close>

lemma idle_line_flushed:
  assumes "idleTicks g + n = 256" "0 < n"
  shows "gx_line (((\<lambda>g. fst (gdbtx_tick g)) ^^ n) g) = []"
  using assms
proof (induction n arbitrary: g)
  case (Suc n)
  show ?case
  proof (cases "gx_line g = []")
    case True
    have "gdbtx_tick g = (g, [])" using True by (simp add: gdbtx_tick_def)
    then have "((\<lambda>g. fst (gdbtx_tick g)) ^^ k) g = g" for k by (induction k) simp_all
    then show ?thesis using True by metis
  next
    case False
    let ?g = "fst (gdbtx_tick g)"
    show ?thesis
    proof (cases "n = 0")
      case True
      then show ?thesis using Suc.prems False by (simp add: gdbtx_tick_def gdbtx_flush_def Let_def)
    next
      case n: False
      then have "idleTicks ?g + n = 256" using Suc.prems False by (simp add: gdbtx_tick_def Let_def)
      then show ?thesis using Suc.IH [of ?g] n by (simp only: funpow_Suc_right comp_apply)
    qed
  qed
qed simp

section \<open>The TCP bridge\<close>

inductive tcp_run :: "tcp \<Rightarrow> u8 list \<Rightarrow> u8 list \<Rightarrow> tcp \<Rightarrow> bool" for t0 where
  start: "tcp_run t0 [] [] t0"
| tick: "tcp_run t0 written got t \<Longrightarrow> tcp_run t0 written got (tcp_tick t)"
| get: "tcp_run t0 written got t \<Longrightarrow> tcp_run t0 written (got @ fst (tcp_read t n)) (snd (tcp_read t n))"
| put: "tcp_run t0 written got t \<Longrightarrow> tcp_run t0 (written @ bs) got (tcp_write t bs)"

lemma buffer_tx_eq: "length q \<le> TXBUF_MAX \<Longrightarrow> buffer_tx bs q = q @ take (TXBUF_MAX - length q) bs"
proof (induction bs arbitrary: q)
  case (Cons b bs)
  show ?case
  proof (cases "length q < TXBUF_MAX")
    case True
    have "TXBUF_MAX - length q = Suc (TXBUF_MAX - Suc (length q))" using True by simp
    then show ?thesis using Cons.IH [of "q @ [b]"] True by simp
  qed simp
qed simp

lemma ask_send_free:
  "os_sends t = [] \<Longrightarrow> ask_send bs t = (Took (length bs), t\<lparr>os_wire := os_wire t @ bs\<rparr>)"
  by (simp add: ask_send_def)

lemma send_banner_free:
  "os_sends t = [] \<Longrightarrow> send_banner bs t = t\<lparr>os_wire := os_wire t @ bs, txbuf := []\<rparr>"
  by (induction bs arbitrary: t) (simp_all add: ask_send_free)

definition bridge_ok :: "u8 list \<Rightarrow> tcp \<Rightarrow> bool" where
  "bridge_ok written t \<longleftrightarrow> os_sends t = [] \<and> os_wire t @ txbuf t = written \<and> (clientSock t \<longrightarrow> txbuf t = [])"

lemma ask_keeps [simp]:
  "os_sends (snd (ask_accept t)) = os_sends t" "os_wire (snd (ask_accept t)) = os_wire t"
  "txbuf (snd (ask_accept t)) = txbuf t" "clientSock (snd (ask_accept t)) = clientSock t"
  "tcp_rxq (snd (ask_accept t)) = tcp_rxq t" "os_recvs (snd (ask_accept t)) = os_recvs t"
  "os_sends (snd (ask_recv t)) = os_sends t" "os_wire (snd (ask_recv t)) = os_wire t"
  "txbuf (snd (ask_recv t)) = txbuf t" "clientSock (snd (ask_recv t)) = clientSock t"
  "tcp_rxq (snd (ask_recv t)) = tcp_rxq t"
  by (simp_all add: ask_accept_def ask_recv_def split: list.split)

lemma receive_keeps [simp]:
  "os_sends (tcp_receive t) = os_sends t" "os_wire (tcp_receive t) = os_wire t" "txbuf (tcp_receive t) = txbuf t"
  by (simp_all add: tcp_receive_def split_beta split: recv_answer.split)

lemma receive_client: "clientSock (tcp_receive t) \<Longrightarrow> clientSock t"
  by (simp add: tcp_receive_def split: if_splits)

lemma bridge_tick:
  assumes "bridge_ok w t"
  shows "bridge_ok w (tcp_tick t)"
proof -
  have "bridge_ok w (tcp_accept t)"
    using assms by (auto simp: bridge_ok_def tcp_accept_def send_banner_free split_beta Let_def)
  then show ?thesis using receive_client [of "tcp_accept t"] by (auto simp: tcp_tick_def bridge_ok_def)
qed

text \<open>
  With a system that takes what it is given, the client receives what was written in the order it was
  written, from the first byte on, as long as not more than the buffer holds was written in all.
\<close>

lemma tcp_run_order:
  assumes "tcp_run t0 written got t" "bridge_ok [] t0" "length written \<le> TXBUF_MAX"
  shows "bridge_ok written t"
  using assms
proof (induction)
  case (tick written got t)
  then show ?case by (simp add: bridge_tick)
next
  case (get written got t n)
  then show ?case by (simp add: bridge_ok_def tcp_read_def)
next
  case (put written got t bs)
  have b: "bridge_ok written t" using put by simp
  show ?case
  proof (cases "clientSock t")
    case True
    then show ?thesis using b by (auto simp: tcp_write_def bridge_ok_def ask_send_free)
  next
    case False
    have "length (txbuf t) + length bs \<le> TXBUF_MAX"
      using b put.prems(2) by (auto simp: bridge_ok_def)
    then show ?thesis using b False by (auto simp: tcp_write_def bridge_ok_def buffer_tx_eq)
  qed
qed simp

text \<open>
  Whatever the system takes, refuses or breaks off, the client is sent a part of what was written, in its
  order: bytes are lost, none is sent twice or out of turn.
\<close>

lemma ask_send_part:
  "ask_send bs t = (a, t') \<Longrightarrow> \<exists>n. os_wire t' = os_wire t @ take n bs \<and> txbuf t' = txbuf t \<and> clientSock t' = clientSock t"
  by (auto simp: ask_send_def Let_def split: list.splits send_answer.splits intro: exI [of _ 0] exI [of _ "length bs"])

lemma send_banner_part:
  "\<exists>part. os_wire (send_banner bs t) = os_wire t @ part \<and> subseq part bs \<and> txbuf (send_banner bs t) = [] \<and>
    clientSock (send_banner bs t) = clientSock t"
proof (induction bs arbitrary: t)
  case (Cons b bs)
  obtain a t1 where s: "ask_send [b] t = (a, t1)" by fastforce
  obtain n where n: "os_wire t1 = os_wire t @ take n [b]" "clientSock t1 = clientSock t"
    using ask_send_part [OF s] by blast
  obtain part where "os_wire (send_banner bs t1) = os_wire t1 @ part" "subseq part bs" "txbuf (send_banner bs t1) = []"
    "clientSock (send_banner bs t1) = clientSock t1"
    using Cons.IH by blast
  moreover have "subseq (take n [b] @ part) ([b] @ bs)"
    by (rule list_emb_append_mono) (use \<open>subseq part bs\<close> in \<open>cases n; simp\<close>)+
  ultimately show ?case using n s by auto
qed simp

lemma buffer_tx_part: "\<exists>n. buffer_tx bs q = q @ take n bs"
proof (induction bs arbitrary: q)
  case (Cons b bs)
  then obtain n where "buffer_tx bs (q @ [b]) = (q @ [b]) @ take n bs" by blast
  then show ?case by (auto intro: exI [of _ "Suc n"] exI [of _ 0])
qed simp

lemma subseq_grow: "subseq xs ys \<Longrightarrow> subseq (xs @ take n zs) (ys @ zs)"
  by (rule list_emb_append_mono) (auto intro: prefix_imp_subseq take_is_prefix)

lemma tcp_run_subseq:
  assumes "tcp_run t0 written got t" "os_wire t0 = []" "txbuf t0 = []"
  shows "subseq (os_wire t @ txbuf t) written \<and> (clientSock t \<longrightarrow> txbuf t = [])"
  using assms
proof (induction)
  case (tick written got t)
  have "subseq (os_wire (tcp_accept t) @ txbuf (tcp_accept t)) written \<and> (clientSock (tcp_accept t) \<longrightarrow> txbuf (tcp_accept t) = [])"
  proof -
    obtain a t1 where s: "ask_accept t = (a, t1)" by fastforce
    have t1: "os_wire t1 = os_wire t" "txbuf t1 = txbuf t" using s ask_keeps [of t] by simp_all
    obtain part where "os_wire (send_banner (txbuf t) (t1\<lparr>clientSock := True\<rparr>)) = os_wire t @ part" "subseq part (txbuf t)"
      "txbuf (send_banner (txbuf t) (t1\<lparr>clientSock := True\<rparr>)) = []"
      using send_banner_part [of "txbuf t" "t1\<lparr>clientSock := True\<rparr>"] t1 by auto
    moreover have "subseq (os_wire t @ part) written"
      using tick \<open>subseq part (txbuf t)\<close> by (meson list_emb_append_mono subseq_order.order_refl subseq_order.order_trans)
    ultimately show ?thesis
      using tick t1 s ask_keeps [of t] by (auto simp: tcp_accept_def)
  qed
  then show ?case using receive_client [of "tcp_accept t"] by (auto simp: tcp_tick_def)
next
  case (get written got t n)
  then show ?case by (simp add: tcp_read_def)
next
  case (put written got t bs)
  then have sub: "subseq (os_wire t @ txbuf t) written" "clientSock t \<longrightarrow> txbuf t = []" by simp_all
  show ?case
  proof (cases "clientSock t")
    case True
    obtain a t1 where s: "ask_send bs t = (a, t1)" by fastforce
    obtain n where n: "os_wire t1 = os_wire t @ take n bs" "txbuf t1 = []"
      using ask_send_part [OF s] sub(2) True by auto
    have "os_wire (tcp_write t bs) = os_wire t1" "txbuf (tcp_write t bs) = []"
      using True s n(2) by (simp_all add: tcp_write_def split: send_answer.split)
    then show ?thesis using subseq_grow [of "os_wire t" written n bs] sub True n by simp
  next
    case False
    obtain n where "buffer_tx bs (txbuf t) = txbuf t @ take n bs" using buffer_tx_part by blast
    then show ?thesis using subseq_grow [OF sub(1), of n bs] False by (simp add: tcp_write_def)
  qed
qed simp

text \<open>Whatever happens the buffer holds at most its limit.\<close>

lemma send_banner_txbuf [simp]: "txbuf (send_banner bs t) = []"
  by (induction bs arbitrary: t) simp_all

lemma tick_txbuf: "length (txbuf (tcp_tick t)) \<le> length (txbuf t)"
  by (simp add: tcp_tick_def tcp_accept_def split_beta Let_def)

lemma tcp_run_buffer:
  assumes "tcp_run t0 written got t" "length (txbuf t0) \<le> TXBUF_MAX"
  shows "length (txbuf t) \<le> TXBUF_MAX"
  using assms
proof (induction)
  case (tick written got t)
  then show ?case using tick_txbuf [of t] by simp
next
  case (put written got t bs)
  then show ?case by (auto simp: tcp_write_def buffer_tx_eq ask_send_def Let_def split: send_answer.splits list.splits)
qed (simp_all add: tcp_read_def)

end
