(* ===== verification/Serial_Link.thy ===== *)
theory Serial_Link
  imports Stack_Laws Channel_Laws
begin

text \<open>
  The serial interface on a TCP bridge: the plugin of \<^verbatim>\<open>mc6850.cpp\<close> with one channel of \<^verbatim>\<open>io_channel.cpp\<close>, as
  \<^verbatim>\<open>tcp=PORT\<close> in its configuration connects them.  The channel queues of the plugin's model are
  instantiated with the bridge, and the runtime ticks the bridge before the plugin steps.
\<close>

section \<open>The two together\<close>

type_synonym link = "acia_ctx \<times> tcp"

text \<open>The plugin sees the bytes the bridge has received; what it writes is collected for the bridge.\<close>

definition attach :: "tcp \<Rightarrow> acia_ctx \<Rightarrow> acia_ctx" where
  "attach t c = c\<lparr>channels := [(tcp_rxq t, [])]\<rparr>"

definition link_on_step :: "link \<Rightarrow> host_api \<Rightarrow> State8085 \<Rightarrow> u64 \<Rightarrow> u64 \<Rightarrow> link \<times> State8085" where
  "link_on_step l host s step tstates =
     (let (c, t) = l; t1 = tcp_tick t; (c', s') = acia_on_step (attach t1 c) host s step tstates
      in ((c', snd (tcp_read t1 64)), s'))"

definition link_on_io_write :: "link \<Rightarrow> State8085 \<Rightarrow> u8 \<Rightarrow> u8 \<Rightarrow> link \<times> State8085" where
  "link_on_io_write l s port v =
     (let (c, t) = l; (c', s') = acia_on_io_write (attach t c) s port v; bs = concat (map snd (channels c'))
      in ((c', if bs = [] then t else tcp_write t bs), s'))"

text \<open>
  \<open>link_run l0 got sent l\<close>: any order of steps and accesses; \<open>got\<close> are the values the INs on the data port
  delivered while the status byte announced one, \<open>sent\<close> those the processor wrote to it.  A master reset
  that discards a byte is left out.
\<close>

inductive link_run :: "link \<Rightarrow> u8 list \<Rightarrow> u8 list \<Rightarrow> link \<Rightarrow> bool" for l0 where
  start: "link_run l0 [] [] l0"
| step: "link_run l0 got sent l \<Longrightarrow> link_run l0 got sent (fst (link_on_step l host s n k))"
| control: "link_run l0 got sent l \<Longrightarrow> port \<noteq> dataPort (fst l) \<Longrightarrow> \<not> (v AND 0x03 = 0x03 \<and> rdrFull (fst l)) \<Longrightarrow>
    link_run l0 got sent (fst (link_on_io_write l s port v))"
| send: "link_run l0 got sent l \<Longrightarrow> link_run l0 got (sent @ [v]) (fst (link_on_io_write l s (dataPort (fst l)) v))"
| receive: "link_run l0 got sent (c, t) \<Longrightarrow> acia_in c s (dataPort c) = (b, c') \<Longrightarrow>
    link_run l0 (got @ (if announced c s then [b] else [])) sent (c', t)"
| inspect: "link_run l0 got sent (c, t) \<Longrightarrow> port \<noteq> dataPort c \<Longrightarrow>
    link_run l0 got sent (snd (acia_in c s port), t)"
| modem: "link_run l0 got sent (c, t) \<Longrightarrow> link_run l0 got sent (acia_pin_set c p lv, t)"

inductive_cases link_runE: "link_run l0 got sent (c, t)"

section \<open>The bridge's side\<close>

text \<open>A run of the two is a run of the bridge on which the bytes sent were written.\<close>

lemma attach_fields [simp]:
  "dataPort (attach t c) = dataPort c" "rdrFull (attach t c) = rdrFull c" "rdrByte (attach t c) = rdrByte c"
  "rxq (attach t c) = rxq c" "rx (attach t c) = rx c" "channels (attach t c) = [(tcp_rxq t, [])]"
  by (simp_all add: attach_def)

lemma writeControl_fields [simp]:
  "channels (acia_writeControl c v) = channels c" "rxq (acia_writeControl c v) = rxq c" "rx (acia_writeControl c v) = rx c"
  "rdrByte (acia_writeControl c v) = rdrByte c"
  "rdrFull (acia_writeControl c v) = (rdrFull c \<and> v AND 0x03 \<noteq> 0x03)"
  by (simp_all add: acia_writeControl_def logRts_def Let_def)

lemma link_send:
  "fst (link_on_io_write (c, t) s (dataPort c) v) = (transmit (attach t c) v, tcp_write t [v])"
  by (simp add: link_on_io_write_def acia_on_io_write_def transmit_def)

lemma link_control:
  assumes "port \<noteq> dataPort c"
  shows "\<exists>c'. fst (link_on_io_write (c, t) s port v) = (c', t) \<and>
    (c' = acia_writeControl (attach t c) v \<or> c' = attach t c)"
  using assms by (simp add: link_on_io_write_def acia_on_io_write_def)

lemma link_run_tcp_run:
  assumes "link_run (c0, t0) got sent l"
  shows "\<exists>raw. tcp_run t0 sent raw (snd l)"
  using assms
proof (induction rule: link_run.induct)
  case start
  show ?case using tcp_run.start by auto
next
  case (step got sent l host s n k)
  then obtain raw where "tcp_run t0 sent raw (snd l)" by blast
  note tcp_run.get [OF tcp_run.tick [OF this], of 64]
  then show ?case by (auto simp: link_on_step_def Let_def split: prod.splits)
next
  case (control got sent l port v s)
  then show ?case using link_control [of port "fst l" "snd l" s v] by (cases l) auto
next
  case (send got sent l v s)
  then obtain raw where "tcp_run t0 sent raw (snd l)" by blast
  from tcp_run.put [OF this, of "[v]"] show ?case
    using link_send [of "fst l" "snd l" s v] by (cases l) auto
qed auto

section \<open>The processor's side\<close>

text \<open>The bytes a list of \<^verbatim>\<open>recv\<close> answers brings, and those on their way through the interface.\<close>

fun arrivals :: "recv_answer list \<Rightarrow> u8 list" where
  "arrivals [] = []"
| "arrivals (Got bs # as) = take 64 bs @ arrivals as"
| "arrivals (_ # as) = arrivals as"

definition waiting :: "acia_ctx \<Rightarrow> u8 list" where
  "waiting c = (if rdrFull c then [rdrByte c] else []) @ rxq c"

lemma send_banner_fields [simp]:
  "tcp_rxq (send_banner bs t) = tcp_rxq t" "os_recvs (send_banner bs t) = os_recvs t"
  by (induction bs arbitrary: t) (simp_all add: ask_send_def Let_def split_beta)

lemma ask_recv_arrivals:
  "ask_recv t = (a, t') \<Longrightarrow>
    tcp_rxq t' = tcp_rxq t \<and> (case a of Got bs \<Rightarrow> bs | _ \<Rightarrow> []) @ arrivals (os_recvs t') = arrivals (os_recvs t)"
  by (auto simp: ask_recv_def split: list.splits recv_answer.splits if_splits)

lemma tick_arrivals:
  "tcp_rxq (tcp_tick t) @ arrivals (os_recvs (tcp_tick t)) = tcp_rxq t @ arrivals (os_recvs t)"
proof -
  define t1 where "t1 = tcp_accept t"
  have t1: "tcp_rxq t1 = tcp_rxq t" "os_recvs t1 = os_recvs t"
    by (simp_all add: t1_def tcp_accept_def Let_def split_beta)
  obtain a t2 where r: "ask_recv t1 = (a, t2)" by fastforce
  show ?thesis
    using ask_recv_arrivals [OF r] t1 r
    by (auto simp: tcp_tick_def tcp_receive_def simp flip: t1_def split: recv_answer.splits)
qed

lemma on_step_waiting:
  assumes "rx c = []"
  shows "waiting (fst (acia_on_step c host s n k)) = waiting c @ concat (map (\<lambda>ch. take 64 (fst ch)) (channels c))"
  using assms
  by (cases "rxq (drain_channels (c\<lparr>lastStep := n\<rparr>))")
    (auto simp: acia_on_step_def Let_def waiting_def feed_script_def feed_live_def drain_channels_def)

text \<open>The two ports stay apart.\<close>

lemma attach_control [simp]: "ctrlPort (attach t c) = ctrlPort c"
  by (simp add: attach_def)

lemma acia_ports_keep [simp]:
  "ctrlPort (fst (acia_on_step c host s n k)) = ctrlPort c" "dataPort (fst (acia_on_step c host s n k)) = dataPort c"
  "ctrlPort (acia_writeControl c v) = ctrlPort c" "dataPort (acia_writeControl c v) = dataPort c"
  "ctrlPort (transmit c v) = ctrlPort c" "dataPort (transmit c v) = dataPort c"
  "ctrlPort (acia_pin_set c p lv) = ctrlPort c" "dataPort (acia_pin_set c p lv) = dataPort c"
  "ctrlPort (snd (acia_in c s port)) = ctrlPort c" "dataPort (snd (acia_in c s port)) = dataPort c"
  by (simp_all add: acia_on_step_def feed_script_def feed_live_def drain_channels_def Let_def acia_writeControl_def
      logRts_def transmit_def acia_pin_set_def acia_in_def acia_on_io_pre_read_def acia_on_io_post_read_def)

lemma link_run_arrivals:
  assumes "link_run (c0, t0) got sent l" "rx c0 = []" "ctrlPort c0 \<noteq> dataPort c0"
  shows "rx (fst l) = [] \<and> ctrlPort (fst l) \<noteq> dataPort (fst l) \<and> got @ waiting (fst l) @ tcp_rxq (snd l) @ arrivals (os_recvs (snd l)) =
    waiting c0 @ tcp_rxq t0 @ arrivals (os_recvs t0)"
  using assms
proof (induction rule: link_run.induct)
  case (step got sent l host s n k)
  obtain c t where l: "l = (c, t)" by fastforce
  let ?t = "tcp_tick t" and ?c = "fst (acia_on_step (attach (tcp_tick t) c) host s n k)"
  have e: "fst (link_on_step (c, t) host s n k) = (?c, snd (tcp_read ?t 64))"
    by (simp add: link_on_step_def Let_def split_beta)
  have "rx c = []" using step l by simp
  then have r: "rx (attach ?t c) = []" by simp
  have "waiting ?c @ tcp_rxq (snd (tcp_read ?t 64)) = waiting c @ tcp_rxq ?t"
    using on_step_waiting [OF r, of host s n k] by (simp add: tcp_read_def waiting_def)
  moreover have "os_recvs (snd (tcp_read ?t 64)) = os_recvs ?t" by (simp add: tcp_read_def)
  moreover have "rx ?c = []" using acia_on_step_keeps(2) [of "attach ?t c" host s n k] r by simp
  ultimately show ?case
    using step tick_arrivals [of t] unfolding l e by simp (metis append.assoc)
next
  case (control got sent l port v s)
  obtain c t where l: "l = (c, t)" by fastforce
  obtain c' where e: "fst (link_on_io_write (c, t) s port v) = (c', t)"
    and c': "c' = acia_writeControl (attach t c) v \<or> c' = attach t c"
    using link_control [of port c t s v] control.hyps(2) unfolding l by auto
  have "waiting c' = waiting c" "rx c' = rx c" "ctrlPort c' = ctrlPort c" "dataPort c' = dataPort c"
    using c' control.hyps(3) by (auto simp: waiting_def l)
  then show ?case using control.IH control.prems unfolding l e by simp
next
  case (send got sent l v s)
  obtain c t where l: "l = (c, t)" by fastforce
  have "waiting (transmit (attach t c) v) = waiting c" "rx (transmit (attach t c) v) = rx c"
    by (simp_all add: transmit_def waiting_def)
  moreover have "tcp_rxq (tcp_write t [v]) = tcp_rxq t" "os_recvs (tcp_write t [v]) = os_recvs t"
    by (auto simp: tcp_write_def ask_send_def Let_def split: send_answer.split list.split)
  ultimately show ?case using send by (simp add: l link_send)
next
  case (receive got sent c t s b c')
  have p: "ctrlPort c \<noteq> dataPort c" using receive.IH receive.prems by simp
  have "b = rdrByte c" "c' = fst (acia_on_io_post_read c s (dataPort c) (rdrByte c))"
    using receive.hyps(2) unfolding acia_in_data [OF p] by auto
  then show ?case
    using receive.IH receive.prems announced_eq [OF p]
    by (cases "rdrFull c") (simp_all add: acia_on_io_post_read_def waiting_def)
next
  case (inspect got sent c t port s)
  have "snd (acia_in c s port) = c" using inspect.hyps(2)
    by (simp add: acia_in_def acia_on_io_pre_read_def acia_on_io_post_read_def)
  then show ?case using inspect.IH inspect.prems by simp
next
  case (modem got sent c t p lv)
  have "waiting (acia_pin_set c p lv) = waiting c" "rx (acia_pin_set c p lv) = rx c"
    by (simp_all add: acia_pin_set_def waiting_def Let_def)
  then show ?case using modem by simp
qed simp

lemma link_run_receives:
  assumes "link_run (c0, t0) got sent (c, t)" "rx c0 = []" "waiting c0 = []" "tcp_rxq t0 = []" "ctrlPort c0 \<noteq> dataPort c0"
  shows "got @ waiting c @ tcp_rxq t @ arrivals (os_recvs t) = arrivals (os_recvs t0)"
  using link_run_arrivals [OF assms(1,2,5)] assms(3,4) by simp

lemma link_run_sends:
  assumes "link_run (c0, t0) got sent (c, t)" "os_wire t0 = []" "txbuf t0 = []"
  shows "subseq (os_wire t @ txbuf t) sent"
    and "os_sends t0 = [] \<Longrightarrow> length sent \<le> TXBUF_MAX \<Longrightarrow> os_wire t @ txbuf t = sent"
proof -
  obtain raw where r: "tcp_run t0 sent raw t" using link_run_tcp_run [OF assms(1)] by auto
  from tcp_run_subseq [OF this assms(2,3)] show "subseq (os_wire t @ txbuf t) sent" by simp
  assume "os_sends t0 = []" "length sent \<le> TXBUF_MAX"
  with tcp_run_order [OF r] assms(2,3) show "os_wire t @ txbuf t = sent" by (simp add: bridge_ok_def)
qed

text \<open>An IN instruction over a runtime with the interface is the access modelled above.\<close>

lemma in_instruction:
  assumes "plugins rt = [Acia c]" "state_set rt" "\<not> disk_emu_active (rt_disk rt)" "imm8 s opc = Some port"
  shows "\<exists>s' t. exec_switch (runtime_bus api_of) s rt opc 0xdb =
      Some (s', rt\<lparr>plugins := [Acia (snd (acia_in c s port))]\<rparr>, t) \<and> reg_a s' = fst (acia_in c s port)"
proof -
  obtain c1 s1 where pre: "acia_on_io_pre_read c s port = (c1, s1)" by fastforce
  then obtain ports where s1: "s1 = s\<lparr>io := ports\<rparr>" using pre_reads_touch_ports(3) [of c s port] by auto
  have p: "bus_io_pre_read (runtime_bus api_of) port s rt = (s1, rt\<lparr>plugins := [Acia c1]\<rparr>)"
    using assms(1-3) pre by (simp add: runtime_bus_def io_pre_read_def opt_call_def api_defs)
  have i: "imm8 s1 opc = Some port" using assms(4) by (simp add: s1 imm8_def rd_def split: if_splits)
  let ?s2 = "s1\<lparr>reg_a := io s1 port, pc := pc s1 + 1\<rparr>"
  have r: "bus_io_read (runtime_bus api_of) port (io s1 port) ?s2 (rt\<lparr>plugins := [Acia c1]\<rparr>) =
      (?s2, rt\<lparr>plugins := [Acia (fst (acia_on_io_post_read c1 s1 port (io s1 port)))]\<rparr>)"
    using assms(2) by (simp add: runtime_bus_def io_read_def opt_call_def api_defs acia_on_io_post_read_def)
  have d: "decode 0xdb = INP" by (simp add: decode_def decode_3_def)
  have "isa_exec (runtime_bus api_of) s rt opc (decode 0xdb) =
      Some (?s2, rt\<lparr>plugins := [Acia (fst (acia_on_io_post_read c1 s1 port (io s1 port)))]\<rparr>)"
    by (simp add: d assms(4) p i r Let_def skip_def)
  from opcode_isa(2) [OF _ _ this] show ?thesis by (auto simp: acia_in_def pre Let_def)
qed

end
