(* ===== verification/Fixtures.thy ===== *)
theory Fixtures
  imports Cli_Laws Run_Laws Disasm_Laws Interrupt_Laws Gdb_Stub Pit8254 Serial_Link
begin

text \<open>
  Small concrete machines on which the properties are exercised: a program in memory, a runtime with
  a ROM in its lower half, an opened disk.
\<close>

definition fx_mem :: "u8 list \<Rightarrow> u16 \<Rightarrow> u8" where
  "fx_mem bs a = (if unat a < length bs then bs ! unat a else 0)"

definition fx_cpu :: "u8 list \<Rightarrow> State8085" where
  "fx_cpu bs = (zero_state (fx_mem bs) (\<lambda>_. 0))\<lparr>sp := 0xF000\<rparr>"

definition fx_disk :: disk where
  "fx_disk = \<lparr>dsk_dir = ''disk/'', readFp = None, writeFp = None, readName = [], writeName = [], addrLo = 0,
     addrHi = 0x20, dataByte = 0, dsk_status = 0, initialized = True, bytesRead = 0, bytesWritten = 0,
     host_files = (\<lambda>_. None), host_creates = (\<lambda>_. True), host_takes = (\<lambda>_ _. True)\<rparr>"

definition fx_rom :: plugin where
  "fx_rom = Mem \<lparr>mem_base = 0, mem_end = 0x8000, eeprom = False, wren = False\<rparr>"

definition fx_rt :: "plugin list \<Rightarrow> plugin runtime" where
  "fx_rt ps = \<lparr>plugins = ps, anyMemWrite = True, rt_net = empty_net, wiring = False, wiring_flag = 0,
     pinTable = [], rt_disk = fx_disk\<lparr>initialized := False\<rparr>, state_set = True, rt_warnings = []\<rparr>"

definition fx_cfg :: Config where
  "fx_cfg = \<lparr>maxSteps = 1000, loopDetect = True, stopAddrs = [], irqs = [], tracepointMax = 0,
     tracepointStop = False, summary = False, doCoverage = False\<rparr>"

definition fx_stats :: ExecutionStats8085 where
  "fx_stats = \<lparr>total_tstates = 0, min_sp = 0, min_sp_set = False\<rparr>"

lemmas fx_defs = fx_mem_def fx_cpu_def fx_disk_def fx_rom_def fx_rt_def fx_cfg_def fx_stats_def
  zero_state_def zero_flags_def

lemma fx_rom_protects: "write_protected (fx_rt [fx_rom]) a \<longleftrightarrow> a < 0x8000"
proof -
  have "uint (ucast a :: u32) = uint a"
    by (simp add: unsigned_ucast_eq take_bit_eq_mod) (use u16_bounds [of a] in simp)
  then show ?thesis
    by (simp add: write_protected_def fx_defs mem_protects_def protectedNow_def word_less_def word_le_def)
qed

text \<open>A serial interface with two bytes to deliver: after its first step, and after the processor's read.\<close>

definition fx_host :: host_api where
  "fx_host = \<lparr>wiring_active = 0, peer_count = 0, peer_snapshot = (\<lambda>_ _. None)\<rparr>"

definition fx_acia :: acia_ctx where
  "fx_acia = acia_default\<lparr>rx := [0x41, 0x42]\<rparr>"

definition fx_env :: host_env where
  "fx_env = \<lparr>env_file = (\<lambda>_. None), env_create = (\<lambda>_. False), env_channel = (\<lambda>_. False)\<rparr>"

lemma fx_acia_init: "acia_init fx_env ''rx=4142'' = Some fx_acia"
proof -
  have "list_all (\<lambda>k. cfgValue ''rx=4142'' k = [])
      [''base'', ''rxfile'', ''txlog'', ''bytegap'', ''cts'', ''dcd'', ''gdbtx'', ''tcp'', ''window'']"
    by code_simp
  then have none: "cfgValue ''rx=4142'' ''base'' = []" "cfgValue ''rx=4142'' ''rxfile'' = []"
    "cfgValue ''rx=4142'' ''txlog'' = []" "cfgValue ''rx=4142'' ''bytegap'' = []" "cfgValue ''rx=4142'' ''cts'' = []"
    "cfgValue ''rx=4142'' ''dcd'' = []" "cfgValue ''rx=4142'' ''gdbtx'' = []" "cfgValue ''rx=4142'' ''tcp'' = []"
    "cfgValue ''rx=4142'' ''window'' = []" by simp_all
  have rx: "parseHexBytes (cfgValue ''rx=4142'' ''rx'') = [0x41, 0x42]" by code_simp
  have no: "\<not> truthy []" by code_simp
  show ?thesis
    by (simp add: acia_init_def acia_ports_def acia_outputs_def fx_acia_def Let_def none rx no)
qed

definition fx_acia_step :: acia_ctx where
  "fx_acia_step = fst (acia_on_step fx_acia fx_host (fx_cpu []) 0 0)"

definition fx_acia_read :: acia_ctx where
  "fx_acia_read = snd (acia_in fx_acia_step (fx_cpu []) 0xDF)"

text \<open>A net of two nodes: an inverter from a pulled-up node to one wired to the serial input.\<close>

definition fx_net :: net where
  "fx_net = \<lparr>nodes = [\<lparr>nd_name = ''a'', nd_pull = PULL_UP\<rparr>, \<lparr>nd_name = ''b'', nd_pull = PULL_NONE\<rparr>],
      endpoints = [\<lparr>ep_node = 1, ep_pin = ''cpu.SID'', ep_handle = 0, ep_is_output = False\<rparr>],
      gates = [\<lparr>gt_type = G_INV, in_nodes = [0], out_node = 1\<rparr>], lvls = [LVL_X, LVL_X],
      warnedConflict = [False, False], warnedFloat = [False, False], gateOut = [LVL_X],
      nodeGateSources = [[], [0]], warnedOscillation = False\<rparr>"

definition fx_net_host :: "Level list net_host" where
  "fx_net_host = \<lparr>read_output = \<lambda>h _. DRV_Z, write_input = \<lambda>h _ v. h @ [v], is_output = None\<rparr>"

lemma fx_net_bound: "bound fx_net"
  by (simp add: fx_net_def bound_def)

text \<open>A debugging session over a program, with what the client will send and the breakpoints it has set.\<close>

definition fx_gdb :: "u8 list \<Rightarrow> plugin list \<Rightarrow> string \<Rightarrow> u16 set \<Rightarrow> plugin gdb" where
  "fx_gdb bs ps inp bps = \<lparr>gd_cpu = fx_cpu bs, gd_stats = fx_stats, gd_rt = fx_rt ps, gd_timers = [],
     breakpoints = bps, gdbStep = 0, g_gdbZ80 = False, gd_in = inp, gd_polls = [], gd_out = [],
     gd_max_string = 0x10000\<rparr>"

text \<open>An interval timer at port 0x40 on the undivided clock.\<close>

definition fx_pit :: pit_ctx where
  "fx_pit = \<lparr>pit_base = 0x40, clkdiv = 1, lastTstates = 0, clkAccum = 0, gateMask = 7,
     pit_c = replicate 3 new_counter\<rparr>"

text \<open>
  A host whose every file is the one byte \<^verbatim>\<open>HLT\<close> and whose every module is the ROM plugin; a TCP bridge
  whose client arrives at the first tick.
\<close>

definition fx_start :: "plugin host" where
  "fx_start = \<lparr>ho_file = (\<lambda>_. Some [0x76]), ho_creates = (\<lambda>_. True), ho_alloc = (True, True, True),
     ho_module = (\<lambda>_ _ _. Ready I8085_IO_PLUGIN_ABI_VERSION fx_rom), ho_disk = fx_disk\<lparr>initialized := False\<rparr>,
     ho_client = [], ho_polls = [], ho_max_string = 0x10000, ho_sort = (\<lambda>qs. qs)\<rparr>"

definition fx_tcp :: tcp where
  "fx_tcp = \<lparr>listenSock = True, clientSock = False, tcp_rxq = [], txbuf = [], os_accepts = [True], os_recvs = [],
     os_sends = [], os_wire = []\<rparr>"

text \<open>The serial interface on that bridge, whose client sends two bytes: after a step, after a read.\<close>

definition fx_client :: tcp where
  "fx_client = fx_tcp\<lparr>os_recvs := [Got [0x41, 0x42]]\<rparr>"

definition fx_link :: link where
  "fx_link = fst (link_on_step (acia_default, fx_client) fx_host (fx_cpu []) 0 0)"

definition fx_link_read :: link where
  "fx_link_read = (snd (acia_in (fst fx_link) (fx_cpu []) 0xDF), snd fx_link)"

lemma fx_start_protects:
  assumes "io_runtime_on_reset api_of \<lparr>plugins = [fx_rom], anyMemWrite = (api_on_mem_write (api_of fx_rom) \<noteq> None),
      rt_net = empty_net, wiring = False, wiring_flag = 0, pinTable = [], rt_disk = d, state_set = True,
      rt_warnings = []\<rparr> s = (rt, s')"
  shows "write_protected rt = (\<lambda>a. a < 0x8000)"
proof -
  have "anyMemWrite (fx_rt [fx_rom])" "plugins (fx_rt [fx_rom]) = [fx_rom]" by (simp_all add: fx_rt_def)
  then have "write_protected \<lparr>plugins = [fx_rom], anyMemWrite = True,
      rt_net = empty_net, wiring = False, wiring_flag = 0, pinTable = [], rt_disk = d, state_set = True,
      rt_warnings = []\<rparr> = write_protected (fx_rt [fx_rom])"
    by (simp add: write_protected_def fun_eq_iff)
  moreover have "api_on_mem_write (api_of fx_rom) \<noteq> None" by (simp add: fx_rom_def mem_api_def)
  ultimately show ?thesis using on_reset_keeps' [OF assms] by (simp add: fun_eq_iff fx_rom_protects)
qed

lemma fx_start_traces:
  "\<exists>cfg s rt. main_program n api_of fx_start [Opt_1001 ''rom''] (Some ''a.bin'') =
     Traces cfg (trace_loop n api_of (Config.truncate cfg) (start_loop s rt [] [])) \<and> loadAddr cfg = 0 \<and>
     write_protected rt = (\<lambda>a. a < 0x8000)"
  apply (simp add: main_program_def fx_start_def Init8085_def start_machine_def load_image_def default_cli_def
      IsElfFile_def LoadBinary_def Let_def io_runtime_load_plugin_def empty_runtime_def
      io_runtime_set_state_def split: prod.splits)
  using fx_start_protects by fastforce

text \<open>A halted processor with three interrupts scheduled, of which none is enabled.\<close>

definition fx_irqs :: Config where
  "fx_irqs = fx_cfg\<lparr>irqs := [\<lparr>irq_code = 55, irq_atStep = 0\<rparr>, \<lparr>irq_code = 75, irq_atStep = 1\<rparr>, \<lparr>irq_code = 65, irq_atStep = 7\<rparr>]\<rparr>"

lemma fx_irqs_runs:
  "\<exists>l. trace_loop 1 api_of fx_irqs (start_loop (fx_cpu []\<lparr>hlt_enable := 1\<rparr>) (fx_rt []) [] []) = Running l"
proof -
  let ?s = "fx_cpu []\<lparr>hlt_enable := 1\<rparr>"
  let ?s1 = "?s\<lparr>pending_r5 := 1\<rparr>"
  let ?l = "start_loop ?s (fx_rt []) [] [] :: plugin loop"
  have tr: "fst (triggerInterrupt ?s 55 1) = ?s1" by (simp add: triggerInterrupt_def fx_defs)
  have d: "decode 0 = NOP" by (simp add: decode_def decode_0_def)
  have dis: "\<exists>txt. Disassemble8085Op (rd ?s1) (uint (pc ?s1)) 80 = Some (txt, 1)"
    by (simp add: Disassemble_asm asm_line_def plain_def d rd_def fx_defs printed_text_def)
  have "accepted ?s1 = None" "hlt_enable ?s1 \<noteq> 0"
    by (simp_all add: accepted_def requested_def fx_defs)
  note em = halted_waits [OF this(2,1)]
  obtain l' where l': "loop_body api_of fx_irqs ?l = Some (l', None)"
    using dis tr
    by (auto simp: loop_body_def before_step_def start_loop_def fx_irqs_def visit_def stop_reason_def do_step_def
        io_runtime_on_step_def HasFutureIRQ_def IsStopAddress_def em fx_cfg_def fx_rt_def Let_def)
  have "irqs_done fx_irqs 0 ?l" "sorted (map irq_atStep (irqs fx_irqs))"
    by (simp_all add: irqs_done_def start_loop_def fx_irqs_def)
  from irqs_done_step [OF l' this] have "lp_step l' = 1" by (simp add: irqs_done_def)
  with l' show ?thesis by (simp add: fx_irqs_def fx_cfg_def) (simp add: start_loop_def)
qed

text \<open>A jump to itself, which the trace loop reports after its first execution.\<close>

lemma fx_spin_step:
  "\<exists>st. Emulate8085Op (runtime_bus api_of) (fx_cpu [0xc3, 0, 0]) u (fx_rt []) = Some (fx_cpu [0xc3, 0, 0], st, fx_rt [], 0)"
proof -
  let ?s = "fx_cpu [0xc3, 0, 0]"
  have h: "accepted ?s = None" "hlt_enable ?s = 0" "int_enable_delay ?s = 0" "pc ?s = 0" "memory ?s 0 = 0xc3"
    by (simp_all add: accepted_def requested_def fx_defs)
  have c: "checkInterrupts (runtime_bus api_of) ?s (fx_rt []) = (False, ?s, fx_rt [])"
    by (simp add: fp.rt.checkInterrupts_eq h)
  have i: "imm16 (?s\<lparr>pc := x\<rparr>) 0 = Some 0" for x by (simp add: imm16_def rd_def fx_defs pair16_def)
  have d: "decode 0xc3 = JMP" by (simp add: decode_def decode_3_def)
  have "isa_exec (runtime_bus api_of) (?s\<lparr>pc := 1\<rparr>) (fx_rt []) 0 (decode 0xc3) = Some (?s\<lparr>pc := 0\<rparr>, fx_rt [])"
    by (simp add: d jump_spec_def i)
  then obtain t where x: "exec_switch (runtime_bus api_of) (?s\<lparr>pc := 1\<rparr>) (fx_rt []) 0 0xc3 = Some (?s\<lparr>pc := 0\<rparr>, fx_rt [], t)"
    using opcode_isa(2) [of "0xc3" "?s\<lparr>pc := 1\<rparr>" "fx_rt []" 0] by auto
  have f: "?s\<lparr>hlt_enable := 0, pc := 1\<rparr> = ?s\<lparr>pc := 1\<rparr>" "?s\<lparr>pc := 0\<rparr> = ?s" "tick_ei_delay ?s = ?s"
    by (simp_all add: fx_cpu_def zero_state_def tick_ei_delay_def)
  have "exec_switch (runtime_bus api_of) (?s\<lparr>hlt_enable := 0, pc := 1\<rparr>) (fx_rt []) 0 0xc3 = Some (?s, fx_rt [], t)"
    using x unfolding f .
  then show ?thesis using f(3) by (simp add: fp.rt.Emulate8085Op_eq [OF c] h Let_def)
qed

lemma fx_spin_reported:
  "\<exists>l1 l2 l3. do_step api_of fx_cfg l1 [] [] = Some (l2, None) \<and> loop_body api_of fx_cfg l2 = Some (l3, Some R_loop) \<and>
    lp_cpu l1 = fx_cpu [0xc3, 0, 0] \<and> lp_rt l1 = fx_rt [] \<and> lp_cpu l2 = fx_cpu [0xc3, 0, 0]"
proof -
  let ?s = "fx_cpu [0xc3, 0, 0]"
  let ?l1 = "start_loop ?s (fx_rt []) [] [] :: plugin loop"
  have q: "quiet_rt (fx_rt [])" by (simp add: quiet_rt_def fx_rt_def)
  obtain st where st: "Emulate8085Op (runtime_bus api_of) ?s (lp_stats ?l1) (fx_rt []) = Some (?s, st, fx_rt [], 0)"
    using fx_spin_step by blast
  have cfg: "irqs fx_cfg = []" "loopDetect fx_cfg" "stopAddrs fx_cfg = []" "tracepointMax fx_cfg = 0" "\<not> tracepointStop fx_cfg"
    by (simp_all add: fx_cfg_def)
  obtain l2 where l2: "do_step api_of fx_cfg ?l1 [] [] = Some (l2, None)" "lp_cpu l2 = ?s" "lastPC l2 = pc ?s"
    "lastSP l2 = sp ?s" "\<not> halted l2" "timers l2 = []" "nextIRQ l2 = 0"
    using st by (simp add: do_step_def start_loop_def on_step_quiet [OF q] Let_def)
  have "decode 0xc3 = JMP" by (simp add: decode_def decode_3_def)
  then have "\<exists>dn. Disassemble8085Op (rd ?s) (uint (pc ?s)) 80 = Some dn"
    by (simp add: Disassemble_asm asm_line_def dis_ops printed_text_def rd_def fx_defs split: Option.bind_splits)
  moreover have "\<not> pendingIrq ?s" by (simp add: pendingIrq_def fx_defs)
  ultimately obtain l3 where "loop_body api_of fx_cfg l2 = Some (l3, Some R_loop)"
    using l2(2-) cfg by (auto simp: loop_body_def before_step_def stop_reason_def HasFutureIRQ_def IsStopAddress_def Let_def)
  then show ?thesis using l2(1,2) by (intro exI [of _ ?l1] exI [of _ l2] exI [of _ l3]) (simp add: start_loop_def)
qed

end
