(* ===== verification/Spec2Isabelle.thy ===== *)
theory Spec2Isabelle
  imports Interrupt_Laws Daa_Laws Disasm_Laws Net_Laws Net_Settle Gdb_Packets Gdb_Run Gdb_Session Pit_Laws
    Cli_Laws Run_Laws Report_Laws Channel_Laws Serial_Link Fixtures
begin

unbundle bit_operations_syntax

text \<open>
  A development for the i8085 instruction-set simulator and tracer: the processor core and its
  disassembler (C), and around them the I/O runtime with its plugins, the logic net that wires their
  pins, the disk emulator and the command-line trace loop (C++).

  The processor is \<^verbatim>\<open>State8085\<close>, 64K of memory and 256 port latches included.  One call of
  \<^verbatim>\<open>Emulate8085Op\<close> accepts an interrupt or stays halted or executes one instruction.  A store goes through
  \<^verbatim>\<open>io_runtime_mem_write\<close>, where a plugin may veto it; \<^verbatim>\<open>IN\<close> and \<^verbatim>\<open>OUT\<close> fan out to the disk emulator and
  to every plugin.  Between instructions the trace loop of \<^verbatim>\<open>main.cpp\<close> lets the plugins step, settles
  the net, triggers scheduled interrupts and timers and decides whether to stop.

  The theories, in the order of the code:

  \<^item> Prelude: the integer widths (\<open>u8\<close> .. \<open>u64\<close> are words), byte pairs, the collections \<open>alu_simps\<close> and
    \<open>frame_simps\<close>.
  \<^item> Cpu_State (\<^verbatim>\<open>i8085_cpu.h\<close>, \<^verbatim>\<open>i8085_state.c\<close>): state, reset, lines.  The runtime is an interface, the
    record \<open>bus\<close>, with its contract in the locales \<open>cpu_bus\<close> and \<open>guarded_bus\<close>.
  \<^item> Alu, Control, Instr, Exec_Low, Exec_Mid, Exec_High, Step (\<^verbatim>\<open>i8085_exec.c\<close>): the helpers, the sixteen
    rows of the opcode switch (\<open>exec_0\<close> .. \<open>exec_f\<close>), one step.
  \<^item> Disasm (\<^verbatim>\<open>i8085_disasm.c\<close>): the sixteen rows of the disassembler.
  \<^item> Isa, Isa_Arith, Isa_Refine, Isa_Disasm: an abstract instruction set, decoded by octal fields, with
    one meaning per instruction on integers, and the proof that both switches implement it.
  \<^item> Isa_Laws, Step_Laws: laws of the instruction set and of a step, proved inside the bus locales:
    program counter, T-states, definedness, interrupts, fixed points, write protection.
  \<^item> Text (\<^verbatim>\<open>cfgValue\<close> and its companions, repeated in every plugin) and the C conversions.
  \<^item> Io_Api (\<^verbatim>\<open>i8085_io_plugin.h\<close>), Mem_Plugin, I8255, Pit8254, Mc6850, Boardview (\<^verbatim>\<open>plugins/\<close>).
  \<^item> Disk_Emu (\<^verbatim>\<open>disk_emu.cpp\<close>), Logic_Net, Net_Laws and Net_Settle (\<^verbatim>\<open>logic_net.cpp\<close>): parsing, the
    exactness of gates, what a step computes round by round, and which nets settle.
  \<^item> Io_Runtime and Runtime_Laws (\<^verbatim>\<open>io_runtime.cpp\<close>): the runtime over any table of plugin callbacks; the
    locale \<open>plugin_contract\<close> states what the runtime needs of a plugin and is a sublocale of
    \<open>guarded_bus\<close>.
  \<^item> First_Party: the plugins of the repository as one type, and the interpretation \<open>fp\<close> of the contract
    on their callback tables; every property of the processor below rests on it.
  \<^item> Stack_Laws, Interrupt_Laws, Disasm_Laws, Daa_Laws: laws over that runtime.
  \<^item> Trace_Main and Trace_Laws (\<^verbatim>\<open>main.cpp\<close>): argument parsers, image loaders, the trace loop.
  \<^item> Report and Report_Laws (\<^verbatim>\<open>main.cpp\<close>): the text of trace lines, coverage file, summary and memory dumps;
    what they add up to, when a dump has a value.
  \<^item> Cli and Cli_Laws (\<^verbatim>\<open>main.cpp\<close>): options, tracepoint file, the start of the machine, \<open>main_program\<close> and
    \<open>finish\<close>; the schedule of interrupts in the locale \<open>irq_order\<close>, and the image from file to end of run.
  \<^item> Run_Laws: with a step limit and timers that count on a run ends (\<open>timer_ok\<close> bounds periods and clock), an
    undefined one by an \<open>overread\<close>; a loop the detector reports goes on for ever (\<open>spins\<close>).
  \<^item> Io_Channel and Channel_Laws (\<^verbatim>\<open>io_channel.cpp\<close>): the byte channels of the host, their order and lines.
    Serial_Link: the serial interface on a TCP bridge, end to end.  What the processor reads is there and in
    Mc6850 the value an IN delivers (\<open>acia_in\<close>: the callback before the read, the latch, the callback after).
  \<^item> Pit_Laws: closed forms of the interval timer's modes, its clock division, latched reads.
  \<^item> Gdb_Stub (\<^verbatim>\<open>gdb_stub.cpp\<close>): packets, register layouts, one definition per packet handler, the session.
    Gdb_Laws: hexadecimal, frames, register blocks; Gdb_Packets: the round trips of P, M and the target
    description; Gdb_Run: what ends a continue, write protection; Gdb_Session: the stub seen
    from its client, who verifies the checksums, a whole c packet, the end of a session.
  \<^item> Fixtures: small concrete machines for the witnesses.

  Undefined behaviour is \<open>None\<close>: the C code indexes its 64K buffer with an \<^verbatim>\<open>int\<close> in some places, and a read
  past the buffer has no value.  Everything else is total.  The trace loop is recursion on fuel, one
  unit per iteration; with a step limit, fuel equal to the limit is enough and more changes nothing
  (C13), and the outcome \<open>Running\<close> marks a run that was cut.  A timer is a \<open>partial_function (option)\<close>, with a value for a
  positive period that does not carry the 64-bit clock past its end (C16).  The net settles in at most \<open>MAX_PASSES\<close> passes, as the code does.

  What the host decides is a parameter: whether an allocation succeeds, what a module answers to the
  dynamic loader, the contents of files, the bytes a channel receives, what \<^verbatim>\<open>accept\<close>, \<^verbatim>\<open>recv\<close> and \<^verbatim>\<open>send\<close>
  answer, the order \<^verbatim>\<open>std::sort\<close> leaves interrupts of the same step in.  A plugin that is not in this
  repository can be any element of a type with a callback table; the contract names what the runtime's
  laws need of it.

  In the debugger stub \<open>unsigned long\<close> has 64 bits, a read of the connection delivers what it asked for
  unless the client's bytes are at an end, and writes succeed.

  Not modelled: opening and binding sockets and the terminals spawned for them (\<^verbatim>\<open>io_channel.cpp\<close>,
  \<^verbatim>\<open>gdb_stub.cpp\<close>), which only call the operating system; \<^verbatim>\<open>getopt_long\<close>, the usage text and the
  messages on standard error; the console helper under \<^verbatim>\<open>tools/\<close>, a terminal client that copies bytes
  between two threads and takes no part in the simulation.  In the runtime's model a
  plugin holds the bytes it exchanges with a channel in its own queues, and a step leaves out the tick
  of the host's channels, which changes nothing else; Serial_Link puts the two together.
\<close>

section \<open>The processor\<close>

text \<open>
  C1. A ROM (or a write-protected EEPROM) survives every run: whatever the program, its interrupts,
  timers, ports and wiring do, however many steps the trace loop makes, a byte at a protected address
  is in the end what it was at the start.
\<close>

theorem rom_survives_run:
  assumes "write_protected (lp_rt l) a"
  shows "case outcome_loop (trace_loop n api_of cfg l) of
    None \<Rightarrow> True | Some l' \<Rightarrow> memory (lp_cpu l') a = memory (lp_cpu l) a"
  using trace_loop_protected [OF assms] by (simp split: option.split)

theorem rom_survives_run_witness:
  "case outcome_loop (trace_loop 1000 api_of fx_cfg
      (start_loop (fx_cpu [0x3e, 0x76, 0x32, 0, 0]) (fx_rt [fx_rom]) [] [])) of
    None \<Rightarrow> True | Some l' \<Rightarrow> memory (lp_cpu l') 0 = 0x3e"
proof -
  let ?l = "start_loop (fx_cpu [0x3e, 0x76, 0x32, 0, 0]) (fx_rt [fx_rom]) [] []"
  have p: "write_protected (lp_rt ?l) 0" by (simp add: start_loop_def fx_rom_protects)
  have m: "memory (lp_cpu ?l) 0 = 0x3e" by (simp add: start_loop_def fx_cpu_def zero_state_def fx_mem_def)
  show ?thesis using rom_survives_run [OF p] unfolding m .
qed

text \<open>
  C2. The opcode switch implements the instruction set: for every opcode, the case of the switch does
  to the processor and the runtime what the abstract instruction the opcode decodes to means, reads
  outside memory included.  \<^verbatim>\<open>ADI\<close> and \<^verbatim>\<open>CPI\<close> differ from the instruction in one flag: they leave V.
\<close>

theorem switch_implements_isa:
  "untimed (exec_switch (runtime_bus api_of) s rt opc op) =
     (if op = 0xc6 \<or> op = 0xfe
      then map_option (\<lambda>(s', rt'). (s'\<lparr>cc := (cc s')\<lparr>fl_v := fl_v (cc s)\<rparr>\<rparr>, rt'))
             (isa_exec (runtime_bus api_of) s rt opc (decode op))
      else isa_exec (runtime_bus api_of) s rt opc (decode op))"
  using fp.rt.exec_switch_isa [of op s rt opc] fp.rt.exec_switch_adi_cpi [of op s rt opc] by simp

text \<open>
  C3. The disassembler prints the assembly text of the same decoding, cut to the buffer, and reports
  the length of that instruction; \<^verbatim>\<open>CPE\<close> alone is printed with one space too many.
\<close>

theorem disassembly_is_assembly:
  "Disassemble8085Op code at n =
     do { op \<leftarrow> code at;
          (txt, len) \<leftarrow> asm_line (\<lambda>k. code (at + int k))
             (if op = 0xec then ''CPE     $'' else asm_text (decode op)) (operand_len (decode op));
          Some (take (n - 1) txt, len) }"
  by (simp add: Disassemble_asm printed_text_def)

text \<open>
  C4. The disassembler and the processor agree on instruction lengths: an executed instruction that
  is no transfer of control leaves the program counter behind it by the disassembled length.
\<close>

theorem length_is_pc_advance:
  assumes "\<not> transfers (decode (memory s (pc s)))"
    and "Disassemble8085Op (rd s) (uint (pc s)) n = Some (txt, len)"
  shows "case exec_switch (runtime_bus api_of) (s\<lparr>pc := pc s + 1\<rparr>) rt (uint (pc s)) (memory s (pc s)) of
    None \<Rightarrow> True | Some (s', rt', t) \<Rightarrow> pc s' = pc s + of_nat len"
  using Disassemble_length [OF assms(2) rd_in_range] exec_switch_pc [OF _ assms(1)]
  by (auto split: option.split)

theorem length_is_pc_advance_witness:
  "case exec_switch (runtime_bus api_of) ((fx_cpu [0x21, 0x34, 0x12])\<lparr>pc := 1\<rparr>) (fx_rt []) 0 0x21 of
    None \<Rightarrow> True | Some (s', rt', t) \<Rightarrow> pc s' = 3"
proof -
  let ?s = "fx_cpu [0x21, 0x34, 0x12]"
  have op: "memory ?s 0 = 0x21" "pc ?s = 0" by (simp_all add: fx_defs)
  have d: "decode 0x21 = LXI PH" by (simp add: decode_def decode_0_def pair_of_def)
  have dis: "Disassemble8085Op (rd ?s) (uint (pc ?s)) 80 = Some (''LXI    H,#$1234'', 3)"
    by (simp add: Disassemble_asm printed_text_def d rd_def asm_line_def col_def with_word_def
        hex02_def hex_digit_def fx_defs)
  have t: "\<not> transfers (decode (memory ?s (pc ?s)))" by (simp add: op d)
  show ?thesis
    using length_is_pc_advance [OF t dis, of "fx_rt []"] unfolding op by (auto split: option.splits)
qed

text \<open>
  C5. A step is defined unless the instruction reads beyond the 64K buffer: an operand after the last
  byte, a word popped at 0xFFFF, or a word loaded from 0xFFFF.  The condition is exact.
\<close>

theorem step_undefined_iff:
  "Emulate8085Op (runtime_bus api_of) s st rt = None \<longleftrightarrow>
     (let (tak, s1, rt1) = checkInterrupts (runtime_bus api_of) s rt
      in (hlt_enable s1 = 0 \<or> tak) \<and>
         reads_past (s1\<lparr>hlt_enable := 0, pc := pc s1 + 1\<rparr>) (uint (pc s1)) (decode (memory s1 (pc s1))))"
proof -
  obtain tak s1 rt1 where c: "checkInterrupts (runtime_bus api_of) s rt = (tak, s1, rt1)" by (metis prod_cases3)
  show ?thesis using fp.rt.step_None_iff [OF c, of st] unfolding c by simp
qed

text \<open>
  C6. A step adds to the T-states the count of the instruction it executed, for the branch taken, and
  keeps the lowest stack pointer; a halted processor adds nothing.
\<close>

theorem step_counts_cycles:
  "case Emulate8085Op (runtime_bus api_of) s st rt of
     None \<Rightarrow> True
   | Some (s', st', rt', h) \<Rightarrow>
       (let (tak, s1, rt1) = checkInterrupts (runtime_bus api_of) s rt; i = decode (memory s1 (pc s1))
        in if hlt_enable s1 \<noteq> 0 \<and> \<not> tak then st' = st
           else total_tstates st' = total_tstates st + of_nat (cycles i (taken (cc s1) i)) \<and>
             min_sp_set st' \<and> min_sp st' = (if min_sp_set st then min (min_sp st) (sp s') else sp s'))"
proof (cases "Emulate8085Op (runtime_bus api_of) s st rt")
  case (Some r)
  obtain tak s1 rt1 where c: "checkInterrupts (runtime_bus api_of) s rt = (tak, s1, rt1)" by (metis prod_cases3)
  obtain s' st' rt' h where r: "r = (s', st', rt', h)" by (metis prod_cases4)
  show ?thesis
  proof (cases "hlt_enable s1 \<noteq> 0 \<and> \<not> tak")
    case True
    then show ?thesis using Some unfolding r by (simp add: c fp.rt.Emulate8085Op_eq [OF c])
  next
    case False
    then show ?thesis
      using fp.rt.step_stats [OF Some [unfolded r] c False] Some unfolding r by (auto simp: c Let_def)
  qed
qed simp

text \<open>
  C7. Acceptance of an interrupt: the line's request and the interrupt enable are cleared, the program
  counter is pushed, and control goes to the line's vector; without an accepted line nothing changes.
\<close>

theorem interrupt_entry:
  "checkInterrupts (runtime_bus api_of) s rt =
     (case accepted s of
        None \<Rightarrow> (False, s, rt)
      | Some l \<Rightarrow> (let (s1, rt1) = push16 (runtime_bus api_of) (acknowledge s l) rt (pc s)
                   in (True, s1\<lparr>pc := vector s l\<rparr>, rt1)))"
  by (rule fp.rt.checkInterrupts_eq)

text \<open>The accepted line is the most urgent of the requested ones; none is accepted if none is requested.\<close>

theorem most_urgent_first:
  "fst (checkInterrupts (runtime_bus api_of) s rt) = (\<exists>l. requested s l) \<and>
   (accepted s = Some l) = (requested s l \<and> l = (GREATEST k. requested s k))"
proof -
  have "fst (checkInterrupts (runtime_bus api_of) s rt) = (accepted s \<noteq> None)"
    by (simp add: fp.rt.checkInterrupts_eq split_beta Let_def split: option.split)
  moreover have "accepted s \<noteq> None \<longleftrightarrow> (\<exists>l. requested s l)" by (auto simp: accepted_None_iff)
  moreover have "(accepted s = Some l) = (requested s l \<and> l = (GREATEST k. requested s k))"
  proof
    assume a: "accepted s = Some l"
    then have "(GREATEST k. requested s k) = l"
      by (intro Greatest_equality) (simp_all add: accepted_Some_iff)
    then show "requested s l \<and> l = (GREATEST k. requested s k)" using a by (simp add: accepted_Some_iff)
  next
    assume r: "requested s l \<and> l = (GREATEST k. requested s k)"
    then obtain m where m: "accepted s = Some m" by (metis accepted_None_iff option.exhaust)
    then have "(GREATEST k. requested s k) = m"
      by (intro Greatest_equality) (simp_all add: accepted_Some_iff)
    then show "accepted s = Some l" using r m by simp
  qed
  ultimately show ?thesis by simp
qed

text \<open>
  C8. EI takes effect after the instruction that follows it: with no request pending, a step leaves the
  enable at 0 after DI, at 1 when an earlier EI's delay expires (and the instruction is not another
  EI), and as it was otherwise; EI leaves one instruction of delay.
\<close>

theorem enable_is_delayed:
  assumes "accepted s = None" "hlt_enable s = 0"
  shows "case Emulate8085Op (runtime_bus api_of) s st rt of
     None \<Rightarrow> True
   | Some (s', st', rt', h) \<Rightarrow>
       (let i = decode (memory s (pc s))
        in int_enable s' = (if i = DI then 0 else if i \<noteq> EI \<and> int_enable_delay s = 1 then 1 else int_enable s) \<and>
           int_enable_delay s' =
             (if i = DI then 0 else if i = EI then 1 else if int_enable_delay s = 0 then 0 else int_enable_delay s - 1))"
  using fp.rt.step_int_enable [OF _ assms] by (auto simp: Let_def split: option.split)

theorem enable_is_delayed_witness:
  "case Emulate8085Op (runtime_bus api_of) (fx_cpu [0xfb, 0x00]) fx_stats (fx_rt []) of
     None \<Rightarrow> True | Some (s', st', rt', h) \<Rightarrow> int_enable s' = 0 \<and> int_enable_delay s' = 1"
proof -
  let ?s = "fx_cpu [0xfb, 0x00]"
  have h: "accepted ?s = None" "hlt_enable ?s = 0" by (simp_all add: accepted_def requested_def fx_defs)
  have d: "decode (memory ?s (pc ?s)) = EI" "int_enable ?s = 0"
    by (simp_all add: fx_defs decode_def decode_3_def)
  show ?thesis
    using enable_is_delayed [OF h, of fx_stats "fx_rt []"] unfolding Let_def d by (auto split: option.splits)
qed

text \<open>A halted processor with no accepted interrupt stays exactly as it is and reports the halt.\<close>

theorem halt_waits:
  assumes "hlt_enable s \<noteq> 0" "accepted s = None"
  shows "Emulate8085Op (runtime_bus api_of) s st rt = Some (s, st, rt, 1)"
  by (rule halted_waits [OF assms])

theorem halt_waits_witness:
  "Emulate8085Op (runtime_bus api_of) ((fx_cpu [])\<lparr>hlt_enable := 1\<rparr>) fx_stats (fx_rt [fx_rom]) =
     Some ((fx_cpu [])\<lparr>hlt_enable := 1\<rparr>, fx_stats, fx_rt [fx_rom], 1)"
  by (rule halt_waits) (simp_all add: accepted_def requested_def fx_defs)

section \<open>Stack and arithmetic\<close>

text \<open>
  C9. CALL and RET match: CALL goes to its operand, and whatever the callee does to registers, flags,
  ports, memory and devices, a RET that finds the stack pointer and the two bytes there as CALL left them
  goes on behind the CALL with the old stack pointer and changes nothing else.  Excepted are a stack in
  protected memory and a stack pointer of 1, where the word lies across the end of memory.
\<close>

theorem call_then_return:
  assumes "\<not> write_protected rt (sp s - 1)" "\<not> write_protected rt (sp s - 2)" "sp s \<noteq> 1"
  shows "case exec_switch (runtime_bus api_of) s rt opc 0xcd of
     None \<Rightarrow> imm16 s opc = None
   | Some (s1, rt1, t) \<Rightarrow> imm16 s opc = Some (pc s1) \<and> rt1 = rt \<and>
       (\<forall>u rt2 opc1. sp u = sp s1 \<and> memory u (sp s1) = memory s1 (sp s1) \<and>
           memory u (sp s1 + 1) = memory s1 (sp s1 + 1) \<longrightarrow>
         (\<exists>t1. exec_switch (runtime_bus api_of) u rt2 opc1 0xc9 = Some (u\<lparr>pc := pc s + 2, sp := sp s\<rparr>, rt2, t1)))"
proof (cases "exec_switch (runtime_bus api_of) s rt opc 0xcd")
  case None
  then have "isa_exec (runtime_bus api_of) s rt opc CALL = None"
    by (simp add: fp.rt.exec_switch_None_iff decode_stack_ops)
  then show ?thesis using None by (auto simp: call_spec_def split_beta split: Option.bind_splits)
next
  case (Some r)
  obtain s1 rt1 t where r: "r = (s1, rt1, t)" by (metis prod_cases3)
  have c: "isa_exec (runtime_bus api_of) s rt opc CALL = Some (s1, rt1)"
    using opcode_isa(1) [OF _ _ Some [unfolded r]] by (simp add: decode_stack_ops)
  have "imm16 s opc = Some (pc s1) \<and> rt1 = rt"
    using c by (auto simp: call_spec_def fp_push16 [OF assms(1,2)] split: Option.bind_splits)
  then show ?thesis
    using call_ret_isa [OF c assms] opcode_isa(2) [where op = "0xc9"] by (simp add: Some r decode_stack_ops)
qed

theorem call_then_return_witness:
  "case exec_switch (runtime_bus api_of) (fx_cpu [0xcd, 0x00, 0x01]\<lparr>pc := 1\<rparr>) (fx_rt [fx_rom]) 0 0xcd of
     None \<Rightarrow> False
   | Some (s1, rt1, t) \<Rightarrow> pc s1 = 0x0100 \<and> (let u = s1\<lparr>pc := 0x0101, reg_a := 7, memory := (memory s1)(0x8000 := 1)\<rparr>
       in \<exists>t1. exec_switch (runtime_bus api_of) u (fx_rt []) 0x0100 0xc9 = Some (u\<lparr>pc := 3, sp := 0xF000\<rparr>, fx_rt [], t1))"
proof -
  let ?s = "fx_cpu [0xcd, 0x00, 0x01]\<lparr>pc := 1\<rparr>"
  have sp: "sp ?s = 0xF000" "pc ?s = 1" by (simp_all add: fx_defs)
  have i: "imm16 ?s 0 = Some 0x0100" by (simp add: imm16_def rd_def fx_defs pair16_def)
  have np: "\<not> write_protected (fx_rt [fx_rom]) (sp ?s - 1)" "\<not> write_protected (fx_rt [fx_rom]) (sp ?s - 2)"
    by (simp_all only: sp) (simp_all add: fx_rom_protects)
  have ne: "sp ?s \<noteq> 1" by (simp only: sp) simp
  note r = call_then_return [OF np ne, where opc = 0, unfolded sp i]
  have "sp s1 = 0xEFFE" if "exec_switch (runtime_bus api_of) ?s (fx_rt [fx_rom]) 0 0xcd = Some (s1, rt1, t)" for s1 rt1 t
  proof -
    have "isa_exec (runtime_bus api_of) ?s (fx_rt [fx_rom]) 0 CALL = Some (s1, rt1)"
      using opcode_isa(1) [OF _ _ that] by (simp add: decode_stack_ops)
    then show ?thesis unfolding isa_exec.simps call_spec_def i using sp by (auto simp: fp_push16 [OF np])
  qed
  moreover obtain s1 rt1 t where e: "exec_switch (runtime_bus api_of) ?s (fx_rt [fx_rom]) 0 0xcd = Some (s1, rt1, t)"
    using r by (cases "exec_switch (runtime_bus api_of) ?s (fx_rt [fx_rom]) 0 0xcd") (auto simp del: split_paired_All)
  ultimately have s1: "sp s1 = 0xEFFE" "pc s1 = 0x0100" using r by (auto simp: e)
  let ?u = "s1\<lparr>pc := 0x0101, reg_a := 7, memory := (memory s1)(0x8000 := 1)\<rparr>"
  have "\<exists>t1. exec_switch (runtime_bus api_of) ?u (fx_rt []) 0x0100 0xc9 = Some (?u\<lparr>pc := 3, sp := 0xF000\<rparr>, fx_rt [], t1)"
    using r unfolding e option.case prod.case by (elim conjE allE [of _ ?u]) (simp add: s1)
  then show ?thesis using s1(2) by (simp add: e Let_def)
qed

text \<open>
  C10. PUSH PSW and POP PSW save and restore the accumulator and all seven flags, whatever was done to
  them in between, even with the stack wrapping around the end of memory.
\<close>

theorem push_pop_psw:
  assumes "\<not> write_protected rt (sp s - 1)" "\<not> write_protected rt (sp s - 2)"
  shows "\<exists>s1 t t1. exec_switch (runtime_bus api_of) s rt opc 0xf5 = Some (s1, rt, t) \<and> sp s1 = sp s - 2 \<and>
    exec_switch (runtime_bus api_of) (s1\<lparr>reg_a := a, cc := f\<rparr>) rt opc1 0xf1 = Some (s1\<lparr>sp := sp s\<rparr>, rt, t1) \<and>
    reg_a s1 = reg_a s \<and> cc s1 = cc s"
proof -
  define s1 where "s1 = s\<lparr>memory := (memory s)(sp s - 1 := hi8 (psw_of s PSP), sp s - 2 := lo8 (psw_of s PSP)), sp := sp s - 2\<rparr>"
  have p: "isa_exec (runtime_bus api_of) s rt opc (PUSH PSP) = Some (s1, rt)"
    by (simp add: fp_push16 [OF assms] s1_def)
  have "isa_exec (runtime_bus api_of) (s1\<lparr>reg_a := a, cc := f\<rparr>) rt opc1 (POP PSP) = Some (s1\<lparr>sp := sp s\<rparr>, rt)"
    using push_pop_isa(2) [OF p assms, of "s1\<lparr>reg_a := a, cc := f\<rparr>" opc1 PSP]
    by (simp add: unpack_psw_byte s1_def)
  then show ?thesis
    using opcode_isa(2) [of "0xf5" s rt opc s1 rt] opcode_isa(2) [of "0xf1" "s1\<lparr>reg_a := a, cc := f\<rparr>" rt opc1] p
    by (simp add: decode_stack_ops) (auto simp: s1_def)
qed

theorem push_pop_psw_witness:
  "\<exists>s1 t t1. exec_switch (runtime_bus api_of) (fx_cpu []\<lparr>sp := 1\<rparr>) (fx_rt []) 0 0xf5 = Some (s1, fx_rt [], t) \<and>
    sp s1 = - 1 \<and>
    exec_switch (runtime_bus api_of) (s1\<lparr>reg_a := 7, cc := zero_flags\<lparr>fl_v := True\<rparr>\<rparr>) (fx_rt []) 0 0xf1 =
      Some (s1\<lparr>sp := 1\<rparr>, fx_rt [], t1) \<and> reg_a s1 = 0 \<and> cc s1 = zero_flags"
proof -
  have np: "\<not> write_protected (fx_rt []) a" for a by (simp add: write_protected_def fx_rt_def)
  let ?s = "fx_cpu []\<lparr>sp := 1\<rparr>"
  have f: "sp ?s = 1" "reg_a ?s = 0" "cc ?s = zero_flags" by (simp_all add: fx_cpu_def zero_state_def)
  show ?thesis using push_pop_psw [OF np np, of ?s] unfolding f by simp
qed

text \<open>
  C11. ADD and ADC on bytes: the result is the sum modulo 256, of ADD without and of ADC with the carry
  flag; carry is the carry out of bit 7, auxiliary carry that out of bit 3, V is signed overflow, Z, S
  and P describe the result.
\<close>

theorem add_with_carry_flags:
  "let sum = (\<lambda>c. let n = uint x + uint y + c; r = word_of_int n
        in (s\<lparr>cc := (cc s)\<lparr>fl_z := n mod 256 = 0, fl_s := 128 \<le> n mod 256, fl_p := even (card {i. bit r i}),
              fl_cy := 255 < n, fl_ac := 15 < uint x mod 16 + uint y mod 16 + c,
              fl_v := sint x + sint y + c < - 128 \<or> 127 < sint x + sint y + c\<rparr>\<rparr>, r))
   in addByte s x y UPDATE_CARRY = sum 0 \<and> addByteWithCarry s x y UPDATE_CARRY = sum (carry_of (cc s))"
proof -
  have u: "uint (word_of_int n :: u8) = n mod 256" for n by (simp only: uint_word_of_int) simp
  have z: "(word_of_int n :: u8) = 0 \<longleftrightarrow> n mod 256 = 0" for n using u [of n] by (metis uint_0_iff)
  let ?sum = "\<lambda>c. let n = uint x + uint y + c; r = word_of_int n
        in (s\<lparr>cc := (cc s)\<lparr>fl_z := n mod 256 = 0, fl_s := 128 \<le> n mod 256, fl_p := even (card {i. bit r i}),
              fl_cy := 255 < n, fl_ac := 15 < uint x mod 16 + uint y mod 16 + c,
              fl_v := sint x + sint y + c < - 128 \<or> 127 < sint x + sint y + c\<rparr>\<rparr>, r)"
  have r: "x + y + word_of_int (carry_of (cc s)) = word_of_int (uint x + uint y + carry_of (cc s))" by simp
  have adc: "addByteWithCarry s x y UPDATE_CARRY = ?sum (carry_of (cc s))"
    unfolding addByteWithCarry_eq Let_def r arith_flags_def u z
    by (simp add: signed_overflow_def even_ones_def)
  have r: "x + y = word_of_int (uint x + uint y)" by simp
  have "addByte s x y UPDATE_CARRY = ?sum 0"
    unfolding addByte_eq Let_def r arith_flags_def u z add_0_right
    by (simp add: signed_overflow_def even_ones_def)
  then show ?thesis unfolding Let_def using adc unfolding Let_def by simp
qed

text \<open>
  C12. DAA after ADD of two packed decimals yields the packed decimal of their sum, after ADC that of the
  sum and the carry; carry is the hundred.
\<close>

theorem daa_adds_decimals:
  assumes "bcd x" "bcd y"
  shows "let adjust = (\<lambda>(s1, r). daa (s1\<lparr>reg_a := r\<rparr>));
       reads = (\<lambda>s2 n. bcd (reg_a s2) \<and> bcd_val (reg_a s2) + (if fl_cy (cc s2) then 100 else 0) = n)
     in reads (adjust (addByte s x y UPDATE_CARRY)) (bcd_val x + bcd_val y) \<and>
        reads (adjust (addByteWithCarry s x y UPDATE_CARRY)) (bcd_val x + bcd_val y + carry_of (cc s))"
proof -
  let ?adc = "fst (addByteWithCarry s x y UPDATE_CARRY)" and ?sumc = "snd (addByteWithCarry s x y UPDATE_CARRY)"
  let ?add = "fst (addByte s x y UPDATE_CARRY)" and ?sum = "snd (addByte s x y UPDATE_CARRY)"
  have k: "carry_of (cc s) = 0 \<or> carry_of (cc s) = 1" "(0 :: int) = 0 \<or> (0 :: int) = 1" by (simp_all add: carry_of_def)
  have "reg_a (?adc\<lparr>reg_a := ?sumc\<rparr>) = word_of_int (uint x + uint y + carry_of (cc s))"
    "fl_cy (cc (?adc\<lparr>reg_a := ?sumc\<rparr>)) = (255 < uint x + uint y + carry_of (cc s))"
    "fl_ac (cc (?adc\<lparr>reg_a := ?sumc\<rparr>)) = (15 < uint x mod 16 + uint y mod 16 + carry_of (cc s))"
    by (simp_all add: addByteWithCarry_eq Let_def)
  note adc = daa_add [OF assms k(1) this]
  have "reg_a (?add\<lparr>reg_a := ?sum\<rparr>) = word_of_int (uint x + uint y + 0)"
    "fl_cy (cc (?add\<lparr>reg_a := ?sum\<rparr>)) = (255 < uint x + uint y + 0)"
    "fl_ac (cc (?add\<lparr>reg_a := ?sum\<rparr>)) = (15 < uint x mod 16 + uint y mod 16 + 0)"
    by (simp_all add: addByte_eq Let_def)
  note add = daa_add [OF assms k(2) this]
  show ?thesis using adc add by (simp add: split_beta Let_def)
qed

theorem daa_adds_decimals_witness:
  "let s1 = daa ((fst (addByte (fx_cpu []) 0x58 0x67 UPDATE_CARRY))\<lparr>reg_a := snd (addByte (fx_cpu []) 0x58 0x67 UPDATE_CARRY)\<rparr>)
     in bcd (reg_a s1) \<and> bcd_val (reg_a s1) + (if fl_cy (cc s1) then 100 else 0) = 125"
  using daa_adds_decimals [of "0x58" "0x67" "fx_cpu []"]
  by (simp add: bcd_def bcd_val_def carry_of_def fx_cpu_def zero_state_def zero_flags_def split_beta Let_def)

section \<open>The trace loop\<close>

text \<open>
  C13. With a step limit a run of the trace loop ends: as many iterations as the limit suffice, more
  change nothing, and it stops with at most that many steps, exactly that many where the limit stops it.
  Where the run is undefined an iteration reached by then reads beyond the memory buffer; no timer keeps
  it from ending.  The timers have positive periods that do not carry the clock, at most 18 T-states a
  step, past 64 bits.
\<close>

theorem bounded_run_ends:
  assumes "maxSteps cfg \<noteq> 0" "unat (maxSteps cfg) \<le> n"
    and "list_all (timer_ok (18 * unat (maxSteps cfg))) tms"
  shows "trace_loop n api_of cfg (start_loop s rt tms tps) =
      trace_loop (unat (maxSteps cfg)) api_of cfg (start_loop s rt tms tps) \<and>
    (case trace_loop n api_of cfg (start_loop s rt tms tps) of
       Running l \<Rightarrow> False
     | Stopped l r \<Rightarrow> lp_step l \<le> maxSteps cfg \<and> (r \<noteq> R_max \<or> lp_step l = maxSteps cfg)
     | Undefined \<Rightarrow> \<exists>k < unat (maxSteps cfg). \<exists>l.
         trace_loop k api_of cfg (start_loop s rt tms tps) = Running l \<and> overread api_of cfg l)"
proof -
  let ?l = "start_loop s rt tms tps" and ?m = "unat (maxSteps cfg)"
  have "unat (maxSteps cfg) - unat (lp_step ?l) \<le> ?m" by simp
  note nr = trace_loop_bounded [OF assms(1) this]
  obtain k where n: "n = ?m + k" using assms(2) le_Suc_ex by blast
  have e: "trace_loop n api_of cfg ?l = trace_loop ?m api_of cfg ?l"
    using trace_loop_more_fuel [OF nr, of k] unfolding n by simp
  have "lp_step ?l \<le> maxSteps cfg" by (simp add: start_loop_def)
  note st = trace_loop_steps [OF _ assms(1) this]
  note un = trace_loop_undefined [OF _ start_clock [OF assms(3)] assms(1)]
  show ?thesis
    using nr st [of ?m] un [of ?m] unfolding e by (cases "trace_loop ?m api_of cfg ?l") fastforce+
qed

theorem bounded_run_ends_witness:
  "case trace_loop 2000 api_of fx_cfg (start_loop (fx_cpu [0xc3, 0, 0]) (fx_rt [])
      [\<lparr>tm_code = 75, tm_periodCycles = 100, tm_nextTriggerCycle = 100\<rparr>] []) of
    Running l \<Rightarrow> False | Stopped l r \<Rightarrow> lp_step l \<le> 1000
  | Undefined \<Rightarrow> \<exists>k < 1000. \<exists>l. trace_loop k api_of fx_cfg (start_loop (fx_cpu [0xc3, 0, 0]) (fx_rt [])
      [\<lparr>tm_code = 75, tm_periodCycles = 100, tm_nextTriggerCycle = 100\<rparr>] []) = Running l \<and> overread api_of fx_cfg l"
proof -
  let ?tms = "[\<lparr>tm_code = 75, tm_periodCycles = 100, tm_nextTriggerCycle = 100\<rparr>]"
  have m: "maxSteps fx_cfg = 1000" by (simp add: fx_cfg_def)
  have "maxSteps fx_cfg \<noteq> 0" "unat (maxSteps fx_cfg) \<le> 2000" "list_all (timer_ok (18 * unat (maxSteps fx_cfg))) ?tms"
    by (simp_all add: m timer_ok_def)
  note b = bounded_run_ends [OF this, where s = "fx_cpu [0xc3, 0, 0]" and rt = "fx_rt []" and tps = "[]", THEN conjunct2]
  have "unat (1000 :: u64) = 1000" by simp
  then show ?thesis
    using b unfolding m
    by (cases "trace_loop 2000 api_of fx_cfg (start_loop (fx_cpu [0xc3, 0, 0]) (fx_rt []) ?tms [])") (simp_all only: outcome.case, blast?)
qed

text \<open>
  C14. A scheduled interrupt is triggered exactly at its step: in a run with the schedule in order, before
  the instruction of number n those scheduled for n are triggered, in the order of the schedule, and no
  others; those of earlier steps have been triggered by then, those of later steps have not.
\<close>

theorem irq_at_its_step:
  assumes "trace_loop n tbl cfg (start_loop s rt tms tps) = Running l"
    and "sorted (map irq_atStep (irqs cfg))" "n < 2 ^ 64"
  shows "trigger_irqs (drop (nextIRQ l) (irqs cfg)) (lp_step l) (nextIRQ l) (lp_cpu l) =
    (length (filter (\<lambda>q. irq_atStep q \<le> of_nat n) (irqs cfg)),
     foldl (\<lambda>s q. fst (triggerInterrupt s (irq_code q) 1)) (lp_cpu l) (filter (\<lambda>q. irq_atStep q = of_nat n) (irqs cfg)))"
proof -
  have "irqs_done cfg 0 (start_loop s rt tms tps)" by (simp add: irqs_done_def start_loop_def)
  from irqs_done_run [OF assms(1) this assms(2)] assms(3) have "irqs_done cfg n l" by simp
  from irqs_due [OF this assms(2)] show ?thesis .
qed

theorem irq_at_its_step_witness:
  "case trace_loop 1 api_of fx_irqs (start_loop (fx_cpu []\<lparr>hlt_enable := 1\<rparr>) (fx_rt []) [] []) of
     Running l \<Rightarrow> trigger_irqs (drop (nextIRQ l) (irqs fx_irqs)) (lp_step l) (nextIRQ l) (lp_cpu l) =
       (2, fst (triggerInterrupt (lp_cpu l) 75 1))
   | _ \<Rightarrow> False"
proof -
  have s: "sorted (map irq_atStep (irqs fx_irqs))" by (simp add: fx_irqs_def)
  obtain l where r: "trace_loop 1 api_of fx_irqs (start_loop (fx_cpu []\<lparr>hlt_enable := 1\<rparr>) (fx_rt []) [] []) = Running l"
    using fx_irqs_runs by blast
  have f: "filter (\<lambda>q. irq_atStep q \<le> 1) (irqs fx_irqs) = [\<lparr>irq_code = 55, irq_atStep = 0\<rparr>, \<lparr>irq_code = 75, irq_atStep = 1\<rparr>]"
    "filter (\<lambda>q. irq_atStep q = 1) (irqs fx_irqs) = [\<lparr>irq_code = 75, irq_atStep = 1\<rparr>]"
    by (simp_all add: fx_irqs_def word_le_nat_alt)
  show ?thesis using irq_at_its_step [OF r s] unfolding r by (simp add: f)
qed

text \<open>
  C15. A loop the trace loop reports is one.  The step before the report executed an instruction, no
  interrupt was taken and none of the 8080 kind is pending, the schedule uses the four interrupt lines,
  no plugin acts between instructions: then the same run without loop detection and without the limits
  on steps and tracepoints goes on for ever, and nothing changes in the processor any more but the
  interrupt enable and its delay, nor in the devices.
\<close>

theorem reported_loop_never_ends:
  assumes "do_step api_of cfg l1 m d = Some (l2, None)" "loop_body api_of cfg l2 = Some (l3, Some R_loop)"
    and "accepted (lp_cpu l1) = None" "pending_int (lp_cpu l1) = 0" "irq_code ` set (irqs cfg) \<subseteq> {45, 55, 65, 75}"
    and "\<not> wiring (lp_rt l1)" "\<forall>p \<in> set (plugins (lp_rt l1)). api_on_step (api_of p) = None"
  shows "\<exists>l'. trace_loop n api_of (cfg\<lparr>maxSteps := 0, loopDetect := False, tracepointMax := 0, tracepointStop := False\<rparr>) l2 =
      Running l' \<and> lp_rt l' = lp_rt l2 \<and>
    (\<exists>e k. lp_cpu l' = (lp_cpu l2)\<lparr>int_enable := e, int_enable_delay := k\<rparr>)"
proof -
  have "quiet_rt (lp_rt l1)" using assms(6,7) by (simp add: quiet_rt_def)
  from reported_loop_spins [OF assms(1,2) this assms(3-5), of n] show ?thesis
    by (simp add: unlimited_def with_enable_def)
qed

theorem reported_loop_never_ends_witness:
  "\<exists>l2 l3 l'. loop_body api_of fx_cfg l2 = Some (l3, Some R_loop) \<and>
    trace_loop 1000000 api_of (fx_cfg\<lparr>maxSteps := 0, loopDetect := False, tracepointMax := 0, tracepointStop := False\<rparr>) l2 =
      Running l' \<and> pc (lp_cpu l') = 0 \<and> memory (lp_cpu l') 0 = 0xc3"
proof -
  obtain l1 l2 l3 where l: "do_step api_of fx_cfg l1 [] [] = Some (l2, None)"
      "loop_body api_of fx_cfg l2 = Some (l3, Some R_loop)"
    and c: "lp_cpu l1 = fx_cpu [0xc3, 0, 0]" "lp_rt l1 = fx_rt []" "lp_cpu l2 = fx_cpu [0xc3, 0, 0]"
    using fx_spin_reported by blast
  have "accepted (lp_cpu l1) = None" "pending_int (lp_cpu l1) = 0" "irq_code ` set (irqs fx_cfg) \<subseteq> {45, 55, 65, 75}"
    "\<not> wiring (lp_rt l1)" "\<forall>p \<in> set (plugins (lp_rt l1)). api_on_step (api_of p) = None"
    by (simp_all add: c accepted_def requested_def fx_defs)
  from reported_loop_never_ends [OF l this, of 1000000] obtain l' e k
    where "trace_loop 1000000 api_of (fx_cfg\<lparr>maxSteps := 0, loopDetect := False, tracepointMax := 0, tracepointStop := False\<rparr>) l2 =
      Running l'" "lp_cpu l' = (fx_cpu [0xc3, 0, 0])\<lparr>int_enable := e, int_enable_delay := k\<rparr>" unfolding c by blast
  moreover from this(2) have "pc (lp_cpu l') = 0 \<and> memory (lp_cpu l') 0 = 0xc3" by (simp add: fx_defs)
  ultimately show ?thesis using l(2) by blast
qed

text \<open>
  Not every report is one: the program counter and the stack pointer of the step before are taken to
  be 0xFFFF at the start, so that a program entered at 0xFFFF with the default stack pointer is reported
  before its first instruction.
\<close>

theorem entry_reported:
  assumes "pc s = 0xFFFF" "sp s = 0xFFFF" "\<not> pendingIrq s" "loopDetect cfg" "irqs cfg = []" "stopAddrs cfg = []"
    and "tracepointMax cfg = 0" "\<not> tracepointStop cfg"
  shows "stop_reason cfg (start_loop s rt [] tps) = Some R_loop"
  using assms by (simp add: stop_reason_def start_loop_def IsStopAddress_def HasFutureIRQ_def)

theorem entry_reported_witness:
  "stop_reason fx_cfg (start_loop ((fx_cpu [])\<lparr>pc := 0xFFFF, sp := 0xFFFF\<rparr>) (fx_rt []) [] []) = Some R_loop"
  by (rule entry_reported) (simp_all add: fx_defs pendingIrq_def)

text \<open>
  C16. Firing a periodic timer ends: its next trigger is the first one of its arithmetic progression
  beyond the T-states counted, no further than one period away once it has fired.
\<close>

theorem timer_next_trigger:
  assumes "0 < period" "unat clk + unat period < 2 ^ 64"
  shows "\<exists>k s'. fire_timer clk code period nxt s = Some (nxt + of_nat k * period, s') \<and>
    clk < nxt + of_nat k * period \<and> (nxt \<le> clk \<longrightarrow> 0 < k \<and> nxt + of_nat k * period \<le> clk + period) \<and>
    (\<not> nxt \<le> clk \<longrightarrow> k = 0)"
  by (rule fire_timer_ends [OF assms])

theorem timer_next_trigger_witness:
  "\<exists>k s'. fire_timer 1000 75 100 250 (fx_cpu []) = Some (250 + of_nat k * 100, s') \<and>
    1000 < 250 + of_nat k * (100 :: u64) \<and> 0 < k \<and> 250 + of_nat k * (100 :: u64) \<le> 1100"
  using timer_next_trigger [of 100 1000 75 250 "fx_cpu []"] by simp

section \<open>The command line\<close>

text \<open>
  C17. From the image file to the end: in a run of the whole program on a flat image, a byte that the
  plugins protect is in the end the byte of the file at its distance from the load address, and zero
  outside the image, whatever the options, the other plugins and the program do.
\<close>

theorem image_in_rom:
  assumes "main_program fuel api_of h opts (Some file) = Traces cfg out" "outcome_loop out = Some l'"
    and "ho_file h file = Some bs" "\<not> IsElfFile (Some bs)" "write_protected (lp_rt l') a"
  shows "memory (lp_cpu l') a =
    (if loadAddr cfg \<le> a \<and> unat a - unat (loadAddr cfg) < length bs then bs ! (unat a - unat (loadAddr cfg)) else 0)"
  by (rule image_to_end [OF assms])

theorem image_in_rom_witness:
  "case main_program 1000 api_of fx_start [Opt_1001 ''rom''] (Some ''a.bin'') of
     Traces cfg out \<Rightarrow> (case outcome_loop out of None \<Rightarrow> True
       | Some l' \<Rightarrow> memory (lp_cpu l') 0 = 0x76 \<and> memory (lp_cpu l') 0x7fff = 0)
   | _ \<Rightarrow> False"
proof -
  obtain cfg s rt where m: "main_program 1000 api_of fx_start [Opt_1001 ''rom''] (Some ''a.bin'') =
      Traces cfg (trace_loop 1000 api_of (Config.truncate cfg) (start_loop s rt [] []))" (is "_ = Traces _ ?out")
    and c: "loadAddr cfg = 0" and w: "write_protected rt = (\<lambda>a. a < 0x8000)"
    using fx_start_traces by blast
  have f: "ho_file fx_start ''a.bin'' = Some [0x76]" "\<not> IsElfFile (Some [0x76])"
    by (simp_all add: fx_start_def IsElfFile_def)
  have "memory (lp_cpu l') 0 = 0x76 \<and> memory (lp_cpu l') 0x7fff = 0" if o: "outcome_loop ?out = Some l'" for l'
  proof -
    have "write_protected (lp_rt l') a \<longleftrightarrow> a < 0x8000" for a
      using trace_loop_protection [OF o] w by (simp add: start_loop_def)
    then show ?thesis using image_in_rom [OF m o f, of 0] image_in_rom [OF m o f, of "0x7fff"] c by simp
  qed
  then show ?thesis unfolding m by (simp split: option.split)
qed

text \<open>
  C18. What a run reports adds up: without the summary the trace has one line for every executed
  instruction, numbered from 0; with coverage, the counters by address and by opcode both sum up to the
  executed instructions, one more when the run stopped before executing the instruction it had counted.
\<close>

theorem run_accounts:
  "case trace_loop n tbl cfg (start_loop s rt tms tps) of
     Stopped l why \<Rightarrow> accounts cfg (if unexecuted why then 1 else 0) l
   | _ \<Rightarrow> True"
  using accounts_loop [OF accounts_start] by (fastforce split: outcome.split)

text \<open>
  C19. A memory dump shows exactly the bytes of its range, or has no value: it is complete when the range
  ends inside the memory and is not longer than 0xFFF0, otherwise it reads past the buffer or never ends.
\<close>

theorem dump_is_complete:
  "case dump_rows s d 0 of
     None \<Rightarrow> \<not> dump_fits d
   | Some rows \<Rightarrow> dump_fits d \<and>
       concat (map (\<lambda>(a, bs, txt). bs) rows) = map (\<lambda>i. memory s (dump_start d + of_nat i)) [0..<unat (dump_length d)]"
proof -
  have e: "dump_rows s d 0 = Some []" if "dump_length d = 0" using that by (subst dump_rows.simps) simp
  have z: "(0 :: u16) < dump_length d \<longleftrightarrow> dump_length d \<noteq> 0" by (simp add: word_neq_0_conv)
  have b: "uint (dump_start d) + uint (dump_length d) \<le> 65536" if "dump_length d = 0"
    using that u16_bounds [of "dump_start d"] by simp
  have f: "(\<lambda>(a, bs, txt). bs) = (\<lambda>r. fst (snd r))" by auto
  show ?thesis
    using dump_rows_bounds [of s d 0] dump_rows_complete [of d 0 s] e b
    by (cases "dump_length d = 0") (auto simp: dump_fits_def z f split: option.split)
qed

section \<open>Devices\<close>

text \<open>
  C20. What a store does over a configured memory region: it changes no byte but its own, and that one
  unless the address lies from the base up to, not including, base plus size, and the region is a ROM or
  an EEPROM without write enable.  The sum of base and size does not wrap past 32 bits.
\<close>

theorem rom_region:
  assumes "uint (parseNum (cfgValue config ''base'') 0) + uint (parseNum (cfgValue config ''size'') 0x8000) < 2 ^ 32"
    and "plugins rt = [Mem (mem_init config)]" "anyMemWrite rt"
  shows "mem_wr (runtime_bus api_of) s rt (uint a) v =
    (let base = uint (parseNum (cfgValue config ''base'') 0); len = uint (parseNum (cfgValue config ''size'') 0x8000);
         open = (cfgValue config ''mode'' = ''eeprom'' \<and> truthy (cfgValue config ''wren''))
     in (if base \<le> uint a \<and> uint a < base + len \<and> \<not> open then s else s\<lparr>memory := (memory s)(a := v)\<rparr>, rt))"
proof -
  have "uint (ucast a :: u32) = uint a"
    by (simp add: unsigned_ucast_eq take_bit_eq_mod) (use u16_bounds [of a] in simp)
  then have "mem_protects (mem_init config) a \<longleftrightarrow>
      uint (parseNum (cfgValue config ''base'') 0) \<le> uint a \<and>
      uint a < uint (parseNum (cfgValue config ''base'') 0) + uint (parseNum (cfgValue config ''size'') 0x8000) \<and>
      \<not> (cfgValue config ''mode'' = ''eeprom'' \<and> truthy (cfgValue config ''wren''))"
    using assms(1)
    by (auto simp: mem_protects_def mem_init_def Let_def protectedNow_def word_le_def word_less_def uint_word_ariths)
  then show ?thesis
    using assms(2,3) by (auto simp: fp_mem_wr write_protected_def Let_def)
qed

theorem rom_region_witness:
  "mem_wr (runtime_bus api_of) (fx_cpu []) (fx_rt [Mem (mem_init [])]) 0x7fff 7 = (fx_cpu [], fx_rt [Mem (mem_init [])]) \<and>
   mem_wr (runtime_bus api_of) (fx_cpu []) (fx_rt [Mem (mem_init [])]) 0x8000 7 =
     ((fx_cpu [])\<lparr>memory := (memory (fx_cpu []))(0x8000 := 7)\<rparr>, fx_rt [Mem (mem_init [])])"
  using rom_region [of "[]" "fx_rt [Mem (mem_init [])]" "fx_cpu []" "0x7fff" 7]
    rom_region [of "[]" "fx_rt [Mem (mem_init [])]" "fx_cpu []" "0x8000" 7]
  by (simp add: cfgValue_def parseNum_def fx_rt_def)

text \<open>\<^verbatim>\<open>cfgValue\<close> finds the first setting of a key behind any settings that do not begin with it.\<close>

theorem cfg_first_setting:
  assumes "list_all (\<lambda>t. CHR '';'' \<notin> set t \<and> \<not> starts_with (key @ ''='') t) pre"
    and "CHR '';'' \<notin> set key" "CHR '';'' \<notin> set v"
  shows "cfgValue (concat (map (\<lambda>t. t @ '';'') pre) @ key @ ''='' @ v @ '';'' @ post) key = v"
  using cfg_tokens_after [OF assms(1), of "key @ ''='' @ v @ '';'' @ post"]
    cfg_tokens_hit(1) [OF assms(3), of "key @ ''=''" post] assms(2)
  by (simp add: cfgValue_def)

theorem cfg_first_setting_witness: "cfgValue ''mode=rom;base=0x40;size=2;base=3'' ''base'' = ''0x40''"
  using cfg_first_setting [of "''base''" "[''mode=rom'']" "''0x40''" "''size=2;base=3''"]
  by (simp add: starts_with_def)

text \<open>
  C21. Bytes written through the disk emulator's ports and read back after closing and reopening the
  file come back in order, each with status OK, and then the end of file for ever.
\<close>

theorem disk_roundtrip:
  assumes "initialized d" "\<And>path. host_creates d path" "\<And>path k. host_takes d path k"
  shows "snd (get_bytes s (length bs + n)
      (disk_cmd s 0x01 len (disk_cmd s 0x05 arg (fold (put_byte s) bs (disk_cmd s 0x02 len d))))) =
    map (Pair DISK_STATUS_OK) bs @ replicate n (DISK_STATUS_EOF, 0)"
  by (rule disk_write_read_back [OF assms])

theorem disk_roundtrip_witness:
  "snd (get_bytes (fx_cpu []) (length [0x41, 0x42 :: u8] + 1) (disk_cmd (fx_cpu []) 0x01 8 (disk_cmd (fx_cpu []) 0x05 0
      (fold (put_byte (fx_cpu [])) [0x41, 0x42] (disk_cmd (fx_cpu []) 0x02 8 fx_disk))))) =
    [(0x00, 0x41), (0x00, 0x42), (0x01, 0)]"
proof -
  have h: "initialized fx_disk" "host_creates fx_disk path" "host_takes fx_disk path k" for path k
    by (simp_all add: fx_disk_def)
  show ?thesis
    using disk_roundtrip [OF h, of "fx_cpu []" "[0x41, 0x42]" 1 8 0]
    by (simp add: DISK_STATUS_OK_def DISK_STATUS_EOF_def)
qed

text \<open>
  C22. The serial interface delivers its script: from an interface as its configuration sets it up, with
  a receive file or receive bytes and no live channel, whatever the order of steps, writes, status and
  data reads and modem lines, the values that INs on the data port deliver while the status byte announces
  one are the script's bytes in order, none lost and none twice.
\<close>

theorem acia_delivers_script:
  assumes "acia_init env config = Some c0" "channels c0 = []" "acia_reach c0 c got sent"
  shows "got = take (rxPos c) (if cfgValue config ''rxfile'' = [] then parseHexBytes (cfgValue config ''rx'')
     else the (env_file env (cfgValue config ''rxfile'')))"
  using acia_reach_got [OF assms(3) acia_init_script(1,2) [OF assms(1,2)]] acia_init_script(3) [OF assms(1,2)] by simp

theorem acia_delivers_script_witness:
  "rxPos fx_acia_read = 1 \<and> [fst (acia_in fx_acia_step (fx_cpu []) 0xDF)] = take (rxPos fx_acia_read) (parseHexBytes ''4142'')"
proof -
  have s: "fx_acia_step = fx_acia\<lparr>rdrByte := 0x41, rdrFull := True\<rparr>"
    by (simp add: fx_acia_step_def fx_acia_def acia_default_def acia_on_step_def drain_channels_def
        feed_script_def feed_live_def)
  have p: "dataPort fx_acia_step = 0xDF" "ctrlPort fx_acia_step = 0xDE" by (simp_all add: s fx_acia_def acia_default_def)
  have "acia_reach fx_acia fx_acia_step [] []"
    unfolding fx_acia_step_def by (rule acia_reach.on_step [OF acia_reach.start])
  from acia_reach.receive [OF this, of "fx_cpu []" "fst (acia_in fx_acia_step (fx_cpu []) 0xDF)" fx_acia_read]
  have r: "acia_reach fx_acia fx_acia_read ([] @ (if announced fx_acia_step (fx_cpu []) then [fst (acia_in fx_acia_step (fx_cpu []) 0xDF)] else [])) []"
    by (simp add: p fx_acia_read_def)
  have "announced fx_acia_step (fx_cpu [])" by (simp add: announced_eq p) (simp add: s)
  moreover have "rxPos fx_acia_read = 1"
    by (simp add: fx_acia_read_def acia_in_def acia_on_io_pre_read_def acia_on_io_post_read_def p)
      (simp add: s fx_acia_def acia_default_def)
  moreover have "channels fx_acia = []" by (simp add: fx_acia_def acia_default_def)
  moreover have "cfgValue ''rx=4142'' ''rxfile'' = []" "cfgValue ''rx=4142'' ''rx'' = ''4142''" by code_simp+
  ultimately show ?thesis using acia_delivers_script [OF fx_acia_init _ r] by simp
qed

text \<open>Every byte the processor sends reaches the transmit log, in order, behind what it held.\<close>

theorem acia_logs_sent:
  assumes "acia_reach c0 c got sent" "txlog c0 = Some l"
  shows "txlog c = Some (l @ sent)"
  by (rule acia_reach_sent [OF assms])

theorem acia_logs_sent_witness:
  "txlog (fst (acia_on_io_write (acia_default\<lparr>txlog := Some [1]\<rparr>) (fx_cpu []) 0xDF 0x55)) = Some [1, 0x55]"
proof -
  let ?c = "acia_default\<lparr>txlog := Some [1]\<rparr>"
  have p: "dataPort ?c = 0xDF" "txlog ?c = Some [1]" by (simp_all add: acia_default_def)
  have "acia_reach ?c (fst (acia_on_io_write ?c (fx_cpu []) (dataPort ?c) 0x55)) [] ([] @ [0x55])"
    by (rule acia_reach.send [OF acia_reach.start])
  from acia_logs_sent [OF this p(2)] show ?thesis unfolding p(1) by simp
qed

text \<open>
  A bit set/reset command of the 8255 changes the one bit of the port C latch it names to the
  value it names, and no other.
\<close>

theorem ppi_bit_set_reset:
  assumes "\<not> bit val 7" "n < 8"
  shows "bit (outC (ppi_writeControl c val)) n \<longleftrightarrow>
    (if n = unat (drop_bit 1 val AND 0x07) then bit val 0 else bit (outC c) n)"
  by (rule bsr_bit [OF assms])

theorem ppi_bit_set_reset_witness:
  "bit (outC (ppi_writeControl ppi_default 0x0D)) 6 \<and> \<not> bit (outC (ppi_writeControl ppi_default 0x0D)) 5"
  using ppi_bit_set_reset [of "0x0D" 6 ppi_default] ppi_bit_set_reset [of "0x0D" 5 ppi_default]
  by (simp add: ppi_default_def)

text \<open>Each bit read from port C comes from the pins or the latch, by the direction of its own nibble.\<close>

theorem ppi_port_c_bits:
  assumes "n < 8"
  shows "bit (readPort c 2) n \<longleftrightarrow>
    bit (if (if n < 4 then cLowerIn c else cUpperIn c) then inC c else outC c) n"
  by (rule readPort_C_bit [OF assms])

theorem ppi_port_c_bits_witness:
  "bit (readPort (ppi_default\<lparr>inC := 0xF0, cLowerIn := False\<rparr>) 2) 7 \<and>
   \<not> bit (readPort (ppi_default\<lparr>inC := 0x0F, cLowerIn := False\<rparr>) 2) 0"
  using ppi_port_c_bits [of 7 "ppi_default\<lparr>inC := 0xF0, cLowerIn := False\<rparr>"]
    ppi_port_c_bits [of 0 "ppi_default\<lparr>inC := 0x0F, cLowerIn := False\<rparr>"]
  by (simp add: ppi_default_def)

section \<open>The logic net\<close>

text \<open>
  C23. A gate is the exact three-valued extension of its Boolean function: its output is a known level
  just when every completion of the unknown inputs gives that value.  So an unknown input does not
  always make the output unknown, as the wiring design has it: NAND of 0 and X is 1.
\<close>

theorem gate_is_exact:
  assumes "gate_arity_ok g"
  shows "evalGate g vals = level_of b \<longleftrightarrow>
    (\<forall>bs. list_all2 may_be (gate_ins g vals) bs \<longrightarrow> gate_bool (gt_type g) bs = b)"
proof
  assume "evalGate g vals = level_of b"
  then show "\<forall>bs. list_all2 may_be (gate_ins g vals) bs \<longrightarrow> gate_bool (gt_type g) bs = b"
    using evalGate_sound [OF assms, of vals] by (cases b) (auto simp: level_of_def)
next
  assume all: "\<forall>bs. list_all2 may_be (gate_ins g vals) bs \<longrightarrow> gate_bool (gt_type g) bs = b"
  note at = all [rule_format, OF complete_may_be]
  have "evalGate g vals \<noteq> LVL_X" using evalGate_exact [OF assms, of vals] at by auto
  moreover have "may_be (evalGate g vals) b"
    using evalGate_sound [OF assms complete_may_be, of vals] at by simp
  ultimately show "evalGate g vals = level_of b"
    by (cases "evalGate g vals"; cases b) (simp_all add: level_of_def)
qed

theorem gate_is_exact_witness:
  "evalGate \<lparr>gt_type = G_NAND, in_nodes = [0, 1], out_node = 2\<rparr> [LVL_0, LVL_X] = level_of True \<longleftrightarrow>
    (\<forall>bs. list_all2 may_be [LVL_0, LVL_X] bs \<longrightarrow> gate_bool G_NAND bs = True)"
  using gate_is_exact [of "\<lparr>gt_type = G_NAND, in_nodes = [0, 1], out_node = 2\<rparr>" "[LVL_0, LVL_X]" True]
  by (simp add: gate_arity_ok_def gate_ins_def)

text \<open>
  C24. What a step of a bound net does, exactly.  A round gives every node the level its drivers resolve
  to, the strong output pins and the gates: a common level of all, X when they differ or a gate is X, the
  pull without drivers; then it gives every gate its function of the levels.  After a step the net is
  sixteen rounds on; it is settled, or the sixteenth round still changed something, which is then
  reported, the first time.  The input pins receive the levels in the order of the wires.
\<close>

theorem net_step_is_consistent:
  assumes "wired net"
  shows "case net_step hs h net of (h', net', ws) \<Rightarrow>
    (let net0 = net\<lparr>endpoints := refresh hs h (endpoints net)\<rparr>;
         osc = ((relax hs h ^^ 16) net0 \<noteq> (relax hs h ^^ 15) net0)
     in lvls net' = lvls ((relax hs h ^^ 16) net0) \<and> gateOut net' = gateOut ((relax hs h ^^ 16) net0) \<and>
        (osc \<or> settled hs h net') \<and>
        (Oscillation \<in> set ws \<longleftrightarrow> osc \<and> \<not> warnedOscillation net) \<and>
        (warnedOscillation net' \<longleftrightarrow> warnedOscillation net \<or> osc) \<and>
        wired net' \<and> endpoints net' = endpoints net0 \<and>
        h' = fold (\<lambda>ep h. write_input hs h (ep_handle ep) (lvls net' ! ep_node ep))
          (filter (\<lambda>ep. \<not> ep_is_output ep \<and> 0 \<le> ep_handle ep) (endpoints net')) h)"
proof -
  obtain h' net' ws where e: "net_step hs h net = (h', net', ws)" by (metis prod_cases3)
  note x = net_step_exact [OF assms e]
  have "endpoints net' = refresh hs h (endpoints net)" using x(3) by (simp add: same_wiring_def)
  moreover have "bound net" using assms by (simp add: wired_def)
  then have "h' = deliver hs net' (endpoints net') h" using e by (auto simp: net_step_def Let_def split_beta)
  ultimately show ?thesis using x by (simp add: e Let_def deliver_fold)
qed

theorem net_step_is_consistent_witness:
  "case net_step fx_net_host [] fx_net of (h', net', ws) \<Rightarrow>
    ((relax fx_net_host [] ^^ 16) fx_net \<noteq> (relax fx_net_host [] ^^ 15) fx_net \<or> settled fx_net_host [] net') \<and>
    h' = fold (\<lambda>ep h. write_input fx_net_host h (ep_handle ep) (lvls net' ! ep_node ep))
          (filter (\<lambda>ep. \<not> ep_is_output ep \<and> 0 \<le> ep_handle ep) (endpoints net')) []"
proof -
  have "wired fx_net" by (simp add: wired_def fx_net_bound) (simp add: fx_net_def gate_sources_def)
  moreover have "fx_net\<lparr>endpoints := refresh fx_net_host [] (endpoints fx_net)\<rparr> = fx_net"
    by (simp add: fx_net_host_def refresh_def)
  ultimately show ?thesis
    using net_step_is_consistent [of fx_net fx_net_host "[]"] by (auto simp: Let_def split: prod.splits)
qed

text \<open>
  C25. A net without a loop through its gates, at most fourteen of them one behind the other, settles in
  every step whatever its levels were before, and never oscillates; the levels it ends with are the only
  consistent ones, so they depend on the pins alone.
\<close>

theorem layered_net_settles:
  assumes "bound net" "layered r net" "\<And>i. i < length (nodes net) \<Longrightarrow> r i \<le> 14"
  shows "case net_step hs h net of (h', net', ws) \<Rightarrow>
    Oscillation \<notin> set ws \<and> consistent (pin_drivers hs h (endpoints net')) net' \<and>
    (\<forall>lv go. consistent (pin_drivers hs h (endpoints net')) (net'\<lparr>lvls := lv, gateOut := go\<rparr>) \<longrightarrow>
      lv = lvls net' \<and> go = gateOut net')"
proof -
  obtain h' net' ws where e: "net_step hs h net = (h', net', ws)" by (metis prod_cases3)
  note s = net_step_layered [OF assms e]
  have "lv = lvls net' \<and> go = gateOut net'"
    if "consistent (pin_drivers hs h (endpoints net')) (net'\<lparr>lvls := lv, gateOut := go\<rparr>)" for lv go
    using consistent_unique [OF s(3) _ s(4) that] by (simp add: same_wiring_def)
  then show ?thesis using s e by simp
qed

theorem layered_net_settles_witness:
  "case net_step fx_net_host [] fx_net of (h', net', ws) \<Rightarrow>
    Oscillation \<notin> set ws \<and> consistent (pin_drivers fx_net_host [] (endpoints net')) net'"
proof -
  have "layered id fx_net" by (simp add: layered_def fx_net_def gate_sources_def)
  moreover have "id i \<le> 14" if "i < length (nodes fx_net)" for i using that by (simp add: fx_net_def)
  ultimately show ?thesis
    using layered_net_settles [OF fx_net_bound, of id fx_net_host "[]"] by (auto split: prod.splits)
qed

text \<open>C26. A netlist printed from directives parses to the net the directives describe.\<close>

theorem netlist_roundtrip:
  assumes "list_all dir_ok ds"
  shows "parse net (print_net ds) = (foldl build net ds, None)"
  by (rule parse_print_net [OF assms])

theorem netlist_roundtrip_witness:
  "parse empty_net (print_net [D_wire ''a'' ''cpu.SOD'', D_gate G_INV ''g'' [''a''] ''b'', D_pull ''b'' True]) =
     (foldl build empty_net [D_wire ''a'' ''cpu.SOD'', D_gate G_INV ''g'' [''a''] ''b'', D_pull ''b'' True], None)"
  by (rule netlist_roundtrip) (simp add: word_ok_def c_isspace_def code_of_def)

text \<open>
  C27. Whatever the text of the netlist, right or wrong, the net it leaves is well formed: node names
  are distinct, and every wire and gate refers to nodes that exist.
\<close>

theorem parsed_net_wf: "net_wf (fst (parse empty_net txt))"
  by (rule parse_wf) (simp add: net_wf_def empty_net_def)

section \<open>Host channels\<close>

text \<open>
  C28. The serial line in both directions, between the processor and the client of the TCP bridge, whatever
  the order of steps and accesses.  Received: with an empty script, the values that INs on the data port
  delivered while the status byte announced one, what waits in the interface and the bridge, and what is
  still to be received are together the bytes the client sends, in their order; a master reset that
  discards a received byte is excepted.  Sent: what the client was sent and what waits for it is a part of
  the bytes the processor wrote, in their order; it is all of them if the system takes all it is given
  and at most 8192 were written, for a refused send and a full buffer lose bytes.
\<close>

theorem serial_link_both_ways:
  assumes "link_run (c0, t0) got sent (c, t)" "rx c0 = []" "waiting c0 = []" "ctrlPort c0 \<noteq> dataPort c0"
    and "tcp_rxq t0 = []" "os_wire t0 = []" "txbuf t0 = []"
  shows "got @ waiting c @ tcp_rxq t @ arrivals (os_recvs t) = arrivals (os_recvs t0) \<and>
    subseq (os_wire t @ txbuf t) sent \<and>
    (os_sends t0 = [] \<and> length sent \<le> TXBUF_MAX \<longrightarrow> os_wire t @ txbuf t = sent)"
  using link_run_receives [OF assms(1-3,5,4)] link_run_sends [OF assms(1,6,7)] by blast

theorem serial_link_both_ways_witness:
  "[fst (acia_in (fst fx_link) (fx_cpu []) 0xDF)] @ waiting (fst fx_link_read) = [0x41, 0x42] \<and>
   os_wire (snd (fst (link_on_io_write fx_link_read (fx_cpu []) 0xDF 0x43))) = [0x43]"
proof -
  let ?c1 = "acia_default\<lparr>channels := [([], [])], rxq := [0x42], rdrByte := 0x41, rdrFull := True\<rparr>"
  let ?t1 = "fx_client\<lparr>clientSock := True, os_accepts := [], os_recvs := []\<rparr>"
  have l: "fx_link = (?c1, ?t1)"
    by (simp add: fx_link_def link_on_step_def acia_on_step_def drain_channels_def feed_script_def feed_live_def
        acia_default_def attach_def fx_client_def fx_tcp_def tcp_tick_def tcp_accept_def
        tcp_receive_def ask_accept_def ask_recv_def tcp_read_def)
  have p: "dataPort ?c1 = 0xDF" "ctrlPort ?c1 \<noteq> dataPort ?c1" by (simp_all add: acia_default_def)
  let ?b = "fst (acia_in ?c1 (fx_cpu []) 0xDF)"
  have "link_run (acia_default, fx_client) [] [] fx_link"
    unfolding fx_link_def by (rule link_run.step [OF link_run.start])
  then have "link_run (acia_default, fx_client) [] [] (?c1, ?t1)" unfolding l .
  from link_run.receive [OF this, of "fx_cpu []" ?b "snd (acia_in ?c1 (fx_cpu []) 0xDF)"]
  have "link_run (acia_default, fx_client) ([] @ (if announced ?c1 (fx_cpu []) then [?b] else [])) [] fx_link_read"
    unfolding fx_link_read_def l p(1) by simp
  then have "link_run (acia_default, fx_client) [?b] [] fx_link_read" unfolding announced_eq [OF p(2)] by simp
  note r = link_run.send [OF this, where s = "fx_cpu []" and v = "0x43"]
  have pr: "dataPort (fst fx_link_read) = 0xDF" by (simp add: fx_link_read_def l) (simp add: acia_default_def)
  obtain c t where w: "fst (link_on_io_write fx_link_read (fx_cpu []) 0xDF 0x43) = (c, t)" by fastforce
  have "link_run (acia_default, fx_client) [?b] [0x43] (c, t)" using r unfolding pr w by simp
  from serial_link_both_ways [OF this]
  have "[?b] @ waiting c @ tcp_rxq t @ arrivals (os_recvs t) = [0x41, 0x42] \<and> os_wire t @ txbuf t = [0x43]"
    by (simp add: acia_default_def waiting_def fx_client_def fx_tcp_def TXBUF_MAX_def)
  moreover have "tcp_rxq t = []" "os_recvs t = []" "txbuf t = []" "waiting c = waiting (fst fx_link_read)"
    using w by (auto simp: fx_link_read_def l link_on_io_write_def acia_on_io_write_def attach_def transmit_def acia_in_def
        acia_on_io_pre_read_def acia_on_io_post_read_def waiting_def acia_default_def fx_client_def fx_tcp_def tcp_write_def ask_send_def)
  ultimately show ?thesis using w by (simp add: l)
qed

text \<open>
  C29. The debugger's console mirror prints whole lines of at most 512 visible characters, and these are,
  once the channel is closed, all the visible bytes written, in order.
\<close>

theorem mirror_prints_visible:
  assumes "mirror_run vs g out"
  shows "\<exists>ls. out @ gdbtx_destroy g = print_lines ls \<and> list_all line_ok ls \<and> concat ls = filter visible vs"
proof -
  obtain ls where ls: "out = print_lines ls" "list_all line_ok ls" "concat ls @ gx_line g = filter visible vs"
      and g: "length (gx_line g) < 512" "list_all visible (gx_line g)"
    using mirror_run_mirror [OF assms] by (auto simp: mirror_def new_gdbtx_def)
  then show ?thesis
    by (cases "gx_line g = []")
      (auto simp: gdbtx_destroy_def gdbtx_flush_def line_ok_def intro: exI [of _ ls] exI [of _ "ls @ [gx_line g]"])
qed

theorem mirror_prints_visible_witness:
  "\<exists>ls. [0x48, 0x69, 0x0A] @ gdbtx_destroy \<lparr>gx_line = [0x3E], idleTicks = 0\<rparr> = print_lines ls \<and>
     list_all line_ok ls \<and> concat ls = [0x48, 0x69, 0x3E]"
proof -
  have w: "gdbtx_write new_gdbtx [0x48, 0x69, 0x0D, 0x0A, 0x3E] = (\<lparr>gx_line = [0x3E], idleTicks = 0\<rparr>, [0x48, 0x69, 0x0A])"
    by (simp add: new_gdbtx_def gdbtx_putc_def gdbtx_flush_def Let_def)
  from mirror_prints_visible [OF mirror_run.put [OF mirror_run.start w]]
  show ?thesis by (simp add: visible_def)
qed

section \<open>The debugger stub\<close>

text \<open>
  C30. Every reply of the stub reaches the client, the OK to a D packet that closes the connection included:
  what is written for it is read by a client that finds the frame, verifies the sum of the characters in
  the two hexadecimal digits and takes no escapes, as exactly that reply, the bytes after it untouched.
\<close>

theorem gdb_replies_arrive:
  "case gdb_handle fuel tbl g pkt of
     Reply g' r \<Rightarrow> \<exists>f. gd_out (send_reply r g') = gd_out g' @ f \<and> (\<forall>rest. client_recv (f @ rest) = Some (r, rest))
   | Closed g' \<Rightarrow>
       (if hd pkt = CHR ''D''
        then \<exists>f. gd_out g' = gd_out g @ f \<and> (\<forall>rest. client_recv (f @ rest) = Some (''OK'', rest))
        else gd_out g' = gd_out g)
   | Failed \<Rightarrow> True | Busy g' \<Rightarrow> True"
proof -
  have sent: "\<exists>f. gd_out (send_reply r u) = gd_out u @ f \<and> (\<forall>rest. client_recv (f @ rest) = Some (r, rest))"
    if "plain_text r" for r and u :: "'a gdb"
    using client_recv_frame [OF that]
    by (intro exI [of _ "packet_frame r"]) (simp add: send_reply_def send_packet_def split: list.split)
  have ok: "plain_text ''OK''" by (simp add: plain_text_def)
  show ?thesis
  proof (cases "gdb_handle fuel tbl g pkt")
    case (Reply g' r)
    show ?thesis unfolding Reply handled.case by (rule sent [OF gdb_reply_plain [OF Reply]])
  next
    case (Closed g')
    then show ?thesis using gdb_handle_closed [OF Closed] sent [OF ok, of g] by auto
  qed simp_all
qed

theorem gdb_replies_arrive_witness:
  "\<exists>f. gd_out (send_reply ''QC1'' (fx_gdb [] [] [] {})) = f \<and> client_recv (f @ ''$g#67'') = Some (''QC1'', ''$g#67'')"
proof -
  have "gdb_handle 0 api_of (fx_gdb [] [] [] {}) ''qC'' = Reply (fx_gdb [] [] [] {}) ''QC1''"
    by (simp add: gdb_handle_def Let_def starts_with_def xml_prefix_def)
  moreover have "gd_out (fx_gdb [] [] [] {}) = []" by (simp add: fx_gdb_def)
  ultimately show ?thesis using gdb_replies_arrive [where fuel = 0 and tbl = api_of and g = "fx_gdb [] [] [] {}" and pkt = "''qC''"] by auto
qed

text \<open>
  C31. In the i8085 layout the reply to a g packet, sent back in a G packet to any state, makes that
  state's registers, the byte at HL and the five flags S, Z, AC, P and CY those of the state that was read;
  the flags V and X5, which the packed byte has no room for, stay the target's own.
\<close>

theorem gdb_all_registers:
  assumes "\<not> g_gdbZ80 g" "\<not> g_gdbZ80 src" "gdb_handle fuel tbl src ''g'' = Reply src' r"
  shows "gdb_handle fuel tbl g (''G'' @ r) =
    (let t = gd_cpu src; s = gd_cpu g
     in Reply (g\<lparr>gd_cpu := s\<lparr>reg_a := reg_a t, reg_b := reg_b t, reg_c := reg_c t, reg_d := reg_d t,
          reg_e := reg_e t, reg_h := reg_h t, reg_l := reg_l t, sp := sp t, pc := pc t,
          cc := (cc s)\<lparr>fl_s := fl_s (cc t), fl_z := fl_z (cc t), fl_ac := fl_ac (cc t), fl_p := fl_p (cc t),
            fl_cy := fl_cy (cc t)\<rparr>,
          memory := (memory s)(HL t := memory t (HL t))\<rparr>\<rparr>) ''OK'')"
proof -
  have r: "r = read_all_regs False (gd_cpu src)"
    using assms(2,3) by (auto simp: gdb_handle_def Let_def)
  have n: "reg_count False - 1 = 14" by (simp add: reg_count_def NUM_REGS_def)
  show ?thesis
    using assms(1) unfolding gdb_handle_def r Let_def n
    by (simp add: c_str_hex [OF read_all_text] n write_all_8085 del: upto.simps)
qed

theorem gdb_all_registers_witness:
  "gdb_handle 0 api_of (fx_gdb [] [] [] {}) (''G'' @ read_all_regs False (fx_cpu [0x76])) =
    Reply ((fx_gdb [] [] [] {})\<lparr>gd_cpu := (fx_cpu [])\<lparr>memory := (memory (fx_cpu []))(0 := 0x76)\<rparr>\<rparr>) ''OK''"
proof -
  have z: "\<not> g_gdbZ80 (fx_gdb bs [] [] {})" for bs by (simp add: fx_gdb_def)
  have g: "gdb_handle 0 api_of (fx_gdb [0x76] [] [] {}) ''g'' =
      Reply (fx_gdb [0x76] [] [] {}) (read_all_regs False (fx_cpu [0x76]))"
    by (simp add: gdb_handle_def Let_def fx_gdb_def)
  show ?thesis
    unfolding gdb_all_registers [OF z z g]
    by (simp add: Let_def fx_gdb_def fx_cpu_def zero_state_def zero_flags_def fx_mem_def pair16_def)
qed

text \<open>
  C32. In the z80 layout the same exchange destroys the state it should restore: G stores through the
  i8085 numbering, and the accumulator, BC, SP and PC are zero afterwards, whatever they were.
\<close>

theorem gdb_z80_write_all_broken:
  assumes "g_gdbZ80 g" "gdb_handle fuel tbl g ''g'' = Reply g r"
  shows "\<exists>g'. gdb_handle fuel tbl g (''G'' @ r) = Reply g' ''OK'' \<and> reg_a (gd_cpu g') = 0 \<and>
    BC (gd_cpu g') = 0 \<and> sp (gd_cpu g') = 0 \<and> pc (gd_cpu g') = 0"
proof -
  have r: "r = read_all_regs True (gd_cpu g)" using assms by (simp add: gdb_handle_def Let_def)
  have n: "reg_count True - 1 = 12" by (simp add: reg_count_def NUM_Z80_REGS_def)
  note w = write_all_z80 [OF refl, where t = "gd_cpu g" and s = "gd_cpu g"]
  show ?thesis
    using assms(1) w unfolding gdb_handle_def r Let_def n
    by (simp add: c_str_hex [OF read_all_text] n pair16_def del: upto.simps write_all_regs.simps)
qed

theorem gdb_z80_write_all_broken_witness:
  "\<exists>g'. gdb_handle 0 api_of ((fx_gdb [] [] [] {})\<lparr>g_gdbZ80 := True\<rparr>)
      (''G'' @ read_all_regs True (fx_cpu [])) = Reply g' ''OK'' \<and> reg_a (gd_cpu g') = 0 \<and>
    BC (gd_cpu g') = 0 \<and> sp (gd_cpu g') = 0 \<and> pc (gd_cpu g') = 0"
  by (rule gdb_z80_write_all_broken) (simp_all add: gdb_handle_def Let_def fx_gdb_def)

text \<open>
  C33. A register written with a P packet reads back with p: in the i8085 layout each of the fifteen,
  in the z80 layout each of the six that the 8085 has; the value is any that a state can report for it.
\<close>

theorem gdb_one_register:
  assumes "hex_text n" "parse_regnum n = r" "0 \<le> r" "r < (if g_gdbZ80 g then 6 else 15)"
  shows "\<exists>g'. gdb_handle fuel tbl g (''P'' @ n @ ''='' @ hex_reg (g_gdbZ80 g) t r) = Reply g' ''OK'' \<and>
    gdb_handle fuel tbl g' (''p'' @ n) = Reply g' (hex_reg (g_gdbZ80 g) t r)"
proof -
  let ?z = "g_gdbZ80 g"
  have r: "r < reg_count ?z" "?z \<longrightarrow> r < 6" using assms(4) by (auto simp: reg_count_def NUM_REGS_def NUM_Z80_REGS_def)
  have w: "hex_reg ?z (reg_set ?z (gd_cpu g) r (reg_get ?z t r)) r = hex_reg ?z t r"
    using reg_set_get [OF assms(3) r] by (simp add: hex_reg_def)
  have "gdb_handle fuel tbl g (''P'' @ n @ ''='' @ hex_reg ?z t r) =
      Reply (g\<lparr>gd_cpu := reg_set ?z (gd_cpu g) r (reg_get ?z t r)\<rparr>) ''OK''"
    unfolding gdb_handle_def Let_def handle_P_eq [OF assms(1-3) r(1)] by simp
  moreover have "gdb_handle fuel tbl (g\<lparr>gd_cpu := reg_set ?z (gd_cpu g) r (reg_get ?z t r)\<rparr>) (''p'' @ n) =
      Reply (g\<lparr>gd_cpu := reg_set ?z (gd_cpu g) r (reg_get ?z t r)\<rparr>) (hex_reg ?z t r)"
    using handle_p_eq [OF assms(2,3) r(1)] w by (simp add: gdb_handle_def Let_def)
  ultimately show ?thesis by blast
qed

theorem gdb_one_register_witness:
  "\<exists>g'. gdb_handle 0 api_of (fx_gdb [] [] [] {}) (''P'' @ ''b'' @ ''='' @ hex_reg False ((fx_cpu [])\<lparr>pc := 0x1234\<rparr>) 11) =
      Reply g' ''OK'' \<and>
    gdb_handle 0 api_of g' (''p'' @ ''b'') = Reply g' (hex_reg False ((fx_cpu [])\<lparr>pc := 0x1234\<rparr>) 11)"
  using gdb_one_register [of "''b''" 11 "fx_gdb [] [] [] {}" 0 api_of "(fx_cpu [])\<lparr>pc := 0x1234\<rparr>"]
  by (simp add: fx_gdb_def parse_regnum_def parse_hex_def hex_val_def code_of_def)

text \<open>
  C34. Memory written with an M packet reads back with m, around the end of the 64K space too, and no
  address outside the block changes.
\<close>

theorem gdb_memory_block:
  assumes "hex_text ad" "hex_text n" "unat (parse_hex n) = length bs" "length bs \<le> 65536"
    and "2 * length bs \<le> gd_max_string g"
  shows "\<exists>g'. gdb_handle fuel tbl g (''M'' @ ad @ '','' @ n @ '':'' @ concat (map hex_byte bs)) = Reply g' ''OK'' \<and>
    gdb_handle fuel tbl g' (''m'' @ ad @ '','' @ n) = Reply g' (concat (map hex_byte bs)) \<and>
    (\<forall>x. (\<forall>i < length bs. x \<noteq> ucast (parse_hex ad) + of_nat i) \<longrightarrow> memory (gd_cpu g') x = memory (gd_cpu g) x)"
proof -
  let ?a = "ucast (parse_hex ad) :: u16"
  let ?g = "g\<lparr>gd_cpu := (gd_cpu g)\<lparr>memory := poke_bytes (memory (gd_cpu g)) ?a bs\<rparr>\<rparr>"
  have "gdb_handle fuel tbl g (''M'' @ ad @ '','' @ n @ '':'' @ concat (map hex_byte bs)) = Reply ?g ''OK''"
    unfolding gdb_handle_def Let_def handle_M_eq [OF assms(1-3)] by simp
  moreover have "gdb_handle fuel tbl ?g (''m'' @ ad @ '','' @ n) = Reply ?g (concat (map hex_byte bs))"
    using handle_m_eq [OF assms(1,2,3,5), of "gd_cpu ?g"] hex_dump_poked [OF assms(4)]
    by (simp add: gdb_handle_def Let_def)
  moreover have "memory (gd_cpu ?g) x = memory (gd_cpu g) x" if "\<forall>i < length bs. x \<noteq> ?a + of_nat i" for x
    using poke_bytes_other [of bs x ?a] that by simp
  ultimately show ?thesis by blast
qed

theorem gdb_memory_block_witness:
  "\<exists>g'. gdb_handle 0 api_of (fx_gdb [] [] [] {}) (''M'' @ ''FFFF'' @ '','' @ ''2'' @ '':'' @ concat (map hex_byte [1, 2])) =
      Reply g' ''OK'' \<and>
    gdb_handle 0 api_of g' (''m'' @ ''FFFF'' @ '','' @ ''2'') = Reply g' (concat (map hex_byte [1, 2])) \<and>
    (\<forall>x. (\<forall>i < length [1 :: u8, 2]. x \<noteq> ucast (parse_hex ''FFFF'') + of_nat i) \<longrightarrow>
      memory (gd_cpu g') x = memory (gd_cpu (fx_gdb [] [] [] {})) x)"
  by (rule gdb_memory_block) (simp_all add: fx_gdb_def parse_hex_def hex_val_def code_of_def)

text \<open>
  C35. A client that fetches the target description in pieces, of whatever size, until the stub marks
  the last one, has the whole description.
\<close>

theorem gdb_description_complete:
  assumes "0 < len" "len < 2 ^ 64"
  shows "fetch_xml (length (description z80) + 1) z80 len 0 = Some (description z80)"
  using fetch_xml_complete [OF assms, of 0 z80 "length (description z80) + 1"] by (simp del: fetch_xml.simps)

theorem gdb_description_complete_witness:
  "fetch_xml (length (description True) + 1) True 7 0 = Some (description True)"
  by (rule gdb_description_complete) simp_all

text \<open>
  C36. What a c packet does, if the client does not interrupt it.  From an address without a breakpoint it
  ends exactly at the first instruction that reaches a breakpoint or leaves the processor halted with
  no timer to wake it, and at no other; the polling in between has no part in it.  From a breakpoint one
  instruction is executed first, and the search begins behind it: where that instruction ends at
  another breakpoint, or halts, the continue runs on.
\<close>

theorem gdb_continue_exact:
  assumes "hd pkt = CHR ''c''" "CHR 0x03 \<notin> set (gd_in g)"
  shows "(\<exists>g'. gdb_handle fuel tbl g pkt = Reply g' ''S05'' \<and> with_client (gd_in g) (gd_polls g) g' = u) \<longleftrightarrow>
    (let g0 = resume_at g pkt
     in if pc (gd_cpu g0) \<in> breakpoints g
        then \<exists>g1 h k. gdb_step tbl g0 = Some (g1, h) \<and> k \<le> fuel \<and> first_stop tbl g1 k u
        else \<exists>k \<le> fuel. first_stop tbl g0 k u)"
  unfolding Let_def by (rule handle_c_exact [OF assms(2,1)])

theorem gdb_continue_exact_witness:
  "\<forall>u. (\<exists>g'. gdb_handle 5 api_of (fx_gdb [0, 0x76] [] ''$'' {0, 1}) ''c'' = Reply g' ''S05'' \<and>
      with_client ''$'' [] g' = u) \<longleftrightarrow>
    (\<exists>g1 h k. gdb_step api_of (fx_gdb [0, 0x76] [] ''$'' {0, 1}) = Some (g1, h) \<and> k \<le> 5 \<and> first_stop api_of g1 k u)"
proof -
  let ?g = "fx_gdb [0, 0x76] [] ''$'' {0, 1}"
  have g: "CHR 0x03 \<notin> set (gd_in ?g)" "gd_in ?g = ''$''" "gd_polls ?g = []" "pc (gd_cpu ?g) \<in> breakpoints ?g"
    by (simp_all add: fx_gdb_def fx_cpu_def zero_state_def)
  have r: "resume_at ?g ''c'' = ?g" by (simp add: resume_at_def)
  show ?thesis using gdb_continue_exact [of "''c''" ?g 5 api_of] g by (simp add: r Let_def)
qed

text \<open>
  C37. Stepping and continuing under the debugger respect the plugins' write protection, as every
  packet does but the three that store registers or memory.
\<close>

theorem gdb_running_keeps_rom:
  assumes "gdb_handle fuel api_of g pkt = Reply g' r" "hd pkt \<notin> {CHR ''G'', CHR ''P'', CHR ''M''}"
    and "write_protected (gd_rt g) a"
  shows "memory (gd_cpu g') a = memory (gd_cpu g) a"
  using gdb_handle_protected [OF assms(1,2)] assms(3) by (simp add: keeps_rom_def)

theorem gdb_running_keeps_rom_witness:
  "case gdb_handle 9 api_of (fx_gdb [0x3e, 0x76, 0x32, 0, 0] [fx_rom] [] {5}) ''c'' of
    Reply g' r \<Rightarrow> memory (gd_cpu g') 0 = 0x3e | _ \<Rightarrow> True"
proof -
  let ?g = "fx_gdb [0x3e, 0x76, 0x32, 0, 0] [fx_rom] [] {5}"
  have p: "write_protected (gd_rt ?g) 0" by (simp add: fx_gdb_def fx_rom_protects)
  have m: "memory (gd_cpu ?g) 0 = 0x3e" by (simp add: fx_gdb_def fx_cpu_def zero_state_def fx_mem_def)
  have h: "hd ''c'' \<notin> {CHR ''G'', CHR ''P'', CHR ''M''}" by simp
  show ?thesis
    using gdb_running_keeps_rom [OF _ h p] by (simp split: handled.split add: m)
qed

text \<open>
  C38. A session whose packets are no continues ends with its input: each packet uses up a part of it,
  and the byte behind it is taken for the answer to the reply.  It ends by a closed connection, or at a
  packet the stub cannot carry out: a P with too few digits, an m for more bytes than a string can hold,
  a step that reads beyond the memory buffer.  The timers have positive periods that do not carry the
  clock, at most 18 T-states a packet, past 64 bits, so no timer keeps it from ending.
\<close>

theorem gdb_session_ends:
  assumes "length (gd_in g) < n" "\<forall>p \<in> set (client_packets n (gd_in g)). hd p \<noteq> CHR ''c''"
    and "list_all (timer_ok (unat (total_tstates (gd_stats g)) + 18 * n)) (gd_timers g)"
  shows "case gdb_main n fuel api_of g of
      Closed g' \<Rightarrow> True
    | Failed \<Rightarrow> \<exists>k g1. k < n \<and> gdb_main k fuel api_of g = Busy g1 \<and>
        (let (pkt, inp, ack) = recv_packet (gd_in g1) in unreadable api_of (g1\<lparr>gd_in := inp, gd_out := gd_out g1 @ ack\<rparr>) pkt)
    | Reply g' r \<Rightarrow> False | Busy g' \<Rightarrow> False"
  by (rule gdb_session [OF assms(1,2), where B = "unat (total_tstates (gd_stats g)) + 18 * n"])
    (use assms(3) in \<open>simp add: gdb_clock_def\<close>)

theorem gdb_session_ends_witness:
  "case gdb_main 20 0 api_of (fx_gdb [] [] ''$qC#b4+$g#67+'' {}) of Closed g' \<Rightarrow> True
    | Failed \<Rightarrow> \<exists>k g1. k < 20 \<and> gdb_main k 0 api_of (fx_gdb [] [] ''$qC#b4+$g#67+'' {}) = Busy g1 \<and>
        (let (pkt, inp, ack) = recv_packet (gd_in g1) in unreadable api_of (g1\<lparr>gd_in := inp, gd_out := gd_out g1 @ ack\<rparr>) pkt)
    | Reply g' r \<Rightarrow> False | Busy g' \<Rightarrow> False"
proof (rule gdb_session_ends)
  have "client_packets 20 ''$qC#b4+$g#67+'' = [''qC'', ''g'']" by code_simp
  then show "\<forall>p \<in> set (client_packets 20 (gd_in (fx_gdb [] [] ''$qC#b4+$g#67+'' {}))). hd p \<noteq> CHR ''c''"
    by (simp add: fx_gdb_def)
qed (simp_all add: fx_gdb_def)

section \<open>The interval timer\<close>

text \<open>
  C39. The output of a counter that is programmed for two-byte counts (control word, low byte, high byte)
  in mode 0, 2 or 3, aliases included, after any steps of the plugin in which the T-states do not
  decrease and none of which makes 2 to the 18 ticks or more: with a high gate it is that of the ticks the
  divided clock has made since, fractions carried over and however the instructions divide them; with a
  low gate that of no tick.  In mode 0 it rises after \<open>N\<close> ticks and stays; in mode 2 it is low one tick in
  \<open>N\<close>, never for a count of 1; in mode 3 it toggles every \<open>(N + 1) div 2\<close> ticks, so that an odd \<open>N\<close> has the
  period \<open>N + 1\<close>.  A count of 0 stands for 65536; the ports do not wrap past 255.
\<close>

theorem pit_waveform:
  assumes "uint (pit_base ctx) + 3 < 256" "length (pit_c ctx) = 3" "i < 3"
    and "unat (drop_bit 6 control AND 0x03) = i" "drop_bit 4 control AND 0x03 = 3"
    and "control_mode control \<in> {0, 2, 3}" "unat (clkAccum ctx) < unat (clkdiv ctx)"
    and "pit_run (pit_program ctx s i control n) T c"
  shows "k_out (pit_c c ! i) =
    waveform (control_mode control) (if n = 0 then 65536 else unat n)
      (if bit (gateMask ctx) i
       then (unat (clkAccum ctx) + (unat T - unat (lastTstates ctx))) div unat (clkdiv ctx) else 0)"
  by (rule pit_waveform_law [OF assms])

theorem pit_waveform_witness:
  "k_out (pit_c (fst (pit_on_step (pit_program fx_pit (fx_cpu []) 0 0x36 5) fx_host (fx_cpu []) 0 7)) ! 0) = True"
proof -
  let ?p = "pit_program fx_pit (fx_cpu []) 0 0x36 5"
  have b: "uint (pit_base fx_pit) + 3 < 256" "length (pit_c fx_pit) = 3" "unat (clkAccum fx_pit) < unat (clkdiv fx_pit)"
    by (simp_all add: fx_pit_def)
  have q: "unat (drop_bit 6 (0x36 :: u8) AND 0x03) = 0" "drop_bit 4 (0x36 :: u8) AND 0x03 = 3"
    "control_mode 0x36 \<in> {0, 2, 3}" by (simp_all add: control_mode_def)
  have c: "clkdiv ?p = 1" "lastTstates ?p = 0"
    using pit_program_counter(12,14) [OF b(1,2) _ q(1,2), where s = "fx_cpu []" and n = 5]
    by (simp_all add: fx_pit_def)
  have "pit_run ?p 7 (fst (pit_on_step ?p fx_host (fx_cpu []) 0 7))"
    by (rule pit_run.step [OF pit_run.start]) (simp_all add: c)
  note w = pit_waveform [OF b(1,2) _ q b(3) this]
  have "k_out (pit_c (fst (pit_on_step ?p fx_host (fx_cpu []) 0 7)) ! 0) =
      waveform (control_mode 0x36) (if (5 :: u16) = 0 then 65536 else unat (5 :: u16))
        (if bit (gateMask fx_pit) 0
         then (unat (clkAccum fx_pit) + (unat (7 :: u64) - unat (lastTstates fx_pit))) div unat (clkdiv fx_pit) else 0)"
    by (rule w) simp
  also have "\<dots> = True" by (simp add: fx_pit_def control_mode_def waveform_def)
  finally show ?thesis .
qed

text \<open>
  C40. A latched count is read whole: the two bytes read after a latch command are those of the count
  at the command, though the counter ticks before each read, and the second read ends the latch.
\<close>

theorem pit_latch_is_atomic:
  assumes "uint (pit_base ctx) + 3 < 256" "length (pit_c ctx) = 3" "i < 3"
    and "unat (drop_bit 6 latch AND 0x03) = i" "drop_bit 4 latch AND 0x03 = 0"
    and "k_rw (pit_c ctx ! i) = 3" "\<not> k_latched (pit_c ctx ! i)"
  shows "case pit_latched_read ctx s host i latch n1 T1 n2 T2 of (v, c) \<Rightarrow>
    v = ucast (k_count (pit_c ctx ! i)) \<and> \<not> k_latched (pit_c c ! i) \<and> \<not> k_readMsbNext (pit_c c ! i)"
  by (rule pit_latched_read_law [OF assms])

theorem pit_latch_is_atomic_witness:
  "case pit_latched_read (pit_program fx_pit (fx_cpu []) 1 0x74 0x0100) (fx_cpu []) fx_host 1 0x40 0 3 1 300 of
    (v, c) \<Rightarrow> v = 0x0100 \<and> \<not> k_latched (pit_c c ! 1) \<and> \<not> k_readMsbNext (pit_c c ! 1)"
proof -
  note p = pit_program_counter [of fx_pit 1 "0x74", where s = "fx_cpu []" and n = "0x0100"]
  have b: "uint (pit_base fx_pit) + 3 < 256" "length (pit_c fx_pit) = 3" by (simp_all add: fx_pit_def)
  have q: "unat (drop_bit 6 (0x74 :: u8) AND 0x03) = 1" "drop_bit 4 (0x74 :: u8) AND 0x03 = 3" by simp_all
  note p = pit_program_counter [OF b _ q, where s = "fx_cpu []" and n = "0x0100", simplified]
  have cnt: "k_count (pit_c (pit_program fx_pit (fx_cpu []) 1 0x74 0x0100) ! 1) = 0x0100"
    using p(1) full_of_count [of "0x0100"] by simp
  show ?thesis
    using pit_latch_is_atomic [of "pit_program fx_pit (fx_cpu []) 1 0x74 0x0100" 1 "0x40" "fx_cpu []" fx_host 0 3 1 300]
      p b cnt by simp
qed

end
